(* ===== verification/Kbb_Prelude.thy ===== *)
theory Kbb_Prelude
  imports Main "HOL-Library.Word"
begin

text \<open>
  Shared vocabulary of the kubebpfbox development: the fixed-width integers of the C and Go
  sources, byte sequences, little-endian encoding of words (the byte order of the
  \<^verbatim>\<open>bpfel\<close> objects that \<^verbatim>\<open>bpf2go -target amd64\<close> builds), slices and
  in-place writes of byte buffers, and zero padding.  Every component theory imports this one.
  The collection \<open>kbb_bytes\<close> gathers the rewrite rules on byte buffers.
\<close>

unbundle bit_operations_syntax

named_theorems kbb_bytes \<open>rewrite rules for byte buffers\<close>

section \<open>Machine types\<close>

type_synonym byte = "8 word"
type_synonym u8 = "8 word"
type_synonym u16 = "16 word"
type_synonym u32 = "32 word"
type_synonym u64 = "64 word"

text \<open>The network frame a \<^verbatim>\<open>struct __sk_buff\<close> stands for: its bytes, link header first.\<close>

type_synonym frame = "byte list"

text \<open>ASCII text as the bytes it occupies in a packet.\<close>

definition ascii :: "string \<Rightarrow> byte list" where
  "ascii s = map of_char s"

lemma ascii_simps [simp]:
  "ascii [] = []"
  "ascii (c # cs) = of_char c # ascii cs"
  by (simp_all add: ascii_def)

lemma length_ascii [simp]: "length (ascii s) = length s"
  by (simp add: ascii_def)

section \<open>Little-endian words\<close>

primrec le_bytes :: "nat \<Rightarrow> 'a::len word \<Rightarrow> byte list" where
  "le_bytes 0 w = []"
| "le_bytes (Suc n) w = ucast w # le_bytes n (drop_bit 8 w)"

primrec le_word :: "byte list \<Rightarrow> 'a::len word" where
  "le_word [] = 0"
| "le_word (b # bs) = ucast b OR push_bit 8 (le_word bs)"

lemma length_le_bytes [simp, kbb_bytes]: "length (le_bytes n w) = n"
  by (induction n arbitrary: w) auto

lemma nth_le_bytes: "k < n \<Longrightarrow> le_bytes n w ! k = ucast (drop_bit (8 * k) w)"
proof (induction n arbitrary: w k)
  case 0
  then show ?case by simp
next
  case (Suc n)
  show ?case
  proof (cases k)
    case 0
    then show ?thesis by simp
  next
    case (Suc j)
    with Suc.prems Suc.IH [of j "drop_bit 8 w"] show ?thesis
      by (simp add: drop_bit_drop_bit add.commute)
  qed
qed

lemma bit_le_bytes_nth:
  fixes w :: "'a::len word"
  assumes "k < n"
  shows "bit (le_bytes n w ! k) j \<longleftrightarrow> j < 8 \<and> bit w (8 * k + j)"
  using assms by (auto simp: nth_le_bytes bit_ucast_iff bit_drop_bit_eq dest: bit_imp_le_length)

lemma bit_le_word:
  "bit (le_word bs :: 'a::len word) i \<longleftrightarrow>
     i < LENGTH('a) \<and> i div 8 < length bs \<and> bit (bs ! (i div 8)) (i mod 8)"
proof (induction bs arbitrary: i)
  case Nil
  then show ?case by simp
next
  case (Cons b bs)
  show ?case
  proof (cases "i < 8")
    case True
    then show ?thesis
      by (auto simp: bit_or_iff bit_push_bit_iff bit_ucast_iff dest: bit_imp_le_length)
  next
    case False
    then obtain j where j: "i = j + 8"
      using le_Suc_ex [of 8 i] by (auto simp: not_less add.commute)
    have "bit (ucast b :: 'a word) i \<longleftrightarrow> False"
      using False by (auto simp: bit_ucast_iff dest: bit_imp_le_length)
    with Cons.IH [of j] show ?thesis
      by (auto simp: j bit_or_iff bit_push_bit_iff div_add_self2)
  qed
qed

text \<open>Encoding and decoding are inverse on words and buffers of matching size.\<close>

lemma le_word_le_bytes:
  fixes w :: "'a::len word"
  assumes "LENGTH('a) \<le> 8 * n"
  shows "le_word (le_bytes n w) = w"
proof (rule bit_word_eqI)
  fix i
  assume i: "i < LENGTH('a)"
  with assms have k: "i div 8 < n" by simp
  have "8 * (i div 8) + i mod 8 = i" by simp
  with i k show "bit (le_word (le_bytes n w) :: 'a word) i \<longleftrightarrow> bit w i"
    by (simp add: bit_le_word bit_le_bytes_nth)
qed

lemma le_bytes_le_word:
  assumes "8 * length bs \<le> LENGTH('a::len)"
  shows "le_bytes (length bs) (le_word bs :: 'a word) = bs"
proof (rule nth_equalityI)
  show "length (le_bytes (length bs) (le_word bs :: 'a word)) = length bs" by simp
next
  fix k
  assume "k < length (le_bytes (length bs) (le_word bs :: 'a word))"
  then have k: "k < length bs" by simp
  show "le_bytes (length bs) (le_word bs :: 'a word) ! k = bs ! k"
  proof (rule bit_word_eqI)
    fix j
    assume "j < LENGTH(8)"
    with k assms show "bit (le_bytes (length bs) (le_word bs :: 'a word) ! k) j \<longleftrightarrow> bit (bs ! k) j"
      by (simp add: bit_le_bytes_nth bit_le_word)
  qed
qed

lemmas le_roundtrip [simp, kbb_bytes] =
  le_word_le_bytes [where 'a = 8 and n = 1, simplified]
  le_word_le_bytes [where 'a = 16 and n = 2, simplified]
  le_word_le_bytes [where 'a = 32 and n = 4, simplified]
  le_word_le_bytes [where 'a = 64 and n = 8, simplified]

section \<open>Truncation and subtraction\<close>

lemma ucast_diff_u32: "(ucast (t2 - t1 :: u64) :: u32) = ucast t2 - ucast t1"
proof transfer
  fix a b :: int
  have "(2 ^ 32 :: int) dvd 2 ^ 64" by simp
  then have "(a - b) mod 2 ^ 64 mod 2 ^ 32 = (a mod 2 ^ 64 - b mod 2 ^ 64) mod (2 ^ 32 :: int)"
    by (metis mod_diff_eq mod_mod_cancel)
  then show "take_bit LENGTH(32) (take_bit LENGTH(64) (a - b)) =
      take_bit LENGTH(32) (take_bit LENGTH(64) a - take_bit LENGTH(64) b)"
    by (simp add: take_bit_eq_mod)
qed

lemma ucast_up_down: "(ucast (ucast (x :: u32) :: u64) :: u32) = x"
  by (rule bit_word_eqI) (simp add: bit_ucast_iff)

lemma unat_ucast_sub_sub:
  "unat a + unat b \<le> unat w \<Longrightarrow> unat (ucast (w::u16) - a - b :: u32) = unat w - unat a - unat b"
proof -
  assume le: "unat a + unat b \<le> unat w"
  have "unat w < 2 ^ 32" using unsigned_less [of w, where 'a = nat] by simp
  then have w: "unat (ucast w :: u32) = unat w" by (simp add: unsigned_ucast_eq take_bit_nat_eq_self_iff)
  with le have "unat (ucast w - a) = unat w - unat a" by (simp add: unat_sub word_le_nat_alt)
  with le show ?thesis by (simp add: unat_sub word_le_nat_alt)
qed

section \<open>Buffers\<close>

text \<open>\<open>bslice off n bs\<close>: the \<open>n\<close> bytes of \<open>bs\<close> from \<open>off\<close> on.\<close>

definition bslice :: "nat \<Rightarrow> nat \<Rightarrow> 'a list \<Rightarrow> 'a list" where
  "bslice off n xs = take n (drop off xs)"

text \<open>\<open>write_at i ys xs\<close>: the buffer \<open>xs\<close> after \<open>ys\<close> was stored from index \<open>i\<close> on.\<close>

definition write_at :: "nat \<Rightarrow> 'a list \<Rightarrow> 'a list \<Rightarrow> 'a list" where
  "write_at i ys xs = take i xs @ ys @ drop (i + length ys) xs"

text \<open>\<open>zpad n bs\<close>: the bytes \<open>bs\<close> in a zero-initialised buffer of \<open>n\<close> bytes.\<close>

definition zpad :: "nat \<Rightarrow> byte list \<Rightarrow> byte list" where
  "zpad n bs = bs @ replicate (n - length bs) 0"

lemma length_bslice [simp, kbb_bytes]: "off + n \<le> length xs \<Longrightarrow> length (bslice off n xs) = n"
  by (simp add: bslice_def)

lemma nth_bslice: "k < n \<Longrightarrow> off + n \<le> length xs \<Longrightarrow> bslice off n xs ! k = xs ! (off + k)"
  by (simp add: bslice_def)

lemma bslice_append_left [simp, kbb_bytes]: "off + n \<le> length xs \<Longrightarrow> bslice off n (xs @ ys) = bslice off n xs"
  by (simp add: bslice_def)

lemma bslice_append_right [simp, kbb_bytes]:
  "length xs \<le> off \<Longrightarrow> bslice off n (xs @ ys) = bslice (off - length xs) n ys"
  by (simp add: bslice_def)

lemma bslice_all [simp, kbb_bytes]: "length xs = n \<Longrightarrow> bslice 0 n xs = xs"
  by (simp add: bslice_def)

lemma bslice_bslice: "off + n \<le> m \<Longrightarrow> bslice off n (bslice b m xs) = bslice (b + off) n xs"
  by (simp add: bslice_def drop_take min_def add.commute)

lemma length_write_at [simp, kbb_bytes]:
  "i + length ys \<le> length xs \<Longrightarrow> length (write_at i ys xs) = length xs"
  by (simp add: write_at_def)

lemma nth_write_at:
  "i + length ys \<le> length xs \<Longrightarrow> k < length xs \<Longrightarrow>
   write_at i ys xs ! k = (if i \<le> k \<and> k < i + length ys then ys ! (k - i) else xs ! k)"
  by (auto simp: write_at_def nth_append not_less min_def)

lemma length_zpad [simp, kbb_bytes]: "length bs \<le> n \<Longrightarrow> length (zpad n bs) = n"
  by (simp add: zpad_def)

lemma nth_zpad: "k < n \<Longrightarrow> zpad n bs ! k = (if k < length bs then bs ! k else 0)"
  by (auto simp: zpad_def nth_append)

section \<open>Lists\<close>

lemma takeWhile_append_all:
  "(\<forall>x \<in> set xs. P x) \<Longrightarrow> takeWhile P (xs @ ys) = xs @ takeWhile P ys"
  by (simp add: takeWhile_append2)

lemma upt_append_Suc: "i \<le> j \<Longrightarrow> [i..<Suc j] = [i..<j] @ [j]"
  by simp

lemma takeWhile_length_less_iff:
  "k < length (takeWhile P xs) \<longleftrightarrow> k < length xs \<and> (\<forall>j \<le> k. P (xs ! j))"
proof (induction xs arbitrary: k)
  case Nil
  then show ?case by simp
next
  case (Cons x xs)
  show ?case
  proof (cases k)
    case 0
    then show ?thesis by simp
  next
    case (Suc k')
    have "(\<forall>j \<le> Suc k'. P ((x # xs) ! j)) \<longleftrightarrow> P x \<and> (\<forall>j \<le> k'. P (xs ! j))"
      by (metis Suc_le_mono bot_nat_0.extremum nat.exhaust nth_Cons_0 nth_Cons_Suc)
    with Suc Cons.IH [of k'] show ?thesis by auto
  qed
qed

lemma nth_zpad_takeWhile:
  "k < n \<Longrightarrow> zpad n (takeWhile P xs) ! k =
     (if k < length xs \<and> (\<forall>j \<le> k. P (xs ! j)) then xs ! k else 0)"
  using takeWhile_nth [of k P xs] by (auto simp: nth_zpad takeWhile_length_less_iff)

lemma write_at_zpad:
  "length xs + length ys \<le> n \<Longrightarrow> write_at (length xs) ys (zpad n xs) = zpad n (xs @ ys)"
  by (simp add: write_at_def zpad_def)

lemma zpad_append_zeros: "length xs + k \<le> n \<Longrightarrow> zpad n (xs @ replicate k 0) = zpad n xs"
  by (simp add: zpad_def replicate_add [symmetric])

end
