(* ===== verification/Bpf_Endian.thy ===== *)
theory Bpf_Endian
  imports Kbb_Prelude
begin

text \<open>
  The byte-order macros of \<^verbatim>\<open>src/ebpf/include/bpf_endian.h\<close> for a little-endian BPF
  target: \<open>bpf_mvb\<close> moves one byte, \<open>bpf_swab16/32/64\<close> are built from it by OR
  (the \<^verbatim>\<open>__bpf_constant_*\<close> branch), \<open>bpf_ntohs\<close> and its companions are the
  entry points.  The macros choose between \<^verbatim>\<open>___bpf_swabN\<close> and the compiler's
  \<^verbatim>\<open>__builtin_bswapN\<close>; the built-in is the reversal of the bytes of its argument
  (\<open>builtin_bswap16\<close> and so on), and the theorems show that both branches agree, so that
  the value does not depend on whether the argument is a compile-time constant.
\<close>

section \<open>The macros\<close>

text \<open>\<^verbatim>\<open>___bpf_mvb(x, b, n, m)\<close>: isolate byte \<open>n\<close> of a \<open>b\<close>-bit value
  and put it into byte \<open>m\<close>, by a left shift, a logical right shift and a left shift.  C promotes
  a 16-bit operand to a 32-bit \<^verbatim>\<open>int\<close> before it shifts, so bits above bit 15 that the first
  shift produces survive into the right shift; \<open>bpf_mvb16\<close> works at that width.\<close>

definition bpf_mvb :: "'a::len word \<Rightarrow> nat \<Rightarrow> nat \<Rightarrow> nat \<Rightarrow> 'a word" where
  "bpf_mvb x b n m = push_bit (m * 8) (drop_bit (b - 8) (push_bit (b - (n + 1) * 8) x))"

definition bpf_mvb16 :: "u16 \<Rightarrow> nat \<Rightarrow> nat \<Rightarrow> u32" where
  "bpf_mvb16 x n m = bpf_mvb (ucast x :: u32) 16 n m"

definition bpf_swab16 :: "u16 \<Rightarrow> u16" where
  "bpf_swab16 x = ucast (bpf_mvb16 x 0 1 OR bpf_mvb16 x 1 0)"

definition bpf_swab32 :: "u32 \<Rightarrow> u32" where
  "bpf_swab32 x = bpf_mvb x 32 0 3 OR bpf_mvb x 32 1 2 OR bpf_mvb x 32 2 1 OR bpf_mvb x 32 3 0"

definition bpf_swab64 :: "u64 \<Rightarrow> u64" where
  "bpf_swab64 x =
     bpf_mvb x 64 0 7 OR bpf_mvb x 64 1 6 OR bpf_mvb x 64 2 5 OR bpf_mvb x 64 3 4 OR
     bpf_mvb x 64 4 3 OR bpf_mvb x 64 5 2 OR bpf_mvb x 64 6 1 OR bpf_mvb x 64 7 0"

text \<open>The compiler's built-ins: the bytes in reverse order.\<close>

definition builtin_bswap16 :: "u16 \<Rightarrow> u16" where
  "builtin_bswap16 x = le_word (rev (le_bytes 2 x))"

definition builtin_bswap32 :: "u32 \<Rightarrow> u32" where
  "builtin_bswap32 x = le_word (rev (le_bytes 4 x))"

definition builtin_bswap64 :: "u64 \<Rightarrow> u64" where
  "builtin_bswap64 x = le_word (rev (le_bytes 8 x))"

text \<open>The entry points; the first argument is the value of
  \<^verbatim>\<open>__builtin_constant_p(x)\<close>.\<close>

definition bpf_ntohs :: "bool \<Rightarrow> u16 \<Rightarrow> u16" where
  "bpf_ntohs constant_p x = (if constant_p then bpf_swab16 x else builtin_bswap16 x)"

definition bpf_htons :: "bool \<Rightarrow> u16 \<Rightarrow> u16" where
  "bpf_htons constant_p x = (if constant_p then bpf_swab16 x else builtin_bswap16 x)"

definition bpf_ntohl :: "bool \<Rightarrow> u32 \<Rightarrow> u32" where
  "bpf_ntohl constant_p x = (if constant_p then bpf_swab32 x else builtin_bswap32 x)"

definition bpf_htonl :: "bool \<Rightarrow> u32 \<Rightarrow> u32" where
  "bpf_htonl constant_p x = (if constant_p then bpf_swab32 x else builtin_bswap32 x)"

definition bpf_be64_to_cpu :: "bool \<Rightarrow> u64 \<Rightarrow> u64" where
  "bpf_be64_to_cpu constant_p x = (if constant_p then bpf_swab64 x else builtin_bswap64 x)"

definition bpf_cpu_to_be64 :: "bool \<Rightarrow> u64 \<Rightarrow> u64" where
  "bpf_cpu_to_be64 constant_p x = (if constant_p then bpf_swab64 x else builtin_bswap64 x)"

section \<open>Byte moves\<close>

lemma bit_bpf_mvb:
  fixes x :: "'a::len word"
  assumes "8 * n + 8 \<le> LENGTH('a)"
  shows "bit (bpf_mvb x LENGTH('a) n m) i \<longleftrightarrow>
    i < LENGTH('a) \<and> m * 8 \<le> i \<and> i < m * 8 + 8 \<and> bit x (i - m * 8 + n * 8)"
  using assms
  by (auto simp: bpf_mvb_def bit_push_bit_iff bit_drop_bit_eq not_le algebra_simps)

lemma nat_div8_cases: "i div 8 = k \<Longrightarrow> 8 * k \<le> i \<and> i < 8 * k + (8::nat)"
  by auto

text \<open>Byte \<open>k\<close> of a reversed \<open>n\<close>-byte word is byte \<open>n - 1 - k\<close>.\<close>

lemma bit_le_word_rev:
  fixes w :: "'a::len word"
  assumes "LENGTH('a) = 8 * n"
  shows "bit (le_word (rev (le_bytes n w)) :: 'a word) i \<longleftrightarrow>
    i < LENGTH('a) \<and> bit w (8 * (n - 1 - i div 8) + i mod 8)"
proof (cases "i < LENGTH('a)")
  case True
  with assms have "i div 8 < n" by simp
  then show ?thesis
    by (auto simp: bit_le_word rev_nth bit_le_bytes_nth)
next
  case False
  then show ?thesis by (auto simp: bit_le_word)
qed

lemma word_rev_rev:
  fixes w :: "'a::len word"
  assumes "LENGTH('a) = 8 * n"
  shows "(le_word (rev (le_bytes n (le_word (rev (le_bytes n w)) :: 'a word))) :: 'a word) = w"
  using le_bytes_le_word [where 'a = 'a and bs = "rev (le_bytes n w)"]
    le_word_le_bytes [of n w] assms by simp

lemma builtin_bswap_involutive [simp]:
  "builtin_bswap16 (builtin_bswap16 x) = x"
  "builtin_bswap32 (builtin_bswap32 y) = y"
  "builtin_bswap64 (builtin_bswap64 z) = z"
  by (simp_all add: builtin_bswap16_def builtin_bswap32_def builtin_bswap64_def word_rev_rev)

section \<open>Both branches of the macros agree\<close>

lemma bit_index_split:
  obtains j k where "i = 8 * k + j" "j < (8::nat)"
  using that [of "i div 8" "i mod 8"] by simp

lemma bit_bpf_mvb_byte:
  fixes x :: "'a::len word"
  assumes "8 * n + 8 \<le> LENGTH('a)" and "j < 8" and "8 * k + j < LENGTH('a)"
  shows "bit (bpf_mvb x LENGTH('a) n m) (8 * k + j) \<longleftrightarrow> k = m \<and> bit x (8 * n + j)"
proof (cases "k = m")
  case True
  then show ?thesis using assms by (auto simp: bit_bpf_mvb algebra_simps)
next
  case False
  then have "\<not> (m * 8 \<le> 8 * k + j \<and> 8 * k + j < m * 8 + 8)" using assms(2) by linarith
  with False show ?thesis using assms(1) by (auto simp: bit_bpf_mvb)
qed

lemmas bit_bpf_mvb32 = bit_bpf_mvb_byte [where 'a = 32, simplified]
lemmas bit_bpf_mvb64 = bit_bpf_mvb_byte [where 'a = 64, simplified]

lemma bit_builtin_bswap32:
  "j < 8 \<Longrightarrow> 8 * k + j < 32 \<Longrightarrow> bit (builtin_bswap32 x) (8 * k + j) \<longleftrightarrow> bit x (8 * (3 - k) + j)"
  by (simp add: builtin_bswap32_def bit_le_word_rev)

lemma bit_builtin_bswap64:
  "j < 8 \<Longrightarrow> 8 * k + j < 64 \<Longrightarrow> bit (builtin_bswap64 x) (8 * k + j) \<longleftrightarrow> bit x (8 * (7 - k) + j)"
  by (simp add: builtin_bswap64_def bit_le_word_rev)

lemma bpf_swab32_bswap: "bpf_swab32 x = builtin_bswap32 x"
proof (rule bit_word_eqI)
  fix i
  assume "i < LENGTH(32)"
  then have i: "i < 32" by simp
  obtain j k where ij: "i = 8 * k + j" "j < 8" by (rule bit_index_split)
  with i have "k = 0 \<or> k = 1 \<or> k = 2 \<or> k = 3" by arith
  with i ij show "bit (bpf_swab32 x) i \<longleftrightarrow> bit (builtin_bswap32 x) i"
    by (auto simp only: bpf_swab32_def bit_or_iff bit_bpf_mvb32 bit_builtin_bswap32) simp_all
qed

lemma bit_bpf_swab64:
  assumes "j < 8" and "8 * k + j < 64"
  shows "bit (bpf_swab64 x) (8 * k + j) \<longleftrightarrow> bit x (8 * (7 - k) + j)"
proof -
  have "bit (bpf_swab64 x) (8 * k + j) \<longleftrightarrow>
      k = 7 \<and> bit x (8 * 0 + j) \<or> k = 6 \<and> bit x (8 * 1 + j) \<or> k = 5 \<and> bit x (8 * 2 + j) \<or>
      k = 4 \<and> bit x (8 * 3 + j) \<or> k = 3 \<and> bit x (8 * 4 + j) \<or> k = 2 \<and> bit x (8 * 5 + j) \<or>
      k = 1 \<and> bit x (8 * 6 + j) \<or> k = 0 \<and> bit x (8 * 7 + j)"
    using assms by (simp only: bpf_swab64_def bit_or_iff bit_bpf_mvb64 disj_assoc)
  moreover have "k = 0 \<or> k = 1 \<or> k = 2 \<or> k = 3 \<or> k = 4 \<or> k = 5 \<or> k = 6 \<or> k = 7"
    using assms(2) by arith
  ultimately show ?thesis by (elim disjE) simp_all
qed

lemma bpf_swab64_bswap: "bpf_swab64 x = builtin_bswap64 x"
proof (rule bit_word_eqI)
  fix i
  assume "i < LENGTH(64)"
  then have i: "i < 64" by simp
  obtain j k where ij: "i = 8 * k + j" "j < 8" by (rule bit_index_split)
  with i show "bit (bpf_swab64 x) i \<longleftrightarrow> bit (builtin_bswap64 x) i"
    by (simp only: bit_bpf_swab64 bit_builtin_bswap64)
qed

lemma bpf_swab16_bswap: "bpf_swab16 x = builtin_bswap16 x"
proof (rule bit_word_eqI)
  fix i
  assume "i < LENGTH(16)"
  then have i: "i < 16" by simp
  obtain j k where ij: "i = 8 * k + j" "j < 8" by (rule bit_index_split)
  with i have "k = 0 \<or> k = 1" by arith
  with i ij show "bit (bpf_swab16 x) i \<longleftrightarrow> bit (builtin_bswap16 x) i"
    by (auto simp: bpf_swab16_def bpf_mvb16_def bpf_mvb_def builtin_bswap16_def bit_le_word_rev
        bit_ucast_iff bit_or_iff bit_push_bit_iff bit_drop_bit_eq dest: bit_imp_le_length)
qed

lemma bpf_ntohs_bytes: "bpf_ntohs c (le_word [a, b]) = le_word [b, a]"
proof -
  have "le_bytes 2 (le_word [a, b] :: u16) = [a, b]"
    using le_bytes_le_word [where 'a = 16 and bs = "[a, b]"]
    by (simp add: numeral_2_eq_2 del: le_word.simps le_bytes.simps)
  then show ?thesis
    by (simp add: bpf_ntohs_def bpf_swab16_bswap builtin_bswap16_def del: le_word.simps)
qed

end
