(* ===== verification/Bpf_Runtime.thy ===== *)
theory Bpf_Runtime
  imports Kbb_Prelude
begin

text \<open>
  The kernel side of the BPF programs: the helper functions they call.  Their bodies are kernel
  code and not part of this repository, so the programs take them as arguments; this theory
  states, one locale per interface, what \<^verbatim>\<open>src/ebpf/include/bpf_helper_defs.h\<close> documents of
  them (and, for a failed packet or probe read, that the kernel clears the destination), and
  proves from these laws the facts the programs rest on.

  \<^item> \<open>skb_reader\<close>: \<^verbatim>\<open>bpf_skb_load_bytes\<close>;
  \<^item> \<open>bpf_hash_map\<close>: \<^verbatim>\<open>bpf_map_lookup_elem\<close>, \<^verbatim>\<open>bpf_map_update_elem\<close> with
    \<^verbatim>\<open>BPF_ANY\<close>, \<^verbatim>\<open>bpf_map_delete_elem\<close> and a store through the pointer a lookup
    returned;
  \<^item> \<open>bpf_ringbuf\<close>: \<^verbatim>\<open>bpf_ringbuf_output\<close>, and \<open>bpf_ringbuf_reader\<close> with the
    consumer of the agent;
  \<^item> \<open>kernel_reader\<close>: \<^verbatim>\<open>bpf_probe_read_kernel\<close>,
    \<^verbatim>\<open>bpf_probe_read_kernel_str\<close>, \<^verbatim>\<open>bpf_get_current_comm\<close>.

  Each locale is interpreted on a bounded reference kernel (an association list with
  \<^verbatim>\<open>max_entries\<close>, a byte-limited record queue, a byte-addressed partial memory), which
  shows that the laws are consistent and lets witnesses evaluate the programs.
\<close>

section \<open>Packet data\<close>

text \<open>A helper result: the C return value (0 or a negative error) and the bytes written to the
  destination buffer.\<close>

type_synonym skb_load = "frame \<Rightarrow> u32 \<Rightarrow> nat \<Rightarrow> int \<times> byte list"

locale skb_reader =
  fixes load :: skb_load
  assumes load_in_range:
      "unat off + n \<le> length f \<Longrightarrow> load f off n = (0, bslice (unat off) n f)"
    and load_out_of_range:
      "length f < unat off + n \<Longrightarrow> fst (load f off n) < 0 \<and> snd (load f off n) = replicate n 0"
begin

lemma load_ok_iff: "fst (load f off n) = 0 \<longleftrightarrow> unat off + n \<le> length f"
  using load_in_range [of off n f] load_out_of_range [of f off n]
  by (cases "unat off + n \<le> length f") auto

lemma length_load [simp]: "length (snd (load f off n)) = n"
  using load_in_range [of off n f] load_out_of_range [of f off n]
  by (cases "unat off + n \<le> length f") auto

end

section \<open>Hash maps\<close>

locale bpf_hash_map =
  fixes lookup :: "'m \<Rightarrow> 'k \<Rightarrow> 'v option"
    and update :: "'m \<Rightarrow> 'k \<Rightarrow> 'v \<Rightarrow> int \<times> 'm"
    and store :: "'m \<Rightarrow> 'k \<Rightarrow> 'v \<Rightarrow> 'm"
    and delete :: "'m \<Rightarrow> 'k \<Rightarrow> int \<times> 'm"
  assumes update_ok: "fst (update m k v) = 0 \<Longrightarrow> lookup (snd (update m k v)) = (lookup m)(k \<mapsto> v)"
    and update_fail: "fst (update m k v) \<noteq> 0 \<Longrightarrow> lookup (snd (update m k v)) = lookup m"
    and store_present: "lookup m k = Some w \<Longrightarrow> lookup (store m k v) = (lookup m)(k \<mapsto> v)"
    and delete_removes: "lookup (snd (delete m k)) = (lookup m)(k := None)"
begin

lemma update_cases:
  "lookup (snd (update m k v)) = (if fst (update m k v) = 0 then (lookup m)(k \<mapsto> v) else lookup m)"
  by (simp add: update_ok update_fail)

lemma update_other: "k' \<noteq> k \<Longrightarrow> lookup (snd (update m k v)) k' = lookup m k'"
  by (simp add: update_cases)

lemma delete_same: "lookup (snd (delete m k)) k = None"
  by (simp add: delete_removes)

lemma delete_other: "k' \<noteq> k \<Longrightarrow> lookup (snd (delete m k)) k' = lookup m k'"
  by (simp add: delete_removes)

lemma store_delete:
  "lookup m k = Some w \<Longrightarrow> lookup (snd (delete (store m k v) k)) = (lookup m)(k := None)"
  by (simp add: delete_removes store_present)

end

section \<open>Ring buffers\<close>

locale bpf_ringbuf =
  fixes emit :: "'r \<Rightarrow> byte list \<Rightarrow> int \<times> 'r"
    and records :: "'r \<Rightarrow> byte list list"
  assumes emit_ok: "fst (emit r d) = 0 \<Longrightarrow> records (snd (emit r d)) = records r @ [d]"
    and emit_fail: "fst (emit r d) \<noteq> 0 \<Longrightarrow> records (snd (emit r d)) = records r"
begin

lemma emit_cases:
  "records (snd (emit r d)) = (if fst (emit r d) = 0 then records r @ [d] else records r)"
  by (simp add: emit_ok emit_fail)

lemma emit_keeps: "set (records r) \<subseteq> set (records (snd (emit r d)))"
  by (auto simp: emit_cases)

end

locale bpf_ringbuf_reader = bpf_ringbuf emit records
  for emit :: "'r \<Rightarrow> byte list \<Rightarrow> int \<times> 'r" and records :: "'r \<Rightarrow> byte list list" +
  fixes consume :: "'r \<Rightarrow> (byte list \<times> 'r) option"
  assumes consume_empty: "consume r = None \<longleftrightarrow> records r = []"
    and consume_next: "consume r = Some (d, r') \<Longrightarrow> records r = d # records r'"
begin

text \<open>What was written into an empty buffer is read back, and nothing is left.\<close>

lemma emit_consume:
  assumes "records r = []" and "fst (emit r d) = 0"
  shows "\<exists>r'. consume (snd (emit r d)) = Some (d, r') \<and> records r' = []"
proof -
  from assms have recs: "records (snd (emit r d)) = [d]" by (simp add: emit_ok)
  then have "consume (snd (emit r d)) \<noteq> None" by (simp add: consume_empty)
  then obtain e r' where er: "consume (snd (emit r d)) = Some (e, r')" by auto
  with recs show ?thesis using consume_next [OF er] by auto
qed

end

section \<open>Kernel memory\<close>

text \<open>Kernel memory as the probe helpers see it: \<open>None\<close> where a read faults.\<close>

type_synonym kmem = "u64 \<Rightarrow> byte option"

text \<open>The \<open>n\<close> bytes at an address, if all of them can be read.\<close>

primrec mem_bytes :: "kmem \<Rightarrow> u64 \<Rightarrow> nat \<Rightarrow> byte list option" where
  "mem_bytes m a 0 = Some []"
| "mem_bytes m a (Suc n) =
     (case m a of None \<Rightarrow> None
      | Some b \<Rightarrow> map_option ((#) b) (mem_bytes m (a + 1) n))"

text \<open>The bytes of a C string at an address: at most \<open>n\<close> of them before the NUL.\<close>

primrec mem_str :: "kmem \<Rightarrow> u64 \<Rightarrow> nat \<Rightarrow> byte list option" where
  "mem_str m a 0 = Some []"
| "mem_str m a (Suc n) =
     (case m a of None \<Rightarrow> None
      | Some b \<Rightarrow> if b = 0 then Some [] else map_option ((#) b) (mem_str m (a + 1) n))"

lemma length_mem_bytes: "mem_bytes m a n = Some bs \<Longrightarrow> length bs = n"
  by (induction n arbitrary: a bs) (auto split: option.splits)

lemma mem_str_props: "mem_str m a n = Some bs \<Longrightarrow> length bs \<le> n \<and> 0 \<notin> set bs"
proof (induction n arbitrary: a bs)
  case 0
  then show ?case by simp
next
  case (Suc n)
  then show ?case by (fastforce split: option.splits if_splits)
qed

text \<open>Storing bytes, for local variables of a program whose address is passed to a helper.\<close>

primrec mem_write :: "kmem \<Rightarrow> u64 \<Rightarrow> byte list \<Rightarrow> kmem" where
  "mem_write m a [] = m"
| "mem_write m a (b # bs) = (mem_write m (a + 1) bs)(a \<mapsto> b)"

lemma mem_write_outside:
  "(\<And>j. j < length bs \<Longrightarrow> c \<noteq> a + of_nat j) \<Longrightarrow> mem_write m a bs c = m c"
proof (induction bs arbitrary: a)
  case Nil
  then show ?case by simp
next
  case (Cons b bs)
  have "c \<noteq> a" using Cons.prems [of 0] by simp
  moreover have "c \<noteq> a + 1 + of_nat j" if "j < length bs" for j
    using Cons.prems [of "Suc j"] that by (simp add: add.assoc)
  ultimately show ?case using Cons.IH [of "a + 1"] by simp
qed

lemma mem_write_inside:
  "j < length bs \<Longrightarrow> length bs \<le> 2 ^ 64 \<Longrightarrow> mem_write m a bs (a + of_nat j) = Some (bs ! j)"
proof (induction bs arbitrary: a j)
  case Nil
  then show ?case by simp
next
  case (Cons b bs)
  show ?case
  proof (cases j)
    case 0
    then show ?thesis by simp
  next
    case (Suc i)
    have "unat (of_nat j :: u64) = j"
      using Cons.prems by (simp add: unsigned_of_nat take_bit_nat_eq_self_iff del: of_nat_Suc)
    with Suc have "(of_nat j :: u64) \<noteq> 0" by (metis nat.simps(3) unsigned_0)
    then have "a + of_nat j \<noteq> a" by simp
    moreover have "mem_write m (a + 1) bs (a + 1 + of_nat i) = Some (bs ! i)"
      using Cons.IH [of i "a + 1"] Cons.prems Suc by simp
    ultimately show ?thesis using Suc by (simp add: add.assoc)
  qed
qed

lemma mem_bytes_eqI:
  "(\<And>j. j < n \<Longrightarrow> m (a + of_nat j) = Some (bs ! j)) \<Longrightarrow> length bs = n \<Longrightarrow> mem_bytes m a n = Some bs"
proof (induction n arbitrary: a bs)
  case 0
  then show ?case by simp
next
  case (Suc n)
  then obtain b cs where bs: "bs = b # cs" by (cases bs) auto
  have "m a = Some b" using Suc.prems(1) [of 0] by (simp add: bs)
  moreover have "mem_bytes m (a + 1) n = Some cs"
  proof (rule Suc.IH)
    fix j
    assume "j < n"
    then show "m (a + 1 + of_nat j) = Some (cs ! j)"
      using Suc.prems(1) [of "Suc j"] by (simp add: bs add.assoc)
  qed (use Suc.prems(2) bs in simp)
  ultimately show ?case by (simp add: bs)
qed

lemma mem_bytes_cong:
  "(\<And>j. j < n \<Longrightarrow> m (a + of_nat j) = m' (a + of_nat j)) \<Longrightarrow> mem_bytes m a n = mem_bytes m' a n"
proof (induction n arbitrary: a)
  case 0
  then show ?case by simp
next
  case (Suc n)
  have "m a = m' a" using Suc.prems [of 0] by simp
  moreover have "mem_bytes m (a + 1) n = mem_bytes m' (a + 1) n"
    using Suc.prems [of "Suc j" for j] by (intro Suc.IH) (simp add: add.assoc)
  ultimately show ?case by (simp split: option.split)
qed

text \<open>Reading back part of a stored variable.\<close>

lemma mem_bytes_write:
  assumes "k + n \<le> length bs" and "length bs \<le> 2 ^ 64"
  shows "mem_bytes (mem_write m a bs) (a + of_nat k) n = Some (bslice k n bs)"
proof (rule mem_bytes_eqI)
  fix j
  assume j: "j < n"
  then have "mem_write m a bs (a + of_nat (k + j)) = Some (bs ! (k + j))"
    using assms by (intro mem_write_inside) auto
  with j assms(1) show "mem_write m a bs (a + of_nat k + of_nat j) = Some (bslice k n bs ! j)"
    by (simp add: nth_bslice add.assoc)
qed (use assms(1) in simp)

locale kernel_reader =
  fixes probe :: "kmem \<Rightarrow> nat \<Rightarrow> u64 \<Rightarrow> int \<times> byte list"
    and probe_str :: "kmem \<Rightarrow> nat \<Rightarrow> u64 \<Rightarrow> int \<times> byte list"
  assumes probe_mapped: "mem_bytes m a n = Some bs \<Longrightarrow> probe m n a = (0, bs)"
    and probe_fault:
      "mem_bytes m a n = None \<Longrightarrow> fst (probe m n a) < 0 \<and> snd (probe m n a) = replicate n 0"
    and probe_str_mapped: "mem_str m a n = Some bs \<Longrightarrow>
      probe_str m (Suc n) a = (int (length bs) + 1, bs @ [0])"
    and probe_str_fault: "mem_str m a n = None \<Longrightarrow> fst (probe_str m (Suc n) a) < 0"
begin

lemma probe_ok_iff: "fst (probe m n a) = 0 \<longleftrightarrow> mem_bytes m a n \<noteq> None"
  using probe_mapped [of m a n] probe_fault [of m a n]
  by (cases "mem_bytes m a n") auto

lemma length_probe [simp]: "length (snd (probe m n a)) = n"
proof (cases "mem_bytes m a n")
  case None
  then show ?thesis using probe_fault [of m a n] by simp
next
  case (Some bs)
  then show ?thesis using probe_mapped [OF Some] by (simp add: length_mem_bytes)
qed

lemma probe_str_ok_iff: "fst (probe_str m (Suc n) a) < 0 \<longleftrightarrow> mem_str m a n = None"
  using probe_str_mapped [of m a n] probe_str_fault [of m a n]
  by (cases "mem_str m a n") auto

end

section \<open>The reference kernel\<close>

definition EFAULT :: int where "EFAULT = 14"
definition E2BIG :: int where "E2BIG = 7"
definition ENOENT :: int where "ENOENT = 2"
definition EAGAIN :: int where "EAGAIN = 11"

lemmas errno_defs = EFAULT_def E2BIG_def ENOENT_def EAGAIN_def

definition ref_load :: skb_load where
  "ref_load f off n =
     (if unat off + n \<le> length f then (0, bslice (unat off) n f) else (- EFAULT, replicate n 0))"

interpretation ref_skb: skb_reader ref_load
  by unfold_locales (simp_all add: ref_load_def errno_defs)

text \<open>A hash map of bounded capacity: a new key is refused when it is full.\<close>

record ('k, 'v) ref_map =
  max_entries :: int
  entries :: "('k \<times> 'v) list"

definition ref_lookup :: "('k, 'v) ref_map \<Rightarrow> 'k \<Rightarrow> 'v option" where
  "ref_lookup m k = map_of (entries m) k"

definition ref_store :: "('k, 'v) ref_map \<Rightarrow> 'k \<Rightarrow> 'v \<Rightarrow> ('k, 'v) ref_map" where
  "ref_store m k v = m\<lparr>entries := (k, v) # filter (\<lambda>e. fst e \<noteq> k) (entries m)\<rparr>"

definition ref_update :: "('k, 'v) ref_map \<Rightarrow> 'k \<Rightarrow> 'v \<Rightarrow> int \<times> ('k, 'v) ref_map" where
  "ref_update m k v =
     (if ref_lookup m k = None \<and> max_entries m \<le> int (length (entries m)) then (- E2BIG, m)
      else (0, ref_store m k v))"

definition ref_delete :: "('k, 'v) ref_map \<Rightarrow> 'k \<Rightarrow> int \<times> ('k, 'v) ref_map" where
  "ref_delete m k =
     ((if ref_lookup m k = None then - ENOENT else 0),
      m\<lparr>entries := filter (\<lambda>e. fst e \<noteq> k) (entries m)\<rparr>)"

lemma map_of_filter_ne: "map_of (filter (\<lambda>e. fst e \<noteq> k) es) = (map_of es)(k := None)"
  by (induction es) (auto simp: fun_eq_iff)

lemma ref_lookup_store: "ref_lookup (ref_store m k v) = (ref_lookup m)(k \<mapsto> v)"
  by (simp add: ref_lookup_def ref_store_def map_of_filter_ne fun_eq_iff)

interpretation ref_hash: bpf_hash_map ref_lookup ref_update ref_store ref_delete
proof unfold_locales
  fix m :: "('k, 'v) ref_map" and k v
  show "ref_lookup (snd (ref_delete m k)) = (ref_lookup m)(k := None)"
    by (simp add: ref_delete_def ref_lookup_def map_of_filter_ne fun_eq_iff)
qed (auto simp: ref_update_def ref_lookup_store errno_defs split: if_splits)

text \<open>The reference map never holds more than \<open>max_entries\<close> entries.\<close>

lemma ref_update_bounded:
  assumes "int (length (entries m)) \<le> max_entries m"
  shows "int (length (entries (snd (ref_update m k v)))) \<le> max_entries m"
proof (cases "ref_lookup m k = None")
  case True
  have "int (length (filter (\<lambda>e. fst e \<noteq> k) (entries m))) \<le> int (length (entries m))" by simp
  with True assms show ?thesis
    by (simp add: ref_update_def ref_store_def del: length_filter_le of_nat_le_iff)
next
  case False
  then have "k \<in> fst ` set (entries m)"
    by (auto simp: ref_lookup_def dom_map_of_conv_image_fst [symmetric])
  then have "length (filter (\<lambda>e. fst e \<noteq> k) (entries m)) < length (entries m)"
    by (auto intro: length_filter_less)
  with False assms show ?thesis by (simp add: ref_update_def ref_store_def)
qed

text \<open>A ring buffer with room for \<open>rb_size\<close> bytes; the consumer frees what it reads.\<close>

record ref_ringbuf =
  rb_size :: int
  rb_records :: "byte list list"

definition ref_output :: "ref_ringbuf \<Rightarrow> byte list \<Rightarrow> int \<times> ref_ringbuf" where
  "ref_output r d =
     (if sum_list (map (\<lambda>x. int (length x) + 8) (rb_records r)) + int (length d) + 8 \<le> rb_size r
      then (0, r\<lparr>rb_records := rb_records r @ [d]\<rparr>) else (- EAGAIN, r))"

definition ref_read :: "ref_ringbuf \<Rightarrow> (byte list \<times> ref_ringbuf) option" where
  "ref_read r = (case rb_records r of [] \<Rightarrow> None | d # ds \<Rightarrow> Some (d, r\<lparr>rb_records := ds\<rparr>))"

interpretation ref_ring: bpf_ringbuf_reader ref_output rb_records ref_read
  by unfold_locales (auto simp: ref_output_def ref_read_def errno_defs split: if_splits list.splits)

definition ref_probe :: "kmem \<Rightarrow> nat \<Rightarrow> u64 \<Rightarrow> int \<times> byte list" where
  "ref_probe m n a = (case mem_bytes m a n of None \<Rightarrow> (- EFAULT, replicate n 0) | Some bs \<Rightarrow> (0, bs))"

definition ref_probe_str :: "kmem \<Rightarrow> nat \<Rightarrow> u64 \<Rightarrow> int \<times> byte list" where
  "ref_probe_str m n a = (case mem_str m a (n - 1) of None \<Rightarrow> (- EFAULT, [0])
     | Some bs \<Rightarrow> (int (length bs) + 1, bs @ [0]))"

interpretation ref_kread: kernel_reader ref_probe ref_probe_str
  by unfold_locales (simp_all add: ref_probe_def ref_probe_str_def errno_defs)

end
