(* ===== verification/C_Layout.thy ===== *)
theory C_Layout
  imports Kbb_Prelude
begin

text \<open>
  Sizes, alignments and member offsets of C types as the BPF target lays them out (LP64, natural
  alignment, bit-fields allocated from the low bits of their storage unit).  The programs read
  packet headers and kernel objects, and hand structs to the agent, through these offsets.
  Positions inside a struct are counted in bits, so that bit-fields and ordinary members share one
  placement function.  The main lemmas say, for every well-formed struct, that members are
  aligned, lie inside the struct and do not overlap.
\<close>

datatype ctype =
    Prim int \<comment> \<open>integer or enum of that many bytes\<close>
  | Ptr
  | Arr ctype int
  | Struct "cmember list"
  | Union "cmember list"
and cmember =
    Fld string ctype \<comment> \<open>name (empty for an anonymous struct or union) and type\<close>
  | Bit string int int \<comment> \<open>bit-field: name, bytes of the storage unit, width\<close>

definition round_up :: "int \<Rightarrow> int \<Rightarrow> int" where
  "round_up a x = (x + a - 1) div a * a"

fun align_of :: "ctype \<Rightarrow> int"
  and align_mem :: "cmember \<Rightarrow> int"
  and aligns :: "cmember list \<Rightarrow> int" where
  "align_of (Prim n) = n"
| "align_of Ptr = 8"
| "align_of (Arr t n) = align_of t"
| "align_of (Struct ms) = aligns ms"
| "align_of (Union ms) = aligns ms"
| "align_mem (Fld nm t) = align_of t"
| "align_mem (Bit nm s w) = (if nm = '''' then 1 else s)"
| "aligns [] = 1"
| "aligns (m # ms) = max (align_mem m) (aligns ms)"

text \<open>\<open>place p m\<close>: first bit of member \<open>m\<close> and first bit after it, when the members before it
  end at bit \<open>p\<close>; \<open>end_pos\<close> runs it over a member list, \<open>max_end\<close> is the union's.\<close>

fun size_of :: "ctype \<Rightarrow> int"
  and place :: "int \<Rightarrow> cmember \<Rightarrow> int \<times> int"
  and end_pos :: "int \<Rightarrow> cmember list \<Rightarrow> int"
  and max_end :: "cmember list \<Rightarrow> int" where
  "size_of (Prim n) = n"
| "size_of Ptr = 8"
| "size_of (Arr t n) = n * size_of t"
| "size_of (Struct ms) = round_up (aligns ms) (round_up 8 (end_pos 0 ms) div 8)"
| "size_of (Union ms) = round_up (aligns ms) (round_up 8 (max_end ms) div 8)"
| "place p (Fld nm t) =
     (let s = round_up (8 * align_of t) p in (s, s + 8 * size_of t))"
| "place p (Bit nm st w) =
     (let s = (if w = 0 \<or> 8 * st < p mod (8 * st) + w then round_up (8 * st) p else p)
      in (s, s + w))"
| "end_pos p [] = p"
| "end_pos p (m # ms) = end_pos (snd (place p m)) ms"
| "max_end [] = 0"
| "max_end (m # ms) = max (snd (place 0 m)) (max_end ms)"

text \<open>Bit offset of a named member; anonymous members are searched in place.\<close>

fun off_type :: "ctype \<Rightarrow> string \<Rightarrow> int option"
  and off_mem :: "cmember \<Rightarrow> string \<Rightarrow> int option"
  and off_struct :: "int \<Rightarrow> cmember list \<Rightarrow> string \<Rightarrow> int option"
  and off_union :: "cmember list \<Rightarrow> string \<Rightarrow> int option" where
  "off_type (Struct ms) f = off_struct 0 ms f"
| "off_type (Union ms) f = off_union ms f"
| "off_type (Prim n) f = None"
| "off_type Ptr f = None"
| "off_type (Arr t n) f = None"
| "off_mem (Fld nm t) f = (if nm = f then Some 0 else if nm = '''' then off_type t f else None)"
| "off_mem (Bit nm st w) f = (if nm = f then Some 0 else None)"
| "off_struct p [] f = None"
| "off_struct p (m # ms) f =
     (case off_mem m f of Some d \<Rightarrow> Some (fst (place p m) + d)
      | None \<Rightarrow> off_struct (snd (place p m)) ms f)"
| "off_union [] f = None"
| "off_union (m # ms) f =
     (case off_mem m f of Some d \<Rightarrow> Some d | None \<Rightarrow> off_union ms f)"

definition offsetof :: "ctype \<Rightarrow> string \<Rightarrow> int option" where
  "offsetof t f = map_option (\<lambda>b. b div 8) (off_type t f)"

text \<open>Sizes are positive, alignments are powers of two (only divisibility is needed), a bit-field
  fits its storage unit.\<close>

fun wf_type :: "ctype \<Rightarrow> bool"
  and wf_mem :: "cmember \<Rightarrow> bool"
  and wf_mems :: "cmember list \<Rightarrow> bool" where
  "wf_type (Prim n) = (n = 1 \<or> n = 2 \<or> n = 4 \<or> n = 8 \<or> n = 16)"
| "wf_type Ptr = True"
| "wf_type (Arr t n) = (wf_type t \<and> 0 \<le> n)"
| "wf_type (Struct ms) = wf_mems ms"
| "wf_type (Union ms) = wf_mems ms"
| "wf_mem (Fld nm t) = wf_type t"
| "wf_mem (Bit nm st w) = ((st = 1 \<or> st = 2 \<or> st = 4 \<or> st = 8) \<and> 0 \<le> w \<and> w \<le> 8 * st)"
| "wf_mems [] = True"
| "wf_mems (m # ms) = (wf_mem m \<and> wf_mems ms)"

text \<open>The placements of all members, in declaration order.\<close>

fun placements :: "int \<Rightarrow> cmember list \<Rightarrow> (cmember \<times> int \<times> int) list" where
  "placements p [] = []"
| "placements p (m # ms) = (m, place p m) # placements (snd (place p m)) ms"

section \<open>Rounding\<close>

lemma round_up_ge: "0 < a \<Longrightarrow> x \<le> round_up a x"
proof -
  assume a: "0 < a"
  have "(x + a - 1) mod a < a" using a by simp
  moreover have "(x + a - 1) = (x + a - 1) div a * a + (x + a - 1) mod a" by simp
  ultimately show ?thesis unfolding round_up_def by linarith
qed

lemma round_up_dvd: "a dvd round_up a x"
  by (simp add: round_up_def)

lemma round_up_id: "0 < a \<Longrightarrow> a dvd x \<Longrightarrow> round_up a x = x"
proof (elim dvdE)
  fix k
  assume a: "0 < a" and x: "x = a * k"
  have "(a * k + (a - 1)) div a = k" using a by simp
  with x show "round_up a x = x" by (simp add: round_up_def algebra_simps)
qed

section \<open>Members are aligned, inside and disjoint\<close>

lemma align_pos:
  "wf_type t \<Longrightarrow> 0 < align_of t"
  "wf_mem m \<Longrightarrow> 0 < align_mem m"
  "wf_mems ms \<Longrightarrow> 0 < aligns ms"
  by (induction t and m and ms rule: align_of_align_mem_aligns.induct) auto

lemma wf_size_nonneg:
  "wf_type t \<Longrightarrow> 0 \<le> size_of t"
  "wf_mem m \<Longrightarrow> 0 \<le> p \<Longrightarrow> p \<le> fst (place p m) \<and> fst (place p m) \<le> snd (place p m)"
  "wf_mems ms \<Longrightarrow> 0 \<le> q \<Longrightarrow> q \<le> end_pos q ms"
  "wf_mems ns \<Longrightarrow> 0 \<le> max_end ns"
proof (induction t and p m and q ms and ns rule: size_of_place_end_pos_max_end.induct)
  case (4 ms)
  then have "0 \<le> end_pos 0 ms" by simp
  then have "0 \<le> round_up 8 (end_pos 0 ms) div 8" using round_up_ge [of 8 "end_pos 0 ms"] by simp
  with 4 show ?case
    using order_trans [OF _ round_up_ge [of "aligns ms" "round_up 8 (end_pos 0 ms) div 8"]]
    by (simp add: align_pos)
next
  case (5 ms)
  then have "0 \<le> max_end ms" by simp
  then have "0 \<le> round_up 8 (max_end ms) div 8" using round_up_ge [of 8 "max_end ms"] by simp
  with 5 show ?case
    using order_trans [OF _ round_up_ge [of "aligns ms" "round_up 8 (max_end ms) div 8"]]
    by (simp add: align_pos)
next
  case (6 p nm t)
  then show ?case using round_up_ge [of "8 * align_of t" p] by (simp add: Let_def align_pos)
next
  case (7 p nm st w)
  then show ?case using round_up_ge [of "8 * st" p] by (auto simp: Let_def)
next
  case (9 p m ms)
  then show ?case by fastforce
qed (auto simp: le_max_iff_disj)

lemmas place_grows = wf_size_nonneg(2)
lemmas end_pos_grows = wf_size_nonneg(3)

lemma place_aligned:
  "wf_type t \<Longrightarrow> 8 * align_of t dvd fst (place p (Fld nm t))"
  by (simp add: Let_def round_up_dvd)

lemma place_bit_unit:
  assumes "wf_mem (Bit nm st w)" and "0 \<le> p" and "0 < w"
  shows "fst (place p (Bit nm st w)) mod (8 * st) + w \<le> 8 * st"
proof (cases "8 * st < p mod (8 * st) + w")
  case True
  have "round_up (8 * st) p mod (8 * st) = 0" using round_up_dvd by (simp add: mod_eq_0_iff_dvd)
  with True assms show ?thesis by (simp add: Let_def)
next
  case False
  with assms show ?thesis by (simp add: Let_def)
qed

lemma placements_bounds:
  "wf_mems ms \<Longrightarrow> 0 \<le> p \<Longrightarrow> (m, s, e) \<in> set (placements p ms) \<Longrightarrow>
   p \<le> s \<and> s \<le> e \<and> e \<le> end_pos p ms"
proof (induction ms arbitrary: p)
  case Nil
  then show ?case by simp
next
  case (Cons n ms)
  let ?q = "snd (place p n)"
  have n: "p \<le> fst (place p n)" "fst (place p n) \<le> ?q"
    using place_grows [of n p] Cons.prems by auto
  with Cons.prems have q: "0 \<le> ?q" "?q \<le> end_pos ?q ms"
    using end_pos_grows [of ms ?q] by auto
  show ?case
  proof (cases "(m, s, e) = (n, place p n)")
    case True
    with n q show ?thesis by (cases "place p n") auto
  next
    case False
    with Cons.prems have "(m, s, e) \<in> set (placements ?q ms)" by auto
    with Cons.IH [of ?q] Cons.prems q n show ?thesis by auto
  qed
qed

lemma placements_disjoint:
  "wf_mems ms \<Longrightarrow> 0 \<le> p \<Longrightarrow>
   sorted_wrt (\<lambda>(m, s, e) (m', s', e'). e \<le> s') (placements p ms)"
proof (induction ms arbitrary: p)
  case Nil
  then show ?case by simp
next
  case (Cons n ms)
  have "0 \<le> snd (place p n)"
    using place_grows [of n p] Cons.prems by auto
  with Cons show ?case
    using placements_bounds [of ms "snd (place p n)"]
    by (cases "place p n") (auto split: prod.splits)
qed

lemma struct_end_inside:
  assumes "wf_mems ms"
  shows "end_pos 0 ms \<le> 8 * size_of (Struct ms)"
proof -
  have "end_pos 0 ms \<le> round_up 8 (end_pos 0 ms)" by (rule round_up_ge) simp
  also have "\<dots> = 8 * (round_up 8 (end_pos 0 ms) div 8)"
    using round_up_dvd [of 8 "end_pos 0 ms"] by simp
  also have "\<dots> \<le> 8 * size_of (Struct ms)"
    using round_up_ge [of "aligns ms" "round_up 8 (end_pos 0 ms) div 8"] assms
    by (simp add: align_pos)
  finally show ?thesis .
qed

end
