(* ===== verification/Vmlinux_Net.thy ===== *)
theory Vmlinux_Net
  imports C_Layout
begin

text \<open>
  The declarations of \<^verbatim>\<open>src/ebpf/include/vmlinux.h\<close> behind the packet headers the socket
  filter reads (\<^verbatim>\<open>ethhdr\<close>, \<^verbatim>\<open>iphdr\<close>, \<^verbatim>\<open>tcphdr\<close>) and the register frame
  \<^verbatim>\<open>pt_regs\<close> of a kprobe.  Each C struct or typedef is one constant \<open>vm_<name>\<close> with its
  members in the source's order.  The lemmas evaluate the offsets and sizes the programs use.
\<close>

section \<open>Declarations\<close>

definition vm___u16 :: ctype where
  "vm___u16 = Prim 2"

definition vm___be16 :: ctype where
  "vm___be16 = vm___u16"

definition vm_ethhdr :: ctype where
  "vm_ethhdr = Struct [Fld ''h_dest'' (Arr (Prim 1) 6),
    Fld ''h_source'' (Arr (Prim 1) 6),
    Fld ''h_proto'' vm___be16]"

definition vm___u8 :: ctype where
  "vm___u8 = Prim 1"

definition vm___sum16 :: ctype where
  "vm___sum16 = vm___u16"

definition vm___u32 :: ctype where
  "vm___u32 = Prim 4"

definition vm___be32 :: ctype where
  "vm___be32 = vm___u32"

definition vm_iphdr :: ctype where
  "vm_iphdr = Struct [Bit ''ihl'' 1 4,
    Bit ''version'' 1 4,
    Fld ''tos'' vm___u8,
    Fld ''tot_len'' vm___be16,
    Fld ''id'' vm___be16,
    Fld ''frag_off'' vm___be16,
    Fld ''ttl'' vm___u8,
    Fld ''protocol'' vm___u8,
    Fld ''check'' vm___sum16,
    Fld ''saddr'' vm___be32,
    Fld ''daddr'' vm___be32]"

definition vm_tcphdr :: ctype where
  "vm_tcphdr = Struct [Fld ''source'' vm___be16,
    Fld ''dest'' vm___be16,
    Fld ''seq'' vm___be32,
    Fld ''ack_seq'' vm___be32,
    Bit ''res1'' 2 4,
    Bit ''doff'' 2 4,
    Bit ''fin'' 2 1,
    Bit ''syn'' 2 1,
    Bit ''rst'' 2 1,
    Bit ''psh'' 2 1,
    Bit ''ack'' 2 1,
    Bit ''urg'' 2 1,
    Bit ''ece'' 2 1,
    Bit ''cwr'' 2 1,
    Fld ''window'' vm___be16,
    Fld ''check'' vm___sum16,
    Fld ''urg_ptr'' vm___be16]"

definition vm_pt_regs :: ctype where
  "vm_pt_regs = Struct [Fld ''r15'' (Prim 8),
    Fld ''r14'' (Prim 8),
    Fld ''r13'' (Prim 8),
    Fld ''r12'' (Prim 8),
    Fld ''bp'' (Prim 8),
    Fld ''bx'' (Prim 8),
    Fld ''r11'' (Prim 8),
    Fld ''r10'' (Prim 8),
    Fld ''r9'' (Prim 8),
    Fld ''r8'' (Prim 8),
    Fld ''ax'' (Prim 8),
    Fld ''cx'' (Prim 8),
    Fld ''dx'' (Prim 8),
    Fld ''si'' (Prim 8),
    Fld ''di'' (Prim 8),
    Fld ''orig_ax'' (Prim 8),
    Fld ''ip'' (Prim 8),
    Fld ''cs'' (Prim 8),
    Fld ''flags'' (Prim 8),
    Fld ''sp'' (Prim 8),
    Fld ''ss'' (Prim 8)]"

section \<open>Offsets the programs use\<close>

lemma packet_header_layout:
  "offsetof vm_ethhdr ''h_proto'' = Some 12" "size_of vm_ethhdr = 14"
  "offsetof vm_iphdr ''protocol'' = Some 9" "size_of vm_iphdr = 20"
  "offsetof vm_iphdr ''tot_len'' = Some 2" "offsetof vm_iphdr ''saddr'' = Some 12"
  "offsetof vm_iphdr ''daddr'' = Some 16" "off_type vm_iphdr ''ihl'' = Some 0"
  "offsetof vm_tcphdr ''source'' = Some 0" "offsetof vm_tcphdr ''dest'' = Some 2"
  "off_type vm_tcphdr ''doff'' = Some 100" "size_of vm_tcphdr = 20"
  by code_simp+

lemma register_offsets:
  "offsetof vm_pt_regs ''di'' = Some 112" "offsetof vm_pt_regs ''si'' = Some 104"
  "size_of vm_pt_regs = 168"
  by code_simp+

section \<open>Offsets of kernel objects\<close>

text \<open>\<^verbatim>\<open>&p->f\<close> adds the offset of \<open>f\<close> to \<open>p\<close>.  The struct declarations carry
  \<^verbatim>\<open>preserve_access_index\<close>, so the loader replaces each offset by the one of the running
  kernel: the probes take the offsets as an argument of type \<open>kernel_layout\<close>, and
  \<open>vmlinux_layout\<close> (theory Vmlinux_Types) is the assignment of the kernel the header was generated
  from.\<close>

record kernel_layout =
  oc_chosen :: u64
  oc_totalpages :: u64
  task_tgid :: u64
  task_comm :: u64
  sk_max_ack_backlog :: u64
  sk_ack_backlog :: u64
  sk_socket :: u64
  socket_file :: u64
  file_f_owner :: u64
  fown_pid :: u64
  pid_numbers0_nr :: u64

end
