(* ===== verification/Http_Filter.thy ===== *)
theory Http_Filter
  imports Bpf_Endian Bpf_Runtime Vmlinux_Net
begin

text \<open>
  The socket filter of \<^verbatim>\<open>src/ebpf/http/http.c\<close>: it recognises HTTP requests and responses
  in the frames of the node's bridge, keeps the pending request of each connection in
  \<^verbatim>\<open>request_map\<close> and emits one record per matched response into the ring buffer
  \<^verbatim>\<open>packets\<close>.  One definition per C function, in the order of the file; the kernel helpers
  are the fields of \<open>http_env\<close>, the three maps the fields of \<open>http_state\<close>.  The theory ends
  with the layout and the byte image of \<^verbatim>\<open>struct packet\<close>, which is what user space reads.
\<close>

section \<open>Data\<close>

definition MAX_MAP_CONN :: int where "MAX_MAP_CONN = 1024 * 16"
definition MAX_MAP_FILTER_IP :: int where "MAX_MAP_FILTER_IP = 300"
definition MAX_URL_LEN :: nat where "MAX_URL_LEN = 256"
definition STATUS_LEN :: nat where "STATUS_LEN = 3"
definition ETH_HLEN :: u32 where "ETH_HLEN = 14"
definition ETH_P_IP :: u16 where "ETH_P_IP = 0x0800"
definition IPPROTO_TCP :: u8 where "IPPROTO_TCP = 6"

lemmas http_consts = MAX_URL_LEN_def STATUS_LEN_def ETH_HLEN_def ETH_P_IP_def IPPROTO_TCP_def

record conn_key =
  k_src_ip :: u32
  k_dst_ip :: u32
  k_src_port :: u16
  k_dst_port :: u16

datatype packet_type_t = T_HTTP | T_RPC | T_MYSQL

fun packet_type_val :: "packet_type_t \<Rightarrow> u32" where
  "packet_type_val T_HTTP = 1"
| "packet_type_val T_RPC = 2"
| "packet_type_val T_MYSQL = 3"

datatype http_request_method = M_GET | M_POST | M_PUT | M_DELETE | M_HEAD | M_PATCH

fun method_val :: "http_request_method \<Rightarrow> int" where
  "method_val M_GET = 1"
| "method_val M_POST = 2"
| "method_val M_PUT = 3"
| "method_val M_DELETE = 4"
| "method_val M_HEAD = 5"
| "method_val M_PATCH = 6"

record packet =
  p_type :: u32
  p_method :: u32
  p_dst_ip :: u32
  p_dst_port :: u16
  p_src_ip :: u32
  p_src_port :: u16
  p_duration :: u32
  p_req_payload_size :: u32
  p_rsp_payload_size :: u32
  p_status :: "byte list"
  p_url :: "byte list"

text \<open>\<^verbatim>\<open>struct packet p = {}\<close>\<close>

definition packet_zero :: packet where
  "packet_zero = \<lparr>p_type = 0, p_method = 0, p_dst_ip = 0, p_dst_port = 0, p_src_ip = 0,
     p_src_port = 0, p_duration = 0, p_req_payload_size = 0, p_rsp_payload_size = 0,
     p_status = replicate STATUS_LEN 0, p_url = replicate MAX_URL_LEN 0\<rparr>"

text \<open>The packet headers, as the bytes a load brings in.\<close>

record iphdr =
  iph_ihl :: u8
  iph_version :: u8
  iph_tos :: u8
  iph_tot_len :: u16
  iph_id :: u16
  iph_frag_off :: u16
  iph_ttl :: u8
  iph_protocol :: u8
  iph_check :: u16
  iph_saddr :: u32
  iph_daddr :: u32

definition iphdr_of :: "byte list \<Rightarrow> iphdr" where
  "iphdr_of b =
    \<lparr>iph_ihl = b ! 0 AND 15, iph_version = drop_bit 4 (b ! 0), iph_tos = b ! 1,
     iph_tot_len = le_word (bslice 2 2 b), iph_id = le_word (bslice 4 2 b),
     iph_frag_off = le_word (bslice 6 2 b), iph_ttl = b ! 8, iph_protocol = b ! 9,
     iph_check = le_word (bslice 10 2 b), iph_saddr = le_word (bslice 12 4 b),
     iph_daddr = le_word (bslice 16 4 b)\<rparr>"

record tcphdr =
  tcph_source :: u16
  tcph_dest :: u16
  tcph_seq :: u32
  tcph_ack_seq :: u32
  tcph_res1 :: u8
  tcph_doff :: u8
  tcph_flags :: u8
  tcph_window :: u16
  tcph_check :: u16
  tcph_urg_ptr :: u16

definition tcphdr_of :: "byte list \<Rightarrow> tcphdr" where
  "tcphdr_of b =
    \<lparr>tcph_source = le_word (bslice 0 2 b), tcph_dest = le_word (bslice 2 2 b),
     tcph_seq = le_word (bslice 4 4 b), tcph_ack_seq = le_word (bslice 8 4 b),
     tcph_res1 = b ! 12 AND 15, tcph_doff = drop_bit 4 (b ! 12), tcph_flags = b ! 13,
     tcph_window = le_word (bslice 14 2 b), tcph_check = le_word (bslice 16 2 b),
     tcph_urg_ptr = le_word (bslice 18 2 b)\<rparr>"

section \<open>Helpers of the program\<close>

text \<open>The environment: \<^verbatim>\<open>bpf_skb_load_bytes\<close>, the map operations on \<^verbatim>\<open>filter_ip\<close> and
  \<^verbatim>\<open>request_map\<close> (\<open>req_store\<close> is a store through the pointer the lookup returned) and
  \<^verbatim>\<open>bpf_ringbuf_output\<close>.\<close>

record ('f, 'm, 'r) http_env =
  skb_load_bytes :: skb_load
  filter_lookup :: "'f \<Rightarrow> u32 \<Rightarrow> u32 option"
  req_lookup :: "'m \<Rightarrow> conn_key \<Rightarrow> packet option"
  req_update :: "'m \<Rightarrow> conn_key \<Rightarrow> packet \<Rightarrow> int \<times> 'm"
  req_store :: "'m \<Rightarrow> conn_key \<Rightarrow> packet \<Rightarrow> 'm"
  req_delete :: "'m \<Rightarrow> conn_key \<Rightarrow> int \<times> 'm"
  ringbuf_output :: "'r \<Rightarrow> byte list \<Rightarrow> int \<times> 'r"

record ('f, 'm, 'r) http_state =
  filter_ip :: 'f
  request_map :: 'm
  packets :: 'r

definition is_http_request :: "byte list \<Rightarrow> int" where
  "is_http_request p =
    (if p ! 0 = of_char CHR ''G'' \<and> p ! 1 = of_char CHR ''E'' \<and> p ! 2 = of_char CHR ''T''
     then method_val M_GET
     else if p ! 0 = of_char CHR ''P'' \<and> p ! 1 = of_char CHR ''O'' \<and> p ! 2 = of_char CHR ''S'' \<and>
       p ! 3 = of_char CHR ''T''
     then method_val M_POST
     else if p ! 0 = of_char CHR ''P'' \<and> p ! 1 = of_char CHR ''U'' \<and> p ! 2 = of_char CHR ''T''
     then method_val M_PUT
     else if p ! 0 = of_char CHR ''D'' \<and> p ! 1 = of_char CHR ''E'' \<and> p ! 2 = of_char CHR ''L'' \<and>
       p ! 3 = of_char CHR ''E'' \<and> p ! 4 = of_char CHR ''T'' \<and> p ! 5 = of_char CHR ''E''
     then method_val M_DELETE
     else if p ! 0 = of_char CHR ''H'' \<and> p ! 1 = of_char CHR ''E'' \<and> p ! 2 = of_char CHR ''A'' \<and>
       p ! 3 = of_char CHR ''D''
     then method_val M_HEAD
     else if p ! 0 = of_char CHR ''P'' \<and> p ! 1 = of_char CHR ''A'' \<and> p ! 2 = of_char CHR ''T'' \<and>
       p ! 3 = of_char CHR ''C'' \<and> p ! 4 = of_char CHR ''H''
     then method_val M_PATCH
     else 0)"

definition get_http_request_method_len :: "u32 \<Rightarrow> int" where
  "get_http_request_method_len method =
    (if method = of_int (method_val M_GET) then 3
     else if method = of_int (method_val M_POST) then 4
     else if method = of_int (method_val M_PUT) then 3
     else if method = of_int (method_val M_DELETE) then 6
     else if method = of_int (method_val M_HEAD) then 4
     else if method = of_int (method_val M_PATCH) then 5
     else 0)"

text \<open>\<^verbatim>\<open>__load_url_to_map\<close>: the body of the inner loop, the inner loop, and the outer loop from
  iteration \<open>i\<close> on with its two local variables.\<close>

definition url_scan_step :: "nat \<Rightarrow> nat \<Rightarrow> bool \<times> byte list \<Rightarrow> bool \<times> byte list" where
  "url_scan_step i j = (\<lambda>(finished, p).
     if \<not> finished \<and> (p ! (i * 16 + j) = of_char CHR '' '' \<or> p ! (i * 16 + j) = of_char CHR ''?'')
     then (True, p[i * 16 + j := 0])
     else if finished then (finished, p[i * 16 + j := 0])
     else (finished, p))"

definition url_scan :: "nat \<Rightarrow> byte list \<Rightarrow> bool \<times> byte list" where
  "url_scan i p = fold (url_scan_step i) [0..<16] (False, p)"

function load_url_from :: "skb_load \<Rightarrow> frame \<Rightarrow> nat \<Rightarrow> u32 \<Rightarrow> bool \<Rightarrow> byte list \<Rightarrow> byte list" where
  "load_url_from load skb i poffset finished p =
    (if i < 16 then
       if \<not> finished then
         let (result, buf) = load skb poffset 16;
             p' = write_at (i * 16) buf p
         in if result = 0 then
              let (finished', p'') = url_scan i p'
              in load_url_from load skb (i + 1) (poffset + 12) finished' p''
            else load_url_from load skb (i + 1) poffset True p'
       else p
     else p)"
  by pat_completeness auto
termination
  by (relation "measure (\<lambda>(load, skb, i, poffset, finished, p). 16 - i)") auto

declare load_url_from.simps [simp del]

definition load_url_to_map :: "skb_load \<Rightarrow> frame \<Rightarrow> u32 \<Rightarrow> byte list \<Rightarrow> byte list" where
  "load_url_to_map load skb poffset p = load_url_from load skb 0 poffset False p"

definition is_http_response :: "byte list \<Rightarrow> int" where
  "is_http_response p =
    (if p ! 0 = of_char CHR ''H'' \<and> p ! 1 = of_char CHR ''T'' \<and> p ! 2 = of_char CHR ''T'' \<and>
       p ! 3 = of_char CHR ''P''
     then 1 else 0)"

definition check_target_ip :: "('f \<Rightarrow> u32 \<Rightarrow> u32 option) \<Rightarrow> 'f \<Rightarrow> u32 \<Rightarrow> int" where
  "check_target_ip look flt ip = (case look flt ip of None \<Rightarrow> 1 | Some _ \<Rightarrow> 0)"

section \<open>The byte image of struct packet\<close>

text \<open>What \<^verbatim>\<open>bpf_ringbuf_output(&packets, req, sizeof(struct packet), 0)\<close> copies: the members
  in order with their padding.\<close>

definition packet_t :: ctype where
  "packet_t = Struct [Fld ''type'' (Prim 4), Fld ''method'' (Prim 4), Fld ''dst_ip'' (Prim 4),
     Fld ''dst_port'' (Prim 2), Fld ''src_ip'' (Prim 4), Fld ''src_port'' (Prim 2),
     Fld ''duration'' (Prim 4), Fld ''req_payload_size'' (Prim 4),
     Fld ''rsp_payload_size'' (Prim 4), Fld ''status'' (Arr (Prim 1) 3),
     Fld ''url'' (Arr (Prim 1) 256)]"

definition conn_key_t :: ctype where
  "conn_key_t = Struct [Fld ''src_ip'' (Prim 4), Fld ''dst_ip'' (Prim 4),
     Fld ''src_port'' (Prim 2), Fld ''dst_port'' (Prim 2)]"

definition packet_bytes :: "packet \<Rightarrow> byte list" where
  "packet_bytes p =
     le_bytes 4 (p_type p) @ le_bytes 4 (p_method p) @ le_bytes 4 (p_dst_ip p) @
     le_bytes 2 (p_dst_port p) @ [0, 0] @ le_bytes 4 (p_src_ip p) @ le_bytes 2 (p_src_port p) @
     [0, 0] @ le_bytes 4 (p_duration p) @ le_bytes 4 (p_req_payload_size p) @
     le_bytes 4 (p_rsp_payload_size p) @ p_status p @ p_url p @ [0]"

section \<open>The filter\<close>

text \<open>Request and response branch of \<^verbatim>\<open>socket__filter_http\<close>, then the whole program.
  \<open>now\<close> is the value of \<^verbatim>\<open>bpf_ktime_get_ns()\<close>, which either branch reads once.\<close>

definition request_key :: "iphdr \<Rightarrow> tcphdr \<Rightarrow> conn_key" where
  "request_key iph tcph = \<lparr>k_src_ip = iph_saddr iph, k_dst_ip = iph_daddr iph,
     k_src_port = tcph_source tcph, k_dst_port = tcph_dest tcph\<rparr>"

definition response_key :: "iphdr \<Rightarrow> tcphdr \<Rightarrow> conn_key" where
  "response_key iph tcph = \<lparr>k_src_ip = iph_daddr iph, k_dst_ip = iph_saddr iph,
     k_src_port = tcph_dest tcph, k_dst_port = tcph_source tcph\<rparr>"

definition payload_size :: "iphdr \<Rightarrow> u32 \<Rightarrow> u32 \<Rightarrow> u32" where
  "payload_size iph ip_hlen tcp_hlen = ucast (bpf_ntohs False (iph_tot_len iph)) - ip_hlen - tcp_hlen"

definition request_packet ::
  "skb_load \<Rightarrow> u64 \<Rightarrow> frame \<Rightarrow> iphdr \<Rightarrow> tcphdr \<Rightarrow> u32 \<Rightarrow> u32 \<Rightarrow> u32 \<Rightarrow> int \<Rightarrow> packet" where
  "request_packet load now skb iph tcph ip_hlen tcp_hlen poffset result =
    (let p = packet_zero\<lparr>p_src_ip := iph_saddr iph, p_dst_ip := iph_daddr iph,
           p_src_port := tcph_source tcph, p_dst_port := tcph_dest tcph\<rparr>;
         p = p\<lparr>p_type := packet_type_val T_HTTP, p_method := of_int result,
           p_duration := ucast now, p_req_payload_size := payload_size iph ip_hlen tcp_hlen\<rparr>;
         len = get_http_request_method_len (p_method p)
     in p\<lparr>p_url := load_url_to_map load skb (poffset + of_int len + 1) (p_url p)\<rparr>)"

definition fill_response :: "u64 \<Rightarrow> iphdr \<Rightarrow> u32 \<Rightarrow> u32 \<Rightarrow> byte list \<Rightarrow> packet \<Rightarrow> packet" where
  "fill_response now iph ip_hlen tcp_hlen pre_char req =
     req\<lparr>p_duration := ucast (now - ucast (p_duration req)),
         p_rsp_payload_size := payload_size iph ip_hlen tcp_hlen,
         p_status := (p_status req)[0 := pre_char ! 9, 1 := pre_char ! 10, 2 := pre_char ! 11]\<rparr>"

definition socket_filter_http ::
  "('f, 'm, 'r) http_env \<Rightarrow> u64 \<Rightarrow> frame \<Rightarrow> ('f, 'm, 'r) http_state
   \<Rightarrow> int \<times> ('f, 'm, 'r) http_state" where
  "socket_filter_http env now skb s =
    (let eth_proto = le_word (snd (skb_load_bytes env skb 12 2)) :: u16
     in if bpf_ntohs False eth_proto \<noteq> ETH_P_IP then (-1, s)
     else let ip_proto = snd (skb_load_bytes env skb (ETH_HLEN + 9) 1) ! 0
     in if ip_proto \<noteq> IPPROTO_TCP then (-1, s)
     else let iph = iphdr_of (snd (skb_load_bytes env skb ETH_HLEN 20));
              tcph = tcphdr_of (snd (skb_load_bytes env skb (ETH_HLEN + 20) 20));
              ip_hlen = push_bit 2 (ucast (iph_ihl iph)) :: u32;
              tcp_hlen = push_bit 2 (ucast (tcph_doff tcph)) :: u32
     in if check_target_ip (filter_lookup env) (filter_ip s) (iph_saddr iph) = 0 \<and>
           check_target_ip (filter_lookup env) (filter_ip s) (iph_daddr iph) = 0 then (-1, s)
     else let poffset = ETH_HLEN + ip_hlen + tcp_hlen;
              pre_char = snd (skb_load_bytes env skb poffset 12);
              result = is_http_request pre_char
     in if result \<noteq> 0 then
          let p = request_packet (skb_load_bytes env) now skb iph tcph ip_hlen tcp_hlen poffset result;
              k = request_key iph tcph
          in (0, s\<lparr>request_map := snd (req_update env (request_map s) k p)\<rparr>)
     else if is_http_response pre_char \<noteq> 0 then
          let k = response_key iph tcph
          in case req_lookup env (request_map s) k of
               None \<Rightarrow> (-1, s)
             | Some req \<Rightarrow>
                 let req' = fill_response now iph ip_hlen tcp_hlen pre_char req;
                     m = req_store env (request_map s) k req';
                     r = snd (ringbuf_output env (packets s) (packet_bytes req'))
                 in (0, s\<lparr>request_map := snd (req_delete env m k), packets := r\<rparr>)
     else (-1, s))"

section \<open>The URL loader\<close>

text \<open>What the loader stores: chunk \<open>i\<close> of the buffer holds the sixteen packet bytes from
  \<open>off + 12 * i\<close> on (the destination advances by sixteen, the source by twelve), for as many
  chunks as fit the frame, cut at the first separator.\<close>

definition url_sep :: "byte \<Rightarrow> bool" where
  "url_sep b \<longleftrightarrow> b = of_char CHR '' '' \<or> b = of_char CHR ''?''"

definition url_chunks :: "frame \<Rightarrow> nat \<Rightarrow> nat \<Rightarrow> byte list" where
  "url_chunks f off n = concat (map (\<lambda>i. bslice (off + 12 * i) 16 f) [0..<n])"

definition url_loads :: "frame \<Rightarrow> nat \<Rightarrow> nat" where
  "url_loads f off = (if length f < off + 16 then 0 else min 16 ((length f - off - 16) div 12 + 1))"

definition url_spec :: "frame \<Rightarrow> nat \<Rightarrow> byte list" where
  "url_spec f off = zpad 256 (takeWhile (\<lambda>b. \<not> url_sep b) (url_chunks f off (url_loads f off)))"

lemma less_url_loads: "i < url_loads f off \<longleftrightarrow> i < 16 \<and> off + 12 * i + 16 \<le> length f"
proof (cases "length f < off + 16")
  case True
  then show ?thesis by (simp add: url_loads_def)
next
  case False
  have "i \<le> (length f - off - 16) div 12 \<longleftrightarrow> i * 12 \<le> length f - off - 16"
    by (rule less_eq_div_iff_mult_less_eq) simp
  with False show ?thesis by (auto simp: url_loads_def)
qed

lemma url_chunks_Suc: "url_chunks f off (Suc n) = url_chunks f off n @ bslice (off + 12 * n) 16 f"
  by (simp add: url_chunks_def)

lemma url_chunks_0 [simp]: "url_chunks f off 0 = []"
  by (simp add: url_chunks_def)

lemma length_url_chunks: "n \<le> url_loads f off \<Longrightarrow> length (url_chunks f off n) = 16 * n"
  by (induction n) (auto simp: url_chunks_Suc Suc_le_eq less_url_loads)

lemma url_chunks_split:
  "m \<le> n \<Longrightarrow> \<exists>rest. url_chunks f off n = url_chunks f off m @ rest"
proof (induction n)
  case 0
  then show ?case by simp
next
  case (Suc n)
  then show ?case by (cases "m = Suc n") (auto simp: url_chunks_Suc)
qed

text \<open>The scan of one chunk clears it from its first separator on: \<open>url_cut i n\<close> is the buffer
  after the first \<open>n\<close> iterations of the inner loop.\<close>

definition url_cut :: "nat \<Rightarrow> nat \<Rightarrow> byte list \<Rightarrow> byte list" where
  "url_cut i n p = map (\<lambda>k. if i * 16 \<le> k \<and> k < i * 16 + n \<and>
      (\<exists>j \<le> k - i * 16. url_sep (p ! (i * 16 + j))) then 0 else p ! k) [0..<length p]"

lemma length_url_cut [simp]: "length (url_cut i n p) = length p"
  by (simp add: url_cut_def)

lemma nth_url_cut: "k < length p \<Longrightarrow> url_cut i n p ! k =
    (if i * 16 \<le> k \<and> k < i * 16 + n \<and> (\<exists>j \<le> k - i * 16. url_sep (p ! (i * 16 + j)))
     then 0 else p ! k)"
  unfolding url_cut_def by (subst nth_map) auto

lemma url_cut_Suc:
  assumes "i * 16 + n < length p"
  shows "url_cut i (Suc n) p =
    (if \<exists>j \<le> n. url_sep (p ! (i * 16 + j)) then (url_cut i n p)[i * 16 + n := 0] else url_cut i n p)"
  using assms by (intro nth_equalityI) (auto simp: nth_url_cut nth_list_update less_Suc_eq)

lemma url_scan_prefix:
  assumes "i * 16 + n \<le> length p"
  shows "fold (url_scan_step i) [0..<n] (False, p) =
    ((\<exists>j < n. url_sep (p ! (i * 16 + j))), url_cut i n p)"
  using assms
proof (induction n)
  case 0
  have "url_cut i 0 p = p" by (rule nth_equalityI) (auto simp: nth_url_cut)
  then show ?case by simp
next
  case (Suc n)
  let ?fin = "\<exists>j < n. url_sep (p ! (i * 16 + j))"
  have "url_cut i n p ! (i * 16 + n) = p ! (i * 16 + n)"
    using Suc.prems by (simp add: nth_url_cut)
  then have "url_scan_step i n (?fin, url_cut i n p) =
      (if ?fin \<or> url_sep (p ! (i * 16 + n)) then (True, (url_cut i n p)[i * 16 + n := 0])
       else (False, url_cut i n p))"
    by (auto simp: url_scan_step_def url_sep_def)
  moreover have "(\<exists>j \<le> n. url_sep (p ! (i * 16 + j))) \<longleftrightarrow> ?fin \<or> url_sep (p ! (i * 16 + n))"
    by (auto simp: le_less)
  ultimately show ?case
    using Suc by (auto simp: url_cut_Suc less_Suc_eq_le)
qed

text \<open>Cutting the chunk just appended to a separator-free prefix cuts the buffer at the first
  separator.\<close>

lemma url_cut_appended:
  assumes cs: "length cs = i * 16" "\<forall>b \<in> set cs. \<not> url_sep b"
    and c: "length c = 16" and i: "i < 16"
  shows "url_cut i 16 (zpad 256 (cs @ c)) = zpad 256 (takeWhile (\<lambda>b. \<not> url_sep b) (cs @ c))"
proof (rule nth_equalityI)
  let ?xs = "cs @ c"
  have lenx: "length ?xs = i * 16 + 16" "i * 16 + 16 \<le> 256" using cs(1) c i by simp_all
  then show "length (url_cut i 16 (zpad 256 ?xs)) =
      length (zpad 256 (takeWhile (\<lambda>b. \<not> url_sep b) ?xs))"
    using length_takeWhile_le [of "\<lambda>b. \<not> url_sep b" ?xs] by simp
  fix k
  assume "k < length (url_cut i 16 (zpad 256 ?xs))"
  with lenx have k: "k < 256" by simp
  have prefix: "\<not> url_sep (?xs ! j)" if "j < i * 16" for j
    using that cs by (simp add: nth_append)
  have pk: "zpad 256 ?xs ! m = (if m < i * 16 + 16 then ?xs ! m else 0)" if "m < 256" for m
    using that lenx by (simp add: nth_zpad)
  have sep: "(\<exists>j \<le> k - i * 16. url_sep (zpad 256 ?xs ! (i * 16 + j))) \<longleftrightarrow> (\<exists>j \<le> k. url_sep (?xs ! j))"
    if k': "i * 16 \<le> k" "k < i * 16 + 16"
  proof -
    have "(\<exists>j \<le> k - i * 16. url_sep (zpad 256 ?xs ! (i * 16 + j))) \<longleftrightarrow>
        (\<exists>j \<le> k - i * 16. url_sep (?xs ! (i * 16 + j)))"
      using k' lenx(2) by (intro ex_cong1 conj_cong refl) (subst pk, auto)
    also have "\<dots> \<longleftrightarrow> (\<exists>j \<le> k. url_sep (?xs ! j))"
      using k'(1) prefix by (metis add_le_cancel_left le_add_diff_inverse linorder_not_less)
    finally show ?thesis .
  qed
  show "url_cut i 16 (zpad 256 ?xs) ! k = zpad 256 (takeWhile (\<lambda>b. \<not> url_sep b) ?xs) ! k"
  proof (cases "i * 16 \<le> k \<and> k < i * 16 + 16")
    case True
    with sep lenx k show ?thesis by (auto simp: nth_url_cut nth_zpad_takeWhile pk)
  next
    case False
    then have "\<not> (k < i * 16 + 16 \<and> (\<exists>j \<le> k. url_sep (?xs ! j)))"
      using prefix by (auto simp: not_le dest: le_less_trans)
    with False lenx k show ?thesis by (auto simp: nth_url_cut nth_zpad_takeWhile pk)
  qed
qed

lemma url_scan_appended:
  assumes cs: "length cs = i * 16" "\<forall>b \<in> set cs. \<not> url_sep b"
    and c: "length c = 16" and i: "i < 16"
  shows "url_scan i (zpad 256 (cs @ c)) =
    ((\<exists>b \<in> set c. url_sep b), zpad 256 (takeWhile (\<lambda>b. \<not> url_sep b) (cs @ c)))"
proof -
  have "zpad 256 (cs @ c) ! (i * 16 + j) = c ! j" if "j < 16" for j
    using that cs(1) c i by (simp add: nth_zpad nth_append)
  then have "(\<exists>j < 16. url_sep (zpad 256 (cs @ c) ! (i * 16 + j))) \<longleftrightarrow> (\<exists>b \<in> set c. url_sep b)"
    using c by (auto simp: Bex_def in_set_conv_nth)
  then show ?thesis
    using assms by (simp add: url_scan_def url_scan_prefix url_cut_appended)
qed

lemma unat_add_numeral_small:
  fixes a :: u32
  assumes "unat a + 12 < 2 ^ 32"
  shows "unat (a + 12) = unat a + 12"
  using assms by (simp add: unat_word_ariths)

text \<open>The rest of the separators-free chunks decides nothing: \<open>takeWhile\<close> over all loaded chunks
  stops at the first separator of a prefix that has one.\<close>

lemma takeWhile_prefix_stop:
  assumes "\<exists>x \<in> set xs. \<not> P x"
  shows "takeWhile P (xs @ ys) = takeWhile P xs"
  using assms by (auto simp: takeWhile_append1)

lemma load_url_from_end [simp]: "16 \<le> i \<Longrightarrow> load_url_from load f i poffset fin p = p"
  by (simp add: load_url_from.simps [of load f i])

lemma load_url_from_finished [simp]: "load_url_from load f i poffset True p = p"
  by (simp add: load_url_from.simps [of load f i])

text \<open>Once all chunks that fit are scanned without a separator, the buffer is the specified one.\<close>

lemma url_spec_all_scanned:
  "\<forall>b \<in> set (url_chunks f off (url_loads f off)). \<not> url_sep b \<Longrightarrow>
   zpad 256 (url_chunks f off (url_loads f off)) = url_spec f off"
  by (simp add: url_spec_def takeWhile_eq_all_conv [THEN iffD2])

lemma url_spec_prefix_stop:
  assumes "i < url_loads f off" and "\<exists>b \<in> set (url_chunks f off (Suc i)). url_sep b"
  shows "zpad 256 (takeWhile (\<lambda>b. \<not> url_sep b) (url_chunks f off (Suc i))) = url_spec f off"
proof -
  obtain rest where "url_chunks f off (url_loads f off) = url_chunks f off (Suc i) @ rest"
    using url_chunks_split [of "Suc i" "url_loads f off" f off] assms(1) by auto
  then show ?thesis using assms(2) by (simp add: url_spec_def takeWhile_prefix_stop)
qed

text \<open>Two readings of the specified buffer: a short URL is stored as it is, and in general byte \<open>k\<close>
  comes from offset \<open>k - 4 * (k div 16)\<close>.\<close>

lemma url_spec_short:
  assumes "drop off f = u @ sep # rest" and "url_sep sep" and "\<forall>b \<in> set u. \<not> url_sep b"
    and "length u < 16" and "off + 16 \<le> length f"
  shows "url_spec f off = zpad 256 u"
proof -
  have N: "0 < url_loads f off" using assms(5) by (simp add: less_url_loads)
  have "bslice off 16 f = u @ take (16 - length u) (sep # rest)"
    using assms(1,4) by (simp add: bslice_def)
  also have "16 - length u = Suc (15 - length u)" using assms(4) by simp
  also have "u @ take (Suc (15 - length u)) (sep # rest) = u @ sep # take (15 - length u) rest" by simp
  finally have c: "url_chunks f off (Suc 0) = u @ sep # take (15 - length u) rest"
    by (simp add: url_chunks_Suc)
  have "zpad 256 (takeWhile (\<lambda>b. \<not> url_sep b) (url_chunks f off (Suc 0))) = url_spec f off"
    using N assms(2) by (intro url_spec_prefix_stop) (auto simp: c)
  then show ?thesis using assms(2,3) by (simp add: c takeWhile_append2)
qed

lemma nth_url_chunks:
  "n \<le> url_loads f off \<Longrightarrow> k < 16 * n \<Longrightarrow> url_chunks f off n ! k = f ! (off + k - 4 * (k div 16))"
proof (induction n)
  case 0
  then show ?case by simp
next
  case (Suc n)
  have len: "length (url_chunks f off n) = 16 * n" using Suc.prems(1) by (simp add: length_url_chunks)
  show ?case
  proof (cases "k < 16 * n")
    case True
    with Suc len show ?thesis by (simp add: url_chunks_Suc nth_append)
  next
    case False
    with Suc.prems have k: "k div 16 = n" "16 * n \<le> k" "k - 16 * n < 16" by auto
    have fit: "off + 12 * n + 16 \<le> length f" using Suc.prems(1) by (simp add: Suc_le_eq less_url_loads)
    have "off + 12 * n + (k - 16 * n) = off + k - 4 * n" using k by simp
    with k fit len show ?thesis by (simp add: url_chunks_Suc nth_append nth_bslice)
  qed
qed

lemma url_spec_nth:
  assumes "k div 16 < url_loads f off" and "\<forall>j \<le> k. \<not> url_sep (f ! (off + j - 4 * (j div 16)))"
  shows "url_spec f off ! k = f ! (off + k - 4 * (k div 16))"
proof -
  have k: "k < 16 * url_loads f off" "k < 256" using assms(1) less_url_loads [of "k div 16" f off] by auto
  have "\<not> url_sep (url_chunks f off (url_loads f off) ! j)" if "j \<le> k" for j
    using that assms(2) k by (simp add: nth_url_chunks)
  with k show ?thesis
    by (simp add: url_spec_def nth_zpad_takeWhile length_url_chunks nth_url_chunks)
qed

context skb_reader
begin

text \<open>One iteration of the outer loop, when the load fails and when it succeeds.\<close>

lemma load_url_step_fail:
  assumes "i < 16" and "length cs = i * 16" and "length f < unat poffset + 16"
  shows "load_url_from load f i poffset False (zpad 256 cs) = zpad 256 cs"
proof -
  have "fst (load f poffset 16) \<noteq> 0" "snd (load f poffset 16) = replicate 16 0"
    using assms(3) load_out_of_range [of f poffset 16] by auto
  then show ?thesis
    using assms write_at_zpad [of cs "replicate 16 0" 256] zpad_append_zeros [of cs 16 256]
    by (simp add: load_url_from.simps [of load f i] split_def Let_def)
qed

lemma load_url_step_ok:
  assumes "i < 16" and "length cs = i * 16" and "\<forall>b \<in> set cs. \<not> url_sep b"
    and "unat poffset + 16 \<le> length f"
  shows "load_url_from load f i poffset False (zpad 256 cs) =
    load_url_from load f (Suc i) (poffset + 12) (\<exists>b \<in> set (bslice (unat poffset) 16 f). url_sep b)
      (zpad 256 (takeWhile (\<lambda>b. \<not> url_sep b) (cs @ bslice (unat poffset) 16 f)))"
  using assms write_at_zpad [of cs "bslice (unat poffset) 16 f" 256]
    url_scan_appended [of cs i "bslice (unat poffset) 16 f"] load_in_range [of poffset 16 f]
  by (simp add: load_url_from.simps [of load f i])

lemma load_url_from_spec:
  assumes "i \<le> url_loads f off" and "unat poffset = off + 12 * i" and "off + 12 * 16 < 2 ^ 32"
    and "\<forall>b \<in> set (url_chunks f off i). \<not> url_sep b"
  shows "load_url_from load f i poffset False (zpad 256 (url_chunks f off i)) = url_spec f off"
  using assms
proof (induction "16 - i" arbitrary: i poffset)
  case 0
  then have "url_loads f off = i" "16 \<le> i" by (auto simp: url_loads_def split: if_splits)
  with 0 show ?case using url_spec_all_scanned [of f off] by simp
next
  case (Suc n)
  then have i: "i < 16" by simp
  let ?c = "bslice (off + 12 * i) 16 f"
  have len: "length (url_chunks f off i) = i * 16" using Suc.prems(1) by (simp add: length_url_chunks)
  show ?case
  proof (cases "off + 12 * i + 16 \<le> length f")
    case False
    then have "url_loads f off = i" using less_url_loads [of i f off] Suc.prems(1) by simp
    with False Suc.prems load_url_step_fail [OF i len, of f poffset] url_spec_all_scanned [of f off]
    show ?thesis by simp
  next
    case True
    with i have N: "i < url_loads f off" by (simp add: less_url_loads)
    have scan: "load_url_from load f i poffset False (zpad 256 (url_chunks f off i)) =
        load_url_from load f (Suc i) (poffset + 12) (\<exists>b \<in> set ?c. url_sep b)
          (zpad 256 (takeWhile (\<lambda>b. \<not> url_sep b) (url_chunks f off (Suc i))))"
      using load_url_step_ok [OF i len] Suc.prems True by (simp add: url_chunks_Suc)
    show ?thesis
    proof (cases "\<exists>b \<in> set ?c. url_sep b")
      case True
      then have "\<exists>b \<in> set (url_chunks f off (Suc i)). url_sep b" by (auto simp: url_chunks_Suc)
      with scan True url_spec_prefix_stop [OF N] show ?thesis by simp
    next
      case False
      then have sf: "\<forall>b \<in> set (url_chunks f off (Suc i)). \<not> url_sep b"
        using Suc.prems(4) by (auto simp: url_chunks_Suc)
      then have "takeWhile (\<lambda>b. \<not> url_sep b) (url_chunks f off (Suc i)) = url_chunks f off (Suc i)"
        by (simp add: takeWhile_eq_all_conv)
      with scan False Suc.hyps Suc.prems N sf i show ?thesis
        by (simp add: unat_add_numeral_small)
    qed
  qed
qed

lemma load_url_to_map_spec:
  assumes "unat poffset + 12 * 16 < 2 ^ 32"
  shows "load_url_to_map load f poffset (replicate 256 0) = url_spec f (unat poffset)"
  using load_url_from_spec [of 0 f "unat poffset" poffset] assms
  by (simp add: load_url_to_map_def zpad_def)

end

section \<open>Methods\<close>

fun method_name :: "http_request_method \<Rightarrow> string" where
  "method_name M_GET = ''GET''"
| "method_name M_POST = ''POST''"
| "method_name M_PUT = ''PUT''"
| "method_name M_DELETE = ''DELETE''"
| "method_name M_HEAD = ''HEAD''"
| "method_name M_PATCH = ''PATCH''"

text \<open>The bytes start with the given text.\<close>

definition starts_with :: "string \<Rightarrow> byte list \<Rightarrow> bool" where
  "starts_with w p \<longleftrightarrow> take (length w) p = ascii w"

lemma starts_with_Nil [simp]: "starts_with [] p"
  by (simp add: starts_with_def)

lemma starts_with_Cons:
  "starts_with (c # w) p \<longleftrightarrow> p \<noteq> [] \<and> p ! 0 = of_char c \<and> starts_with w (tl p)"
  by (cases p) (auto simp: starts_with_def)

lemma starts_with_12:
  assumes "length p = 12"
  shows "starts_with [a, b, c] p \<longleftrightarrow> p ! 0 = of_char a \<and> p ! 1 = of_char b \<and> p ! 2 = of_char c"
    and "starts_with [a, b, c, d] p \<longleftrightarrow> p ! 0 = of_char a \<and> p ! 1 = of_char b \<and> p ! 2 = of_char c \<and>
      p ! 3 = of_char d"
    and "starts_with [a, b, c, d, e] p \<longleftrightarrow> p ! 0 = of_char a \<and> p ! 1 = of_char b \<and>
      p ! 2 = of_char c \<and> p ! 3 = of_char d \<and> p ! 4 = of_char e"
    and "starts_with [a, b, c, d, e, g] p \<longleftrightarrow> p ! 0 = of_char a \<and> p ! 1 = of_char b \<and>
      p ! 2 = of_char c \<and> p ! 3 = of_char d \<and> p ! 4 = of_char e \<and> p ! 5 = of_char g"
  using assms by (auto simp: starts_with_Cons nth_tl neq_Nil_conv length_Suc_conv numeral_eq_Suc)

lemma is_http_request_cases:
  assumes "length p = 12"
  shows "is_http_request p =
    (if starts_with ''GET'' p then 1 else if starts_with ''POST'' p then 2
     else if starts_with ''PUT'' p then 3 else if starts_with ''DELETE'' p then 4
     else if starts_with ''HEAD'' p then 5 else if starts_with ''PATCH'' p then 6 else 0)"
  unfolding is_http_request_def starts_with_12 [OF assms] method_val.simps ..

lemma is_http_response_iff:
  assumes "length p = 12"
  shows "is_http_response p \<noteq> 0 \<longleftrightarrow> starts_with ''HTTP'' p"
  by (simp add: is_http_response_def starts_with_12 [OF assms])

text \<open>No method name is a prefix of another, so the order of the tests does not matter.\<close>

lemma starts_with_take: "starts_with w p \<Longrightarrow> n \<le> length w \<Longrightarrow> take n p = ascii (take n w)"
  by (auto simp: starts_with_def ascii_def take_map [symmetric] min_def dest: arg_cong [where f = "take n"])

lemma method_name_length: "3 \<le> length (method_name m)"
  by (cases m) simp_all

lemma starts_with_method_unique:
  assumes "starts_with (method_name m) p" and "starts_with (method_name m') p"
  shows "m = m'"
proof -
  have "take 3 p = ascii (take 3 (method_name m))" "take 3 p = ascii (take 3 (method_name m'))"
    by (rule starts_with_take [OF assms(1) method_name_length],
        rule starts_with_take [OF assms(2) method_name_length])
  then show ?thesis by (cases m; cases m'; simp)
qed

lemma all_methods:
  "(\<forall>m. P m) \<longleftrightarrow> P M_GET \<and> P M_POST \<and> P M_PUT \<and> P M_DELETE \<and> P M_HEAD \<and> P M_PATCH"
  by (metis http_request_method.exhaust)

lemma ex_methods:
  "(\<exists>m. P m) \<longleftrightarrow> P M_GET \<or> P M_POST \<or> P M_PUT \<or> P M_DELETE \<or> P M_HEAD \<or> P M_PATCH"
  by (metis http_request_method.exhaust)

lemma is_http_request_total:
  assumes "length p = 12"
  shows "(\<exists>m. starts_with (method_name m) p \<and> is_http_request p = method_val m) \<or>
    (\<forall>m. \<not> starts_with (method_name m) p) \<and> is_http_request p = 0"
  unfolding is_http_request_cases [OF assms] all_methods ex_methods by simp

lemma method_val_inject [simp]: "method_val m = method_val m' \<longleftrightarrow> m = m'"
  by (cases m; cases m'; simp)

lemma method_val_ne_0 [simp]: "method_val m \<noteq> 0"
  by (cases m) auto

lemma method_val_range: "1 \<le> method_val m \<and> method_val m \<le> 6"
  by (cases m) auto

lemma is_http_request_method:
  assumes "length p = 12"
  shows "is_http_request p = method_val m \<longleftrightarrow> starts_with (method_name m) p"
  using is_http_request_total [OF assms] method_val_range [of m] starts_with_method_unique
  by fastforce

lemma is_http_request_zero:
  assumes "length p = 12"
  shows "is_http_request p = 0 \<longleftrightarrow> (\<forall>m. \<not> starts_with (method_name m) p)"
  using is_http_request_total [OF assms] by auto

lemma method_len_name: "get_http_request_method_len (of_int (method_val m)) = int (length (method_name m))"
  by (cases m) (simp_all add: get_http_request_method_len_def)

section \<open>Header arithmetic\<close>

lemma unat_low_nibble: "unat (b AND 15 :: u8) = unat b mod 16"
proof -
  have "b AND 15 = take_bit 4 b" by (simp add: take_bit_eq_mask mask_eq_exp_minus_1)
  then show ?thesis by (simp add: take_bit_eq_mod unat_mod)
qed

lemma unat_high_nibble: "unat (drop_bit 4 b :: u8) = unat b div 16"
  by (simp add: drop_bit_eq_div unat_div)

lemma unat_hlen: "unat (push_bit 2 (ucast (x :: u8)) :: u32) = 4 * unat x"
proof -
  have x: "unat x < 256" using unsigned_less [of x, where 'a = nat] by simp
  then have "unat (ucast x :: u32) = unat x"
    by (simp add: unsigned_ucast_eq take_bit_nat_eq_self_iff)
  with x show ?thesis
    by (simp add: push_bit_eq_mult unat_word_ariths)
qed

end
