(* ===== verification/Http_Spec.thy ===== *)
theory Http_Spec
  imports Http_Filter
begin

text \<open>
  What the socket filter promises, and that it keeps the promise.  A frame is classified as
  ignored, a request of a connection, or a response to one (\<open>classify\<close>); the abstract tracker
  keeps the pending requests and the emitted records and moves by \<open>track\<close>, an inductive
  relation that leaves open only what the kernel decides (whether the map or the ring buffer has
  room).  \<open>http_kernel\<close> is the interface of the filter to its kernel; inside it every run of
  \<open>socket_filter_http\<close> is shown to be a step of the tracker, and the properties of whole traces
  are proved on the tracker by rule induction.
\<close>

section \<open>Classification of frames\<close>

datatype http_event =
    Ignore
  | Req conn_key packet
  | Rsp conn_key u64 u32 "byte list"

text \<open>The header fields the filter reads.\<close>

record frame_view =
  fv_eth_proto :: u16
  fv_ip_proto :: u8
  fv_iph :: iphdr
  fv_tcph :: tcphdr
  fv_ip_hlen :: u32
  fv_tcp_hlen :: u32
  fv_poffset :: u32
  fv_pre_char :: "byte list"

definition view_frame :: "skb_load \<Rightarrow> frame \<Rightarrow> frame_view" where
  "view_frame load f =
    (let iph = iphdr_of (snd (load f ETH_HLEN 20));
         tcph = tcphdr_of (snd (load f (ETH_HLEN + 20) 20));
         ip_hlen = push_bit 2 (ucast (iph_ihl iph)) :: u32;
         tcp_hlen = push_bit 2 (ucast (tcph_doff tcph)) :: u32;
         poffset = ETH_HLEN + ip_hlen + tcp_hlen
     in \<lparr>fv_eth_proto = le_word (snd (load f 12 2)),
         fv_ip_proto = snd (load f (ETH_HLEN + 9) 1) ! 0,
         fv_iph = iph, fv_tcph = tcph, fv_ip_hlen = ip_hlen, fv_tcp_hlen = tcp_hlen,
         fv_poffset = poffset, fv_pre_char = snd (load f poffset 12)\<rparr>)"

definition view_tcp :: "frame_view \<Rightarrow> bool" where
  "view_tcp v \<longleftrightarrow> bpf_ntohs False (fv_eth_proto v) = ETH_P_IP \<and> fv_ip_proto v = IPPROTO_TCP"

definition view_filtered :: "(u32 \<Rightarrow> bool) \<Rightarrow> frame_view \<Rightarrow> bool" where
  "view_filtered listed v \<longleftrightarrow> listed (iph_saddr (fv_iph v)) \<and> listed (iph_daddr (fv_iph v))"

text \<open>The direction of a segment, and the opposite direction.\<close>

definition flow :: "frame_view \<Rightarrow> conn_key" where
  "flow v = \<lparr>k_src_ip = iph_saddr (fv_iph v), k_dst_ip = iph_daddr (fv_iph v),
     k_src_port = tcph_source (fv_tcph v), k_dst_port = tcph_dest (fv_tcph v)\<rparr>"

definition opposite :: "conn_key \<Rightarrow> conn_key" where
  "opposite k = \<lparr>k_src_ip = k_dst_ip k, k_dst_ip = k_src_ip k, k_src_port = k_dst_port k,
     k_dst_port = k_src_port k\<rparr>"

text \<open>The bytes after both headers, as the IP header counts them.\<close>

definition view_payload :: "frame_view \<Rightarrow> u32" where
  "view_payload v = of_int (uint (bpf_ntohs False (iph_tot_len (fv_iph v))) - uint (fv_ip_hlen v) -
     uint (fv_tcp_hlen v))"

text \<open>The method a payload starts with, and the request it announces.\<close>

definition method_of :: "byte list \<Rightarrow> http_request_method option" where
  "method_of p = find (\<lambda>m. starts_with (method_name m) p) [M_GET, M_POST, M_PUT, M_DELETE, M_HEAD, M_PATCH]"

definition request_of :: "u64 \<Rightarrow> frame \<Rightarrow> frame_view \<Rightarrow> http_request_method \<Rightarrow> packet" where
  "request_of now f v m =
    \<lparr>p_type = packet_type_val T_HTTP, p_method = of_int (method_val m),
     p_dst_ip = k_dst_ip (flow v), p_dst_port = k_dst_port (flow v),
     p_src_ip = k_src_ip (flow v), p_src_port = k_src_port (flow v),
     p_duration = ucast now, p_req_payload_size = view_payload v, p_rsp_payload_size = 0,
     p_status = [0, 0, 0],
     p_url = url_spec f (unat (fv_poffset v) + length (method_name m) + 1)\<rparr>"

definition classify :: "skb_load \<Rightarrow> (u32 \<Rightarrow> bool) \<Rightarrow> u64 \<Rightarrow> frame \<Rightarrow> http_event" where
  "classify load listed now f =
    (let v = view_frame load f
     in if \<not> view_tcp v \<or> view_filtered listed v then Ignore
     else case method_of (fv_pre_char v) of
       Some m \<Rightarrow> Req (flow v) (request_of now f v m)
     | None \<Rightarrow>
         if starts_with ''HTTP'' (fv_pre_char v)
         then Rsp (opposite (flow v)) now (view_payload v) (bslice 9 3 (fv_pre_char v))
         else Ignore)"

section \<open>The abstract tracker\<close>

record tracker =
  pending :: "conn_key \<Rightarrow> packet option"
  emitted :: "byte list list"

text \<open>A request completed by a response seen at time \<open>now\<close>.\<close>

definition complete_req :: "u64 \<Rightarrow> u32 \<Rightarrow> byte list \<Rightarrow> packet \<Rightarrow> packet" where
  "complete_req now n st q =
     q\<lparr>p_duration := ucast (now - ucast (p_duration q)), p_rsp_payload_size := n,
       p_status := st\<rparr>"

inductive track :: "http_event \<Rightarrow> tracker \<Rightarrow> int \<Rightarrow> tracker \<Rightarrow> bool" where
  ignored: "track Ignore t (-1) t"
| request_kept: "track (Req k q) t 0 (t\<lparr>pending := (pending t)(k \<mapsto> q)\<rparr>)"
| request_lost: "track (Req k q) t 0 t"
| unmatched: "pending t k = None \<Longrightarrow> track (Rsp k now n st) t (-1) t"
| matched: "pending t k = Some q \<Longrightarrow> track (Rsp k now n st) t 0
    (t\<lparr>pending := (pending t)(k := None),
       emitted := emitted t @ [packet_bytes (complete_req now n st q)]\<rparr>)"
| matched_dropped: "pending t k = Some q \<Longrightarrow> track (Rsp k now n st) t 0
    (t\<lparr>pending := (pending t)(k := None)\<rparr>)"

inductive_cases track_IgnoreE [elim!]: "track Ignore t r t'"
inductive_cases track_ReqE [elim]: "track (Req k q) t r t'"
inductive_cases track_RspE [elim]: "track (Rsp k now n st) t r t'"

inductive tracks :: "http_event list \<Rightarrow> tracker \<Rightarrow> tracker \<Rightarrow> bool" where
  tracks_Nil: "tracks [] t t"
| tracks_snoc: "tracks es t t' \<Longrightarrow> track e t' r t'' \<Longrightarrow> tracks (es @ [e]) t t''"

inductive_simps track_simps: "track e t r t'"

section \<open>The filter's kernel\<close>

locale http_kernel =
  skb_reader "skb_load_bytes E" +
  bpf_hash_map "req_lookup E" "req_update E" "req_store E" "req_delete E" +
  bpf_ringbuf "ringbuf_output E" recs
  for E :: "('f, 'm, 'r) http_env" and recs :: "'r \<Rightarrow> byte list list"

definition abs_state :: "('f, 'm, 'r) http_env \<Rightarrow> ('r \<Rightarrow> byte list list) \<Rightarrow>
    ('f, 'm, 'r) http_state \<Rightarrow> tracker" where
  "abs_state E recs s = \<lparr>pending = req_lookup E (request_map s), emitted = recs (packets s)\<rparr>"

definition listed_in :: "('f, 'm, 'r) http_env \<Rightarrow> 'f \<Rightarrow> u32 \<Rightarrow> bool" where
  "listed_in E flt ip \<longleftrightarrow> filter_lookup E flt ip \<noteq> None"

text \<open>The packet stored under a key is a request of that connection: its arrays have their C
  lengths, its addresses are the key's, its response fields are still zero.\<close>

definition request_ok :: "conn_key \<Rightarrow> packet \<Rightarrow> bool" where
  "request_ok k q \<longleftrightarrow>
     p_type q = packet_type_val T_HTTP \<and> 1 \<le> uint (p_method q) \<and> uint (p_method q) \<le> 6 \<and>
     p_src_ip q = k_src_ip k \<and> p_dst_ip q = k_dst_ip k \<and>
     p_src_port q = k_src_port k \<and> p_dst_port q = k_dst_port k \<and>
     p_rsp_payload_size q = 0 \<and> p_status q = [0, 0, 0] \<and> length (p_url q) = 256"

definition pending_ok :: "(conn_key \<Rightarrow> packet option) \<Rightarrow> bool" where
  "pending_ok m \<longleftrightarrow> (\<forall>k q. m k = Some q \<longrightarrow> request_ok k q)"

text \<open>The payload starts at most 134 bytes into the frame, so no offset wraps around.\<close>

lemma view_poffset:
  "unat (fv_poffset (view_frame load f)) =
     14 + 4 * (unat (snd (load f ETH_HLEN 20) ! 0) mod 16) +
     4 * (unat (snd (load f (ETH_HLEN + 20) 20) ! 12) div 16)"
proof -
  let ?i = "snd (load f ETH_HLEN 20) ! 0" and ?t = "snd (load f (ETH_HLEN + 20) 20) ! 12"
  have "unat ?t div 16 < 16" using unsigned_less [of ?t, where 'a = nat] by simp
  moreover have "unat ?i mod 16 < 16" by simp
  ultimately show ?thesis
    by (simp add: view_frame_def Let_def iphdr_of_def tcphdr_of_def unat_word_ariths ETH_HLEN_def
        unat_hlen unat_low_nibble unat_high_nibble)
qed

lemma view_poffset_le: "unat (fv_poffset (view_frame load f)) \<le> 134"
proof -
  have "unat (snd (load f (ETH_HLEN + 20) 20) ! 12) div 16 < 16"
    using unsigned_less [of "snd (load f (ETH_HLEN + 20) 20) ! 12", where 'a = nat] by simp
  moreover have "unat (snd (load f ETH_HLEN 20) ! 0) mod 16 < 16" by simp
  ultimately show ?thesis by (simp add: view_poffset)
qed

lemma tcph_view: "fv_tcph (view_frame load f) = tcphdr_of (snd (load f (ETH_HLEN + 20) 20))"
  by (simp add: view_frame_def Let_def)

text \<open>Arithmetic of the two numbers a response fills in: truncation to 32 bits commutes with the
  subtraction.\<close>

lemma unat_duration:
  fixes t1 t2 :: u64
  assumes "t1 \<le> t2"
  shows "unat (ucast (t2 - ucast (ucast t1 :: u32)) :: u32) = (unat t2 - unat t1) mod 2 ^ 32"
proof -
  have "(ucast (t2 - ucast (ucast t1 :: u32)) :: u32) = ucast (t2 - t1)"
    by (simp add: ucast_diff_u32 ucast_up_down)
  also have "unat \<dots> = unat (t2 - t1) mod 2 ^ 32"
    by (simp add: unsigned_ucast_eq take_bit_eq_mod)
  also have "unat (t2 - t1) = unat t2 - unat t1" using assms by (simp add: unat_sub)
  finally show ?thesis .
qed

text \<open>Unfolding the filter over the view of the frame: a shorter form of the program for the
  proofs.\<close>

definition view_request :: "skb_load \<Rightarrow> u64 \<Rightarrow> frame \<Rightarrow> frame_view \<Rightarrow> packet" where
  "view_request load now f v =
     request_packet load now f (fv_iph v) (fv_tcph v) (fv_ip_hlen v) (fv_tcp_hlen v)
       (fv_poffset v) (is_http_request (fv_pre_char v))"

lemma socket_filter_http_view:
  "socket_filter_http E now f s =
    (let v = view_frame (skb_load_bytes E) f
     in if \<not> view_tcp v \<or> view_filtered (listed_in E (filter_ip s)) v then (-1, s)
     else if is_http_request (fv_pre_char v) \<noteq> 0 then
       (0, s\<lparr>request_map := snd (req_update E (request_map s) (request_key (fv_iph v) (fv_tcph v))
          (view_request (skb_load_bytes E) now f v))\<rparr>)
     else if is_http_response (fv_pre_char v) \<noteq> 0 then
       (case req_lookup E (request_map s) (response_key (fv_iph v) (fv_tcph v)) of
          None \<Rightarrow> (-1, s)
        | Some req \<Rightarrow>
            (let req' = fill_response now (fv_iph v) (fv_ip_hlen v) (fv_tcp_hlen v) (fv_pre_char v) req;
                 k = response_key (fv_iph v) (fv_tcph v)
             in (0, s\<lparr>request_map := snd (req_delete E (req_store E (request_map s) k req') k),
                      packets := snd (ringbuf_output E (packets s) (packet_bytes req'))\<rparr>)))
     else (-1, s))"
  by (simp add: socket_filter_http_def view_frame_def view_tcp_def view_filtered_def view_request_def
      check_target_ip_def listed_in_def Let_def split: option.splits)

lemma fill_response_complete:
  assumes "length (p_status req) = 3" and "length pre = 12"
  shows "fill_response now iph ihl thl pre req = complete_req now (payload_size iph ihl thl) (bslice 9 3 pre) req"
proof -
  obtain a b c where "p_status req = [a, b, c]"
    using assms(1) by (auto simp: numeral_3_eq_3 length_Suc_conv)
  moreover have "bslice 9 3 pre = [pre ! 9, pre ! 10, pre ! 11]"
    by (rule nth_equalityI) (use assms(2) in \<open>auto simp: nth_bslice numeral_3_eq_3 less_Suc_eq\<close>)
  ultimately show ?thesis by (simp add: fill_response_def complete_req_def)
qed

lemma of_int_method_range:
  "1 \<le> uint (of_int (method_val m) :: u32) \<and> uint (of_int (method_val m) :: u32) \<le> 6"
  by (cases m) simp_all

lemma key_flow:
  "request_key (fv_iph v) (fv_tcph v) = flow v"
  "response_key (fv_iph v) (fv_tcph v) = opposite (flow v)"
  by (simp_all add: request_key_def response_key_def flow_def opposite_def)

lemma payload_size_view: "payload_size (fv_iph v) (fv_ip_hlen v) (fv_tcp_hlen v) = view_payload v"
  by (simp add: payload_size_def view_payload_def word_uint_eq_iff unsigned_ucast_eq uint_word_of_int_eq
      uint_sub_lem mod_diff_eq mod_diff_left_eq mod_diff_right_eq)

lemma find_SomeD: "find P xs = Some x \<Longrightarrow> P x"
  by (induction xs) (auto split: if_splits)

lemma find_some_unique:
  assumes "x \<in> set xs" and "P x" and "\<forall>y. P y \<longrightarrow> y = x"
  shows "find P xs = Some x"
proof (cases "find P xs")
  case None
  then show ?thesis using assms(1,2) by (auto simp: find_None_iff)
next
  case (Some y)
  then show ?thesis using assms(3) find_SomeD [OF Some] by simp
qed

lemma method_of_Some: "method_of p = Some m \<longleftrightarrow> starts_with (method_name m) p"
proof
  assume "method_of p = Some m"
  then show "starts_with (method_name m) p" unfolding method_of_def by (rule find_SomeD)
next
  assume a: "starts_with (method_name m) p"
  have "m \<in> set [M_GET, M_POST, M_PUT, M_DELETE, M_HEAD, M_PATCH]" by (cases m) simp_all
  moreover have "\<forall>y. starts_with (method_name y) p \<longrightarrow> y = m" using starts_with_method_unique a by blast
  ultimately show "method_of p = Some m"
    unfolding method_of_def using a by (intro find_some_unique) blast+
qed

lemma method_of_None: "method_of p = None \<longleftrightarrow> (\<forall>m. \<not> starts_with (method_name m) p)"
  using method_of_Some [of p] by (metis not_None_eq)

context skb_reader
begin

lemma length_pre_char [simp]: "length (fv_pre_char (view_frame load f)) = 12"
  by (simp add: view_frame_def Let_def)

lemma view_request_url:
  assumes "is_http_request (fv_pre_char (view_frame load f)) = method_val m"
  shows "p_url (view_request load now f (view_frame load f)) =
    url_spec f (unat (fv_poffset (view_frame load f)) + length (method_name m) + 1)"
proof -
  let ?o = "fv_poffset (view_frame load f)"
  have "unat (?o + of_int (int (length (method_name m))) + 1) = unat ?o + length (method_name m) + 1"
    using view_poffset_le [of load f] by (cases m) (simp_all add: unat_word_ariths)
  moreover have "unat ?o + length (method_name m) + 1 + 192 < 2 ^ 32"
    using view_poffset_le [of load f] by (cases m) simp_all
  ultimately show ?thesis
    using load_url_to_map_spec [of "?o + of_int (int (length (method_name m))) + 1" f] assms
    by (simp add: view_request_def request_packet_def packet_zero_def Let_def method_len_name
        MAX_URL_LEN_def)
qed

lemma length_url_spec: "length (url_spec f off) = 256"
proof -
  have "length (url_chunks f off (url_loads f off)) \<le> 256"
    using length_url_chunks [of "url_loads f off" f off] by (simp add: url_loads_def)
  from order_trans [OF length_takeWhile_le this] show ?thesis by (simp add: url_spec_def)
qed

lemma view_request_of:
  assumes "starts_with (method_name m) (fv_pre_char (view_frame load f))"
  shows "view_request load now f (view_frame load f) = request_of now f (view_frame load f) m"
proof -
  let ?v = "view_frame load f"
  have m: "is_http_request (fv_pre_char ?v) = method_val m"
    using assms is_http_request_method [OF length_pre_char] by simp
  show ?thesis
    using view_request_url [OF m, of now]
    by (simp add: view_request_def request_of_def request_packet_def packet_zero_def Let_def m flow_def
        payload_size_view STATUS_LEN_def numeral_3_eq_3)
qed

lemma request_of_ok: "request_ok (flow v) (request_of now f v m)"
  using of_int_method_range [of m] by (simp add: request_ok_def request_of_def length_url_spec)

text \<open>The program's view of the payload against the specification's.\<close>

lemma pre_char_request:
  "is_http_request (fv_pre_char (view_frame load f)) \<noteq> 0 \<longleftrightarrow> method_of (fv_pre_char (view_frame load f)) \<noteq> None"
  using is_http_request_zero [OF length_pre_char] method_of_None by auto

lemma pre_char_response:
  "is_http_response (fv_pre_char (view_frame load f)) \<noteq> 0 \<longleftrightarrow> starts_with ''HTTP'' (fv_pre_char (view_frame load f))"
  by (rule is_http_response_iff [OF length_pre_char])

end

section \<open>Every run of the filter is a step of the tracker\<close>

text \<open>A trace of frames with the times at which the filter sees them.\<close>

fun run_filter :: "('f, 'm, 'r) http_env \<Rightarrow> (u64 \<times> frame) list \<Rightarrow> ('f, 'm, 'r) http_state
    \<Rightarrow> ('f, 'm, 'r) http_state" where
  "run_filter E [] s = s"
| "run_filter E ((now, f) # fs) s = run_filter E fs (snd (socket_filter_http E now f s))"

definition events :: "skb_load \<Rightarrow> (u32 \<Rightarrow> bool) \<Rightarrow> (u64 \<times> frame) list \<Rightarrow> http_event list" where
  "events load listed fs = map (\<lambda>(now, f). classify load listed now f) fs"

lemma pending_ok_upd: "pending_ok m \<Longrightarrow> request_ok k q \<Longrightarrow> pending_ok (m(k \<mapsto> q))"
  by (auto simp: pending_ok_def)

lemma pending_ok_del: "pending_ok m \<Longrightarrow> pending_ok (m(k := None))"
  by (auto simp: pending_ok_def)

context http_kernel
begin

abbreviation absS :: "('f, 'm, 'r) http_state \<Rightarrow> tracker" where
  "absS s \<equiv> abs_state E recs s"

abbreviation cls :: "('f, 'm, 'r) http_state \<Rightarrow> u64 \<Rightarrow> frame \<Rightarrow> http_event" where
  "cls s now f \<equiv> classify (skb_load_bytes E) (listed_in E (filter_ip s)) now f"

lemma filter_ip_unchanged: "filter_ip (snd (socket_filter_http E now f s)) = filter_ip s"
  by (simp add: socket_filter_http_view Let_def split: option.splits)

lemmas filter_unfold = classify_def socket_filter_http_view Let_def pre_char_request pre_char_response key_flow

lemma filter_ignore:
  "cls s now f = Ignore \<Longrightarrow> socket_filter_http E now f s = (-1, s)"
  by (auto simp: filter_unfold split: if_splits option.splits)

lemma filter_request:
  "cls s now f = Req k q \<Longrightarrow>
   socket_filter_http E now f s = (0, s\<lparr>request_map := snd (req_update E (request_map s) k q)\<rparr>)
   \<and> request_ok k q"
  by (auto simp: filter_unfold method_of_Some view_request_of request_of_ok split: if_splits option.splits)

lemma filter_response_unmatched:
  "cls s now f = Rsp k t n st \<Longrightarrow> req_lookup E (request_map s) k = None \<Longrightarrow>
   socket_filter_http E now f s = (-1, s)"
  by (auto simp: filter_unfold split: if_splits option.splits)

lemma filter_response_matched:
  assumes "cls s now f = Rsp k t n st" and "req_lookup E (request_map s) k = Some q"
    and "request_ok k q"
  shows "socket_filter_http E now f s =
    (0, s\<lparr>request_map := snd (req_delete E (req_store E (request_map s) k (complete_req t n st q)) k),
          packets := snd (ringbuf_output E (packets s) (packet_bytes (complete_req t n st q)))\<rparr>)"
  using assms
  by (auto simp: filter_unfold request_ok_def fill_response_complete payload_size_view
      split: if_splits option.splits)

lemma abs_request:
  "absS (s\<lparr>request_map := snd (req_update E (request_map s) k q)\<rparr>) =
    (if fst (req_update E (request_map s) k q) = 0
     then (absS s)\<lparr>pending := (pending (absS s))(k \<mapsto> q)\<rparr> else absS s)"
  by (simp add: abs_state_def update_cases)

lemma abs_response:
  assumes "req_lookup E (request_map s) k = Some q"
  shows "absS (s\<lparr>request_map := snd (req_delete E (req_store E (request_map s) k q') k),
      packets := snd (ringbuf_output E (packets s) d)\<rparr>) =
    (absS s)\<lparr>pending := (pending (absS s))(k := None),
       emitted := emitted (absS s) @ (if fst (ringbuf_output E (packets s) d) = 0 then [d] else [])\<rparr>"
  using assms by (simp add: abs_state_def store_delete emit_cases)

theorem filter_simulates:
  assumes "pending_ok (pending (absS s))"
  shows "track (cls s now f) (absS s) (fst (socket_filter_http E now f s))
           (absS (snd (socket_filter_http E now f s)))
    \<and> pending_ok (pending (absS (snd (socket_filter_http E now f s))))"
proof (cases "cls s now f")
  case Ignore
  with assms show ?thesis by (simp add: filter_ignore track.ignored)
next
  case (Req k q)
  note fr = filter_request [OF Req]
  with assms show ?thesis
    using track.request_kept [of k q "absS s"] track.request_lost [of k q "absS s"]
    by (auto simp: Req abs_request pending_ok_upd)
next
  case (Rsp k t n st)
  show ?thesis
  proof (cases "req_lookup E (request_map s) k")
    case None
    with Rsp assms show ?thesis
      by (auto simp: filter_response_unmatched abs_state_def intro!: track.unmatched)
  next
    case (Some q)
    with assms have ok: "request_ok k q" by (simp add: pending_ok_def abs_state_def)
    from Some have pend: "pending (absS s) k = Some q" by (simp add: abs_state_def)
    let ?d = "packet_bytes (complete_req t n st q)"
    show ?thesis
      using assms track.matched [of "absS s" k q t n st, OF pend]
        track.matched_dropped [of "absS s" k q t n st, OF pend]
      unfolding filter_response_matched [OF Rsp Some ok] fst_conv snd_conv abs_response [OF Some] Rsp
      by (cases "fst (ringbuf_output E (packets s) ?d) = 0") (simp_all add: pending_ok_del)
  qed
qed

end

end
