(* ===== verification/Http_Traces.thy ===== *)
theory Http_Traces
  imports Http_Spec
begin

text \<open>
  Whole traces of frames: the filter's run is a run of the tracker, every emitted record answers a
  request seen before on the same connection, no request is reported twice, and a response that
  follows its request is reported, whatever other connections do in between.
\<close>

section \<open>Runs\<close>

lemma run_filter_append: "run_filter E (fs @ gs) s = run_filter E gs (run_filter E fs s)"
  by (induction fs arbitrary: s) auto

fun event_key :: "http_event \<Rightarrow> conn_key option" where
  "event_key Ignore = None"
| "event_key (Req k q) = Some k"
| "event_key (Rsp k now n st) = Some k"

definition is_req :: "http_event \<Rightarrow> bool" where
  "is_req e \<longleftrightarrow> (\<exists>k q. e = Req k q)"

definition tracker_empty :: tracker where
  "tracker_empty = \<lparr>pending = Map.empty, emitted = []\<rparr>"

lemma track_other_key:
  "track e t r t' \<Longrightarrow> event_key e \<noteq> Some k \<Longrightarrow> pending t' k = pending t k"
  by (cases rule: track.cases) auto

lemma classify_RspD:
  "classify load listed t f = Rsp k t' n st \<Longrightarrow> st = bslice 9 3 (fv_pre_char (view_frame load f))"
  by (auto simp: classify_def Let_def split: if_splits option.splits)

context http_kernel
begin

lemma run_filter_simulates:
  assumes "pending_ok (pending (absS s))"
  shows "tracks (events (skb_load_bytes E) (listed_in E (filter_ip s)) fs) (absS s)
      (absS (run_filter E fs s))
    \<and> pending_ok (pending (absS (run_filter E fs s)))
    \<and> filter_ip (run_filter E fs s) = filter_ip s"
proof (induction fs rule: rev_induct)
  case Nil
  with assms show ?case by (simp add: events_def tracks_Nil)
next
  case (snoc x fs)
  obtain now f where x: "x = (now, f)" by (cases x)
  let ?s = "run_filter E fs s"
  have "track (cls ?s now f) (absS ?s) (fst (socket_filter_http E now f ?s))
      (absS (snd (socket_filter_http E now f ?s)))"
    and "pending_ok (pending (absS (snd (socket_filter_http E now f ?s))))"
    using filter_simulates [of ?s now f] snoc by auto
  with snoc show ?case
    by (auto simp: x events_def run_filter_append filter_ip_unchanged intro: tracks_snoc)
qed

text \<open>Frames of other connections do not touch a pending request.\<close>

lemma run_filter_other_keys:
  assumes "pending_ok (pending (absS s))"
    and "\<forall>e \<in> set (events (skb_load_bytes E) (listed_in E (filter_ip s)) fs). event_key e \<noteq> Some k"
  shows "req_lookup E (request_map (run_filter E fs s)) k = req_lookup E (request_map s) k"
  using assms
proof (induction fs arbitrary: s)
  case Nil
  then show ?case by simp
next
  case (Cons x fs)
  obtain now f where x: "x = (now, f)" by (cases x)
  let ?s = "snd (socket_filter_http E now f s)"
  have sim: "track (cls s now f) (absS s) (fst (socket_filter_http E now f s)) (absS ?s)"
    and ok: "pending_ok (pending (absS ?s))"
    using filter_simulates [OF Cons.prems(1), of now f] by auto
  have "event_key (cls s now f) \<noteq> Some k"
    using Cons.prems(2) by (simp add: x events_def)
  with track_other_key [OF sim] have "req_lookup E (request_map ?s) k = req_lookup E (request_map s) k"
    by (simp add: abs_state_def)
  with Cons.IH [OF ok] Cons.prems(2) show ?case
    by (simp add: x events_def filter_ip_unchanged)
qed

lemma request_response_match:
  assumes ok: "pending_ok (pending (absS s))"
    and req: "cls s t1 f1 = Req k q"
    and room: "fst (req_update E (request_map s) k q) = 0"
    and others: "\<forall>e \<in> set (events (skb_load_bytes E) (listed_in E (filter_ip s)) fs). event_key e \<noteq> Some k"
    and rsp: "cls s t2 f2 = Rsp k t2 n st"
    and s': "s' = run_filter E ((t1, f1) # fs) s"
    and space: "fst (ringbuf_output E (packets s') (packet_bytes (complete_req t2 n st q))) = 0"
  shows "socket_filter_http E t2 f2 s' =
      (0, run_filter E ((t1, f1) # fs @ [(t2, f2)]) s)
    \<and> recs (packets (run_filter E ((t1, f1) # fs @ [(t2, f2)]) s)) =
        recs (packets s') @ [packet_bytes (complete_req t2 n st q)]
    \<and> req_lookup E (request_map (run_filter E ((t1, f1) # fs @ [(t2, f2)]) s)) k = None"
proof -
  let ?s1 = "snd (socket_filter_http E t1 f1 s)"
  have ok1: "pending_ok (pending (absS ?s1))" using filter_simulates [OF ok, of t1 f1] by simp
  have flt: "filter_ip s' = filter_ip s"
    using run_filter_simulates [OF ok, of "(t1, f1) # fs"] s' by simp
  have "req_lookup E (request_map ?s1) k = Some q"
    using filter_request [OF req] room by (simp add: update_ok)
  then have look: "req_lookup E (request_map s') k = Some q"
    using run_filter_other_keys [OF ok1, of fs k] others s' by (simp add: filter_ip_unchanged)
  have step: "socket_filter_http E t2 f2 s' =
    (0, s'\<lparr>request_map := snd (req_delete E (req_store E (request_map s') k (complete_req t2 n st q)) k),
           packets := snd (ringbuf_output E (packets s') (packet_bytes (complete_req t2 n st q)))\<rparr>)"
    using filter_response_matched [of s' t2 f2 k t2 n st q] rsp flt look filter_request [OF req]
    by simp
  have "run_filter E ((t1, f1) # fs @ [(t2, f2)]) s = snd (socket_filter_http E t2 f2 s')"
    by (simp add: s' run_filter_append)
  with step space look show ?thesis
    by (simp add: emit_ok store_delete)
qed

end

section \<open>Provenance and counting on the tracker\<close>

definition answered :: "http_event list \<Rightarrow> byte list \<Rightarrow> bool" where
  "answered es d \<longleftrightarrow> (\<exists>es1 k q es2 now n st es3.
     es = es1 @ Req k q # es2 @ Rsp k now n st # es3 \<and>
     (\<forall>now' n' st'. Rsp k now' n' st' \<notin> set es2) \<and>
     d = packet_bytes (complete_req now n st q))"

definition waiting :: "http_event list \<Rightarrow> conn_key \<Rightarrow> packet \<Rightarrow> bool" where
  "waiting es k q \<longleftrightarrow> (\<exists>es1 es2. es = es1 @ Req k q # es2 \<and>
     (\<forall>now n st. Rsp k now n st \<notin> set es2))"

lemma answered_snoc: "answered es d \<Longrightarrow> answered (es @ [e]) d"
  unfolding answered_def by (metis append.assoc append_Cons)

lemma waiting_snoc:
  "waiting es k q \<Longrightarrow> (\<And>now n st. e \<noteq> Rsp k now n st) \<Longrightarrow> waiting (es @ [e]) k q"
proof -
  assume "waiting es k q" and e: "\<And>now n st. e \<noteq> Rsp k now n st"
  then obtain es1 es2 where "es = es1 @ Req k q # es2" "\<forall>now n st. Rsp k now n st \<notin> set es2"
    unfolding waiting_def by blast
  with e have "es @ [e] = es1 @ Req k q # (es2 @ [e])" "\<forall>now n st. Rsp k now n st \<notin> set (es2 @ [e])"
    by (auto dest: sym)
  then show ?thesis unfolding waiting_def by blast
qed

lemma waiting_new: "waiting (es @ [Req k q]) k q"
  unfolding waiting_def by (intro exI [of _ es] exI [of _ "[]"]) simp

lemma waiting_answered:
  "waiting es k q \<Longrightarrow> answered (es @ [Rsp k now n st]) (packet_bytes (complete_req now n st q))"
  unfolding waiting_def answered_def by (metis append.assoc append_Cons append_Nil)

definition trace_inv :: "http_event list \<Rightarrow> tracker \<Rightarrow> bool" where
  "trace_inv es t \<longleftrightarrow>
     (\<forall>d \<in> set (emitted t). answered es d) \<and>
     (\<forall>k q. pending t k = Some q \<longrightarrow> waiting es k q) \<and>
     finite (dom (pending t)) \<and>
     length (emitted t) + card (dom (pending t)) \<le> length (filter is_req es)"

lemma card_dom_upd:
  "finite (dom m) \<Longrightarrow> card (dom (m(k \<mapsto> v))) \<le> Suc (card (dom m))"
  by (simp add: card_insert_le_m1 card_insert_if)

lemma card_dom_del:
  "finite (dom m) \<Longrightarrow> m k = Some v \<Longrightarrow> Suc (card (dom (m(k := None)))) = card (dom m)"
  by (metis card_Suc_Diff1 domI dom_fun_upd)

lemma track_trace_inv:
  assumes "track e t r t'" and "trace_inv es t"
  shows "trace_inv (es @ [e]) t'"
  using assms
proof (cases rule: track.cases)
  case ignored
  with assms(2) show ?thesis
    by (auto simp: trace_inv_def is_req_def answered_snoc intro: waiting_snoc)
next
  case (request_kept k q)
  with assms(2) card_dom_upd [of "pending t" k q] show ?thesis
    by (auto simp: trace_inv_def is_req_def answered_snoc waiting_new intro: waiting_snoc)
next
  case (request_lost k q)
  with assms(2) show ?thesis
    by (auto simp: trace_inv_def is_req_def answered_snoc intro: waiting_snoc)
next
  case (unmatched k now n st)
  with assms(2) show ?thesis
    by (auto simp: trace_inv_def is_req_def answered_snoc intro!: waiting_snoc)
next
  case (matched k q now n st)
  with assms(2) card_dom_del [of "pending t" k q] show ?thesis
    by (auto simp: trace_inv_def is_req_def answered_snoc waiting_answered intro!: waiting_snoc)
next
  case (matched_dropped k q now n st)
  with assms(2) card_dom_del [of "pending t" k q] show ?thesis
    by (auto simp: trace_inv_def is_req_def answered_snoc intro!: waiting_snoc)
qed

lemma trace_inv_empty: "trace_inv [] tracker_empty"
  by (simp add: trace_inv_def tracker_empty_def)

lemma tracks_trace_inv: "tracks es t t' \<Longrightarrow> t = tracker_empty \<Longrightarrow> trace_inv es t'"
  by (induction rule: tracks.induct) (auto simp: trace_inv_empty track_trace_inv)

context http_kernel
begin

text \<open>The forms of a trace's requests and responses.\<close>

lemma event_forms:
  fixes s :: "('f, 'm, 'r) http_state"
  assumes "e \<in> set (events (skb_load_bytes E) (listed_in E (filter_ip s)) fs)"
  shows "e = Req k q \<Longrightarrow> request_ok k q" and "e = Rsp k now n st \<Longrightarrow> length st = 3"
proof -
  obtain t f where e: "e = cls s t f" using assms by (auto simp: events_def)
  then show "request_ok k q" if "e = Req k q" using that filter_request by metis
  show "length st = 3" if "e = Rsp k now n st"
    using e that classify_RspD [of "skb_load_bytes E" _ t f k now n st] length_pre_char [of f] by simp
qed

lemma runs_track:
  "absS s = tracker_empty \<Longrightarrow>
   trace_inv (events (skb_load_bytes E) (listed_in E (filter_ip s)) fs) (absS (run_filter E fs s))"
  using run_filter_simulates [of s fs] tracks_trace_inv
  by (simp add: pending_ok_def tracker_empty_def)

text \<open>A record of a run: a request, completed by the first later response of its connection.\<close>

lemma run_record_form:
  assumes "absS s = tracker_empty" and "raw \<in> set (recs (packets (run_filter E fs s)))"
  shows "\<exists>es1 k q es2 now n st es3.
    events (skb_load_bytes E) (listed_in E (filter_ip s)) fs = es1 @ Req k q # es2 @ Rsp k now n st # es3 \<and>
    (\<forall>now' n' st'. Rsp k now' n' st' \<notin> set es2) \<and> raw = packet_bytes (complete_req now n st q) \<and>
    request_ok k q \<and> length st = 3"
proof -
  let ?es = "events (skb_load_bytes E) (listed_in E (filter_ip s)) fs"
  have "answered ?es raw" using runs_track [OF assms(1), of fs] assms(2) by (auto simp: trace_inv_def abs_state_def)
  then obtain es1 k q es2 now n st es3 where es: "?es = es1 @ Req k q # es2 @ Rsp k now n st # es3"
    "\<forall>now' n' st'. Rsp k now' n' st' \<notin> set es2" "raw = packet_bytes (complete_req now n st q)"
    unfolding answered_def by blast
  then have "Req k q \<in> set ?es" "Rsp k now n st \<in> set ?es" by simp_all
  then have "request_ok k q" "length st = 3" using event_forms by blast+
  with es show ?thesis by blast
qed

end

section \<open>The filter on the reference kernel\<close>

definition ref_http_env ::
  "((u32, u32) ref_map, (conn_key, packet) ref_map, ref_ringbuf) http_env" where
  "ref_http_env = \<lparr>skb_load_bytes = ref_load, filter_lookup = ref_lookup, req_lookup = ref_lookup,
     req_update = ref_update, req_store = ref_store, req_delete = ref_delete,
     ringbuf_output = ref_output\<rparr>"

interpretation ref_http: http_kernel ref_http_env rb_records
  unfolding http_kernel_def ref_http_env_def
  by (simp add: ref_skb.skb_reader_axioms ref_hash.bpf_hash_map_axioms ref_ring.bpf_ringbuf_axioms)

end
