(* ===== verification/Http_Samples.thy ===== *)
theory Http_Samples
  imports Http_Traces
begin

text \<open>
  Concrete inputs for the socket filter: the empty maps the loader creates, TCP segments built byte by
  byte (a request, its response, a request of another connection) and their classification, evaluated
  on the reference kernel.  The witnesses of Http_Properties use them.
\<close>

text \<open>The state the loader creates: empty maps of the declared sizes.\<close>

definition http_init ::
  "((u32, u32) ref_map, (conn_key, packet) ref_map, ref_ringbuf) http_state" where
  "http_init = \<lparr>filter_ip = \<lparr>max_entries = MAX_MAP_FILTER_IP, entries = []\<rparr>,
     request_map = \<lparr>max_entries = MAX_MAP_CONN, entries = []\<rparr>,
     packets = \<lparr>rb_size = 2 ^ 24, rb_records = []\<rparr>\<rparr>"

lemma abs_http_init: "abs_state ref_http_env rb_records http_init = tracker_empty"
  by (simp add: abs_state_def ref_http_env_def http_init_def tracker_empty_def ref_lookup_def fun_eq_iff)

lemma pending_ok_empty: "pending_ok (pending tracker_empty)"
  by (simp add: pending_ok_def tracker_empty_def)

text \<open>A TCP segment without options from one endpoint to another.\<close>

definition tcp_frame :: "byte list \<Rightarrow> byte list \<Rightarrow> byte list \<Rightarrow> byte list \<Rightarrow> byte list \<Rightarrow> frame" where
  "tcp_frame src sport dst dport payload =
     replicate 12 0 @ [8, 0] @
     [0x45, 0, 0, 40 + of_nat (length payload), 0, 0, 0x40, 0, 64, 6, 0, 0] @ src @ dst @
     sport @ dport @ replicate 8 0 @ [0x50, 0x18, 1, 0, 0, 0, 0, 0] @ payload"

definition sample_request :: frame where
  "sample_request = tcp_frame [10, 244, 0, 5] [0x9c, 0x40] [10, 244, 0, 7] [0, 80]
     (ascii ''GET /api/v1/users?id=7 HTTP/1.1'')"

definition sample_response :: frame where
  "sample_response = tcp_frame [10, 244, 0, 7] [0, 80] [10, 244, 0, 5] [0x9c, 0x40]
     (ascii ''HTTP/1.1 200 OK'')"

text \<open>A request of another client port, and what the samples are classified as.\<close>

definition sample_other :: frame where
  "sample_other = tcp_frame [10, 244, 0, 5] [0x9c, 0x41] [10, 244, 0, 7] [0, 80]
     (ascii ''POST /login HTTP/1.1'')"

definition sample_key :: conn_key where
  "sample_key = \<lparr>k_src_ip = 0x0500f40a, k_dst_ip = 0x0700f40a, k_src_port = 0x409c, k_dst_port = 0x5000\<rparr>"

definition sample_packet :: packet where
  "sample_packet = request_of 1000 sample_request (view_frame ref_load sample_request) M_GET"

abbreviation no_ips :: "u32 \<Rightarrow> bool" where
  "no_ips \<equiv> listed_in ref_http_env (filter_ip http_init)"

lemma no_ips_listed: "\<not> no_ips ip"
  by (simp add: listed_in_def ref_http_env_def http_init_def ref_lookup_def)

lemma sample_views:
  "view_tcp (view_frame ref_load sample_request)"
  "method_of (fv_pre_char (view_frame ref_load sample_request)) = Some M_GET"
  "flow (view_frame ref_load sample_request) = sample_key"
  "view_tcp (view_frame ref_load sample_response)"
  "method_of (fv_pre_char (view_frame ref_load sample_response)) = None"
  "starts_with ''HTTP'' (fv_pre_char (view_frame ref_load sample_response))"
  "opposite (flow (view_frame ref_load sample_response)) = sample_key"
  "view_payload (view_frame ref_load sample_response) = 15"
  "bslice 9 3 (fv_pre_char (view_frame ref_load sample_response)) = ascii ''200''"
  "view_tcp (view_frame ref_load sample_other)"
  "method_of (fv_pre_char (view_frame ref_load sample_other)) = Some M_POST"
  "k_src_port (flow (view_frame ref_load sample_other)) = 0x419c"
  by code_simp+

lemma sample_is_request:
  "is_http_request (fv_pre_char (view_frame ref_load sample_request)) \<noteq> 0"
  "is_http_request (fv_pre_char (view_frame ref_load sample_other)) \<noteq> 0"
  using ref_skb.pre_char_request sample_views(2,11) by simp_all

lemma sample_events:
  "classify ref_load no_ips 1000 sample_request = Req sample_key sample_packet"
  "classify ref_load no_ips 5000 sample_response = Rsp sample_key 5000 15 (ascii ''200'')"
  "event_key (classify ref_load no_ips 2000 sample_other) \<noteq> Some sample_key"
  using sample_views
  by (auto simp: classify_def Let_def view_filtered_def no_ips_listed sample_packet_def)
    (simp add: sample_key_def)

lemma length_packet_bytes:
  "length (p_status q) = 3 \<Longrightarrow> length (p_url q) = 256 \<Longrightarrow> length (packet_bytes q) = 296"
  by (simp add: packet_bytes_def)

lemma ref_http_load: "skb_load_bytes ref_http_env = ref_load"
  by (simp add: ref_http_env_def)

lemma http_init_records: "rb_records (packets http_init) = []"
  by (simp add: http_init_def)

lemma sample_room: "fst (req_update ref_http_env (request_map http_init) k q) = 0"
  by (simp add: ref_http_env_def http_init_def ref_update_def MAX_MAP_CONN_def)

lemma request_keeps_packets:
  assumes "is_http_request (fv_pre_char (view_frame (skb_load_bytes E) f)) \<noteq> 0"
  shows "packets (snd (socket_filter_http E now f s)) = packets s"
  using assms by (simp add: socket_filter_http_view Let_def)

lemma sample_run_packets:
  "packets (run_filter ref_http_env [(1000, sample_request), (2000, sample_other)] http_init) =
   packets http_init"
  using sample_is_request by (simp add: request_keeps_packets ref_http_load)

lemma sample_packet_ok: "request_ok sample_key sample_packet"
  using ref_skb.request_of_ok [of "view_frame ref_load sample_request" 1000 sample_request M_GET] sample_views(3)
  by (simp add: sample_packet_def)

lemma sample_record_fits:
  "fst (ringbuf_output ref_http_env (packets http_init)
     (packet_bytes (complete_req 5000 15 (ascii ''200'') sample_packet))) = 0"
  using sample_packet_ok length_packet_bytes [of "complete_req 5000 15 (ascii ''200'') sample_packet"]
  by (simp add: complete_req_def request_ok_def ref_http_env_def http_init_def ref_output_def)

lemma sample_run_records:
  "rb_records (packets (run_filter ref_http_env
     [(1000, sample_request), (2000, sample_other), (5000, sample_response)] http_init)) =
   [packet_bytes (complete_req 5000 15 (ascii ''200'') sample_packet)]"
proof -
  let ?s' = "run_filter ref_http_env [(1000, sample_request), (2000, sample_other)] http_init"
  have p: "packets ?s' = packets http_init" by (rule sample_run_packets)
  have "fst (ringbuf_output ref_http_env (packets ?s')
      (packet_bytes (complete_req 5000 15 (ascii ''200'') sample_packet))) = 0"
    unfolding p by (rule sample_record_fits)
  then show ?thesis
    using ref_http.request_response_match [of http_init 1000 sample_request sample_key sample_packet
        "[(2000, sample_other)]" 5000 sample_response 15 "ascii ''200''" ?s'] sample_events p
    by (simp add: abs_http_init pending_ok_empty ref_http_load events_def sample_room http_init_records)
qed

text \<open>An IP header of total length 100.\<close>

definition iphdr_sample :: iphdr where
  "iphdr_sample = iphdr_of ([0x45, 0, 0, 100] @ replicate 16 0)"

end
