(* ===== verification/Http_Properties.thy ===== *)
theory Http_Properties
  imports Http_Samples
begin

text \<open>
  The properties of the HTTP socket filter, stated over its definitions and the kernel interface, each
  with a witness on the reference kernel.
\<close>

section \<open>Tracking connections\<close>

text \<open>C2: For every frame, the filter does what the abstract tracker allows for the event the frame is
  (ignored, request, response): return value, pending requests and emitted records agree, and the
  pending requests stay well-formed.\<close>

theorem http_filter_refines:
  assumes "http_kernel E recs" and "pending_ok (pending (abs_state E recs s))"
  shows "track (classify (skb_load_bytes E) (listed_in E (filter_ip s)) now f) (abs_state E recs s)
      (fst (socket_filter_http E now f s)) (abs_state E recs (snd (socket_filter_http E now f s)))
    \<and> pending_ok (pending (abs_state E recs (snd (socket_filter_http E now f s))))"
  by (rule http_kernel.filter_simulates [OF assms])

theorem http_filter_refines_witness:
  "http_kernel ref_http_env rb_records \<and>
   pending_ok (pending (abs_state ref_http_env rb_records http_init)) \<and>
   track (Req sample_key sample_packet) tracker_empty
     (fst (socket_filter_http ref_http_env 1000 sample_request http_init))
     (abs_state ref_http_env rb_records
       (snd (socket_filter_http ref_http_env 1000 sample_request http_init)))"
  using http_filter_refines [OF ref_http.http_kernel_axioms, of http_init 1000 sample_request]
    ref_http.http_kernel_axioms sample_events(1)
  by (simp add: abs_http_init pending_ok_empty ref_http_load)

text \<open>C5: A response that follows its request is reported exactly once: after a request that found
  room in the map, any frames of other connections, and the response of the connection, the ring buffer
  ends with the request completed by the response, and the connection has no pending request.\<close>

theorem request_response_reported:
  assumes "http_kernel E recs"
    and "pending_ok (pending (abs_state E recs s))"
    and "classify (skb_load_bytes E) (listed_in E (filter_ip s)) t1 f1 = Req k q"
    and "fst (req_update E (request_map s) k q) = 0"
    and "\<forall>e \<in> set (events (skb_load_bytes E) (listed_in E (filter_ip s)) fs). event_key e \<noteq> Some k"
    and "classify (skb_load_bytes E) (listed_in E (filter_ip s)) t2 f2 = Rsp k t2 n st"
    and "s' = run_filter E ((t1, f1) # fs) s"
    and "fst (ringbuf_output E (packets s') (packet_bytes (complete_req t2 n st q))) = 0"
  shows "socket_filter_http E t2 f2 s' = (0, run_filter E ((t1, f1) # fs @ [(t2, f2)]) s)
    \<and> recs (packets (run_filter E ((t1, f1) # fs @ [(t2, f2)]) s)) =
        recs (packets s') @ [packet_bytes (complete_req t2 n st q)]
    \<and> req_lookup E (request_map (run_filter E ((t1, f1) # fs @ [(t2, f2)]) s)) k = None"
  using http_kernel.request_response_match [OF assms(1)] assms(2-8) by blast

theorem request_response_reported_witness:
  "rb_records (packets (run_filter ref_http_env
     [(1000, sample_request), (2000, sample_other), (5000, sample_response)] http_init)) =
   [packet_bytes (complete_req 5000 15 (ascii ''200'') sample_packet)]"
proof -
  let ?s' = "run_filter ref_http_env [(1000, sample_request), (2000, sample_other)] http_init"
  have p: "packets ?s' = packets http_init" by (rule sample_run_packets)
  have "fst (ringbuf_output ref_http_env (packets ?s')
      (packet_bytes (complete_req 5000 15 (ascii ''200'') sample_packet))) = 0"
    unfolding p by (rule sample_record_fits)
  then show ?thesis
    using request_response_reported [OF ref_http.http_kernel_axioms, of http_init 1000 sample_request
        sample_key sample_packet "[(2000, sample_other)]" 5000 sample_response 15 "ascii ''200''" ?s']
      sample_events p
    by (simp add: abs_http_init pending_ok_empty ref_http_load events_def sample_room http_init_records)
qed

text \<open>C3: Every record in the ring buffer answers a request: the trace holds a request of some
  connection and, after it, the first response of the same connection, and the record is the request's
  packet completed with that response's time, size and status.\<close>

theorem records_answer_requests:
  assumes "http_kernel E recs" and "abs_state E recs s = tracker_empty"
    and "d \<in> set (recs (packets (run_filter E fs s)))"
  shows "answered (events (skb_load_bytes E) (listed_in E (filter_ip s)) fs) d"
  using http_kernel.runs_track [OF assms(1,2), of fs] assms(3) by (auto simp: trace_inv_def abs_state_def)

theorem records_answer_requests_witness:
  "answered (events ref_load no_ips
      [(1000, sample_request), (2000, sample_other), (5000, sample_response)])
     (packet_bytes (complete_req 5000 15 (ascii ''200'') sample_packet))"
  using records_answer_requests [OF ref_http.http_kernel_axioms abs_http_init, of
      "packet_bytes (complete_req 5000 15 (ascii ''200'') sample_packet)"
      "[(1000, sample_request), (2000, sample_other), (5000, sample_response)]"]
  by (simp only: sample_run_records ref_http_load list.set insert_iff simp_thms)

text \<open>C6: No request is reported twice and none is both reported and pending: records and pending
  requests together are no more than the requests of the trace.\<close>

theorem reports_bounded_by_requests:
  assumes "http_kernel E recs" and "abs_state E recs s = tracker_empty"
  shows "length (recs (packets (run_filter E fs s))) +
      card (dom (req_lookup E (request_map (run_filter E fs s))))
    \<le> length (filter is_req (events (skb_load_bytes E) (listed_in E (filter_ip s)) fs))"
  using http_kernel.runs_track [OF assms, of fs] by (simp add: trace_inv_def abs_state_def)

theorem reports_bounded_by_requests_witness:
  "length (rb_records (packets (run_filter ref_http_env [(1000, sample_request)] http_init))) +
     card (dom (req_lookup ref_http_env
       (request_map (run_filter ref_http_env [(1000, sample_request)] http_init)))) \<le> 1"
  using reports_bounded_by_requests [OF ref_http.http_kernel_axioms abs_http_init, of
      "[(1000, sample_request)]"] sample_events(1)
  by (simp add: ref_http_load events_def is_req_def)

section \<open>What a request's packet holds\<close>

text \<open>The method test recognises exactly the six method names at the start of the payload, and the
  length the URL offset is computed from is the length of the recognised name.\<close>

theorem method_recognised:
  assumes "length p = 12"
  shows "(is_http_request p = method_val m \<longleftrightarrow> starts_with (method_name m) p)
    \<and> (is_http_request p = 0 \<longleftrightarrow> (\<forall>m. \<not> starts_with (method_name m) p))
    \<and> get_http_request_method_len (of_int (method_val m)) = int (length (method_name m))"
  using is_http_request_method [OF assms] is_http_request_zero [OF assms] method_len_name by simp

theorem method_recognised_witness:
  "is_http_request (ascii ''DELETE /v1/x'') = method_val M_DELETE"
proof -
  have "length (ascii ''DELETE /v1/x'') = 12" by simp
  from method_recognised [OF this, of M_DELETE] show ?thesis
    by (simp add: starts_with_def)
qed

text \<open>C20: The URL buffer after the loader ran: the sixteen-byte chunks that fit the frame, read at
  offsets twelve bytes apart, cut at the first blank or question mark and padded with zero bytes.\<close>

theorem url_loaded:
  assumes "skb_reader load" and "unat poffset + 12 * 16 < 2 ^ 32"
  shows "load_url_to_map load f poffset (replicate MAX_URL_LEN 0) = url_spec f (unat poffset)"
  using skb_reader.load_url_to_map_spec [OF assms] by (simp add: MAX_URL_LEN_def)

theorem url_loaded_witness:
  "load_url_to_map ref_load sample_request 58 (replicate MAX_URL_LEN 0) =
   zpad 256 (ascii ''/api/v1/users'')"
proof -
  have "url_spec sample_request 58 = zpad 256 (ascii ''/api/v1/users'')" by code_simp
  then show ?thesis using url_loaded [OF ref_skb.skb_reader_axioms, of 58 sample_request] by simp
qed

text \<open>A URL of at most fifteen bytes, followed by a blank or a question mark inside the first
  sixteen bytes, is stored exactly.\<close>

theorem short_url_exact:
  assumes "skb_reader load" and "unat poffset + 12 * 16 < 2 ^ 32"
    and "drop (unat poffset) f = u @ sep # rest" and "url_sep sep" and "\<forall>b \<in> set u. \<not> url_sep b"
    and "length u < 16" and "unat poffset + 16 \<le> length f"
  shows "load_url_to_map load f poffset (replicate MAX_URL_LEN 0) = zpad 256 u"
  using url_spec_short [OF assms(3-7)] skb_reader.load_url_to_map_spec [OF assms(1,2)]
  by (simp add: MAX_URL_LEN_def)

theorem short_url_exact_witness:
  "load_url_to_map ref_load (ascii ''/health HTTP/1.1'') 0 (replicate MAX_URL_LEN 0) =
   zpad 256 (ascii ''/health'')"
  by (rule short_url_exact [OF ref_skb.skb_reader_axioms, where sep = "of_char CHR '' ''"
        and rest = "ascii ''HTTP/1.1''"])
    (simp_all add: url_sep_def)

text \<open>C21: In a longer URL, byte \<open>k\<close> of the buffer is byte \<open>k - 4 * (k div 16)\<close> of the URL: each
  chunk after the first repeats the last four bytes of the chunk before it.\<close>

theorem long_url_repeats:
  assumes "skb_reader load" and "unat poffset + 12 * 16 < 2 ^ 32"
    and "k div 16 < url_loads f (unat poffset)"
    and "\<forall>j \<le> k. \<not> url_sep (f ! (unat poffset + j - 4 * (j div 16)))"
  shows "load_url_to_map load f poffset (replicate MAX_URL_LEN 0) ! k =
    f ! (unat poffset + k - 4 * (k div 16))"
  using url_spec_nth [OF assms(3,4)] skb_reader.load_url_to_map_spec [OF assms(1,2)]
  by (simp add: MAX_URL_LEN_def)

theorem long_url_repeats_witness:
  "load_url_to_map ref_load (ascii ''/abcdefghijklmnopqrstuvwxyzABC'') 0 (replicate MAX_URL_LEN 0) ! 16 =
   of_char CHR ''l''"
proof -
  let ?f = "ascii ''/abcdefghijklmnopqrstuvwxyzABC''"
  have "list_all (\<lambda>b. \<not> url_sep b) ?f" by (simp add: url_sep_def)
  then have "\<forall>j \<le> 16. \<not> url_sep (?f ! (unat (0 :: u32) + j - 4 * (j div 16)))"
    by (auto simp: list_all_length simp del: ascii_simps)
  moreover have "16 div 16 < url_loads ?f (unat (0 :: u32))" by (simp add: url_loads_def)
  ultimately have "load_url_to_map ref_load ?f 0 (replicate MAX_URL_LEN 0) ! 16 =
      ?f ! (unat (0 :: u32) + 16 - 4 * (16 div 16))"
    by (intro long_url_repeats [OF ref_skb.skb_reader_axioms]) simp_all
  then show ?thesis by simp
qed

text \<open>The duration a record carries is the time between request and response in nanoseconds,
  modulo \<open>2 ^ 32\<close>: exact below 4.29 seconds, wrapped around above.\<close>

theorem duration_wraps:
  assumes "p_duration req = ucast t1" and "t1 \<le> t2"
  shows "unat (p_duration (fill_response t2 iph ihl thl pre req)) = (unat t2 - unat t1) mod 2 ^ 32"
  using assms by (simp add: fill_response_def unat_duration)

theorem duration_wraps_witness:
  "unat (p_duration (fill_response 5000000000 iphdr_sample 20 20 (replicate 12 0)
     (packet_zero\<lparr>p_duration := ucast (1000 :: u64)\<rparr>))) = 705031704"
  using duration_wraps [of "packet_zero\<lparr>p_duration := ucast (1000 :: u64)\<rparr>" 1000 5000000000
      iphdr_sample 20 20 "replicate 12 0"]
  by simp

text \<open>The payload size is the IP total length less both header lengths whenever the total length
  covers them.\<close>

theorem payload_size_exact:
  assumes "unat ihl + unat thl \<le> unat (bpf_ntohs False (iph_tot_len iph))"
  shows "unat (payload_size iph ihl thl) =
    unat (bpf_ntohs False (iph_tot_len iph)) - unat ihl - unat thl"
  using assms by (simp add: payload_size_def unat_ucast_sub_sub)

theorem payload_size_exact_witness:
  "unat (payload_size iphdr_sample 20 20) = 60"
proof -
  have "bpf_ntohs False (iph_tot_len iphdr_sample) = 100" by code_simp
  then show ?thesis using payload_size_exact [of 20 20 iphdr_sample] by simp
qed

section \<open>Which frames are looked at\<close>

text \<open>C22: Among the TCP segments that carry a request, exactly those are dropped whose source and
  destination address are both entries of the \<open>filter_ip\<close> map; a segment of addresses that the
  map does not list is tracked.\<close>

theorem filter_ip_gate:
  assumes "v = view_frame (skb_load_bytes E) f" and "view_tcp v"
    and "is_http_request (fv_pre_char v) \<noteq> 0"
  shows "fst (socket_filter_http E now f s) = -1 \<longleftrightarrow>
      filter_lookup E (filter_ip s) (iph_saddr (fv_iph v)) \<noteq> None \<and>
      filter_lookup E (filter_ip s) (iph_daddr (fv_iph v)) \<noteq> None"
  using assms by (simp add: socket_filter_http_view Let_def view_filtered_def listed_in_def)

theorem filter_ip_gate_witness:
  "fst (socket_filter_http ref_http_env 1000 sample_request http_init) \<noteq> -1"
  using filter_ip_gate [OF refl, of ref_http_env sample_request 1000 http_init] sample_views(1) sample_is_request(1)
    no_ips_listed [unfolded listed_in_def]
  by (simp add: ref_http_load)

text \<open>What the headers of a frame that is long enough say, byte by byte.\<close>

lemma view_bytes:
  assumes "skb_reader load" and "54 \<le> length f" and "v = view_frame load f"
  shows "flow v = \<lparr>k_src_ip = le_word (bslice 26 4 f), k_dst_ip = le_word (bslice 30 4 f),
      k_src_port = le_word (bslice 34 2 f), k_dst_port = le_word (bslice 36 2 f)\<rparr>"
    and "fv_eth_proto v = le_word (bslice 12 2 f)" and "fv_ip_proto v = f ! 23"
    and "unat (fv_poffset v) = 14 + 4 * (unat (f ! 14) mod 16) + 4 * (unat (f ! 46) div 16)"
    and "unat (fv_poffset v) + 12 \<le> length f \<Longrightarrow> fv_pre_char v = bslice (unat (fv_poffset v)) 12 f"
proof -
  note ld = skb_reader.load_in_range [OF assms(1)]
  have h: "snd (load f 14 20) = bslice 14 20 f" "snd (load f 34 20) = bslice 34 20 f"
    "snd (load f 12 2) = bslice 12 2 f" "snd (load f 23 1) = bslice 23 1 f"
    using assms(2) ld [of 14 20 f] ld [of 34 20 f] ld [of 12 2 f] ld [of 23 1 f] by simp_all
  show "flow v = \<lparr>k_src_ip = le_word (bslice 26 4 f), k_dst_ip = le_word (bslice 30 4 f),
      k_src_port = le_word (bslice 34 2 f), k_dst_port = le_word (bslice 36 2 f)\<rparr>"
    and "fv_eth_proto v = le_word (bslice 12 2 f)" and "fv_ip_proto v = f ! 23"
    using assms(2,3) h
    by (simp_all add: flow_def view_frame_def Let_def ETH_HLEN_def iphdr_of_def tcphdr_of_def bslice_bslice nth_bslice)
  show "unat (fv_poffset v) = 14 + 4 * (unat (f ! 14) mod 16) + 4 * (unat (f ! 46) div 16)"
    using assms(2,3) h by (simp add: view_poffset ETH_HLEN_def nth_bslice)
  show "fv_pre_char v = bslice (unat (fv_poffset v)) 12 f" if "unat (fv_poffset v) + 12 \<le> length f"
    using that assms(3) ld [of "fv_poffset v" 12 f] by (simp add: view_frame_def Let_def)
qed

text \<open>C24: The filter takes a connection's ports from bytes 34 to 37 of the frame whatever the IP header length
  says, although it finds the payload after a header of that length: a request is stored under the key with these
  ports, and a response looks up, and on a match deletes, the key with these ports exchanged.  In a segment with
  IP options the ports are therefore option bytes.  (The TCP header length comes from byte 46 in the same way.)\<close>

theorem ports_at_fixed_offset:
  assumes "skb_reader (skb_load_bytes E)" and "54 \<le> length f" and "bslice 12 2 f = [8, 0]" and "f ! 23 = 6"
    and "k = \<lparr>k_src_ip = le_word (bslice 26 4 f), k_dst_ip = le_word (bslice 30 4 f),
      k_src_port = le_word (bslice 34 2 f), k_dst_port = le_word (bslice 36 2 f)\<rparr>"
    and "off = 14 + 4 * (unat (f ! 14) mod 16) + 4 * (unat (f ! 46) div 16)" and "off + 12 \<le> length f"
    and "filter_lookup E (filter_ip s) (k_src_ip k) = None \<or> filter_lookup E (filter_ip s) (k_dst_ip k) = None"
  shows "(is_http_request (bslice off 12 f) \<noteq> 0 \<longrightarrow>
      (\<exists>p. socket_filter_http E now f s = (0, s\<lparr>request_map := snd (req_update E (request_map s) k p)\<rparr>) \<and>
         p_src_port p = k_src_port k \<and> p_dst_port p = k_dst_port k)) \<and>
    (is_http_request (bslice off 12 f) = 0 \<longrightarrow> is_http_response (bslice off 12 f) \<noteq> 0 \<longrightarrow>
      (case req_lookup E (request_map s) (opposite k) of
         None \<Rightarrow> socket_filter_http E now f s = (-1, s)
       | Some req \<Rightarrow> fst (socket_filter_http E now f s) = 0 \<and>
           (\<exists>req'. request_map (snd (socket_filter_http E now f s)) =
              snd (req_delete E (req_store E (request_map s) (opposite k) req') (opposite k)))))"
proof -
  let ?v = "view_frame (skb_load_bytes E) f"
  note v = view_bytes [OF assms(1,2) refl]
  have k: "flow ?v = k" using v(1) assms(5) by simp
  have "bpf_ntohs False (le_word [8, 0]) = ETH_P_IP" by code_simp
  then have t: "view_tcp ?v" using v(2,3) assms(3,4) by (simp add: view_tcp_def IPPROTO_TCP_def)
  have pre: "fv_pre_char ?v = bslice off 12 f" using v(4,5) assms(6,7) by simp
  have nf: "\<not> view_filtered (listed_in E (filter_ip s)) ?v"
    using assms(8) k by (auto simp: view_filtered_def listed_in_def flow_def)
  have ports: "p_src_port (view_request (skb_load_bytes E) now f ?v) = k_src_port k \<and>
      p_dst_port (view_request (skb_load_bytes E) now f ?v) = k_dst_port k"
    using k by (auto simp: view_request_def request_packet_def flow_def)
  show ?thesis
    using t nf pre ports by (auto simp: socket_filter_http_view Let_def key_flow k split: option.splits)
qed

text \<open>A request with four bytes of IP options, \<open>AA BB CC DD\<close>, which are taken for the ports; byte 46, here
  the first of the acknowledgement number, is taken for the TCP header length.\<close>

definition options_request :: frame where
  "options_request = (take 14 sample_request @ [0x46] @ bslice 15 19 sample_request @ [0xaa, 0xbb, 0xcc, 0xdd] @
     drop 34 sample_request)[46 := 0x50]"

theorem ports_at_fixed_offset_witness:
  "\<exists>p. socket_filter_http ref_http_env 1000 options_request http_init =
     (0, http_init\<lparr>request_map := snd (req_update ref_http_env (request_map http_init)
        \<lparr>k_src_ip = 0x0500f40a, k_dst_ip = 0x0700f40a, k_src_port = 0xbbaa, k_dst_port = 0xddcc\<rparr> p)\<rparr>)"
proof -
  let ?k = "\<lparr>k_src_ip = 0x0500f40a, k_dst_ip = 0x0700f40a, k_src_port = 0xbbaa, k_dst_port = 0xddcc\<rparr>"
  have a: "54 \<le> length options_request" "bslice 12 2 options_request = [8, 0]" "options_request ! 23 = 6" by code_simp+
  have k: "?k = \<lparr>k_src_ip = le_word (bslice 26 4 options_request), k_dst_ip = le_word (bslice 30 4 options_request),
      k_src_port = le_word (bslice 34 2 options_request), k_dst_port = le_word (bslice 36 2 options_request)\<rparr>" by code_simp
  have off: "(58 :: nat) = 14 + 4 * (unat (options_request ! 14) mod 16) + 4 * (unat (options_request ! 46) div 16)"
    "58 + 12 \<le> length options_request" by code_simp+
  have nf: "filter_lookup ref_http_env (filter_ip http_init) ip = None" for ip
    using no_ips_listed [of ip] by (simp add: listed_in_def)
  have "is_http_request (bslice 58 12 options_request) \<noteq> 0" by code_simp
  then show ?thesis
    using ports_at_fixed_offset [OF ref_skb.skb_reader_axioms [folded ref_http_load] a k off disjI1 [OF nf], of 1000]
    by blast
qed

end
