(* ===== verification/Http_Concurrent.thy ===== *)
theory Http_Concurrent
  imports Http_Samples
begin

text \<open>
  The socket filter on several CPUs.  The request branch is one helper call on the map; the response
  branch is a lookup that returns a pointer to the map's element, stores through that pointer, the ring
  buffer output of the element and the deletion by key, and the runs of other CPUs may come between any
  two of these.  The map is therefore an index into cells: an update puts the packet into a cell no key
  refers to, which may be a cell some CPU still holds a pointer to.  The five stores are one step: while no
  two CPUs work on one connection nobody else sees the cell between them, and a run that is possible with the
  stores together is possible with the stores one by one.

  \<open>cstep\<close> is the step relation of the CPUs.  When no two CPUs work on the same connection at the same
  time, every run refines the tracker of Http_Spec; without that condition a single request can be
  reported twice.
\<close>

section \<open>The step relation\<close>

text \<open>Where a CPU is in the response branch: after the lookup, after the stores (with the request as it
  was before them, a history variable of the proof), after the output.\<close>

datatype 'l cpu =
    Idle
  | Found conn_key 'l u64 u32 "byte list"
  | Filled conn_key 'l u64 u32 "byte list" packet
  | Sent conn_key

record 'l cstate =
  index :: "conn_key \<Rightarrow> 'l option"
  cells :: "'l \<Rightarrow> packet"
  sent :: "byte list list"
  cpus :: "nat \<Rightarrow> 'l cpu"

fun busy_key :: "'l cpu \<Rightarrow> conn_key option" where
  "busy_key Idle = None"
| "busy_key (Found k l now n st) = Some k"
| "busy_key (Filled k l now n st q) = Some k"
| "busy_key (Sent k) = Some k"

text \<open>A step of CPU \<open>i\<close>; the label is the event it completes, if it completes one.\<close>

inductive cstep :: "nat \<Rightarrow> http_event option \<Rightarrow> 'l cstate \<Rightarrow> 'l cstate \<Rightarrow> bool" where
  c_ignore: "cpus s i = Idle \<Longrightarrow> cstep i (Some Ignore) s s"
| c_update: "cpus s i = Idle \<Longrightarrow> l \<notin> ran (index s) \<Longrightarrow>
    cstep i (Some (Req k q)) s (s\<lparr>index := (index s)(k \<mapsto> l), cells := (cells s)(l := q)\<rparr>)"
| c_full: "cpus s i = Idle \<Longrightarrow> cstep i (Some (Req k q)) s s"
| c_miss: "cpus s i = Idle \<Longrightarrow> index s k = None \<Longrightarrow> cstep i (Some (Rsp k now n st)) s s"
| c_lookup: "cpus s i = Idle \<Longrightarrow> index s k = Some l \<Longrightarrow>
    cstep i None s (s\<lparr>cpus := (cpus s)(i := Found k l now n st)\<rparr>)"
| c_fill: "cpus s i = Found k l now n st \<Longrightarrow>
    cstep i None s (s\<lparr>cells := (cells s)(l := complete_req now n st (cells s l)),
      cpus := (cpus s)(i := Filled k l now n st (cells s l))\<rparr>)"
| c_output: "cpus s i = Filled k l now n st q \<Longrightarrow>
    cstep i (Some (Rsp k now n st)) s
      (s\<lparr>sent := sent s @ [packet_bytes (cells s l)], cpus := (cpus s)(i := Sent k)\<rparr>)"
| c_output_dropped: "cpus s i = Filled k l now n st q \<Longrightarrow>
    cstep i (Some (Rsp k now n st)) s (s\<lparr>cpus := (cpus s)(i := Sent k)\<rparr>)"
| c_delete: "cpus s i = Sent k \<Longrightarrow>
    cstep i None s (s\<lparr>index := (index s)(k := None), cpus := (cpus s)(i := Idle)\<rparr>)"

text \<open>No other CPU works on the connection the step starts on.\<close>

definition free_key :: "'l cstate \<Rightarrow> conn_key \<Rightarrow> bool" where
  "free_key s k \<longleftrightarrow> (\<forall>i. busy_key (cpus s i) \<noteq> Some k)"

text \<open>A step that respects the other CPUs: a request or a lookup starts only on a free connection.\<close>

definition polite :: "nat \<Rightarrow> http_event option \<Rightarrow> 'l cstate \<Rightarrow> 'l cstate \<Rightarrow> bool" where
  "polite i e s s' \<longleftrightarrow>
     (case e of Some ev \<Rightarrow> (case event_key ev of Some k \<Rightarrow> cpus s i = Idle \<longrightarrow> free_key s k | None \<Rightarrow> True)
      | None \<Rightarrow> (case busy_key (cpus s' i) of
          Some k \<Rightarrow> cpus s i = Idle \<longrightarrow> free_key s k | None \<Rightarrow> True))"

type_synonym 'l policy = "nat \<Rightarrow> http_event option \<Rightarrow> 'l cstate \<Rightarrow> 'l cstate \<Rightarrow> bool"

definition anything :: "'l policy" where
  "anything i e s s' \<longleftrightarrow> True"

text \<open>The runs whose steps all satisfy a policy, with the events they complete.\<close>

inductive crun :: "'l policy \<Rightarrow> http_event list \<Rightarrow> 'l cstate \<Rightarrow> 'l cstate \<Rightarrow> bool" for P where
  crun_refl: "crun P [] s s"
| crun_silent: "crun P es s s' \<Longrightarrow> cstep i None s' s'' \<Longrightarrow> P i None s' s'' \<Longrightarrow> crun P es s s''"
| crun_event: "crun P es s s' \<Longrightarrow> cstep i (Some e) s' s'' \<Longrightarrow> P i (Some e) s' s'' \<Longrightarrow> crun P (es @ [e]) s s''"

definition cinit :: "'l cstate" where
  "cinit = \<lparr>index = Map.empty, cells = (\<lambda>l. packet_zero), sent = [], cpus = (\<lambda>i. Idle)\<rparr>"

section \<open>Polite runs refine the tracker\<close>

text \<open>The invariant: busy connections are distinct, in the index at the cell the CPU points to, and no cell
  serves two connections.\<close>

definition cinv :: "'l cstate \<Rightarrow> bool" where
  "cinv s \<longleftrightarrow>
     (\<forall>i j k. busy_key (cpus s i) = Some k \<and> busy_key (cpus s j) = Some k \<longrightarrow> i = j) \<and>
     (\<forall>i k l now n st. cpus s i = Found k l now n st \<longrightarrow> index s k = Some l) \<and>
     (\<forall>i k l now n st q. cpus s i = Filled k l now n st q \<longrightarrow> index s k = Some l) \<and>
     (\<forall>k k' l. index s k = Some l \<and> index s k' = Some l \<longrightarrow> k = k')"

text \<open>The tracker a state stands for: a busy connection counts as pending until its record is out.\<close>

definition cabs :: "'l cstate \<Rightarrow> tracker \<Rightarrow> bool" where
  "cabs s t \<longleftrightarrow> emitted t = sent s \<and>
     (\<forall>k. free_key s k \<longrightarrow> pending t k = map_option (cells s) (index s k)) \<and>
     (\<forall>i k l now n st. cpus s i = Found k l now n st \<longrightarrow> pending t k = Some (cells s l)) \<and>
     (\<forall>i k l now n st q. cpus s i = Filled k l now n st q \<longrightarrow>
        pending t k = Some q \<and> cells s l = complete_req now n st q) \<and>
     (\<forall>i k. cpus s i = Sent k \<longrightarrow> pending t k = None)"

text \<open>Elimination and introduction rules for the two predicates.\<close>

lemma cinvD:
  assumes "cinv s"
  shows "busy_key (cpus s i) = Some k \<Longrightarrow> busy_key (cpus s j) = Some k \<Longrightarrow> i = j"
    and "cpus s i = Found k l now n st \<Longrightarrow> index s k = Some l"
    and "cpus s i = Filled k l now n st q \<Longrightarrow> index s k = Some l"
    and "index s k = Some l \<Longrightarrow> index s k' = Some l \<Longrightarrow> k = k'"
  using assms unfolding cinv_def by blast+

lemma cabsD:
  assumes "cabs s t"
  shows "emitted t = sent s" and "free_key s k \<Longrightarrow> pending t k = map_option (cells s) (index s k)"
    and "cpus s i = Found k l now n st \<Longrightarrow> pending t k = Some (cells s l)"
    and "cpus s i = Filled k l now n st q \<Longrightarrow> pending t k = Some q"
    and "cpus s i = Filled k l now n st q \<Longrightarrow> cells s l = complete_req now n st q"
    and "cpus s i = Sent k \<Longrightarrow> pending t k = None"
  using assms unfolding cabs_def by blast+

lemma free_key_upd:
  "free_key (s\<lparr>cpus := (cpus s)(i := c)\<rparr>) k \<longleftrightarrow> busy_key c \<noteq> Some k \<and> (\<forall>j. j \<noteq> i \<longrightarrow> busy_key (cpus s j) \<noteq> Some k)"
  by (auto simp: free_key_def)

lemma free_key_step:
  assumes "free_key s' k" and "cpus s' = (cpus s)(i := c)"
    and "busy_key (cpus s i) = None \<or> busy_key (cpus s i) = busy_key c"
  shows "free_key s k" and "busy_key c \<noteq> Some k"
proof -
  have all: "busy_key (((cpus s)(i := c)) j) \<noteq> Some k" for j using assms(1,2) by (simp add: free_key_def)
  then show "busy_key c \<noteq> Some k" using all [of i] by simp
  then have "busy_key (cpus s j) \<noteq> Some k" for j using assms(3) all [of j] by (cases "j = i") auto
  then show "free_key s k" by (simp add: free_key_def)
qed

lemma free_key_other: "free_key (s\<lparr>index := x\<rparr>) k = free_key s k" "free_key (s\<lparr>cells := y\<rparr>) k = free_key s k"
  "free_key (s\<lparr>sent := z\<rparr>) k = free_key s k"
  by (simp_all add: free_key_def)

text \<open>The invariant is kept by every polite step.\<close>

lemma cinv_step:
  assumes "cstep i e s s'" and "cinv s" and "polite i e s s'"
  shows "cinv s'"
  using assms
proof (cases rule: cstep.cases)
  case (c_update l k q)
  then have "free_key s k" using assms(3) by (simp add: polite_def)
  with c_update assms(2) show ?thesis
    unfolding cinv_def free_key_def ran_def by (auto split: if_splits) (metis busy_key.simps)+
next
  case (c_lookup k l now n st)
  then have "free_key s k" using assms(3) by (simp add: polite_def)
  with c_lookup assms(2) show ?thesis
    unfolding cinv_def free_key_def by (auto split: if_splits)
next
  case (c_fill k l now n st)
  then show ?thesis using assms(2) unfolding cinv_def by (auto split: if_splits) (metis busy_key.simps)+
next
  case (c_output k l now n st q)
  then show ?thesis using assms(2) unfolding cinv_def by (auto split: if_splits)
next
  case (c_output_dropped k l now n st q)
  then show ?thesis using assms(2) unfolding cinv_def by (auto split: if_splits)
next
  case (c_delete k)
  then show ?thesis using assms(2) unfolding cinv_def by (auto split: if_splits)
qed auto

text \<open>A step that completes an event is a step of the tracker; the others are invisible to it.\<close>

lemma cabsI:
  assumes "emitted t = sent s"
    and "\<And>k. free_key s k \<Longrightarrow> pending t k = map_option (cells s) (index s k)"
    and "\<And>i k l now n st. cpus s i = Found k l now n st \<Longrightarrow> pending t k = Some (cells s l)"
    and "\<And>i k l now n st q. cpus s i = Filled k l now n st q \<Longrightarrow>
        pending t k = Some q \<and> cells s l = complete_req now n st q"
    and "\<And>i k. cpus s i = Sent k \<Longrightarrow> pending t k = None"
  shows "cabs s t"
  using assms unfolding cabs_def by blast

lemma cabs_update:
  assumes "cinv s" and "cabs s t" and "cpus s i = Idle" and "l \<notin> ran (index s)" and "free_key s k"
  shows "cabs (s\<lparr>index := (index s)(k \<mapsto> l), cells := (cells s)(l := q)\<rparr>) (t\<lparr>pending := (pending t)(k \<mapsto> q)\<rparr>)"
proof (rule cabsI)
  have l: "index s k' \<noteq> Some l" for k' using assms(4) by (auto simp: ran_def)
  fix k' assume "free_key (s\<lparr>index := (index s)(k \<mapsto> l), cells := (cells s)(l := q)\<rparr>) k'"
  then show "pending (t\<lparr>pending := (pending t)(k \<mapsto> q)\<rparr>) k' =
      map_option (cells (s\<lparr>index := (index s)(k \<mapsto> l), cells := (cells s)(l := q)\<rparr>))
        (index (s\<lparr>index := (index s)(k \<mapsto> l), cells := (cells s)(l := q)\<rparr>) k')"
    using cabsD(2) [OF assms(2), of k'] l [of k'] by (cases "index s k'") (auto simp: free_key_other)
next
  have l: "index s k' \<noteq> Some l" for k' using assms(4) by (auto simp: ran_def)
  have k: "busy_key (cpus s j) \<noteq> Some k" for j using assms(5) by (simp add: free_key_def)
  fix j k' l' now n st
  show "pending (t\<lparr>pending := (pending t)(k \<mapsto> q)\<rparr>) k' =
      Some (cells (s\<lparr>index := (index s)(k \<mapsto> l), cells := (cells s)(l := q)\<rparr>) l')"
    if "cpus (s\<lparr>index := (index s)(k \<mapsto> l), cells := (cells s)(l := q)\<rparr>) j = Found k' l' now n st"
    using that cabsD(3) [OF assms(2), of j k' l'] cinvD(2) [OF assms(1), of j k' l'] l [of k'] k [of j] by auto
  fix q'
  show "pending (t\<lparr>pending := (pending t)(k \<mapsto> q)\<rparr>) k' = Some q' \<and>
      cells (s\<lparr>index := (index s)(k \<mapsto> l), cells := (cells s)(l := q)\<rparr>) l' = complete_req now n st q'"
    if "cpus (s\<lparr>index := (index s)(k \<mapsto> l), cells := (cells s)(l := q)\<rparr>) j = Filled k' l' now n st q'"
    using that cabsD(4,5) [OF assms(2), of j k' l'] cinvD(3) [OF assms(1), of j k' l'] l [of k'] k [of j] by auto
next
  have k: "busy_key (cpus s j) \<noteq> Some k" for j using assms(5) by (simp add: free_key_def)
  show "pending (t\<lparr>pending := (pending t)(k \<mapsto> q)\<rparr>) k' = None"
    if "cpus (s\<lparr>index := (index s)(k \<mapsto> l), cells := (cells s)(l := q)\<rparr>) j = Sent k'" for j k'
    using that cabsD(6) [OF assms(2), of j k'] k [of j] by auto
qed (simp add: cabsD(1) [OF assms(2)])

lemma cabs_lookup:
  assumes "cinv s" and "cabs s t" and "cpus s i = Idle" and "index s k = Some l" and "free_key s k"
  shows "cabs (s\<lparr>cpus := (cpus s)(i := Found k l now n st)\<rparr>) t"
proof (rule cabsI)
  have "pending t k = Some (cells s l)" using cabsD(2) [OF assms(2,5)] assms(4) by simp
  then show "pending t k' = Some (cells (s\<lparr>cpus := (cpus s)(i := Found k l now n st)\<rparr>) l')"
    if "cpus (s\<lparr>cpus := (cpus s)(i := Found k l now n st)\<rparr>) j = Found k' l' now' n' st'" for j k' l' now' n' st'
    using that cabsD(3) [OF assms(2), of j k' l'] by (auto split: if_splits)
  show "pending t k' = map_option (cells (s\<lparr>cpus := (cpus s)(i := Found k l now n st)\<rparr>))
      (index (s\<lparr>cpus := (cpus s)(i := Found k l now n st)\<rparr>) k')"
    if "free_key (s\<lparr>cpus := (cpus s)(i := Found k l now n st)\<rparr>) k'" for k'
  proof -
    have "free_key s k'" using free_key_step(1) [OF that, of s i "Found k l now n st"] assms(3) by simp
    then show ?thesis using cabsD(2) [OF assms(2)] by simp
  qed
qed (use cabsD [OF assms(2)] in \<open>auto split: if_splits\<close>)

lemma cabs_fill:
  assumes "cinv s" and "cabs s t" and "cpus s i = Found k l now n st"
  shows "cabs (s\<lparr>cells := (cells s)(l := complete_req now n st (cells s l)),
      cpus := (cpus s)(i := Filled k l now n st (cells s l))\<rparr>) t" (is "cabs ?s t")
proof (rule cabsI)
  have kl: "index s k = Some l" by (rule cinvD(2) [OF assms(1,3)])
  have other: "k' \<noteq> k" if "j \<noteq> i" "busy_key (cpus s j) = Some k'" for j k'
    using that cinvD(1) [OF assms(1), of j k' i] assms(3) by auto
  have cell: "l' \<noteq> l" if "index s k' = Some l'" "k' \<noteq> k" for k' l'
    using that kl cinvD(4) [OF assms(1)] by blast
  show "emitted t = sent ?s" using cabsD(1) [OF assms(2)] by simp
  show "pending t k' = map_option (cells ?s) (index ?s k')" if "free_key ?s k'" for k'
  proof -
    have "k' \<noteq> k" and "free_key s k'"
      using free_key_step [OF that, of s i "Filled k l now n st (cells s l)"] assms(3) by auto
    then show ?thesis using cabsD(2) [OF assms(2), of k'] cell [of k'] by (cases "index s k'") auto
  qed
  show "pending t k' = Some (cells ?s l')" if "cpus ?s j = Found k' l' now' n' st'" for j k' l' now' n' st'
    using that cabsD(3) [OF assms(2), of j k' l'] cinvD(2) [OF assms(1), of j k' l'] cell [of k' l'] other [of j k']
    by (auto split: if_splits)
  show "pending t k' = Some q \<and> cells ?s l' = complete_req now' n' st' q"
    if "cpus ?s j = Filled k' l' now' n' st' q" for j k' l' now' n' st' q
    using that cabsD(4,5) [OF assms(2), of j k' l'] cabsD(3) [OF assms(2,3)] cinvD(3) [OF assms(1), of j k' l']
      cell [of k' l'] other [of j k']
    by (auto split: if_splits)
  show "pending t k' = None" if "cpus ?s j = Sent k'" for j k'
    using that cabsD(6) [OF assms(2), of j k'] by (auto split: if_splits)
qed

lemma cabs_output:
  assumes "cinv s" and "cabs s t" and "cpus s i = Filled k l now n st q"
  shows "cabs (s\<lparr>sent := sent s @ ds, cpus := (cpus s)(i := Sent k)\<rparr>)
    (t\<lparr>pending := (pending t)(k := None), emitted := emitted t @ ds\<rparr>)" (is "cabs ?s ?t")
proof (rule cabsI)
  have other: "k' \<noteq> k" if "j \<noteq> i" "busy_key (cpus s j) = Some k'" for j k'
    using that cinvD(1) [OF assms(1), of j k' i] assms(3) by auto
  show "emitted ?t = sent ?s" using cabsD(1) [OF assms(2)] by simp
  show "pending ?t k' = map_option (cells ?s) (index ?s k')" if "free_key ?s k'" for k'
  proof -
    have "k' \<noteq> k" and "free_key s k'"
      using free_key_step [OF that, of s i "Sent k"] assms(3) by auto
    then show ?thesis using cabsD(2) [OF assms(2), of k'] by simp
  qed
  show "pending ?t k' = Some (cells ?s l')" if "cpus ?s j = Found k' l' now' n' st'" for j k' l' now' n' st'
    using that cabsD(3) [OF assms(2), of j k' l'] other [of j k'] by (auto split: if_splits)
  show "pending ?t k' = Some q' \<and> cells ?s l' = complete_req now' n' st' q'"
    if "cpus ?s j = Filled k' l' now' n' st' q'" for j k' l' now' n' st' q'
    using that cabsD(4,5) [OF assms(2), of j k' l'] other [of j k'] by (auto split: if_splits)
  show "pending ?t k' = None" if "cpus ?s j = Sent k'" for j k'
    using that cabsD(6) [OF assms(2), of j k'] by (auto split: if_splits)
qed

lemma cabs_delete:
  assumes "cinv s" and "cabs s t" and "cpus s i = Sent k"
  shows "cabs (s\<lparr>index := (index s)(k := None), cpus := (cpus s)(i := Idle)\<rparr>) t" (is "cabs ?s t")
proof (rule cabsI)
  show "emitted t = sent ?s" using cabsD(1) [OF assms(2)] by simp
  show "pending t k' = map_option (cells ?s) (index ?s k')" if "free_key ?s k'" for k'
  proof (cases "k' = k")
    case True
    then show ?thesis using cabsD(6) [OF assms(2,3)] by simp
  next
    case False
    have "busy_key (cpus s j) \<noteq> Some k'" for j
      using that assms(3) False by (cases "j = i") (auto simp: free_key_def dest: spec [of _ j])
    then have "free_key s k'" by (simp add: free_key_def)
    then show ?thesis using cabsD(2) [OF assms(2), of k'] False by simp
  qed
qed (use cabsD [OF assms(2)] in \<open>auto split: if_splits\<close>)

text \<open>The simulation.\<close>

definition matches_step :: "http_event option \<Rightarrow> tracker \<Rightarrow> 'l cstate \<Rightarrow> bool" where
  "matches_step e t s' \<longleftrightarrow>
     (case e of None \<Rightarrow> cabs s' t | Some ev \<Rightarrow> \<exists>r t'. track ev t r t' \<and> cabs s' t')"

lemma matches_silent: "cabs s' t \<Longrightarrow> matches_step None t s'"
  by (simp add: matches_step_def)

lemma matches_event: "track ev t r t' \<Longrightarrow> cabs s' t' \<Longrightarrow> matches_step (Some ev) t s'"
  unfolding matches_step_def option.case by blast

lemma cstep_simulates:
  assumes "cstep i e s s'" and "cinv s" and "polite i e s s'" and "cabs s t"
  shows "matches_step e t s'"
  using assms(1)
proof (cases rule: cstep.cases)
  case c_ignore
  with assms(4) show ?thesis using matches_event [OF track.ignored] by simp
next
  case (c_update l k q)
  then have "free_key s k" using assms(3) by (simp add: polite_def)
  from matches_event [OF track.request_kept cabs_update [OF assms(2,4) c_update(3,4) this]] c_update(1,2)
  show ?thesis by simp
next
  case (c_full k q)
  with assms(4) show ?thesis using matches_event [OF track.request_lost] by simp
next
  case (c_miss k now n st)
  then have "free_key s k" using assms(3) by (simp add: polite_def)
  then have "pending t k = None" using cabsD(2) [OF assms(4)] c_miss by simp
  from matches_event [OF track.unmatched [OF this] assms(4)] c_miss show ?thesis by simp
next
  case (c_lookup k l now n st)
  then have "free_key s k" using assms(3) by (simp add: polite_def)
  from matches_silent [OF cabs_lookup [OF assms(2,4) c_lookup(3,4) this]] c_lookup(1,2) show ?thesis by simp
next
  case (c_fill k l now n st)
  from matches_silent [OF cabs_fill [OF assms(2,4) c_fill(3)]] c_fill(1,2) show ?thesis by simp
next
  case (c_output k l now n st q)
  have q: "pending t k = Some q" "cells s l = complete_req now n st q"
    using cabsD(4,5) [OF assms(4) c_output(3)] by simp_all
  from matches_event [OF track.matched [OF q(1)] cabs_output [OF assms(2,4) c_output(3)]] c_output(1,2)
  show ?thesis by (simp add: q(2))
next
  case (c_output_dropped k l now n st q)
  have q: "pending t k = Some q" using cabsD(4) [OF assms(4) c_output_dropped(3)] by simp
  from matches_event [OF track.matched_dropped [OF q]] cabs_output [OF assms(2,4) c_output_dropped(3), of "[]"]
    c_output_dropped(1,2)
  show ?thesis by simp
next
  case (c_delete k)
  from matches_silent [OF cabs_delete [OF assms(2,4) c_delete(3)]] c_delete(1,2) show ?thesis by simp
qed

lemma crun_simulates:
  assumes "crun polite es s s'" and "cinv s" and "cabs s t"
  shows "cinv s' \<and> (\<exists>t'. tracks es t t' \<and> cabs s' t')"
  using assms
proof (induction rule: crun.induct)
  case (crun_refl s)
  then show ?case using tracks_Nil by blast
next
  case (crun_silent es s s' i s'')
  then obtain t' where t': "tracks es t t'" "cabs s' t'" "cinv s'" by blast
  then have "matches_step None t' s''" using cstep_simulates crun_silent by blast
  with t' crun_silent show ?case using cinv_step by (auto simp: matches_step_def)
next
  case (crun_event es s s' i e s'')
  then obtain t' where t': "tracks es t t'" "cabs s' t'" "cinv s'" by blast
  then have "matches_step (Some e) t' s''" using cstep_simulates crun_event by blast
  then obtain r t'' where "track e t' r t''" "cabs s'' t''" by (auto simp: matches_step_def)
  with t' crun_event show ?case using tracks_snoc cinv_step by blast
qed

text \<open>The initial state.\<close>

lemma cinit_ok: "cinv cinit" "cabs cinit tracker_empty"
  by (simp_all add: cinv_def cabs_def cinit_def tracker_empty_def)

section \<open>A run of one CPU alone\<close>

definition all_idle :: "'l cstate \<Rightarrow> bool" where
  "all_idle s \<longleftrightarrow> (\<forall>i. cpus s i = Idle)"

lemma all_idle_free: "all_idle s \<Longrightarrow> free_key s k"
  by (simp add: all_idle_def free_key_def)

lemma cabs_idle:
  "all_idle s \<Longrightarrow> cabs s t \<longleftrightarrow> emitted t = sent s \<and> (\<forall>k. pending t k = map_option (cells s) (index s k))"
  by (auto simp: cabs_def all_idle_def all_idle_free)

lemma crun_one:
  "cstep i (Some e) s s' \<Longrightarrow> polite i (Some e) s s' \<Longrightarrow> crun polite [e] s s'"
  using crun_event [OF crun_refl, of i e s s' polite] by simp

lemma crun_append: "crun P es' s' s'' \<Longrightarrow> crun P es s s' \<Longrightarrow> crun P (es @ es') s s''"
proof (induction rule: crun.induct)
  case (crun_event es' s s' i e s'')
  from crun.crun_event [where P = P, OF crun_event.IH [OF crun_event.prems] crun_event.hyps(2,3)] show ?case by simp
qed (auto intro: crun.crun_silent)

text \<open>The response branch from the lookup to the deletion, no other CPU in between.\<close>

lemma crun_response:
  assumes "all_idle s" and "cinv s" and "index s k = Some l" and "ds = [] \<or> ds = [packet_bytes (complete_req now n st (cells s l))]"
  shows "\<exists>s'. crun polite [Rsp k now n st] s s' \<and> all_idle s' \<and> sent s' = sent s @ ds \<and>
    (\<forall>k'. map_option (cells s') (index s' k') = ((\<lambda>k'. map_option (cells s) (index s k'))(k := None)) k')"
proof -
  let ?p = "complete_req now n st (cells s l)"
  define s1 where "s1 = s\<lparr>cpus := (cpus s)(0 := Found k l now n st)\<rparr>"
  define s2 where "s2 = s1\<lparr>cells := (cells s)(l := ?p), cpus := (cpus s)(0 := Filled k l now n st (cells s l))\<rparr>"
  define s3 where "s3 = s2\<lparr>sent := sent s @ ds, cpus := (cpus s)(0 := Sent k)\<rparr>"
  define s4 where "s4 = s3\<lparr>index := (index s)(k := None), cpus := (cpus s)(0 := Idle)\<rparr>"
  have idle: "cpus s i = Idle" for i using assms(1) by (simp add: all_idle_def)
  have e1: "cstep 0 None s s1" unfolding s1_def by (rule c_lookup [OF idle assms(3)])
  have e2: "cstep 0 None s1 s2" using c_fill [of s1 0 k l now n st] by (simp add: s1_def s2_def)
  have e3: "cstep 0 (Some (Rsp k now n st)) s2 s3"
    using assms(4) c_output [of s2 0 k l now n st "cells s l"] c_output_dropped [of s2 0 k l now n st "cells s l"]
    by (auto simp: s1_def s2_def s3_def)
  have e4: "cstep 0 None s3 s4" using c_delete [of s3 0 k] by (simp add: s1_def s2_def s3_def s4_def)
  have p: "polite 0 None s s1" "polite 0 None s1 s2" "polite 0 (Some (Rsp k now n st)) s2 s3" "polite 0 None s3 s4"
    using all_idle_free [OF assms(1)] by (simp_all add: polite_def s1_def s2_def s3_def s4_def)
  have "crun polite [] s s2"
    using crun_silent [where P = polite, OF crun_silent [where P = polite, OF crun_refl e1 p(1)] e2 p(2)] .
  from crun_silent [where P = polite, OF crun_event [where P = polite, OF this e3 p(3)] e4 p(4)]
  have "crun polite [Rsp k now n st] s s4" by simp
  moreover have "all_idle s4" "sent s4 = sent s @ ds"
    by (simp_all add: all_idle_def idle s1_def s2_def s3_def s4_def)
  moreover have "map_option (cells s4) (index s4 k') = ((\<lambda>k'. map_option (cells s) (index s k'))(k := None)) k'" for k'
    using cinvD(4) [OF assms(2), of k l k'] assms(3)
    by (cases "index s k'") (auto simp: s1_def s2_def s3_def s4_def)
  ultimately show ?thesis by blast
qed

text \<open>Every step of the tracker is such a run, as long as the map has a cell to take.\<close>

lemma track_crun:
  assumes "track e t r t'" and "all_idle s" and "cinv s" and "cabs s t" and "\<exists>l. l \<notin> ran (index s)"
  shows "\<exists>s'. crun polite [e] s s' \<and> all_idle s' \<and> cabs s' t'"
proof -
  have idle: "cpus s 0 = Idle" and free: "polite 0 (Some ev) s s'" for ev s'
    using assms(2) all_idle_free [OF assms(2)] by (simp_all add: all_idle_def polite_def split: option.split)
  have pend: "pending t k = map_option (cells s) (index s k)" for k
    using assms(4) by (simp add: cabs_idle [OF assms(2)])
  have response: ?thesis if r: "e = Rsp k now n st" "pending t k = Some q"
      "t' = t\<lparr>pending := (pending t)(k := None), emitted := emitted t @ ds\<rparr>"
      "ds = [] \<or> ds = [packet_bytes (complete_req now n st q)]" for k now n st q ds
  proof -
    obtain l where l: "index s k = Some l" "cells s l = q" using pend r(2) by auto
    obtain s' where s': "crun polite [e] s s'" "all_idle s'" "sent s' = sent s @ ds"
      "\<And>k'. map_option (cells s') (index s' k') = ((\<lambda>k'. map_option (cells s) (index s k'))(k := None)) k'"
      using crun_response [OF assms(2,3) l(1), of ds now n st] r(1,4) l(2) by blast
    have "emitted t = sent s" using assms(4) by (simp add: cabs_def)
    then have "cabs s' t'" unfolding cabs_idle [OF s'(2)] s'(4) by (simp add: r(3) s'(3) pend)
    with s'(1,2) show ?thesis by blast
  qed
  from assms(1) show ?thesis
  proof (cases rule: track.cases)
    case ignored
    then show ?thesis using crun_one [OF c_ignore [OF idle] free] assms(2,4) by blast
  next
    case (request_kept k q)
    obtain l where l: "l \<notin> ran (index s)" using assms(5) by blast
    show ?thesis
      using crun_one [OF c_update [OF idle l] free] cabs_update [OF assms(3,4) idle l all_idle_free [OF assms(2)]]
        assms(2) request_kept by (fastforce simp: all_idle_def)
  next
    case (request_lost k q)
    then show ?thesis using crun_one [OF c_full [OF idle] free] assms(2,4) by blast
  next
    case (unmatched k now n st)
    then have "index s k = None" using pend [of k] by simp
    then show ?thesis using crun_one [OF c_miss [OF idle] free] unmatched assms(2,4) by blast
  next
    case (matched k q now n st)
    from response [OF matched(1) matched(4) matched(3)] show ?thesis by simp
  next
    case (matched_dropped k q now n st)
    from response [OF matched_dropped(1) matched_dropped(4), of "[]"] matched_dropped(3) show ?thesis by simp
  qed
qed

section \<open>Properties\<close>

text \<open>C17: The filter on several CPUs, when no two of them work on the same connection at once: however their
  steps interleave, the records sent are those of a run of the tracker over the completed events, every
  record answers a request, and no request is reported twice.\<close>

theorem concurrent_runs_refine:
  assumes "crun polite es cinit s"
  shows "(\<exists>t. tracks es tracker_empty t \<and> emitted t = sent s) \<and> (\<forall>d \<in> set (sent s). answered es d) \<and>
    length (sent s) \<le> length (filter is_req es)"
proof -
  obtain t where t: "tracks es tracker_empty t" "cabs s t"
    using crun_simulates [OF assms cinit_ok] by blast
  then have "emitted t = sent s" by (simp add: cabs_def)
  with t(1) tracks_trace_inv [OF t(1) refl] show ?thesis by (auto simp: trace_inv_def)
qed

text \<open>A request and its response on one CPU.\<close>

lemma sample_crun:
  "\<exists>s :: nat cstate. crun polite [Req sample_key sample_packet, Rsp sample_key 5000 15 (ascii ''200'')] cinit s \<and>
     sent s = [packet_bytes (complete_req 5000 15 (ascii ''200'') sample_packet)]"
proof -
  let ?k = sample_key and ?q = sample_packet
  let ?s1 = "cinit\<lparr>index := [?k \<mapsto> 0], cells := (cells cinit)(0 := ?q)\<rparr> :: nat cstate"
  have idle: "all_idle cinit" "all_idle ?s1" by (simp_all add: all_idle_def cinit_def)
  have e: "cstep 0 (Some (Req ?k ?q)) cinit ?s1"
    using c_update [of cinit 0 "0 :: nat" ?k ?q] by (simp add: cinit_def)
  have p: "polite 0 (Some (Req ?k ?q)) cinit ?s1" by (simp add: polite_def all_idle_free [OF idle(1)])
  have "index ?s1 ?k = Some 0" and "cells ?s1 0 = ?q" and "sent ?s1 = []" by (simp_all add: cinit_def)
  then obtain s' where s': "crun polite [Rsp ?k 5000 15 (ascii ''200'')] ?s1 s'"
    "sent s' = [packet_bytes (complete_req 5000 15 (ascii ''200'') ?q)]"
    using crun_response [OF idle(2) cinv_step [OF e cinit_ok(1) p], of ?k 0
      "[packet_bytes (complete_req 5000 15 (ascii ''200'') ?q)]" 5000 15 "ascii ''200''"]
    by (simp del: fun_upd_apply) blast
  from crun_append [OF s'(1) crun_one [OF e p]] s'(2) show ?thesis by auto
qed

theorem concurrent_runs_refine_witness:
  "\<exists>s :: nat cstate. crun polite [Req sample_key sample_packet, Rsp sample_key 5000 15 (ascii ''200'')] cinit s \<and>
     length (sent s) = 1 \<and>
     (\<forall>d \<in> set (sent s). answered [Req sample_key sample_packet, Rsp sample_key 5000 15 (ascii ''200'')] d)"
proof -
  obtain s :: "nat cstate" where s: "crun polite [Req sample_key sample_packet, Rsp sample_key 5000 15 (ascii ''200'')] cinit s"
    "sent s = [packet_bytes (complete_req 5000 15 (ascii ''200'') sample_packet)]" using sample_crun by blast
  with concurrent_runs_refine [OF s(1)] show ?thesis by (intro exI [of _ s]) simp
qed

text \<open>C18: The interleaving model covers the program: whatever one invocation of the filter does with a frame
  is a polite run of the CPUs, from a state in which they are idle and that shows the same pending requests
  and records, as long as the map has an element to hand out.\<close>

theorem filter_is_a_concurrent_run:
  assumes "http_kernel E recs" and "pending_ok (pending (abs_state E recs s))"
    and "all_idle c" and "cinv c" and "cabs c (abs_state E recs s)" and "\<exists>l. l \<notin> ran (index c)"
  shows "\<exists>c'. crun polite [classify (skb_load_bytes E) (listed_in E (filter_ip s)) now f] c c' \<and> all_idle c' \<and>
    cabs c' (abs_state E recs (snd (socket_filter_http E now f s)))"
  using http_kernel.filter_simulates [OF assms(1,2)] track_crun assms(3-6) by blast

theorem filter_is_a_concurrent_run_witness:
  "\<exists>c' :: nat cstate. crun polite [Req sample_key sample_packet] cinit c' \<and> all_idle c' \<and>
    cabs c' (abs_state ref_http_env rb_records (snd (socket_filter_http ref_http_env 1000 sample_request http_init)))"
proof -
  have "all_idle cinit" by (simp add: all_idle_def cinit_def)
  moreover have "0 \<notin> ran (index (cinit :: nat cstate))" by (simp add: cinit_def)
  ultimately show ?thesis
    using filter_is_a_concurrent_run [OF ref_http.http_kernel_axioms, of http_init "cinit :: nat cstate" 1000 sample_request]
      sample_events(1) cinit_ok pending_ok_empty by (auto simp: abs_http_init ref_http_load)
qed

text \<open>C19: Without that condition one request can be reported twice: two CPUs that look the request up before
  either deletes it both send it, the second record with the fields of the first response overwritten and
  its duration taken from the first record's duration.\<close>

theorem unsynchronised_double_report:
  "\<exists>s :: nat cstate. crun anything [Req k q, Rsp k now n st, Rsp k now' n' st'] cinit s \<and> all_idle s \<and>
     sent s = [packet_bytes (complete_req now n st q), packet_bytes (complete_req now' n' st' (complete_req now n st q))]"
proof -
  note step = crun_silent [where P = anything, OF _ _ anything_def [THEN iffD2, OF TrueI]]
    and event = crun_event [where P = anything, OF _ _ anything_def [THEN iffD2, OF TrueI]]
  let ?p = "complete_req now n st q" and ?p' = "complete_req now' n' st' (complete_req now n st q)"
  let ?S = "\<lambda>ix p ds c0 c1. (\<lparr>index = ix, cells = (\<lambda>l. packet_zero)(0 := p), sent = ds,
      cpus = (\<lambda>i. Idle)(0 := c0, 1 := c1)\<rparr> :: nat cstate)"
  let ?ix = "[k \<mapsto> 0]"
  have id: "(\<lambda>i. Idle :: nat cpu)(0 := Idle, 1 := Idle) = (\<lambda>i. Idle)"
    "(\<lambda>l. packet_zero)(0 := packet_zero) = (\<lambda>l. packet_zero)" by auto
  have a0: "crun anything [] cinit (?S Map.empty packet_zero [] Idle Idle)"
    using crun_refl [of anything "cinit :: nat cstate"] unfolding cinit_def id .
  have a1: "crun anything [Req k q] cinit (?S ?ix q [] Idle Idle)"
    using event [OF a0 c_update [of _ 0 0 k q]] by simp
  have a2: "crun anything [Req k q] cinit (?S ?ix q [] (Found k 0 now n st) Idle)"
    using step [OF a1 c_lookup [of _ 0 k 0 now n st]] by (simp add: fun_upd_twist)
  have a3: "crun anything [Req k q] cinit (?S ?ix q [] (Found k 0 now n st) (Found k 0 now' n' st'))"
    using step [OF a2 c_lookup [of _ 1 k 0 now' n' st']] by simp
  have a4: "crun anything [Req k q] cinit (?S ?ix ?p [] (Filled k 0 now n st q) (Found k 0 now' n' st'))"
    using step [OF a3 c_fill [of _ 0]] by (simp add: fun_upd_twist)
  have a5: "crun anything [Req k q, Rsp k now n st] cinit
      (?S ?ix ?p [packet_bytes ?p] (Sent k) (Found k 0 now' n' st'))"
    using event [OF a4 c_output [of _ 0]] by (simp add: fun_upd_twist)
  have a6: "crun anything [Req k q, Rsp k now n st] cinit
      (?S ?ix ?p' [packet_bytes ?p] (Sent k) (Filled k 0 now' n' st' ?p))"
    using step [OF a5 c_fill [of _ 1]] by simp
  have a7: "crun anything [Req k q, Rsp k now n st, Rsp k now' n' st'] cinit
      (?S ?ix ?p' [packet_bytes ?p, packet_bytes ?p'] (Sent k) (Sent k))"
    using event [OF a6 c_output [of _ 1]] by simp
  have a8: "crun anything [Req k q, Rsp k now n st, Rsp k now' n' st'] cinit
      (?S Map.empty ?p' [packet_bytes ?p, packet_bytes ?p'] Idle (Sent k))"
    using step [OF a7 c_delete [of _ 0 k]] by (simp add: fun_upd_twist)
  have a9: "crun anything [Req k q, Rsp k now n st, Rsp k now' n' st'] cinit
      (?S Map.empty ?p' [packet_bytes ?p, packet_bytes ?p'] Idle Idle)"
    using step [OF a8 c_delete [of _ 1 k]] by simp
  then show ?thesis by (auto simp: all_idle_def intro!: exI)
qed

end
