(* ===== verification/Bpf_Tracing.thy ===== *)
theory Bpf_Tracing
  imports Vmlinux_Net
begin

text \<open>
  The register frame a kprobe receives and the argument macros of
  \<^verbatim>\<open>src/ebpf/include/bpf_tracing.h\<close>, in the branch the build selects (x86-64 with
  \<^verbatim>\<open>__VMLINUX_H__\<close> defined): \<^verbatim>\<open>PT_REGS_PARM1\<close> is register \<^verbatim>\<open>di\<close>, and so on.
  \<open>regs_bytes\<close> is the frame as it lies in memory.
\<close>

record pt_regs =
  r15 :: u64
  r14 :: u64
  r13 :: u64
  r12 :: u64
  bp :: u64
  bx :: u64
  r11 :: u64
  r10 :: u64
  r9 :: u64
  r8 :: u64
  ax :: u64
  cx :: u64
  dx :: u64
  si :: u64
  di :: u64
  orig_ax :: u64
  ip :: u64
  cs :: u64
  flags :: u64
  sp :: u64
  ss :: u64

definition PT_REGS_PARM1 :: "pt_regs \<Rightarrow> u64" where "PT_REGS_PARM1 x = di x"
definition PT_REGS_PARM2 :: "pt_regs \<Rightarrow> u64" where "PT_REGS_PARM2 x = si x"
definition PT_REGS_PARM3 :: "pt_regs \<Rightarrow> u64" where "PT_REGS_PARM3 x = dx x"
definition PT_REGS_PARM4 :: "pt_regs \<Rightarrow> u64" where "PT_REGS_PARM4 x = cx x"
definition PT_REGS_PARM5 :: "pt_regs \<Rightarrow> u64" where "PT_REGS_PARM5 x = r8 x"
definition PT_REGS_PARM6 :: "pt_regs \<Rightarrow> u64" where "PT_REGS_PARM6 x = r9 x"
definition PT_REGS_RET :: "pt_regs \<Rightarrow> u64" where "PT_REGS_RET x = sp x"
definition PT_REGS_FP :: "pt_regs \<Rightarrow> u64" where "PT_REGS_FP x = bp x"
definition PT_REGS_RC :: "pt_regs \<Rightarrow> u64" where "PT_REGS_RC x = ax x"
definition PT_REGS_SP :: "pt_regs \<Rightarrow> u64" where "PT_REGS_SP x = sp x"
definition PT_REGS_IP :: "pt_regs \<Rightarrow> u64" where "PT_REGS_IP x = ip x"

lemmas PT_REGS_defs = PT_REGS_PARM1_def PT_REGS_PARM2_def PT_REGS_PARM3_def PT_REGS_PARM4_def
  PT_REGS_PARM5_def PT_REGS_PARM6_def

text \<open>The words of the frame in memory order.\<close>

definition regs_words :: "pt_regs \<Rightarrow> u64 list" where
  "regs_words x = [r15 x, r14 x, r13 x, r12 x, bp x, bx x, r11 x, r10 x, r9 x, r8 x, ax x, cx x,
     dx x, si x, di x, orig_ax x, ip x, cs x, flags x, sp x, ss x]"

definition regs_bytes :: "pt_regs \<Rightarrow> byte list" where
  "regs_bytes x = concat (map (le_bytes 8) (regs_words x))"

lemma bslice_concat_words:
  assumes "i < length ws"
  shows "bslice (8 * i) 8 (concat (map (le_bytes 8) ws)) = le_bytes 8 (ws ! i)"
  using assms
proof (induction ws arbitrary: i)
  case Nil
  then show ?case by simp
next
  case (Cons w ws)
  show ?case
  proof (cases i)
    case 0
    then show ?thesis by (simp add: bslice_def)
  next
    case (Suc j)
    then show ?thesis using Cons by simp
  qed
qed

text \<open>A macro reads the eight bytes of its register at the offset the C struct gives it.\<close>

lemma parm_at_offset:
  "le_word (bslice (8 * 14) 8 (regs_bytes x)) = PT_REGS_PARM1 x"
  "le_word (bslice (8 * 13) 8 (regs_bytes x)) = PT_REGS_PARM2 x"
  "le_word (bslice (8 * 12) 8 (regs_bytes x)) = PT_REGS_PARM3 x"
  "le_word (bslice (8 * 11) 8 (regs_bytes x)) = PT_REGS_PARM4 x"
  "le_word (bslice (8 * 9) 8 (regs_bytes x)) = PT_REGS_PARM5 x"
  "le_word (bslice (8 * 8) 8 (regs_bytes x)) = PT_REGS_PARM6 x"
  unfolding regs_bytes_def PT_REGS_defs
  by (subst bslice_concat_words; simp add: regs_words_def)+

end
