(* ===== verification/Kprobe_Env.thy ===== *)
theory Kprobe_Env
  imports Bpf_Runtime Bpf_Tracing
begin

text \<open>
  What the two kprobe programs share: the record of helpers they call, typed reads of kernel memory,
  and the locale \<open>probe_kernel\<close> that extends the memory and ring-buffer interfaces of
  Bpf_Runtime with the current task.  It is interpreted on the reference kernel with a concrete
  current task.
\<close>

text \<open>The helpers: the two probe reads, \<^verbatim>\<open>bpf_get_current_pid_tgid\<close>,
  \<^verbatim>\<open>bpf_get_current_comm\<close> (result and buffer of the given size) and
  \<^verbatim>\<open>bpf_ringbuf_output\<close>.\<close>

record 'r probe_env =
  pe_read_kernel :: "kmem \<Rightarrow> nat \<Rightarrow> u64 \<Rightarrow> int \<times> byte list"
  pe_read_kernel_str :: "kmem \<Rightarrow> nat \<Rightarrow> u64 \<Rightarrow> int \<times> byte list"
  pe_pid_tgid :: u64
  pe_current_comm :: "nat \<Rightarrow> int \<times> byte list"
  pe_ringbuf_output :: "'r \<Rightarrow> byte list \<Rightarrow> int \<times> 'r"

text \<open>Typed reads of kernel memory.\<close>

definition rd_word :: "kmem \<Rightarrow> u64 \<Rightarrow> nat \<Rightarrow> 'a::len word option" where
  "rd_word mem a n = map_option le_word (mem_bytes mem a n)"

text \<open>The kernel a probe runs on: readable memory, a ring buffer, and a current task whose name the
  helper returns NUL-terminated in a buffer of the requested size.\<close>

locale probe_kernel =
  kernel_reader "pe_read_kernel K" "pe_read_kernel_str K" +
  bpf_ringbuf "pe_ringbuf_output K" recs
  for K :: "'r probe_env" and recs :: "'r \<Rightarrow> byte list list" +
  assumes current_comm_size: "0 < n \<Longrightarrow> length (snd (pe_current_comm K n)) = n"
    and current_comm_nul: "0 < n \<Longrightarrow> 0 \<in> set (snd (pe_current_comm K n))"
begin

lemma read_kernel_fault: "mem_bytes mem a n = None \<Longrightarrow> fst (pe_read_kernel K mem n a) \<noteq> 0"
  using probe_fault [of mem a n] by auto

lemma read_str_mapped:
  "mem_str mem a 127 = Some msg \<Longrightarrow> pe_read_kernel_str K mem 128 a = (int (length msg) + 1, msg @ [0])"
  using probe_str_mapped [of mem a 127 msg] by simp

lemma read_str_fault: "mem_str mem a 127 = None \<Longrightarrow> fst (pe_read_kernel_str K mem 128 a) < 0"
  using probe_str_fault [of mem a 127] by simp

end

section \<open>The probes on the reference kernel\<close>

text \<open>The current task of the reference kernel: process 4242, called \<^verbatim>\<open>kubelet\<close>.\<close>

definition ref_current_comm :: "nat \<Rightarrow> int \<times> byte list" where
  "ref_current_comm n = (0, zpad n (take (n - 1) (ascii ''kubelet'')))"

definition ref_probe_env :: "ref_ringbuf probe_env" where
  "ref_probe_env = \<lparr>pe_read_kernel = ref_probe, pe_read_kernel_str = ref_probe_str,
     pe_pid_tgid = 0x0000109200001093, pe_current_comm = ref_current_comm,
     pe_ringbuf_output = ref_output\<rparr>"

interpretation ref_kprobe: probe_kernel ref_probe_env rb_records
proof -
  have "length (zpad n (take (n - 1) bs)) = n \<and> 0 \<in> set (zpad n (take (n - 1) bs))"
    if "0 < n" for n and bs :: "byte list"
    using that by (auto simp: zpad_def)
  then show "probe_kernel ref_probe_env rb_records"
    unfolding probe_kernel_def probe_kernel_axioms_def ref_probe_env_def
    by (simp add: ref_kread.kernel_reader_axioms ref_ring.bpf_ringbuf_axioms ref_current_comm_def)
qed

text \<open>Memory made of disjoint objects, for concrete inputs.\<close>

fun mem_of :: "(u64 \<times> byte list) list \<Rightarrow> kmem" where
  "mem_of [] = (\<lambda>_. None)"
| "mem_of ((a, bs) # objs) = mem_write (mem_of objs) a bs"

text \<open>Objects above the first page leave it unmapped.\<close>

lemma mem_of_low:
  "list_all (\<lambda>(a, bs). 4096 \<le> unat a \<and> unat a + length bs < 2 ^ 64) objs \<Longrightarrow> x < 4096 \<Longrightarrow> mem_of objs x = None"
proof (induction objs rule: mem_of.induct)
  case (2 a bs objs)
  have "x \<noteq> a + of_nat j" if "j < length bs" for j
  proof -
    have "unat (a + of_nat j) = unat a + j" using 2(2) that by (simp add: unat_word_ariths unat_of_nat)
    moreover have "unat x < 4096" using 2(3) by (simp add: word_less_nat_alt)
    ultimately show ?thesis using 2(2) by auto
  qed
  then have "mem_of ((a, bs) # objs) x = mem_of objs x" by (simp add: mem_write_outside)
  with 2 show ?case by simp
qed simp

end
