(* ===== verification/Oomkill_Probe.thy ===== *)
theory Oomkill_Probe
  imports Kprobe_Env
begin

text \<open>
  The kprobe of \<^verbatim>\<open>src/ebpf/oomkill/oomkill.c\<close> on \<^verbatim>\<open>oom_kill_process\<close>: it walks from
  the \<^verbatim>\<open>oom_control\<close> argument to the chosen task and emits one record per OOM kill.
  \<open>kprobe_oom_kill_process\<close> follows the C text statement by statement over byte-addressed kernel
  memory; \<open>oom_observe\<close> is the specification: the event the memory describes, or \<open>None\<close> when some
  part of it cannot be read.
\<close>

section \<open>The program\<close>

definition TASK_COMM_LEN :: nat where "TASK_COMM_LEN = 16"

record oom_event =
  oe_fpid :: u32
  oe_tpid :: u32
  oe_pages :: u64
  oe_fcomm :: "byte list"
  oe_tcomm :: "byte list"
  oe_message :: "byte list"

text \<open>\<^verbatim>\<open>struct event oomkill_info = {}\<close>\<close>

definition oom_event_zero :: oom_event where
  "oom_event_zero = \<lparr>oe_fpid = 0, oe_tpid = 0, oe_pages = 0, oe_fcomm = replicate TASK_COMM_LEN 0,
     oe_tcomm = replicate TASK_COMM_LEN 0, oe_message = replicate 128 0\<rparr>"

definition oom_event_t :: ctype where
  "oom_event_t = Struct [Fld ''fpid'' (Prim 4), Fld ''tpid'' (Prim 4), Fld ''pages'' (Prim 8),
     Fld ''fcomm'' (Arr (Prim 1) 16), Fld ''tcomm'' (Arr (Prim 1) 16),
     Fld ''message'' (Arr (Prim 1) 128)]"

definition oom_event_bytes :: "oom_event \<Rightarrow> byte list" where
  "oom_event_bytes e = le_bytes 4 (oe_fpid e) @ le_bytes 4 (oe_tpid e) @ le_bytes 8 (oe_pages e) @
     oe_fcomm e @ oe_tcomm e @ oe_message e"

definition kprobe_oom_kill_process ::
  "'r probe_env \<Rightarrow> kernel_layout \<Rightarrow> kmem \<Rightarrow> pt_regs \<Rightarrow> 'r \<Rightarrow> int \<times> 'r" where
  "kprobe_oom_kill_process env lay mem ctx events =
    (let oc = PT_REGS_PARM1 ctx;
         message = PT_REGS_PARM2 ctx;
         (rc, buf) = pe_read_kernel env mem 8 (oc + oc_chosen lay)
     in if rc \<noteq> 0 then (0, events)
     else let p = le_word buf :: u64;
              info = oom_event_zero;
              info = info\<lparr>oe_fpid := ucast (drop_bit 32 (pe_pid_tgid env))\<rparr>;
              info = info\<lparr>oe_fcomm := snd (pe_current_comm env TASK_COMM_LEN)\<rparr>;
              (rc, buf) = pe_read_kernel env mem 4 (p + task_tgid lay);
              info = info\<lparr>oe_tpid := le_word buf\<rparr>
     in if rc \<noteq> 0 then (0, events)
     else let (rc, buf) = pe_read_kernel env mem 16 (p + task_comm lay);
              info = info\<lparr>oe_tcomm := buf\<rparr>
     in if rc \<noteq> 0 then (0, events)
     else let (rc, buf) = pe_read_kernel env mem 8 (oc + oc_totalpages lay);
              info = info\<lparr>oe_pages := le_word buf\<rparr>
     in if rc \<noteq> 0 then (0, events)
     else let (rc, buf) = pe_read_kernel_str env mem 128 message;
              info = info\<lparr>oe_message := write_at 0 buf (oe_message info)\<rparr>
     in if rc < 0 then (0, events)
     else (0, snd (pe_ringbuf_output env events (oom_event_bytes info))))"

section \<open>Specification\<close>

definition oom_observe ::
  "kernel_layout \<Rightarrow> kmem \<Rightarrow> u64 \<Rightarrow> u64 \<Rightarrow> u32 \<Rightarrow> byte list \<Rightarrow> oom_event option" where
  "oom_observe lay mem oc message fpid fcomm =
     Option.bind (rd_word mem (oc + oc_chosen lay) 8) (\<lambda>p.
     Option.bind (rd_word mem (p + task_tgid lay) 4) (\<lambda>tgid.
     Option.bind (mem_bytes mem (p + task_comm lay) 16) (\<lambda>comm.
     Option.bind (rd_word mem (oc + oc_totalpages lay) 8) (\<lambda>pages.
     Option.bind (mem_str mem message 127) (\<lambda>msg.
       Some \<lparr>oe_fpid = fpid, oe_tpid = tgid, oe_pages = pages, oe_fcomm = fcomm, oe_tcomm = comm,
             oe_message = zpad 128 msg\<rparr>)))))"

lemma write_str_zpad:
  "length msg \<le> 127 \<Longrightarrow> write_at 0 (msg @ [0]) (replicate 128 0) = zpad 128 msg"
  by (simp add: write_at_def zpad_def Suc_diff_le flip: replicate_Suc)

context probe_kernel
begin

lemma oom_kill_process_spec:
  "kprobe_oom_kill_process K lay mem ctx r =
    (0, case oom_observe lay mem (PT_REGS_PARM1 ctx) (PT_REGS_PARM2 ctx)
          (ucast (drop_bit 32 (pe_pid_tgid K))) (snd (pe_current_comm K 16)) of
        None \<Rightarrow> r
      | Some e \<Rightarrow> snd (pe_ringbuf_output K r (oom_event_bytes e)))"
  by (auto simp: kprobe_oom_kill_process_def oom_observe_def rd_word_def Let_def split_def
      probe_mapped read_kernel_fault read_str_mapped read_str_fault oom_event_zero_def
      TASK_COMM_LEN_def write_str_zpad mem_str_props split: option.splits bind_splits)

end

end
