(* ===== verification/Tcpsynbl_Probe.thy ===== *)
theory Tcpsynbl_Probe
  imports Kprobe_Env
begin

text \<open>
  The kprobes of \<^verbatim>\<open>src/ebpf/tcpsynbl/tcpsynbl.c\<close> on \<^verbatim>\<open>tcp_v4_syn_recv_sock\<close> and
  \<^verbatim>\<open>tcp_v6_syn_recv_sock\<close>: when the accept queue of the listening socket is full they emit its
  length, its limit and the process the socket's file names as signal owner.  The two programs are
  two definitions, as in the source.  The local variable \<^verbatim>\<open>owner\<close> lives on the BPF stack at
  the address \<open>owner_at\<close>, because the program passes the address of one of its members to a
  helper.
\<close>

section \<open>The programs\<close>

record syn_event =
  se_pid :: u32
  se_max_ack_backlog :: u32
  se_ack_backlog :: u32

definition syn_event_zero :: syn_event where
  "syn_event_zero = \<lparr>se_pid = 0, se_max_ack_backlog = 0, se_ack_backlog = 0\<rparr>"

definition syn_event_t :: ctype where
  "syn_event_t = Struct [Fld ''pid'' (Prim 4), Fld ''max_ack_backlog'' (Prim 4),
     Fld ''ack_backlog'' (Prim 4)]"

definition syn_event_bytes :: "syn_event \<Rightarrow> byte list" where
  "syn_event_bytes e = le_bytes 4 (se_pid e) @ le_bytes 4 (se_max_ack_backlog e) @
     le_bytes 4 (se_ack_backlog e)"

definition do_entry ::
  "'r probe_env \<Rightarrow> kernel_layout \<Rightarrow> u64 \<Rightarrow> kmem \<Rightarrow> pt_regs \<Rightarrow> 'r \<Rightarrow> int \<times> 'r" where
  "do_entry env lay owner_at mem ctx events =
    (let sk = PT_REGS_PARM1 ctx;
         backlog = syn_event_zero;
         (rc, buf) = pe_read_kernel env mem 4 (sk + sk_max_ack_backlog lay);
         backlog = backlog\<lparr>se_max_ack_backlog := le_word buf\<rparr>
     in if rc \<noteq> 0 then (0, events)
     else let (rc, buf) = pe_read_kernel env mem 4 (sk + sk_ack_backlog lay);
              backlog = backlog\<lparr>se_ack_backlog := le_word buf\<rparr>
     in if rc \<noteq> 0 then (0, events)
     else if se_max_ack_backlog backlog \<noteq> 0 \<and> se_max_ack_backlog backlog \<le> se_ack_backlog backlog then
       let (rc, buf) = pe_read_kernel env mem 8 (sk + sk_socket lay)
       in if rc \<noteq> 0 then (0, events)
       else let sock = le_word buf :: u64;
                (rc, buf) = pe_read_kernel env mem 8 (sock + socket_file lay)
       in if rc \<noteq> 0 then (0, events)
       else let file = le_word buf :: u64;
                (rc, owner) = pe_read_kernel env mem 32 (file + file_f_owner lay)
       in if rc \<noteq> 0 then (0, events)
       else if (le_word (bslice (unat (fown_pid lay)) 8 owner) :: u64) \<noteq> 0 then
         let mem' = mem_write mem owner_at owner;
             (rc, buf) = pe_read_kernel env mem' 8 (owner_at + fown_pid lay)
         in if rc \<noteq> 0 then (0, events)
         else let pid_struct = le_word buf :: u64;
                  (rc, buf) = pe_read_kernel env mem' 4 (pid_struct + pid_numbers0_nr lay)
         in if rc \<noteq> 0 then (0, events)
         else let pid_nr = le_word buf :: u32;
                  backlog = backlog\<lparr>se_pid := pid_nr\<rparr>
         in (0, snd (pe_ringbuf_output env events (syn_event_bytes backlog)))
       else (0, events)
     else (0, events))"

definition do_entry_v6 ::
  "'r probe_env \<Rightarrow> kernel_layout \<Rightarrow> u64 \<Rightarrow> kmem \<Rightarrow> pt_regs \<Rightarrow> 'r \<Rightarrow> int \<times> 'r" where
  "do_entry_v6 env lay owner_at mem ctx events =
    (let sk = PT_REGS_PARM1 ctx;
         backlog = syn_event_zero;
         (rc, buf) = pe_read_kernel env mem 4 (sk + sk_max_ack_backlog lay);
         backlog = backlog\<lparr>se_max_ack_backlog := le_word buf\<rparr>
     in if rc \<noteq> 0 then (0, events)
     else let (rc, buf) = pe_read_kernel env mem 4 (sk + sk_ack_backlog lay);
              backlog = backlog\<lparr>se_ack_backlog := le_word buf\<rparr>
     in if rc \<noteq> 0 then (0, events)
     else if se_max_ack_backlog backlog \<noteq> 0 \<and> se_max_ack_backlog backlog \<le> se_ack_backlog backlog then
       let (rc, buf) = pe_read_kernel env mem 8 (sk + sk_socket lay)
       in if rc \<noteq> 0 then (0, events)
       else let sock = le_word buf :: u64;
                (rc, buf) = pe_read_kernel env mem 8 (sock + socket_file lay)
       in if rc \<noteq> 0 then (0, events)
       else let file = le_word buf :: u64;
                (rc, owner) = pe_read_kernel env mem 32 (file + file_f_owner lay)
       in if rc \<noteq> 0 then (0, events)
       else if (le_word (bslice (unat (fown_pid lay)) 8 owner) :: u64) \<noteq> 0 then
         let mem' = mem_write mem owner_at owner;
             (rc, buf) = pe_read_kernel env mem' 8 (owner_at + fown_pid lay)
         in if rc \<noteq> 0 then (0, events)
         else let pid_struct = le_word buf :: u64;
                  (rc, buf) = pe_read_kernel env mem' 4 (pid_struct + pid_numbers0_nr lay)
         in if rc \<noteq> 0 then (0, events)
         else let pid_nr = le_word buf :: u32;
                  backlog = backlog\<lparr>se_pid := pid_nr\<rparr>
         in (0, snd (pe_ringbuf_output env events (syn_event_bytes backlog)))
       else (0, events)
     else (0, events))"

section \<open>Specification\<close>

text \<open>The process behind a listening socket, as far as the kernel's memory tells: the owner of the
  socket's file, if one is set.\<close>

definition sock_owner_pid :: "kernel_layout \<Rightarrow> u64 \<Rightarrow> kmem \<Rightarrow> u64 \<Rightarrow> u32 option" where
  "sock_owner_pid lay owner_at mem sk =
     Option.bind (rd_word mem (sk + sk_socket lay) 8) (\<lambda>sock.
     Option.bind (rd_word mem (sock + socket_file lay) 8) (\<lambda>file.
     Option.bind (mem_bytes mem (file + file_f_owner lay) 32) (\<lambda>owner.
       let pid = le_word (bslice (unat (fown_pid lay)) 8 owner)
       in if pid = 0 then None
          else rd_word (mem_write mem owner_at owner) (pid + pid_numbers0_nr lay) 4)))"

text \<open>An overflow event: the queue has a limit and is at or beyond it.\<close>

definition syn_observe :: "kernel_layout \<Rightarrow> u64 \<Rightarrow> kmem \<Rightarrow> u64 \<Rightarrow> syn_event option" where
  "syn_observe lay owner_at mem sk =
     Option.bind (rd_word mem (sk + sk_max_ack_backlog lay) 4) (\<lambda>limit.
     Option.bind (rd_word mem (sk + sk_ack_backlog lay) 4) (\<lambda>len.
       if limit \<noteq> 0 \<and> limit \<le> len
       then map_option (\<lambda>pid. \<lparr>se_pid = pid, se_max_ack_backlog = limit, se_ack_backlog = len\<rparr>)
              (sock_owner_pid lay owner_at mem sk)
       else None))"

context probe_kernel
begin

text \<open>The member read back through its address is the member.\<close>

lemma read_owner_pid:
  assumes "mem_bytes mem a 32 = Some owner" and "unat (fown_pid lay) + 8 \<le> 32"
  shows "pe_read_kernel K (mem_write mem owner_at owner) 8 (owner_at + fown_pid lay) =
    (0, bslice (unat (fown_pid lay)) 8 owner)"
  using mem_bytes_write [of "unat (fown_pid lay)" 8 owner mem owner_at] assms
  by (intro probe_mapped) (simp add: length_mem_bytes)

text \<open>How far the walk from the socket to the owner's process number gets.\<close>

lemma owner_reads:
  assumes "unat (fown_pid lay) + 8 \<le> 32"
  shows "mem_bytes mem (sk + sk_socket lay) 8 = None \<or>
    (\<exists>so. mem_bytes mem (sk + sk_socket lay) 8 = Some so \<and>
      (mem_bytes mem (le_word so + socket_file lay) 8 = None \<or>
       (\<exists>fi. mem_bytes mem (le_word so + socket_file lay) 8 = Some fi \<and>
         (mem_bytes mem (le_word fi + file_f_owner lay) 32 = None \<or>
          (\<exists>ow. mem_bytes mem (le_word fi + file_f_owner lay) 32 = Some ow \<and>
            pe_read_kernel K (mem_write mem owner_at ow) 8 (owner_at + fown_pid lay) =
              (0, bslice (unat (fown_pid lay)) 8 ow) \<and>
            (mem_bytes (mem_write mem owner_at ow)
               (le_word (bslice (unat (fown_pid lay)) 8 ow) + pid_numbers0_nr lay) 4 = None \<or>
             (\<exists>nr. mem_bytes (mem_write mem owner_at ow)
               (le_word (bslice (unat (fown_pid lay)) 8 ow) + pid_numbers0_nr lay) 4 = Some nr)))))))"
  using read_owner_pid [OF _ assms] by (metis not_None_eq)

lemma do_entry_spec:
  assumes "unat (fown_pid lay) + 8 \<le> 32"
  shows "do_entry K lay owner_at mem ctx r =
    (0, case syn_observe lay owner_at mem (PT_REGS_PARM1 ctx) of
        None \<Rightarrow> r
      | Some e \<Rightarrow> snd (pe_ringbuf_output K r (syn_event_bytes e)))"
proof -
  let ?sk = "PT_REGS_PARM1 ctx"
  note S = do_entry_def syn_observe_def sock_owner_pid_def rd_word_def syn_event_zero_def Let_def
    split_def probe_mapped read_kernel_fault
  consider (f1) "mem_bytes mem (?sk + sk_max_ack_backlog lay) 4 = None"
    | (f2) mx where "mem_bytes mem (?sk + sk_max_ack_backlog lay) 4 = Some mx"
        "mem_bytes mem (?sk + sk_ack_backlog lay) 4 = None"
    | (rd) mx ak where "mem_bytes mem (?sk + sk_max_ack_backlog lay) 4 = Some mx"
        "mem_bytes mem (?sk + sk_ack_backlog lay) 4 = Some ak"
    by fastforce
  then show ?thesis
  proof cases
    case f1
    then show ?thesis by (simp add: S)
  next
    case f2
    then show ?thesis by (simp add: S)
  next
    case rd
    show ?thesis
    proof (cases "(le_word mx :: u32) \<noteq> 0 \<and> (le_word mx :: u32) \<le> le_word ak")
      case False
      with rd show ?thesis by (auto simp: S)
    next
      case True
      then show ?thesis
        using owner_reads [OF assms, of mem ?sk owner_at] rd
        by (elim exE disjE conjE) (simp_all add: S)
    qed
  qed
qed

end

end
