(* ===== verification/Vmlinux_Types.thy ===== *)
theory Vmlinux_Types
  imports Vmlinux_Net
begin

text \<open>
  The declarations of \<^verbatim>\<open>src/ebpf/include/vmlinux.h\<close> that the three BPF programs reach,
  closed under by-value members and beside those of Vmlinux_Net: the kernel objects the probes walk
  (\<^verbatim>\<open>oom_control\<close>, \<^verbatim>\<open>task_struct\<close>, \<^verbatim>\<open>sock\<close>, \<^verbatim>\<open>socket\<close>,
  \<^verbatim>\<open>file\<close>, \<^verbatim>\<open>fown_struct\<close>, \<^verbatim>\<open>pid\<close>).  Each C struct, union or typedef is one
  constant \<open>vm_<name>\<close>, its members in the source's order; pointers, function pointers included,
  are \<open>Ptr\<close>, enums are four bytes.  The lemmas evaluate the offsets and sizes the programs use.
\<close>

section \<open>Declarations\<close>

definition vm___u64 :: ctype where
  "vm___u64 = Prim 8"

definition vm___addrpair :: ctype where
  "vm___addrpair = vm___u64"

definition vm___portpair :: ctype where
  "vm___portpair = vm___u32"

definition vm_hlist_node :: ctype where
  "vm_hlist_node = Struct [Fld ''next'' Ptr,
    Fld ''pprev'' Ptr]"

definition vm_possible_net_t :: ctype where
  "vm_possible_net_t = Struct [Fld ''net'' Ptr]"

definition vm_in6_addr :: ctype where
  "vm_in6_addr = Struct [Fld ''in6_u'' (Union [Fld ''u6_addr8'' (Arr vm___u8 16),
      Fld ''u6_addr16'' (Arr vm___be16 8), Fld ''u6_addr32'' (Arr vm___be32 4)])]"

definition vm___s64 :: ctype where
  "vm___s64 = Prim 8"

definition vm_s64 :: ctype where
  "vm_s64 = vm___s64"

definition vm_atomic64_t :: ctype where
  "vm_atomic64_t = Struct [Fld ''counter'' vm_s64]"

definition vm_hlist_nulls_node :: ctype where
  "vm_hlist_nulls_node = Struct [Fld ''next'' Ptr,
    Fld ''pprev'' Ptr]"

definition vm_u32 :: ctype where
  "vm_u32 = vm___u32"

definition vm_atomic_t :: ctype where
  "vm_atomic_t = Struct [Fld ''counter'' (Prim 4)]"

definition vm_refcount_struct :: ctype where
  "vm_refcount_struct = Struct [Fld ''refs'' vm_atomic_t]"

definition vm_refcount_t :: ctype where
  "vm_refcount_t = vm_refcount_struct"

definition vm_sock_common :: ctype where
  "vm_sock_common = Struct [Fld '''' (Union [Fld ''skc_addrpair'' vm___addrpair,
      Fld '''' (Struct [Fld ''skc_daddr'' vm___be32, Fld ''skc_rcv_saddr'' vm___be32])]),
    Fld '''' (Union [Fld ''skc_hash'' (Prim 4), Fld ''skc_u16hashes'' (Arr vm___u16 2)]),
    Fld '''' (Union [Fld ''skc_portpair'' vm___portpair,
      Fld '''' (Struct [Fld ''skc_dport'' vm___be16, Fld ''skc_num'' vm___u16])]),
    Fld ''skc_family'' (Prim 2),
    Fld ''skc_state'' (Prim 1),
    Bit ''skc_reuse'' 1 4,
    Bit ''skc_reuseport'' 1 1,
    Bit ''skc_ipv6only'' 1 1,
    Bit ''skc_net_refcnt'' 1 1,
    Fld ''skc_bound_dev_if'' (Prim 4),
    Fld '''' (Union [Fld ''skc_bind_node'' vm_hlist_node,
      Fld ''skc_portaddr_node'' vm_hlist_node]),
    Fld ''skc_prot'' Ptr,
    Fld ''skc_net'' vm_possible_net_t,
    Fld ''skc_v6_daddr'' vm_in6_addr,
    Fld ''skc_v6_rcv_saddr'' vm_in6_addr,
    Fld ''skc_cookie'' vm_atomic64_t,
    Fld '''' (Union [Fld ''skc_flags'' (Prim 8), Fld ''skc_listener'' Ptr,
      Fld ''skc_tw_dr'' Ptr]),
    Fld ''skc_dontcopy_begin'' (Arr (Prim 4) 0),
    Fld '''' (Union [Fld ''skc_node'' vm_hlist_node,
      Fld ''skc_nulls_node'' vm_hlist_nulls_node]),
    Fld ''skc_tx_queue_mapping'' (Prim 2),
    Fld ''skc_rx_queue_mapping'' (Prim 2),
    Fld '''' (Union [Fld ''skc_incoming_cpu'' (Prim 4), Fld ''skc_rcv_wnd'' vm_u32,
      Fld ''skc_tw_rcv_nxt'' vm_u32]),
    Fld ''skc_refcnt'' vm_refcount_t,
    Fld ''skc_dontcopy_end'' (Arr (Prim 4) 0),
    Fld '''' (Union [Fld ''skc_rxhash'' vm_u32, Fld ''skc_window_clamp'' vm_u32,
      Fld ''skc_tw_snd_nxt'' vm_u32])]"

definition vm_u8 :: ctype where
  "vm_u8 = vm___u8"

definition vm_u16 :: ctype where
  "vm_u16 = vm___u16"

definition vm_qspinlock :: ctype where
  "vm_qspinlock = Struct [Fld '''' (Union [Fld ''val'' vm_atomic_t, Fld '''' (Struct [Fld ''locked'' vm_u8,
      Fld ''pending'' vm_u8]), Fld '''' (Struct [Fld ''locked_pending'' vm_u16,
      Fld ''tail'' vm_u16])])]"

definition vm_arch_spinlock_t :: ctype where
  "vm_arch_spinlock_t = vm_qspinlock"

definition vm_raw_spinlock :: ctype where
  "vm_raw_spinlock = Struct [Fld ''raw_lock'' vm_arch_spinlock_t]"

definition vm_spinlock :: ctype where
  "vm_spinlock = Struct [Fld '''' (Union [Fld ''rlock'' vm_raw_spinlock])]"

definition vm_spinlock_t :: ctype where
  "vm_spinlock_t = vm_spinlock"

definition vm_list_head :: ctype where
  "vm_list_head = Struct [Fld ''next'' Ptr,
    Fld ''prev'' Ptr]"

definition vm_wait_queue_head :: ctype where
  "vm_wait_queue_head = Struct [Fld ''lock'' vm_spinlock_t,
    Fld ''head'' vm_list_head]"

definition vm_wait_queue_head_t :: ctype where
  "vm_wait_queue_head_t = vm_wait_queue_head"

definition vm_socket_lock_t :: ctype where
  "vm_socket_lock_t = Struct [Fld ''slock'' vm_spinlock_t,
    Fld ''owned'' (Prim 4),
    Fld ''wq'' vm_wait_queue_head_t]"

definition vm_sk_buff_head :: ctype where
  "vm_sk_buff_head = Struct [Fld ''next'' Ptr,
    Fld ''prev'' Ptr,
    Fld ''qlen'' vm___u32,
    Fld ''lock'' vm_spinlock_t]"

definition vm_rb_root :: ctype where
  "vm_rb_root = Struct [Fld ''rb_node'' Ptr]"

definition vm___s32 :: ctype where
  "vm___s32 = Prim 4"

definition vm_timer_list :: ctype where
  "vm_timer_list = Struct [Fld ''entry'' vm_hlist_node,
    Fld ''expires'' (Prim 8),
    Fld ''function'' Ptr,
    Fld ''flags'' vm_u32,
    Fld ''ck_reserved1'' (Prim 8),
    Fld ''ck_reserved2'' (Prim 8)]"

definition vm_page_frag :: ctype where
  "vm_page_frag = Struct [Fld ''page'' Ptr,
    Fld ''offset'' vm___u32,
    Fld ''size'' vm___u32]"

definition vm_u64 :: ctype where
  "vm_u64 = vm___u64"

definition vm_netdev_features_t :: ctype where
  "vm_netdev_features_t = vm_u64"

definition vm_gfp_t :: ctype where
  "vm_gfp_t = Prim 4"

definition vm_qrwlock :: ctype where
  "vm_qrwlock = Struct [Fld '''' (Union [Fld ''cnts'' vm_atomic_t, Fld '''' (Struct [Fld ''wlocked'' vm_u8,
      Fld ''__lstate'' (Arr vm_u8 3)])]),
    Fld ''wait_lock'' vm_arch_spinlock_t]"

definition vm_arch_rwlock_t :: ctype where
  "vm_arch_rwlock_t = vm_qrwlock"

definition vm_rwlock_t :: ctype where
  "vm_rwlock_t = Struct [Fld ''raw_lock'' vm_arch_rwlock_t]"

definition vm___kernel_uid32_t :: ctype where
  "vm___kernel_uid32_t = Prim 4"

definition vm_uid_t :: ctype where
  "vm_uid_t = vm___kernel_uid32_t"

definition vm_kuid_t :: ctype where
  "vm_kuid_t = Struct [Fld ''val'' vm_uid_t]"

definition vm_ktime_t :: ctype where
  "vm_ktime_t = vm_s64"

definition vm_sock_cgroup_data :: ctype where
  "vm_sock_cgroup_data = Struct [Fld '''' (Union [Fld '''' (Struct [Bit ''is_data'' 1 1, Bit ''no_refcnt'' 1 1,
      Bit ''unused'' 1 6, Fld ''padding'' vm_u8, Fld ''prioidx'' vm_u16,
      Fld ''classid'' vm_u32]), Fld ''val'' vm_u64])]"

definition vm_callback_head :: ctype where
  "vm_callback_head = Struct [Fld ''next'' Ptr,
    Fld ''func'' Ptr]"

definition vm___kernel_pid_t :: ctype where
  "vm___kernel_pid_t = Prim 4"

definition vm_pid_t :: ctype where
  "vm_pid_t = vm___kernel_pid_t"

definition vm_sock :: ctype where
  "vm_sock = Struct [Fld ''__sk_common'' vm_sock_common,
    Fld ''sk_lock'' vm_socket_lock_t,
    Fld ''sk_drops'' vm_atomic_t,
    Fld ''sk_rcvlowat'' (Prim 4),
    Fld ''sk_error_queue'' vm_sk_buff_head,
    Fld ''sk_rx_skb_cache'' Ptr,
    Fld ''sk_receive_queue'' vm_sk_buff_head,
    Fld ''sk_backlog'' (Struct [Fld ''rmem_alloc'' vm_atomic_t, Fld ''len'' (Prim 4),
      Fld ''head'' Ptr, Fld ''tail'' Ptr]),
    Fld ''sk_forward_alloc'' (Prim 4),
    Fld ''sk_ll_usec'' (Prim 4),
    Fld ''sk_napi_id'' (Prim 4),
    Fld ''sk_rcvbuf'' (Prim 4),
    Fld ''sk_filter'' Ptr,
    Fld '''' (Union [Fld ''sk_wq'' Ptr, Fld ''sk_wq_raw'' Ptr]),
    Fld ''sk_policy'' (Arr Ptr 2),
    Fld ''sk_rx_dst'' Ptr,
    Fld ''sk_dst_cache'' Ptr,
    Fld ''sk_omem_alloc'' vm_atomic_t,
    Fld ''sk_sndbuf'' (Prim 4),
    Fld ''sk_wmem_queued'' (Prim 4),
    Fld ''sk_wmem_alloc'' vm_refcount_t,
    Fld ''sk_tsq_flags'' (Prim 8),
    Fld '''' (Union [Fld ''sk_send_head'' Ptr, Fld ''tcp_rtx_queue'' vm_rb_root]),
    Fld ''sk_tx_skb_cache'' Ptr,
    Fld ''sk_write_queue'' vm_sk_buff_head,
    Fld ''sk_peek_off'' vm___s32,
    Fld ''sk_write_pending'' (Prim 4),
    Fld ''sk_dst_pending_confirm'' vm___u32,
    Fld ''sk_pacing_status'' vm_u32,
    Fld ''sk_sndtimeo'' (Prim 8),
    Fld ''sk_timer'' vm_timer_list,
    Fld ''sk_priority'' vm___u32,
    Fld ''sk_mark'' vm___u32,
    Fld ''sk_pacing_rate'' (Prim 8),
    Fld ''sk_max_pacing_rate'' (Prim 8),
    Fld ''sk_frag'' vm_page_frag,
    Fld ''sk_route_caps'' vm_netdev_features_t,
    Fld ''sk_route_nocaps'' vm_netdev_features_t,
    Fld ''sk_route_forced_caps'' vm_netdev_features_t,
    Fld ''sk_gso_type'' (Prim 4),
    Fld ''sk_gso_max_size'' (Prim 4),
    Fld ''sk_allocation'' vm_gfp_t,
    Fld ''sk_txhash'' vm___u32,
    Bit ''sk_padding'' 1 1,
    Bit ''sk_kern_sock'' 1 1,
    Bit ''sk_no_check_tx'' 1 1,
    Bit ''sk_no_check_rx'' 1 1,
    Bit ''sk_userlocks'' 1 4,
    Fld ''sk_pacing_shift'' vm_u8,
    Fld ''sk_type'' vm_u16,
    Fld ''sk_protocol'' vm_u16,
    Fld ''sk_gso_max_segs'' vm_u16,
    Fld ''sk_lingertime'' (Prim 8),
    Fld ''sk_prot_creator'' Ptr,
    Fld ''sk_callback_lock'' vm_rwlock_t,
    Fld ''sk_err'' (Prim 4),
    Fld ''sk_err_soft'' (Prim 4),
    Fld ''sk_ack_backlog'' vm_u32,
    Fld ''sk_max_ack_backlog'' vm_u32,
    Fld ''sk_uid'' vm_kuid_t,
    Fld ''sk_peer_lock'' vm_spinlock_t,
    Fld ''sk_peer_pid'' Ptr,
    Fld ''sk_peer_cred'' Ptr,
    Fld ''sk_rcvtimeo'' (Prim 8),
    Fld ''sk_stamp'' vm_ktime_t,
    Fld ''sk_tsflags'' vm_u16,
    Fld ''sk_shutdown'' vm_u8,
    Fld ''sk_tskey'' vm_u32,
    Fld ''sk_zckey'' vm_atomic_t,
    Fld ''sk_clockid'' vm_u8,
    Bit ''sk_txtime_deadline_mode'' 1 1,
    Bit ''sk_txtime_report_errors'' 1 1,
    Bit ''sk_txtime_unused'' 1 6,
    Fld ''sk_socket'' Ptr,
    Fld ''sk_user_data'' Ptr,
    Fld ''sk_security'' Ptr,
    Fld ''sk_cgrp_data'' vm_sock_cgroup_data,
    Fld ''sk_memcg'' Ptr,
    Fld ''sk_state_change'' Ptr,
    Fld ''sk_data_ready'' Ptr,
    Fld ''sk_write_space'' Ptr,
    Fld ''sk_error_report'' Ptr,
    Fld ''sk_backlog_rcv'' Ptr,
    Fld ''sk_validate_xmit_skb'' Ptr,
    Fld ''sk_destruct'' Ptr,
    Fld ''sk_reuseport_cb'' Ptr,
    Fld ''sk_toa_data'' (Arr vm___be32 16),
    Fld ''sk_bpf_storage'' Ptr,
    Fld ''sk_rcu'' vm_callback_head,
    Fld ''sk_pid'' vm_pid_t,
    Fld ''ck_reserved1'' (Prim 8),
    Fld ''ck_reserved2'' (Prim 8)]"

definition vm_socket_state :: ctype where
  "vm_socket_state = Prim 4"

definition vm_socket_wq :: ctype where
  "vm_socket_wq = Struct [Fld ''wait'' vm_wait_queue_head_t,
    Fld ''fasync_list'' Ptr,
    Fld ''flags'' (Prim 8),
    Fld ''rcu'' vm_callback_head,
    Bit '''' 8 64]"

definition vm_socket :: ctype where
  "vm_socket = Struct [Fld ''state'' vm_socket_state,
    Fld ''type'' (Prim 2),
    Fld ''flags'' (Prim 8),
    Fld ''file'' Ptr,
    Fld ''sk'' Ptr,
    Fld ''ops'' Ptr,
    Bit '''' 8 64,
    Bit '''' 8 64,
    Bit '''' 8 64,
    Fld ''wq'' vm_socket_wq]"

definition vm_llist_node :: ctype where
  "vm_llist_node = Struct [Fld ''next'' Ptr]"

definition vm_path :: ctype where
  "vm_path = Struct [Fld ''mnt'' Ptr,
    Fld ''dentry'' Ptr]"

definition vm_atomic_long_t :: ctype where
  "vm_atomic_long_t = vm_atomic64_t"

definition vm_fmode_t :: ctype where
  "vm_fmode_t = Prim 4"

definition vm_optimistic_spin_queue :: ctype where
  "vm_optimistic_spin_queue = Struct [Fld ''tail'' vm_atomic_t]"

definition vm_mutex :: ctype where
  "vm_mutex = Struct [Fld ''owner'' vm_atomic_long_t,
    Fld ''wait_lock'' vm_spinlock_t,
    Fld ''osq'' vm_optimistic_spin_queue,
    Fld ''wait_list'' vm_list_head]"

definition vm___kernel_loff_t :: ctype where
  "vm___kernel_loff_t = Prim 8"

definition vm_loff_t :: ctype where
  "vm_loff_t = vm___kernel_loff_t"

definition vm_fown_struct :: ctype where
  "vm_fown_struct = Struct [Fld ''lock'' vm_rwlock_t,
    Fld ''pid'' Ptr,
    Fld ''pid_type'' (Prim 4),
    Fld ''uid'' vm_kuid_t,
    Fld ''euid'' vm_kuid_t,
    Fld ''signum'' (Prim 4)]"

definition vm_file_ra_state :: ctype where
  "vm_file_ra_state = Struct [Fld ''start'' (Prim 8),
    Fld ''size'' (Prim 4),
    Fld ''async_size'' (Prim 4),
    Fld ''ra_pages'' (Prim 4),
    Fld ''mmap_miss'' (Prim 4),
    Fld ''prev_pos'' vm_loff_t]"

definition vm_errseq_t :: ctype where
  "vm_errseq_t = vm_u32"

definition vm_file :: ctype where
  "vm_file = Struct [Fld ''f_u'' (Union [Fld ''fu_llist'' vm_llist_node,
      Fld ''fu_rcuhead'' vm_callback_head]),
    Fld ''f_path'' vm_path,
    Fld ''f_inode'' Ptr,
    Fld ''f_op'' Ptr,
    Fld ''f_lock'' vm_spinlock_t,
    Fld ''f_write_hint'' (Prim 4),
    Fld ''f_count'' vm_atomic_long_t,
    Fld ''f_flags'' (Prim 4),
    Fld ''f_mode'' vm_fmode_t,
    Fld ''f_pos_lock'' vm_mutex,
    Fld ''f_pos'' vm_loff_t,
    Fld ''f_owner'' vm_fown_struct,
    Fld ''f_cred'' Ptr,
    Fld ''f_ra'' vm_file_ra_state,
    Fld ''f_version'' vm_u64,
    Fld ''f_security'' Ptr,
    Fld ''private_data'' Ptr,
    Fld ''f_ep_links'' vm_list_head,
    Fld ''f_tfile_llink'' vm_list_head,
    Fld ''f_mapping'' Ptr,
    Fld ''f_wb_err'' vm_errseq_t,
    Fld ''f_sb_err'' vm_errseq_t]"

definition vm_hlist_head :: ctype where
  "vm_hlist_head = Struct [Fld ''first'' Ptr]"

definition vm_upid :: ctype where
  "vm_upid = Struct [Fld ''nr'' (Prim 4),
    Fld ''ns'' Ptr]"

definition vm_pid :: ctype where
  "vm_pid = Struct [Fld ''count'' vm_refcount_t,
    Fld ''level'' (Prim 4),
    Fld ''lock'' vm_spinlock_t,
    Fld ''tasks'' (Arr vm_hlist_head 4),
    Fld ''inodes'' vm_hlist_head,
    Fld ''wait_pidfd'' vm_wait_queue_head_t,
    Fld ''rcu'' vm_callback_head,
    Fld ''numbers'' (Arr vm_upid 1)]"

definition vm_thread_info :: ctype where
  "vm_thread_info = Struct [Fld ''flags'' (Prim 8),
    Fld ''status'' vm_u32]"

definition vm___call_single_node :: ctype where
  "vm___call_single_node = Struct [Fld ''llist'' vm_llist_node,
    Fld '''' (Union [Fld ''u_flags'' (Prim 4), Fld ''a_flags'' vm_atomic_t]),
    Fld ''src'' vm_u16,
    Fld ''dst'' vm_u16]"

definition vm_load_weight :: ctype where
  "vm_load_weight = Struct [Fld ''weight'' (Prim 8),
    Fld ''inv_weight'' vm_u32,
    Fld ''ck_reserved1'' (Prim 8),
    Fld ''ck_reserved2'' (Prim 8),
    Fld ''ck_reserved3'' (Prim 8),
    Fld ''ck_reserved4'' (Prim 8),
    Fld ''ck_reserved5'' (Prim 8),
    Fld ''ck_reserved6'' (Prim 8),
    Fld ''ck_reserved7'' (Prim 8),
    Fld ''ck_reserved8'' (Prim 8)]"

definition vm_rb_node :: ctype where
  "vm_rb_node = Struct [Fld ''__rb_parent_color'' (Prim 8),
    Fld ''rb_right'' Ptr,
    Fld ''rb_left'' Ptr]"

definition vm_seqcount :: ctype where
  "vm_seqcount = Struct [Fld ''sequence'' (Prim 4)]"

definition vm_seqcount_t :: ctype where
  "vm_seqcount_t = vm_seqcount"

definition vm_seqcount_spinlock :: ctype where
  "vm_seqcount_spinlock = Struct [Fld ''seqcount'' vm_seqcount_t]"

definition vm_seqcount_spinlock_t :: ctype where
  "vm_seqcount_spinlock_t = vm_seqcount_spinlock"

definition vm_seqlock_t :: ctype where
  "vm_seqlock_t = Struct [Fld ''seqcount'' vm_seqcount_spinlock_t,
    Fld ''lock'' vm_spinlock_t]"

definition vm_sched_statistics :: ctype where
  "vm_sched_statistics = Struct [Fld ''wait_start'' vm_u64,
    Fld ''wait_max'' vm_u64,
    Fld ''wait_count'' vm_u64,
    Fld ''wait_sum'' vm_u64,
    Fld ''parent_wait_sum_base'' vm_u64,
    Fld ''parent_wait_contrib'' vm_u64,
    Fld ''iowait_count'' vm_u64,
    Fld ''iowait_sum'' vm_u64,
    Fld ''sleep_start'' vm_u64,
    Fld ''sleep_max'' vm_u64,
    Fld ''sum_sleep_runtime'' vm_s64,
    Fld ''block_start'' vm_u64,
    Fld ''block_max'' vm_u64,
    Fld ''exec_max'' vm_u64,
    Fld ''slice_max'' vm_u64,
    Fld ''nr_migrations_cold'' vm_u64,
    Fld ''nr_failed_migrations_affine'' vm_u64,
    Fld ''nr_failed_migrations_running'' vm_u64,
    Fld ''nr_failed_migrations_id'' vm_u64,
    Fld ''nr_failed_migrations_hot'' vm_u64,
    Fld ''nr_forced_migrations'' vm_u64,
    Fld ''nr_wakeups'' vm_u64,
    Fld ''nr_wakeups_sync'' vm_u64,
    Fld ''nr_wakeups_migrate'' vm_u64,
    Fld ''nr_wakeups_local'' vm_u64,
    Fld ''nr_wakeups_remote'' vm_u64,
    Fld ''nr_wakeups_affine'' vm_u64,
    Fld ''nr_wakeups_affine_attempts'' vm_u64,
    Fld ''nr_wakeups_passive'' vm_u64,
    Fld ''nr_wakeups_idle'' vm_u64,
    Fld ''ck_reserved1'' (Prim 8),
    Fld ''ck_reserved2'' (Prim 8),
    Fld ''ck_reserved3'' (Prim 8),
    Fld ''ck_reserved4'' (Prim 8),
    Fld ''ck_reserved5'' (Prim 8),
    Fld ''ck_reserved6'' (Prim 8),
    Fld ''ck_reserved7'' (Prim 8),
    Fld ''ck_reserved8'' (Prim 8)]"

definition vm_util_est :: ctype where
  "vm_util_est = Struct [Fld ''enqueued'' (Prim 4),
    Fld ''ewma'' (Prim 4)]"

definition vm_sched_avg :: ctype where
  "vm_sched_avg = Struct [Fld ''last_update_time'' vm_u64,
    Fld ''load_sum'' vm_u64,
    Fld ''runnable_sum'' vm_u64,
    Fld ''util_sum'' vm_u32,
    Fld ''period_contrib'' vm_u32,
    Fld ''load_avg'' (Prim 8),
    Fld ''runnable_avg'' (Prim 8),
    Fld ''util_avg'' (Prim 8),
    Fld ''util_est'' vm_util_est,
    Fld ''ck_reserved1'' (Prim 8),
    Fld ''ck_reserved2'' (Prim 8),
    Fld ''ck_reserved3'' (Prim 8),
    Fld ''ck_reserved4'' (Prim 8),
    Fld ''ck_reserved5'' (Prim 8),
    Fld ''ck_reserved6'' (Prim 8),
    Fld ''ck_reserved7'' (Prim 8),
    Fld ''ck_reserved8'' (Prim 8)]"

definition vm_sched_entity :: ctype where
  "vm_sched_entity = Struct [Fld ''load'' vm_load_weight,
    Fld ''run_node'' vm_rb_node,
    Fld ''group_node'' vm_list_head,
    Fld ''on_rq'' (Prim 4),
    Fld ''exec_start'' vm_u64,
    Fld ''sum_exec_runtime'' vm_u64,
    Fld ''vruntime'' vm_u64,
    Fld ''prev_sum_exec_runtime'' vm_u64,
    Fld ''exec_start_raw'' vm_u64,
    Fld ''sum_exec_raw'' vm_u64,
    Fld ''cg_idle_start'' vm_u64,
    Fld ''cg_idle_sum'' vm_u64,
    Fld ''cg_init_time'' vm_u64,
    Fld ''cg_nr_iowait'' vm_u64,
    Fld ''cg_iowait_sum'' vm_u64,
    Fld ''cg_iowait_start'' vm_u64,
    Fld ''cg_ineffective_sum'' vm_u64,
    Fld ''cg_ineffective_start'' vm_u64,
    Fld ''idle_seqlock'' vm_seqlock_t,
    Fld ''iowait_lock'' vm_spinlock_t,
    Fld ''nr_migrations'' vm_u64,
    Fld ''statistics'' vm_sched_statistics,
    Fld ''depth'' (Prim 4),
    Fld ''parent'' Ptr,
    Fld ''cfs_rq'' Ptr,
    Fld ''my_q'' Ptr,
    Fld ''runnable_weight'' (Prim 8),
    Fld ''id_flags'' (Prim 4),
    Fld ''expel_node'' vm_list_head,
    Bit '''' 8 64,
    Fld ''avg'' vm_sched_avg,
    Fld ''ck_reserved1'' (Prim 8),
    Fld ''ck_reserved2'' (Prim 8),
    Fld ''ck_reserved3'' (Prim 8),
    Fld ''ck_reserved4'' (Prim 8),
    Fld ''ck_reserved5'' (Prim 8),
    Fld ''ck_reserved6'' (Prim 8),
    Fld ''ck_reserved7'' (Prim 8),
    Fld ''ck_reserved8'' (Prim 8)]"

definition vm_sched_rt_entity :: ctype where
  "vm_sched_rt_entity = Struct [Fld ''run_list'' vm_list_head,
    Fld ''timeout'' (Prim 8),
    Fld ''watchdog_stamp'' (Prim 8),
    Fld ''time_slice'' (Prim 4),
    Fld ''on_rq'' (Prim 2),
    Fld ''on_list'' (Prim 2),
    Fld ''back'' Ptr,
    Fld ''parent'' Ptr,
    Fld ''rt_rq'' Ptr,
    Fld ''my_q'' Ptr,
    Fld ''ck_reserved1'' (Prim 8),
    Fld ''ck_reserved2'' (Prim 8),
    Fld ''ck_reserved3'' (Prim 8),
    Fld ''ck_reserved4'' (Prim 8),
    Fld ''ck_reserved5'' (Prim 8),
    Fld ''ck_reserved6'' (Prim 8),
    Fld ''ck_reserved7'' (Prim 8),
    Fld ''ck_reserved8'' (Prim 8)]"

definition vm_timerqueue_node :: ctype where
  "vm_timerqueue_node = Struct [Fld ''node'' vm_rb_node,
    Fld ''expires'' vm_ktime_t]"

definition vm_hrtimer :: ctype where
  "vm_hrtimer = Struct [Fld ''node'' vm_timerqueue_node,
    Fld ''_softexpires'' vm_ktime_t,
    Fld ''function'' Ptr,
    Fld ''base'' Ptr,
    Fld ''state'' vm_u8,
    Fld ''is_rel'' vm_u8,
    Fld ''is_soft'' vm_u8,
    Fld ''is_hard'' vm_u8]"

definition vm_sched_dl_entity :: ctype where
  "vm_sched_dl_entity = Struct [Fld ''rb_node'' vm_rb_node,
    Fld ''dl_runtime'' vm_u64,
    Fld ''dl_deadline'' vm_u64,
    Fld ''dl_period'' vm_u64,
    Fld ''dl_bw'' vm_u64,
    Fld ''dl_density'' vm_u64,
    Fld ''runtime'' vm_s64,
    Fld ''deadline'' vm_u64,
    Fld ''flags'' (Prim 4),
    Bit ''dl_throttled'' 4 1,
    Bit ''dl_yielded'' 4 1,
    Bit ''dl_non_contending'' 4 1,
    Bit ''dl_overrun'' 4 1,
    Fld ''dl_timer'' vm_hrtimer,
    Fld ''inactive_timer'' vm_hrtimer,
    Fld ''pi_se'' Ptr,
    Fld ''ck_reserved1'' (Prim 8),
    Fld ''ck_reserved2'' (Prim 8),
    Fld ''ck_reserved3'' (Prim 8),
    Fld ''ck_reserved4'' (Prim 8),
    Fld ''ck_reserved5'' (Prim 8),
    Fld ''ck_reserved6'' (Prim 8),
    Fld ''ck_reserved7'' (Prim 8),
    Fld ''ck_reserved8'' (Prim 8)]"

definition vm_cpumask :: ctype where
  "vm_cpumask = Struct [Fld ''bits'' (Arr (Prim 8) 128)]"

definition vm_cpumask_t :: ctype where
  "vm_cpumask_t = vm_cpumask"

definition vm_rcu_special :: ctype where
  "vm_rcu_special = Union [Fld ''b'' (Struct [Fld ''blocked'' vm_u8, Fld ''need_qs'' vm_u8, Fld ''exp_hint'' vm_u8,
      Fld ''need_mb'' vm_u8]),
    Fld ''s'' vm_u32]"

definition vm_sched_info :: ctype where
  "vm_sched_info = Struct [Fld ''pcount'' (Prim 8),
    Fld ''run_delay'' (Prim 8),
    Fld ''last_arrival'' (Prim 8),
    Fld ''last_queued'' (Prim 8),
    Fld ''ck_reserved1'' (Prim 8),
    Fld ''ck_reserved2'' (Prim 8),
    Fld ''ck_reserved3'' (Prim 8),
    Fld ''ck_reserved4'' (Prim 8),
    Fld ''ck_reserved5'' (Prim 8),
    Fld ''ck_reserved6'' (Prim 8),
    Fld ''ck_reserved7'' (Prim 8),
    Fld ''ck_reserved8'' (Prim 8)]"

definition vm_plist_node :: ctype where
  "vm_plist_node = Struct [Fld ''prio'' (Prim 4),
    Fld ''prio_list'' vm_list_head,
    Fld ''node_list'' vm_list_head]"

definition vm_vmacache :: ctype where
  "vm_vmacache = Struct [Fld ''seqnum'' vm_u64,
    Fld ''vmas'' (Arr Ptr 4)]"

definition vm_task_rss_stat :: ctype where
  "vm_task_rss_stat = Struct [Fld ''events'' (Prim 4),
    Fld ''count'' (Arr (Prim 4) 4)]"

definition vm___kernel_clockid_t :: ctype where
  "vm___kernel_clockid_t = Prim 4"

definition vm_clockid_t :: ctype where
  "vm_clockid_t = vm___kernel_clockid_t"

definition vm_restart_block :: ctype where
  "vm_restart_block = Struct [Fld ''fn'' Ptr,
    Fld '''' (Union [Fld ''futex'' (Struct [Fld ''uaddr'' Ptr, Fld ''val'' vm_u32,
      Fld ''flags'' vm_u32, Fld ''bitset'' vm_u32, Fld ''time'' vm_u64, Fld ''uaddr2'' Ptr]),
      Fld ''nanosleep'' (Struct [Fld ''clockid'' vm_clockid_t, Fld ''type'' (Prim 4),
      Fld '''' (Union [Fld ''rmtp'' Ptr, Fld ''compat_rmtp'' Ptr]), Fld ''expires'' vm_u64]),
      Fld ''poll'' (Struct [Fld ''ufds'' Ptr, Fld ''nfds'' (Prim 4),
      Fld ''has_timeout'' (Prim 4), Fld ''tv_sec'' (Prim 8), Fld ''tv_nsec'' (Prim 8)])])]"

definition vm_raw_spinlock_t :: ctype where
  "vm_raw_spinlock_t = vm_raw_spinlock"

definition vm_prev_cputime :: ctype where
  "vm_prev_cputime = Struct [Fld ''utime'' vm_u64,
    Fld ''stime'' vm_u64,
    Fld ''lock'' vm_raw_spinlock_t]"

definition vm_vtime :: ctype where
  "vm_vtime = Struct [Fld ''seqcount'' vm_seqcount_t,
    Fld ''starttime'' (Prim 8),
    Fld ''state'' (Prim 4),
    Fld ''cpu'' (Prim 4),
    Fld ''utime'' vm_u64,
    Fld ''stime'' vm_u64,
    Fld ''gtime'' vm_u64]"

definition vm_rb_root_cached :: ctype where
  "vm_rb_root_cached = Struct [Fld ''rb_root'' vm_rb_root,
    Fld ''rb_leftmost'' Ptr]"

definition vm_timerqueue_head :: ctype where
  "vm_timerqueue_head = Struct [Fld ''rb_root'' vm_rb_root_cached]"

definition vm_posix_cputimer_base :: ctype where
  "vm_posix_cputimer_base = Struct [Fld ''nextevt'' vm_u64,
    Fld ''tqhead'' vm_timerqueue_head]"

definition vm_posix_cputimers :: ctype where
  "vm_posix_cputimers = Struct [Fld ''bases'' (Arr vm_posix_cputimer_base 3),
    Fld ''timers_active'' (Prim 4),
    Fld ''expiry_active'' (Prim 4)]"

definition vm_posix_cputimers_work :: ctype where
  "vm_posix_cputimers_work = Struct [Fld ''work'' vm_callback_head,
    Fld ''scheduled'' (Prim 4)]"

definition vm_sysv_sem :: ctype where
  "vm_sysv_sem = Struct [Fld ''undo_list'' Ptr]"

definition vm_sysv_shm :: ctype where
  "vm_sysv_shm = Struct [Fld ''shm_clist'' vm_list_head]"

definition vm_sigset_t :: ctype where
  "vm_sigset_t = Struct [Fld ''sig'' (Arr (Prim 8) 1)]"

definition vm_sigpending :: ctype where
  "vm_sigpending = Struct [Fld ''list'' vm_list_head,
    Fld ''signal'' vm_sigset_t]"

definition vm___kernel_ulong_t :: ctype where
  "vm___kernel_ulong_t = Prim 8"

definition vm___kernel_size_t :: ctype where
  "vm___kernel_size_t = vm___kernel_ulong_t"

definition vm_size_t :: ctype where
  "vm_size_t = vm___kernel_size_t"

definition vm_seccomp :: ctype where
  "vm_seccomp = Struct [Fld ''mode'' (Prim 4),
    Fld ''filter_count'' vm_atomic_t,
    Fld ''filter'' Ptr]"

definition vm_wake_q_node :: ctype where
  "vm_wake_q_node = Struct [Fld ''next'' Ptr]"

definition vm_task_io_accounting :: ctype where
  "vm_task_io_accounting = Struct [Fld ''rchar'' vm_u64,
    Fld ''wchar'' vm_u64,
    Fld ''syscr'' vm_u64,
    Fld ''syscw'' vm_u64,
    Fld ''read_bytes'' vm_u64,
    Fld ''write_bytes'' vm_u64,
    Fld ''cancelled_write_bytes'' vm_u64]"

definition vm_nodemask_t :: ctype where
  "vm_nodemask_t = Struct [Fld ''bits'' (Arr (Prim 8) 16)]"

definition vm_arch_tlbflush_unmap_batch :: ctype where
  "vm_arch_tlbflush_unmap_batch = Struct [Fld ''cpumask'' vm_cpumask]"

definition vm_tlbflush_unmap_batch :: ctype where
  "vm_tlbflush_unmap_batch = Struct [Fld ''arch'' vm_arch_tlbflush_unmap_batch,
    Fld ''flush_required'' (Prim 1),
    Fld ''writable'' (Prim 1)]"

definition vm_desc_struct :: ctype where
  "vm_desc_struct = Struct [Fld ''limit0'' vm_u16,
    Fld ''base0'' vm_u16,
    Bit ''base1'' 2 8,
    Bit ''type'' 2 4,
    Bit ''s'' 2 1,
    Bit ''dpl'' 2 2,
    Bit ''p'' 2 1,
    Bit ''limit1'' 2 4,
    Bit ''avl'' 2 1,
    Bit ''l'' 2 1,
    Bit ''d'' 2 1,
    Bit ''g'' 2 1,
    Bit ''base2'' 2 8]"

definition vm_fpu_state_perm :: ctype where
  "vm_fpu_state_perm = Struct [Fld ''__state_perm'' vm_u64,
    Fld ''__state_size'' (Prim 4),
    Fld ''__user_state_size'' (Prim 4)]"

definition vm_fregs_state :: ctype where
  "vm_fregs_state = Struct [Fld ''cwd'' vm_u32,
    Fld ''swd'' vm_u32,
    Fld ''twd'' vm_u32,
    Fld ''fip'' vm_u32,
    Fld ''fcs'' vm_u32,
    Fld ''foo'' vm_u32,
    Fld ''fos'' vm_u32,
    Fld ''st_space'' (Arr vm_u32 20),
    Fld ''status'' vm_u32]"

definition vm_fxregs_state :: ctype where
  "vm_fxregs_state = Struct [Fld ''cwd'' vm_u16,
    Fld ''swd'' vm_u16,
    Fld ''twd'' vm_u16,
    Fld ''fop'' vm_u16,
    Fld '''' (Union [Fld '''' (Struct [Fld ''rip'' vm_u64, Fld ''rdp'' vm_u64]),
      Fld '''' (Struct [Fld ''fip'' vm_u32, Fld ''fcs'' vm_u32, Fld ''foo'' vm_u32,
      Fld ''fos'' vm_u32])]),
    Fld ''mxcsr'' vm_u32,
    Fld ''mxcsr_mask'' vm_u32,
    Fld ''st_space'' (Arr vm_u32 32),
    Fld ''xmm_space'' (Arr vm_u32 64),
    Fld ''padding'' (Arr vm_u32 12),
    Fld '''' (Union [Fld ''padding1'' (Arr vm_u32 12), Fld ''sw_reserved'' (Arr vm_u32 12)])]"

definition vm_swregs_state :: ctype where
  "vm_swregs_state = Struct [Fld ''cwd'' vm_u32,
    Fld ''swd'' vm_u32,
    Fld ''twd'' vm_u32,
    Fld ''fip'' vm_u32,
    Fld ''fcs'' vm_u32,
    Fld ''foo'' vm_u32,
    Fld ''fos'' vm_u32,
    Fld ''st_space'' (Arr vm_u32 20),
    Fld ''ftop'' vm_u8,
    Fld ''changed'' vm_u8,
    Fld ''lookahead'' vm_u8,
    Fld ''no_update'' vm_u8,
    Fld ''rm'' vm_u8,
    Fld ''alimit'' vm_u8,
    Fld ''info'' Ptr,
    Fld ''entry_eip'' vm_u32]"

definition vm_xstate_header :: ctype where
  "vm_xstate_header = Struct [Fld ''xfeatures'' vm_u64,
    Fld ''xcomp_bv'' vm_u64,
    Fld ''reserved'' (Arr vm_u64 6)]"

definition vm_xregs_state :: ctype where
  "vm_xregs_state = Struct [Fld ''i387'' vm_fxregs_state,
    Fld ''header'' vm_xstate_header,
    Fld ''extended_state_area'' (Arr vm_u8 0)]"

definition vm_fpregs_state :: ctype where
  "vm_fpregs_state = Union [Fld ''fsave'' vm_fregs_state,
    Fld ''fxsave'' vm_fxregs_state,
    Fld ''soft'' vm_swregs_state,
    Fld ''xsave'' vm_xregs_state,
    Fld ''__padding'' (Arr vm_u8 4096)]"

definition vm_fpstate :: ctype where
  "vm_fpstate = Struct [Fld ''size'' (Prim 4),
    Fld ''user_size'' (Prim 4),
    Fld ''xfeatures'' vm_u64,
    Fld ''user_xfeatures'' vm_u64,
    Fld ''xfd'' vm_u64,
    Bit ''is_valloc'' 4 1,
    Bit ''is_guest'' 4 1,
    Bit ''is_confidential'' 4 1,
    Bit ''in_use'' 4 1,
    Bit '''' 8 60,
    Bit '''' 8 64,
    Bit '''' 8 64,
    Bit '''' 8 64,
    Fld ''regs'' vm_fpregs_state]"

definition vm_fpu :: ctype where
  "vm_fpu = Struct [Fld ''last_cpu'' (Prim 4),
    Fld ''avx512_timestamp'' (Prim 8),
    Fld ''fpstate'' Ptr,
    Fld ''__task_fpstate'' Ptr,
    Fld ''perm'' vm_fpu_state_perm,
    Fld ''guest_perm'' vm_fpu_state_perm,
    Fld ''__fpstate'' vm_fpstate]"

definition vm_thread_struct :: ctype where
  "vm_thread_struct = Struct [Fld ''tls_array'' (Arr vm_desc_struct 3),
    Fld ''sp'' (Prim 8),
    Fld ''es'' (Prim 2),
    Fld ''ds'' (Prim 2),
    Fld ''fsindex'' (Prim 2),
    Fld ''gsindex'' (Prim 2),
    Fld ''fsbase'' (Prim 8),
    Fld ''gsbase'' (Prim 8),
    Fld ''ptrace_bps'' (Arr Ptr 4),
    Fld ''virtual_dr6'' (Prim 8),
    Fld ''ptrace_dr7'' (Prim 8),
    Fld ''cr2'' (Prim 8),
    Fld ''trap_nr'' (Prim 8),
    Fld ''error_code'' (Prim 8),
    Fld ''io_bitmap'' Ptr,
    Fld ''iopl_emul'' (Prim 8),
    Bit ''iopl_warn'' 4 1,
    Bit ''sig_on_uaccess_err'' 4 1,
    Fld ''pkru'' vm_u32,
    Bit '''' 8 64,
    Bit '''' 8 64,
    Bit '''' 8 64,
    Bit '''' 8 64,
    Bit '''' 8 64,
    Fld ''fpu'' vm_fpu]"

definition vm_task_struct :: ctype where
  "vm_task_struct = Struct [Fld ''thread_info'' vm_thread_info,
    Fld ''state'' (Prim 8),
    Fld ''stack'' Ptr,
    Fld ''usage'' vm_refcount_t,
    Fld ''flags'' (Prim 4),
    Fld ''ptrace'' (Prim 4),
    Fld ''on_cpu'' (Prim 4),
    Fld ''wake_entry'' vm___call_single_node,
    Fld ''cpu'' (Prim 4),
    Fld ''wakee_flips'' (Prim 4),
    Fld ''wakee_flip_decay_ts'' (Prim 8),
    Fld ''last_wakee'' Ptr,
    Fld ''recent_used_cpu'' (Prim 4),
    Fld ''wake_cpu'' (Prim 4),
    Fld ''on_rq'' (Prim 4),
    Fld ''prio'' (Prim 4),
    Fld ''static_prio'' (Prim 4),
    Fld ''normal_prio'' (Prim 4),
    Fld ''rt_priority'' (Prim 4),
    Fld ''sched_class'' Ptr,
    Fld ''se'' vm_sched_entity,
    Fld ''rt'' vm_sched_rt_entity,
    Fld ''sched_task_group'' Ptr,
    Fld ''dl'' vm_sched_dl_entity,
    Fld ''preempt_notifiers'' vm_hlist_head,
    Fld ''btrace_seq'' (Prim 4),
    Fld ''policy'' (Prim 4),
    Fld ''nr_cpus_allowed'' (Prim 4),
    Fld ''cpus_ptr'' Ptr,
    Fld ''cpus_mask'' vm_cpumask_t,
    Fld ''trc_reader_nesting'' (Prim 4),
    Fld ''trc_ipi_to_cpu'' (Prim 4),
    Fld ''trc_reader_special'' vm_rcu_special,
    Fld ''trc_reader_checked'' (Prim 1),
    Fld ''trc_holdout_list'' vm_list_head,
    Fld ''sched_info'' vm_sched_info,
    Fld ''tasks'' vm_list_head,
    Fld ''pushable_tasks'' vm_plist_node,
    Fld ''pushable_dl_tasks'' vm_rb_node,
    Fld ''mm'' Ptr,
    Fld ''active_mm'' Ptr,
    Fld ''vmacache'' vm_vmacache,
    Fld ''rss_stat'' vm_task_rss_stat,
    Fld ''exit_state'' (Prim 4),
    Fld ''exit_code'' (Prim 4),
    Fld ''exit_signal'' (Prim 4),
    Fld ''pdeath_signal'' (Prim 4),
    Fld ''jobctl'' (Prim 8),
    Fld ''personality'' (Prim 4),
    Bit ''sched_reset_on_fork'' 4 1,
    Bit ''sched_contributes_to_load'' 4 1,
    Bit ''sched_migrated'' 4 1,
    Bit ''sched_psi_wake_requeue'' 4 1,
    Bit '''' 4 28,
    Bit ''sched_remote_wakeup'' 4 1,
    Bit ''in_execve'' 4 1,
    Bit ''in_iowait'' 4 1,
    Bit ''restore_sigmask'' 4 1,
    Bit ''in_user_fault'' 4 1,
    Bit ''no_cgroup_migration'' 4 1,
    Bit ''frozen'' 4 1,
    Bit ''use_memdelay'' 4 1,
    Bit ''in_memstall'' 4 1,
    Bit ''pasid_activated'' 4 1,
    Fld ''atomic_flags'' (Prim 8),
    Fld ''restart_block'' vm_restart_block,
    Fld ''pid'' vm_pid_t,
    Fld ''tgid'' vm_pid_t,
    Fld ''stack_canary'' (Prim 8),
    Fld ''real_parent'' Ptr,
    Fld ''parent'' Ptr,
    Fld ''children'' vm_list_head,
    Fld ''sibling'' vm_list_head,
    Fld ''group_leader'' Ptr,
    Fld ''ptraced'' vm_list_head,
    Fld ''ptrace_entry'' vm_list_head,
    Fld ''thread_pid'' Ptr,
    Fld ''pid_links'' (Arr vm_hlist_node 4),
    Fld ''thread_group'' vm_list_head,
    Fld ''thread_node'' vm_list_head,
    Fld ''vfork_done'' Ptr,
    Fld ''set_child_tid'' Ptr,
    Fld ''clear_child_tid'' Ptr,
    Fld ''utime'' vm_u64,
    Fld ''stime'' vm_u64,
    Fld ''gtime'' vm_u64,
    Fld ''prev_cputime'' vm_prev_cputime,
    Fld ''vtime'' vm_vtime,
    Fld ''tick_dep_mask'' vm_atomic_t,
    Fld ''nvcsw'' (Prim 8),
    Fld ''nivcsw'' (Prim 8),
    Fld ''start_time'' vm_u64,
    Fld ''start_boottime'' vm_u64,
    Fld ''min_flt'' (Prim 8),
    Fld ''maj_flt'' (Prim 8),
    Fld ''posix_cputimers'' vm_posix_cputimers,
    Fld ''posix_cputimers_work'' vm_posix_cputimers_work,
    Fld ''ptracer_cred'' Ptr,
    Fld ''real_cred'' Ptr,
    Fld ''cred'' Ptr,
    Fld ''cached_requested_key'' Ptr,
    Fld ''comm'' (Arr (Prim 1) 16),
    Fld ''nameidata'' Ptr,
    Fld ''sysvsem'' vm_sysv_sem,
    Fld ''sysvshm'' vm_sysv_shm,
    Fld ''last_switch_count'' (Prim 8),
    Fld ''last_switch_time'' (Prim 8),
    Fld ''fs'' Ptr,
    Fld ''files'' Ptr,
    Fld ''io_uring'' Ptr,
    Fld ''nsproxy'' Ptr,
    Fld ''signal'' Ptr,
    Fld ''sighand'' Ptr,
    Fld ''blocked'' vm_sigset_t,
    Fld ''real_blocked'' vm_sigset_t,
    Fld ''saved_sigmask'' vm_sigset_t,
    Fld ''pending'' vm_sigpending,
    Fld ''sas_ss_sp'' (Prim 8),
    Fld ''sas_ss_size'' vm_size_t,
    Fld ''sas_ss_flags'' (Prim 4),
    Fld ''task_works'' Ptr,
    Fld ''audit_context'' Ptr,
    Fld ''loginuid'' vm_kuid_t,
    Fld ''sessionid'' (Prim 4),
    Fld ''seccomp'' vm_seccomp,
    Fld ''parent_exec_id'' vm_u64,
    Fld ''self_exec_id'' vm_u64,
    Fld ''alloc_lock'' vm_spinlock_t,
    Fld ''pi_lock'' vm_raw_spinlock_t,
    Fld ''wake_q'' vm_wake_q_node,
    Fld ''pi_waiters'' vm_rb_root_cached,
    Fld ''pi_top_task'' Ptr,
    Fld ''pi_blocked_on'' Ptr,
    Fld ''journal_info'' Ptr,
    Fld ''bio_list'' Ptr,
    Fld ''plug'' Ptr,
    Fld ''reclaim_state'' Ptr,
    Fld ''backing_dev_info'' Ptr,
    Fld ''io_context'' Ptr,
    Fld ''capture_control'' Ptr,
    Fld ''ptrace_message'' (Prim 8),
    Fld ''last_siginfo'' Ptr,
    Fld ''ioac'' vm_task_io_accounting,
    Fld ''psi_flags'' (Prim 4),
    Fld ''acct_rss_mem1'' vm_u64,
    Fld ''acct_vm_mem1'' vm_u64,
    Fld ''acct_timexpd'' vm_u64,
    Fld ''mems_allowed'' vm_nodemask_t,
    Fld ''mems_allowed_seq'' vm_seqcount_spinlock_t,
    Fld ''cpuset_mem_spread_rotor'' (Prim 4),
    Fld ''cpuset_slab_spread_rotor'' (Prim 4),
    Fld ''cgroups'' Ptr,
    Fld ''cg_list'' vm_list_head,
    Fld ''closid'' vm_u32,
    Fld ''rmid'' vm_u32,
    Fld ''robust_list'' Ptr,
    Fld ''compat_robust_list'' Ptr,
    Fld ''pi_state_list'' vm_list_head,
    Fld ''pi_state_cache'' Ptr,
    Fld ''futex_exit_mutex'' vm_mutex,
    Fld ''futex_state'' (Prim 4),
    Fld ''perf_event_ctxp'' (Arr Ptr 2),
    Fld ''perf_event_mutex'' vm_mutex,
    Fld ''perf_event_list'' vm_list_head,
    Fld ''mempolicy'' Ptr,
    Fld ''il_prev'' (Prim 2),
    Fld ''pref_node_fork'' (Prim 2),
    Fld ''numa_scan_seq'' (Prim 4),
    Fld ''numa_scan_period'' (Prim 4),
    Fld ''numa_scan_period_max'' (Prim 4),
    Fld ''numa_preferred_nid'' (Prim 4),
    Fld ''numa_migrate_retry'' (Prim 8),
    Fld ''node_stamp'' vm_u64,
    Fld ''last_task_numa_placement'' vm_u64,
    Fld ''last_sum_exec_runtime'' vm_u64,
    Fld ''numa_work'' vm_callback_head,
    Fld ''numa_group'' Ptr,
    Fld ''numa_faults'' Ptr,
    Fld ''total_numa_faults'' (Prim 8),
    Fld ''numa_faults_locality'' (Arr (Prim 8) 3),
    Fld ''numa_pages_migrated'' (Prim 8),
    Fld ''rseq'' Ptr,
    Fld ''rseq_sig'' vm_u32,
    Fld ''rseq_event_mask'' (Prim 8),
    Fld ''tlb_ubc'' vm_tlbflush_unmap_batch,
    Fld '''' (Union [Fld ''rcu_users'' vm_refcount_t, Fld ''rcu'' vm_callback_head]),
    Fld ''splice_pipe'' Ptr,
    Fld ''task_frag'' vm_page_frag,
    Fld ''delays'' Ptr,
    Fld ''nr_dirtied'' (Prim 4),
    Fld ''nr_dirtied_pause'' (Prim 4),
    Fld ''dirty_paused_when'' (Prim 8),
    Fld ''timer_slack_ns'' vm_u64,
    Fld ''default_timer_slack_ns'' vm_u64,
    Fld ''curr_ret_stack'' (Prim 4),
    Fld ''curr_ret_depth'' (Prim 4),
    Fld ''ret_stack'' Ptr,
    Fld ''ftrace_timestamp'' (Prim 8),
    Fld ''trace_overrun'' vm_atomic_t,
    Fld ''tracing_graph_pause'' vm_atomic_t,
    Fld ''trace'' (Prim 8),
    Fld ''trace_recursion'' (Prim 8),
    Fld ''memcg_in_oom'' Ptr,
    Fld ''memcg_oom_gfp_mask'' vm_gfp_t,
    Fld ''memcg_oom_order'' (Prim 4),
    Fld ''memcg_nr_pages_over_high'' (Prim 4),
    Fld ''wmark_min_throttle_ms'' (Prim 4),
    Fld ''active_memcg'' Ptr,
    Fld ''throttle_queue'' Ptr,
    Fld ''utask'' Ptr,
    Fld ''pagefault_disabled'' (Prim 4),
    Fld ''oom_reaper_list'' Ptr,
    Fld ''oom_reaper_timer'' vm_timer_list,
    Fld ''stack_vm_area'' Ptr,
    Fld ''stack_refcount'' vm_refcount_t,
    Fld ''patch_state'' (Prim 4),
    Fld ''security'' Ptr,
    Fld ''wait_res_type'' (Prim 4),
    Fld '''' (Union [Fld ''wait_page'' Ptr, Fld ''wait_bio'' Ptr]),
    Fld ''wait_moment'' (Prim 8),
    Fld ''mce_vaddr'' Ptr,
    Fld ''mce_kflags'' vm___u64,
    Fld ''mce_addr'' vm_u64,
    Bit ''mce_ripv'' 8 1,
    Bit ''mce_whole_page'' 8 1,
    Bit ''__mce_reserved'' 8 62,
    Fld ''mce_kill_me'' vm_callback_head,
    Fld ''mce_count'' (Prim 4),
    Fld ''ck_reserved1'' (Prim 8),
    Fld ''ck_reserved2'' (Prim 8),
    Fld ''ck_reserved3'' (Prim 8),
    Fld ''ck_reserved4'' (Prim 8),
    Fld ''ck_reserved5'' (Prim 8),
    Fld ''ck_reserved6'' (Prim 8),
    Fld ''ck_reserved7'' (Prim 8),
    Fld ''ck_reserved8'' (Prim 8),
    Bit '''' 8 64,
    Bit '''' 8 64,
    Bit '''' 8 64,
    Bit '''' 8 64,
    Fld ''thread'' vm_thread_struct]"

definition vm_oom_control :: ctype where
  "vm_oom_control = Struct [Fld ''zonelist'' Ptr,
    Fld ''nodemask'' Ptr,
    Fld ''memcg'' Ptr,
    Fld ''gfp_mask'' vm_gfp_t,
    Fld ''order'' (Prim 4),
    Fld ''totalpages'' (Prim 8),
    Fld ''chosen'' Ptr,
    Fld ''chosen_points'' (Prim 8),
    Fld ''reset_list'' Ptr,
    Fld ''num_skip'' (Prim 4),
    Fld ''use_priority_oom'' (Prim 1),
    Fld ''constraint'' (Prim 4)]"

section \<open>Offsets the programs use\<close>

text \<open>The offsets of the kernel the header was generated from.\<close>

definition koff :: "ctype \<Rightarrow> string \<Rightarrow> u64" where
  "koff t f = (case offsetof t f of None \<Rightarrow> 0 | Some n \<Rightarrow> of_int n)"

definition vmlinux_layout :: kernel_layout where
  "vmlinux_layout =
    \<lparr>oc_chosen = koff vm_oom_control ''chosen'',
     oc_totalpages = koff vm_oom_control ''totalpages'',
     task_tgid = koff vm_task_struct ''tgid'',
     task_comm = koff vm_task_struct ''comm'',
     sk_max_ack_backlog = koff vm_sock ''sk_max_ack_backlog'',
     sk_ack_backlog = koff vm_sock ''sk_ack_backlog'',
     sk_socket = koff vm_sock ''sk_socket'',
     socket_file = koff vm_socket ''file'',
     file_f_owner = koff vm_file ''f_owner'',
     fown_pid = koff vm_fown_struct ''pid'',
     pid_numbers0_nr = koff vm_pid ''numbers'' + koff vm_upid ''nr''\<rparr>"

lemma oom_offsets:
  "offsetof vm_oom_control ''chosen'' = Some 40"
  "offsetof vm_oom_control ''totalpages'' = Some 32"
  by code_simp+

lemma task_offsets:
  "offsetof vm_task_struct ''tgid'' = Some 2836"
  "offsetof vm_task_struct ''comm'' = Some 3352"
  by code_simp+

lemma sock_offsets:
  "offsetof vm_sock ''sk_max_ack_backlog'' = Some 588"
  "offsetof vm_sock ''sk_ack_backlog'' = Some 584"
  "offsetof vm_sock ''sk_socket'' = Some 648"
  by code_simp+

lemma file_offsets:
  "offsetof vm_socket ''file'' = Some 16"
  "offsetof vm_file ''f_owner'' = Some 112"
  "offsetof vm_fown_struct ''pid'' = Some 8"
  "offsetof vm_pid ''numbers'' = Some 96"
  "offsetof vm_upid ''nr'' = Some 0"
  by code_simp+

lemma vmlinux_layout_eq:
  "vmlinux_layout =
    \<lparr>oc_chosen = 40, oc_totalpages = 32, task_tgid = 2836, task_comm = 3352,
     sk_max_ack_backlog = 588, sk_ack_backlog = 584, sk_socket = 648, socket_file = 16,
     file_f_owner = 112, fown_pid = 8, pid_numbers0_nr = 96\<rparr>"
  by (simp add: vmlinux_layout_def koff_def oom_offsets task_offsets sock_offsets file_offsets)

lemma fown_size: "size_of vm_fown_struct = 32"
  by code_simp

end
