(* ===== verification/Probe_Properties.thy ===== *)
theory Probe_Properties
  imports Oomkill_Probe Tcpsynbl_Probe Vmlinux_Types
begin

text \<open>
  The properties of the two kprobe programs, with witnesses on the reference kernel: a memory that
  holds the few kernel objects the programs walk through, laid out as \<^verbatim>\<open>vmlinux.h\<close> says.
\<close>

section \<open>Sample kernel memories\<close>

text \<open>An OOM kill of process 777, called \<^verbatim>\<open>java\<close>.\<close>

definition oom_mem :: kmem where
  "oom_mem = mem_of
    [(0x1000 + 40, le_bytes 8 (0x9000 :: u64)), (0x1000 + 32, le_bytes 8 (262144 :: u64)),
     (0x9000 + 2836, le_bytes 4 (777 :: u32)), (0x9000 + 3352, zpad 16 (ascii ''java'')),
     (0x2000, ascii ''Out of memory'' @ [0])]"

definition oom_regs :: pt_regs where
  "oom_regs = \<lparr>r15 = 0, r14 = 0, r13 = 0, r12 = 0, bp = 0, bx = 0, r11 = 0, r10 = 0, r9 = 0, r8 = 0,
     ax = 0, cx = 0, dx = 0, si = 0x2000, di = 0x1000, orig_ax = 0, ip = 0, cs = 0, flags = 0,
     sp = 0, ss = 0\<rparr>"

definition oom_sample_event :: oom_event where
  "oom_sample_event = \<lparr>oe_fpid = 4242, oe_tpid = 777, oe_pages = 262144,
     oe_fcomm = zpad 16 (ascii ''kubelet''), oe_tcomm = zpad 16 (ascii ''java''),
     oe_message = zpad 128 (ascii ''Out of memory'')\<rparr>"

definition probe_ring :: ref_ringbuf where
  "probe_ring = \<lparr>rb_size = 16777216, rb_records = []\<rparr>"

lemma oom_sample_observed:
  "oom_observe vmlinux_layout oom_mem 0x1000 0x2000 4242 (zpad 16 (ascii ''kubelet'')) =
   Some oom_sample_event"
  unfolding vmlinux_layout_eq by code_simp

text \<open>A listening socket with a queue of 129 of 128, whose file is owned by process 31.\<close>

definition syn_mem :: kmem where
  "syn_mem = mem_of
    [(0x1000 + 588, le_bytes 4 (128 :: u32)), (0x1000 + 584, le_bytes 4 (129 :: u32)),
     (0x1000 + 648, le_bytes 8 (0x3000 :: u64)), (0x3000 + 16, le_bytes 8 (0x4000 :: u64)),
     (0x4000 + 112, zpad 8 [1] @ le_bytes 8 (0x5000 :: u64) @ replicate 16 0),
     (0x5000 + 96, le_bytes 4 (31 :: u32))]"

definition syn_sample_event :: syn_event where
  "syn_sample_event = \<lparr>se_pid = 31, se_max_ack_backlog = 128, se_ack_backlog = 129\<rparr>"

lemma syn_sample_observed:
  "syn_observe vmlinux_layout 0x8000 syn_mem 0x1000 = Some syn_sample_event"
  unfolding vmlinux_layout_eq by code_simp

lemma probe_ring_room:
  "fst (pe_ringbuf_output ref_probe_env probe_ring (syn_event_bytes syn_sample_event)) = 0"
  "fst (pe_ringbuf_output ref_probe_env probe_ring (oom_event_bytes oom_sample_event)) = 0"
  by code_simp+

lemma probe_ring_records [simp]: "rb_records probe_ring = []"
  by (simp add: probe_ring_def)

lemma oom_regs_simps [simp]: "PT_REGS_PARM1 oom_regs = 0x1000" "PT_REGS_PARM2 oom_regs = 0x2000"
  by (simp_all add: oom_regs_def PT_REGS_defs)

lemma ref_task [simp]:
  "ucast (drop_bit 32 (pe_pid_tgid ref_probe_env)) = (4242 :: u32)"
  "snd (pe_current_comm ref_probe_env 16) = zpad 16 (ascii ''kubelet'')"
  by (code_simp, simp add: ref_probe_env_def ref_current_comm_def)

section \<open>The OOM probe\<close>

text \<open>C10: The OOM probe always returns 0 and emits exactly what the kernel's memory describes: one
  record with the trigger, the victim, the page count and the message when every one of these can be
  read and the ring buffer has room, and nothing otherwise.\<close>

theorem oom_probe_refines:
  assumes "probe_kernel K recs"
    and "e = oom_observe lay mem (PT_REGS_PARM1 ctx) (PT_REGS_PARM2 ctx)
          (ucast (drop_bit 32 (pe_pid_tgid K))) (snd (pe_current_comm K 16))"
  shows "fst (kprobe_oom_kill_process K lay mem ctx r) = 0 \<and>
    recs (snd (kprobe_oom_kill_process K lay mem ctx r)) =
      recs r @ (case e of None \<Rightarrow> []
        | Some ev \<Rightarrow> if fst (pe_ringbuf_output K r (oom_event_bytes ev)) = 0
            then [oom_event_bytes ev] else [])"
proof -
  have ring: "bpf_ringbuf (pe_ringbuf_output K) recs" using assms(1) by (simp add: probe_kernel_def)
  show ?thesis
    using probe_kernel.oom_kill_process_spec [OF assms(1), of lay mem ctx r] assms(2)
    by (simp add: bpf_ringbuf.emit_cases [OF ring] split: option.split)
qed

theorem oom_probe_refines_witness:
  "rb_records (snd (kprobe_oom_kill_process ref_probe_env vmlinux_layout oom_mem oom_regs probe_ring)) =
   [oom_event_bytes oom_sample_event]"
  using oom_probe_refines [OF ref_kprobe.probe_kernel_axioms refl, of vmlinux_layout oom_mem oom_regs
      probe_ring]
  by (simp add: oom_sample_observed probe_ring_room del: ascii_simps)

text \<open>When the chosen task cannot be read at its process id, in particular when the kernel chose no
  task and the pointer is null, the probe emits nothing: the test for a null pointer that the source has
  commented out is not needed.\<close>

theorem oom_unreadable_victim_silent:
  assumes "probe_kernel K recs"
    and "rd_word mem (PT_REGS_PARM1 ctx + oc_chosen lay) 8 = Some p"
    and "mem_bytes mem (p + task_tgid lay) 4 = None"
  shows "kprobe_oom_kill_process K lay mem ctx r = (0, r)"
  using probe_kernel.oom_kill_process_spec [OF assms(1), of lay mem ctx r] assms(2,3)
  by (auto simp: oom_observe_def rd_word_def)

theorem oom_unreadable_victim_silent_witness:
  "kprobe_oom_kill_process ref_probe_env vmlinux_layout (mem_of [(0x1000 + 40, replicate 8 0)]) oom_regs
     probe_ring = (0, probe_ring)"
proof -
  let ?m = "mem_of [(0x1000 + 40, replicate 8 0)]"
  have "rd_word ?m 0x1028 8 = Some (0 :: u64)" and "mem_bytes ?m 0xb14 4 = None" by code_simp+
  then show ?thesis
    using oom_unreadable_victim_silent [OF ref_kprobe.probe_kernel_axioms, of ?m oom_regs vmlinux_layout 0
        probe_ring]
    by (simp add: vmlinux_layout_eq)
qed

section \<open>The SYN backlog probe\<close>

text \<open>C9: The backlog probe always returns 0 and emits exactly one record (owner, limit, length) when the
  listening socket's accept queue has a limit, is at or beyond it, and the owner of the socket's file can
  be read; otherwise nothing.\<close>

theorem syn_probe_refines:
  assumes "probe_kernel K recs" and "unat (fown_pid lay) + 8 \<le> 32"
    and "e = syn_observe lay owner_at mem (PT_REGS_PARM1 ctx)"
  shows "fst (do_entry K lay owner_at mem ctx r) = 0 \<and>
    recs (snd (do_entry K lay owner_at mem ctx r)) =
      recs r @ (case e of None \<Rightarrow> []
        | Some ev \<Rightarrow> if fst (pe_ringbuf_output K r (syn_event_bytes ev)) = 0
            then [syn_event_bytes ev] else [])"
proof -
  have ring: "bpf_ringbuf (pe_ringbuf_output K) recs" using assms(1) by (simp add: probe_kernel_def)
  show ?thesis
    using probe_kernel.do_entry_spec [OF assms(1,2), of owner_at mem ctx r] assms(3)
    by (simp add: bpf_ringbuf.emit_cases [OF ring] split: option.split)
qed

theorem syn_probe_refines_witness:
  "rb_records (snd (do_entry ref_probe_env vmlinux_layout 0x8000 syn_mem oom_regs probe_ring)) =
   [syn_event_bytes syn_sample_event]"
  using syn_probe_refines [OF ref_kprobe.probe_kernel_axioms _ refl, where lay = vmlinux_layout and
      owner_at = "0x8000" and mem = syn_mem and ctx = oom_regs and r = probe_ring]
  by (simp add: syn_sample_observed probe_ring_room) (simp add: vmlinux_layout_eq)

text \<open>A socket whose queue has no limit, or is below it, never causes a record, whatever the rest of
  memory holds.\<close>

theorem syn_below_limit_silent:
  assumes "probe_kernel K recs"
    and "rd_word mem (PT_REGS_PARM1 ctx + sk_max_ack_backlog lay) 4 = Some (limit :: u32)"
    and "rd_word mem (PT_REGS_PARM1 ctx + sk_ack_backlog lay) 4 = Some len"
    and "limit = 0 \<or> len < limit"
  shows "do_entry K lay owner_at mem ctx r = (0, r) \<and> do_entry_v6 K lay owner_at mem ctx r = (0, r)"
proof -
  obtain a b where ab: "mem_bytes mem (PT_REGS_PARM1 ctx + sk_max_ack_backlog lay) 4 = Some a"
    "mem_bytes mem (PT_REGS_PARM1 ctx + sk_ack_backlog lay) 4 = Some b" "limit = le_word a" "len = le_word b"
    using assms(2,3) by (auto simp: rd_word_def)
  have rd: "kernel_reader (pe_read_kernel K) (pe_read_kernel_str K)"
    using assms(1) by (simp add: probe_kernel_def)
  show ?thesis
    using ab(3,4) assms(4) kernel_reader.probe_mapped [OF rd ab(1)] kernel_reader.probe_mapped [OF rd ab(2)]
    by (auto simp: do_entry_def do_entry_v6_def Let_def syn_event_zero_def)
qed

theorem syn_below_limit_silent_witness:
  "do_entry ref_probe_env vmlinux_layout 0x8000
     (mem_of [(0x124c, le_bytes 4 (128 :: u32)), (0x1248, le_bytes 4 (127 :: u32))]) oom_regs probe_ring =
   (0, probe_ring)"
proof -
  let ?m = "mem_of [(0x124c, le_bytes 4 (128 :: u32)), (0x1248, le_bytes 4 (127 :: u32))]"
  have "rd_word ?m 0x124c 4 = Some (128 :: u32)" and "rd_word ?m 0x1248 4 = Some (127 :: u32)" by code_simp+
  then show ?thesis
    using syn_below_limit_silent [OF ref_kprobe.probe_kernel_axioms, where mem = ?m and ctx = oom_regs and
        lay = vmlinux_layout and limit = 128 and len = 127 and owner_at = "0x8000" and r = probe_ring]
    by (simp add: vmlinux_layout_eq)
qed

text \<open>The IPv6 entry point does what the IPv4 one does.\<close>

theorem syn_v6_same: "do_entry_v6 K lay owner_at mem ctx r = do_entry K lay owner_at mem ctx r"
  by (simp only: do_entry_def do_entry_v6_def)

end
