(* ===== verification/Bpf_Helper_Defs.thy ===== *)
theory Bpf_Helper_Defs
  imports Kbb_Prelude
begin

text \<open>
  The helper declarations of \<^verbatim>\<open>src/ebpf/include/bpf_helper_defs.h\<close>.  A BPF program calls a
  kernel helper through a static function pointer whose value is the helper's number; the header
  fixes name, signature and number of each.  \<open>decl_<name>\<close> is the declaration of one
  helper, \<open>helper_defs\<close> lists all of them in the order of the file, and
  \<open>bpf_func_id\<close> is the kernel's own numbering, the enum of the same name in
  \<^verbatim>\<open>src/ebpf/include/vmlinux.h\<close>.  \<open>http_calls\<close>, \<open>oomkill_calls\<close> and \<open>tcpsynbl_calls\<close> are
  the helpers the three programs name.
\<close>

record helper_decl =
  h_name :: string
  h_id :: int
  h_result :: string
  h_params :: "string list"

definition decl :: "string \<Rightarrow> string \<Rightarrow> string list \<Rightarrow> int \<Rightarrow> helper_decl" where
  "decl res nm params n = \<lparr>h_name = nm, h_id = n, h_result = res, h_params = params\<rparr>"

section \<open>The header\<close>

definition decl_bpf_map_lookup_elem :: helper_decl where
  "decl_bpf_map_lookup_elem = decl ''void *'' ''bpf_map_lookup_elem'' [''void *map'', ''const void *key''] 1"

definition decl_bpf_map_update_elem :: helper_decl where
  "decl_bpf_map_update_elem = decl ''long'' ''bpf_map_update_elem''
     [''void *map'', ''const void *key'', ''const void *value'', ''__u64 flags''] 2"

definition decl_bpf_map_delete_elem :: helper_decl where
  "decl_bpf_map_delete_elem = decl ''long'' ''bpf_map_delete_elem'' [''void *map'', ''const void *key''] 3"

definition decl_bpf_probe_read :: helper_decl where
  "decl_bpf_probe_read = decl ''long'' ''bpf_probe_read''
     [''void *dst'', ''__u32 size'', ''const void *unsafe_ptr''] 4"

definition decl_bpf_ktime_get_ns :: helper_decl where
  "decl_bpf_ktime_get_ns = decl ''__u64'' ''bpf_ktime_get_ns'' [] 5"

definition decl_bpf_trace_printk :: helper_decl where
  "decl_bpf_trace_printk = decl ''long'' ''bpf_trace_printk''
     [''const char *fmt'', ''__u32 fmt_size'', ''...''] 6"

definition decl_bpf_get_prandom_u32 :: helper_decl where
  "decl_bpf_get_prandom_u32 = decl ''__u32'' ''bpf_get_prandom_u32'' [] 7"

definition decl_bpf_get_smp_processor_id :: helper_decl where
  "decl_bpf_get_smp_processor_id = decl ''__u32'' ''bpf_get_smp_processor_id'' [] 8"

definition decl_bpf_skb_store_bytes :: helper_decl where
  "decl_bpf_skb_store_bytes = decl ''long'' ''bpf_skb_store_bytes''
     [''struct __sk_buff *skb'', ''__u32 offset'', ''const void *from'', ''__u32 len'', ''__u64 flags''] 9"

definition decl_bpf_l3_csum_replace :: helper_decl where
  "decl_bpf_l3_csum_replace = decl ''long'' ''bpf_l3_csum_replace''
     [''struct __sk_buff *skb'', ''__u32 offset'', ''__u64 from'', ''__u64 to'', ''__u64 size''] 10"

definition decl_bpf_l4_csum_replace :: helper_decl where
  "decl_bpf_l4_csum_replace = decl ''long'' ''bpf_l4_csum_replace''
     [''struct __sk_buff *skb'', ''__u32 offset'', ''__u64 from'', ''__u64 to'', ''__u64 flags''] 11"

definition decl_bpf_tail_call :: helper_decl where
  "decl_bpf_tail_call = decl ''long'' ''bpf_tail_call''
     [''void *ctx'', ''void *prog_array_map'', ''__u32 index''] 12"

definition decl_bpf_clone_redirect :: helper_decl where
  "decl_bpf_clone_redirect = decl ''long'' ''bpf_clone_redirect''
     [''struct __sk_buff *skb'', ''__u32 ifindex'', ''__u64 flags''] 13"

definition decl_bpf_get_current_pid_tgid :: helper_decl where
  "decl_bpf_get_current_pid_tgid = decl ''__u64'' ''bpf_get_current_pid_tgid'' [] 14"

definition decl_bpf_get_current_uid_gid :: helper_decl where
  "decl_bpf_get_current_uid_gid = decl ''__u64'' ''bpf_get_current_uid_gid'' [] 15"

definition decl_bpf_get_current_comm :: helper_decl where
  "decl_bpf_get_current_comm = decl ''long'' ''bpf_get_current_comm'' [''void *buf'', ''__u32 size_of_buf''] 16"

definition decl_bpf_get_cgroup_classid :: helper_decl where
  "decl_bpf_get_cgroup_classid = decl ''__u32'' ''bpf_get_cgroup_classid'' [''struct __sk_buff *skb''] 17"

definition decl_bpf_skb_vlan_push :: helper_decl where
  "decl_bpf_skb_vlan_push = decl ''long'' ''bpf_skb_vlan_push''
     [''struct __sk_buff *skb'', ''__be16 vlan_proto'', ''__u16 vlan_tci''] 18"

definition decl_bpf_skb_vlan_pop :: helper_decl where
  "decl_bpf_skb_vlan_pop = decl ''long'' ''bpf_skb_vlan_pop'' [''struct __sk_buff *skb''] 19"

definition decl_bpf_skb_get_tunnel_key :: helper_decl where
  "decl_bpf_skb_get_tunnel_key = decl ''long'' ''bpf_skb_get_tunnel_key''
     [''struct __sk_buff *skb'', ''struct bpf_tunnel_key *key'', ''__u32 size'', ''__u64 flags''] 20"

definition decl_bpf_skb_set_tunnel_key :: helper_decl where
  "decl_bpf_skb_set_tunnel_key = decl ''long'' ''bpf_skb_set_tunnel_key''
     [''struct __sk_buff *skb'', ''struct bpf_tunnel_key *key'', ''__u32 size'', ''__u64 flags''] 21"

definition decl_bpf_perf_event_read :: helper_decl where
  "decl_bpf_perf_event_read = decl ''__u64'' ''bpf_perf_event_read'' [''void *map'', ''__u64 flags''] 22"

definition decl_bpf_redirect :: helper_decl where
  "decl_bpf_redirect = decl ''long'' ''bpf_redirect'' [''__u32 ifindex'', ''__u64 flags''] 23"

definition decl_bpf_get_route_realm :: helper_decl where
  "decl_bpf_get_route_realm = decl ''__u32'' ''bpf_get_route_realm'' [''struct __sk_buff *skb''] 24"

definition decl_bpf_perf_event_output :: helper_decl where
  "decl_bpf_perf_event_output = decl ''long'' ''bpf_perf_event_output''
     [''void *ctx'', ''void *map'', ''__u64 flags'', ''void *data'', ''__u64 size''] 25"

definition decl_bpf_skb_load_bytes :: helper_decl where
  "decl_bpf_skb_load_bytes = decl ''long'' ''bpf_skb_load_bytes''
     [''const void *skb'', ''__u32 offset'', ''void *to'', ''__u32 len''] 26"

definition decl_bpf_get_stackid :: helper_decl where
  "decl_bpf_get_stackid = decl ''long'' ''bpf_get_stackid'' [''void *ctx'', ''void *map'', ''__u64 flags''] 27"

definition decl_bpf_csum_diff :: helper_decl where
  "decl_bpf_csum_diff = decl ''__s64'' ''bpf_csum_diff''
     [''__be32 *from'', ''__u32 from_size'', ''__be32 *to'', ''__u32 to_size'', ''__wsum seed''] 28"

definition decl_bpf_skb_get_tunnel_opt :: helper_decl where
  "decl_bpf_skb_get_tunnel_opt = decl ''long'' ''bpf_skb_get_tunnel_opt''
     [''struct __sk_buff *skb'', ''void *opt'', ''__u32 size''] 29"

definition decl_bpf_skb_set_tunnel_opt :: helper_decl where
  "decl_bpf_skb_set_tunnel_opt = decl ''long'' ''bpf_skb_set_tunnel_opt''
     [''struct __sk_buff *skb'', ''void *opt'', ''__u32 size''] 30"

definition decl_bpf_skb_change_proto :: helper_decl where
  "decl_bpf_skb_change_proto = decl ''long'' ''bpf_skb_change_proto''
     [''struct __sk_buff *skb'', ''__be16 proto'', ''__u64 flags''] 31"

definition decl_bpf_skb_change_type :: helper_decl where
  "decl_bpf_skb_change_type = decl ''long'' ''bpf_skb_change_type''
     [''struct __sk_buff *skb'', ''__u32 type''] 32"

definition decl_bpf_skb_under_cgroup :: helper_decl where
  "decl_bpf_skb_under_cgroup = decl ''long'' ''bpf_skb_under_cgroup''
     [''struct __sk_buff *skb'', ''void *map'', ''__u32 index''] 33"

definition decl_bpf_get_hash_recalc :: helper_decl where
  "decl_bpf_get_hash_recalc = decl ''__u32'' ''bpf_get_hash_recalc'' [''struct __sk_buff *skb''] 34"

definition decl_bpf_get_current_task :: helper_decl where
  "decl_bpf_get_current_task = decl ''__u64'' ''bpf_get_current_task'' [] 35"

definition decl_bpf_probe_write_user :: helper_decl where
  "decl_bpf_probe_write_user = decl ''long'' ''bpf_probe_write_user''
     [''void *dst'', ''const void *src'', ''__u32 len''] 36"

definition decl_bpf_current_task_under_cgroup :: helper_decl where
  "decl_bpf_current_task_under_cgroup = decl ''long'' ''bpf_current_task_under_cgroup''
     [''void *map'', ''__u32 index''] 37"

definition decl_bpf_skb_change_tail :: helper_decl where
  "decl_bpf_skb_change_tail = decl ''long'' ''bpf_skb_change_tail''
     [''struct __sk_buff *skb'', ''__u32 len'', ''__u64 flags''] 38"

definition decl_bpf_skb_pull_data :: helper_decl where
  "decl_bpf_skb_pull_data = decl ''long'' ''bpf_skb_pull_data'' [''struct __sk_buff *skb'', ''__u32 len''] 39"

definition decl_bpf_csum_update :: helper_decl where
  "decl_bpf_csum_update = decl ''__s64'' ''bpf_csum_update'' [''struct __sk_buff *skb'', ''__wsum csum''] 40"

definition decl_bpf_set_hash_invalid :: helper_decl where
  "decl_bpf_set_hash_invalid = decl ''void'' ''bpf_set_hash_invalid'' [''struct __sk_buff *skb''] 41"

definition decl_bpf_get_numa_node_id :: helper_decl where
  "decl_bpf_get_numa_node_id = decl ''long'' ''bpf_get_numa_node_id'' [] 42"

definition decl_bpf_skb_change_head :: helper_decl where
  "decl_bpf_skb_change_head = decl ''long'' ''bpf_skb_change_head''
     [''struct __sk_buff *skb'', ''__u32 len'', ''__u64 flags''] 43"

definition decl_bpf_xdp_adjust_head :: helper_decl where
  "decl_bpf_xdp_adjust_head = decl ''long'' ''bpf_xdp_adjust_head''
     [''struct xdp_md *xdp_md'', ''int delta''] 44"

definition decl_bpf_probe_read_str :: helper_decl where
  "decl_bpf_probe_read_str = decl ''long'' ''bpf_probe_read_str''
     [''void *dst'', ''__u32 size'', ''const void *unsafe_ptr''] 45"

definition decl_bpf_get_socket_cookie :: helper_decl where
  "decl_bpf_get_socket_cookie = decl ''__u64'' ''bpf_get_socket_cookie'' [''void *ctx''] 46"

definition decl_bpf_get_socket_uid :: helper_decl where
  "decl_bpf_get_socket_uid = decl ''__u32'' ''bpf_get_socket_uid'' [''struct __sk_buff *skb''] 47"

definition decl_bpf_set_hash :: helper_decl where
  "decl_bpf_set_hash = decl ''long'' ''bpf_set_hash'' [''struct __sk_buff *skb'', ''__u32 hash''] 48"

definition decl_bpf_setsockopt :: helper_decl where
  "decl_bpf_setsockopt = decl ''long'' ''bpf_setsockopt''
     [''void *bpf_socket'', ''int level'', ''int optname'', ''void *optval'', ''int optlen''] 49"

definition decl_bpf_skb_adjust_room :: helper_decl where
  "decl_bpf_skb_adjust_room = decl ''long'' ''bpf_skb_adjust_room''
     [''struct __sk_buff *skb'', ''__s32 len_diff'', ''__u32 mode'', ''__u64 flags''] 50"

definition decl_bpf_redirect_map :: helper_decl where
  "decl_bpf_redirect_map = decl ''long'' ''bpf_redirect_map''
     [''void *map'', ''__u64 key'', ''__u64 flags''] 51"

definition decl_bpf_sk_redirect_map :: helper_decl where
  "decl_bpf_sk_redirect_map = decl ''long'' ''bpf_sk_redirect_map''
     [''struct __sk_buff *skb'', ''void *map'', ''__u32 key'', ''__u64 flags''] 52"

definition decl_bpf_sock_map_update :: helper_decl where
  "decl_bpf_sock_map_update = decl ''long'' ''bpf_sock_map_update''
     [''struct bpf_sock_ops *skops'', ''void *map'', ''void *key'', ''__u64 flags''] 53"

definition decl_bpf_xdp_adjust_meta :: helper_decl where
  "decl_bpf_xdp_adjust_meta = decl ''long'' ''bpf_xdp_adjust_meta''
     [''struct xdp_md *xdp_md'', ''int delta''] 54"

definition decl_bpf_perf_event_read_value :: helper_decl where
  "decl_bpf_perf_event_read_value = decl ''long'' ''bpf_perf_event_read_value''
     [''void *map'', ''__u64 flags'', ''struct bpf_perf_event_value *buf'', ''__u32 buf_size''] 55"

definition decl_bpf_perf_prog_read_value :: helper_decl where
  "decl_bpf_perf_prog_read_value = decl ''long'' ''bpf_perf_prog_read_value''
     [''struct bpf_perf_event_data *ctx'', ''struct bpf_perf_event_value *buf'', ''__u32 buf_size''] 56"

definition decl_bpf_getsockopt :: helper_decl where
  "decl_bpf_getsockopt = decl ''long'' ''bpf_getsockopt''
     [''void *bpf_socket'', ''int level'', ''int optname'', ''void *optval'', ''int optlen''] 57"

definition decl_bpf_override_return :: helper_decl where
  "decl_bpf_override_return = decl ''long'' ''bpf_override_return'' [''struct pt_regs *regs'', ''__u64 rc''] 58"

definition decl_bpf_sock_ops_cb_flags_set :: helper_decl where
  "decl_bpf_sock_ops_cb_flags_set = decl ''long'' ''bpf_sock_ops_cb_flags_set''
     [''struct bpf_sock_ops *bpf_sock'', ''int argval''] 59"

definition decl_bpf_msg_redirect_map :: helper_decl where
  "decl_bpf_msg_redirect_map = decl ''long'' ''bpf_msg_redirect_map''
     [''struct sk_msg_md *msg'', ''void *map'', ''__u32 key'', ''__u64 flags''] 60"

definition decl_bpf_msg_apply_bytes :: helper_decl where
  "decl_bpf_msg_apply_bytes = decl ''long'' ''bpf_msg_apply_bytes''
     [''struct sk_msg_md *msg'', ''__u32 bytes''] 61"

definition decl_bpf_msg_cork_bytes :: helper_decl where
  "decl_bpf_msg_cork_bytes = decl ''long'' ''bpf_msg_cork_bytes''
     [''struct sk_msg_md *msg'', ''__u32 bytes''] 62"

definition decl_bpf_msg_pull_data :: helper_decl where
  "decl_bpf_msg_pull_data = decl ''long'' ''bpf_msg_pull_data''
     [''struct sk_msg_md *msg'', ''__u32 start'', ''__u32 end'', ''__u64 flags''] 63"

definition decl_bpf_bind :: helper_decl where
  "decl_bpf_bind = decl ''long'' ''bpf_bind''
     [''struct bpf_sock_addr *ctx'', ''struct sockaddr *addr'', ''int addr_len''] 64"

definition decl_bpf_xdp_adjust_tail :: helper_decl where
  "decl_bpf_xdp_adjust_tail = decl ''long'' ''bpf_xdp_adjust_tail''
     [''struct xdp_md *xdp_md'', ''int delta''] 65"

definition decl_bpf_skb_get_xfrm_state :: helper_decl where
  "decl_bpf_skb_get_xfrm_state = decl ''long'' ''bpf_skb_get_xfrm_state''
     [''struct __sk_buff *skb'', ''__u32 index'', ''struct bpf_xfrm_state *xfrm_state'', ''__u32 size'', ''__u64 flags''] 66"

definition decl_bpf_get_stack :: helper_decl where
  "decl_bpf_get_stack = decl ''long'' ''bpf_get_stack''
     [''void *ctx'', ''void *buf'', ''__u32 size'', ''__u64 flags''] 67"

definition decl_bpf_skb_load_bytes_relative :: helper_decl where
  "decl_bpf_skb_load_bytes_relative = decl ''long'' ''bpf_skb_load_bytes_relative''
     [''const void *skb'', ''__u32 offset'', ''void *to'', ''__u32 len'', ''__u32 start_header''] 68"

definition decl_bpf_fib_lookup :: helper_decl where
  "decl_bpf_fib_lookup = decl ''long'' ''bpf_fib_lookup''
     [''void *ctx'', ''struct bpf_fib_lookup *params'', ''int plen'', ''__u32 flags''] 69"

definition decl_bpf_sock_hash_update :: helper_decl where
  "decl_bpf_sock_hash_update = decl ''long'' ''bpf_sock_hash_update''
     [''struct bpf_sock_ops *skops'', ''void *map'', ''void *key'', ''__u64 flags''] 70"

definition decl_bpf_msg_redirect_hash :: helper_decl where
  "decl_bpf_msg_redirect_hash = decl ''long'' ''bpf_msg_redirect_hash''
     [''struct sk_msg_md *msg'', ''void *map'', ''void *key'', ''__u64 flags''] 71"

definition decl_bpf_sk_redirect_hash :: helper_decl where
  "decl_bpf_sk_redirect_hash = decl ''long'' ''bpf_sk_redirect_hash''
     [''struct __sk_buff *skb'', ''void *map'', ''void *key'', ''__u64 flags''] 72"

definition decl_bpf_lwt_push_encap :: helper_decl where
  "decl_bpf_lwt_push_encap = decl ''long'' ''bpf_lwt_push_encap''
     [''struct __sk_buff *skb'', ''__u32 type'', ''void *hdr'', ''__u32 len''] 73"

definition decl_bpf_lwt_seg6_store_bytes :: helper_decl where
  "decl_bpf_lwt_seg6_store_bytes = decl ''long'' ''bpf_lwt_seg6_store_bytes''
     [''struct __sk_buff *skb'', ''__u32 offset'', ''const void *from'', ''__u32 len''] 74"

definition decl_bpf_lwt_seg6_adjust_srh :: helper_decl where
  "decl_bpf_lwt_seg6_adjust_srh = decl ''long'' ''bpf_lwt_seg6_adjust_srh''
     [''struct __sk_buff *skb'', ''__u32 offset'', ''__s32 delta''] 75"

definition decl_bpf_lwt_seg6_action :: helper_decl where
  "decl_bpf_lwt_seg6_action = decl ''long'' ''bpf_lwt_seg6_action''
     [''struct __sk_buff *skb'', ''__u32 action'', ''void *param'', ''__u32 param_len''] 76"

definition decl_bpf_rc_repeat :: helper_decl where
  "decl_bpf_rc_repeat = decl ''long'' ''bpf_rc_repeat'' [''void *ctx''] 77"

definition decl_bpf_rc_keydown :: helper_decl where
  "decl_bpf_rc_keydown = decl ''long'' ''bpf_rc_keydown''
     [''void *ctx'', ''__u32 protocol'', ''__u64 scancode'', ''__u32 toggle''] 78"

definition decl_bpf_skb_cgroup_id :: helper_decl where
  "decl_bpf_skb_cgroup_id = decl ''__u64'' ''bpf_skb_cgroup_id'' [''struct __sk_buff *skb''] 79"

definition decl_bpf_get_current_cgroup_id :: helper_decl where
  "decl_bpf_get_current_cgroup_id = decl ''__u64'' ''bpf_get_current_cgroup_id'' [] 80"

definition decl_bpf_get_local_storage :: helper_decl where
  "decl_bpf_get_local_storage = decl ''void *'' ''bpf_get_local_storage'' [''void *map'', ''__u64 flags''] 81"

definition decl_bpf_sk_select_reuseport :: helper_decl where
  "decl_bpf_sk_select_reuseport = decl ''long'' ''bpf_sk_select_reuseport''
     [''struct sk_reuseport_md *reuse'', ''void *map'', ''void *key'', ''__u64 flags''] 82"

definition decl_bpf_skb_ancestor_cgroup_id :: helper_decl where
  "decl_bpf_skb_ancestor_cgroup_id = decl ''__u64'' ''bpf_skb_ancestor_cgroup_id''
     [''struct __sk_buff *skb'', ''int ancestor_level''] 83"

definition decl_bpf_sk_lookup_tcp :: helper_decl where
  "decl_bpf_sk_lookup_tcp = decl ''struct bpf_sock *'' ''bpf_sk_lookup_tcp''
     [''void *ctx'', ''struct bpf_sock_tuple *tuple'', ''__u32 tuple_size'', ''__u64 netns'', ''__u64 flags''] 84"

definition decl_bpf_sk_lookup_udp :: helper_decl where
  "decl_bpf_sk_lookup_udp = decl ''struct bpf_sock *'' ''bpf_sk_lookup_udp''
     [''void *ctx'', ''struct bpf_sock_tuple *tuple'', ''__u32 tuple_size'', ''__u64 netns'', ''__u64 flags''] 85"

definition decl_bpf_sk_release :: helper_decl where
  "decl_bpf_sk_release = decl ''long'' ''bpf_sk_release'' [''void *sock''] 86"

definition decl_bpf_map_push_elem :: helper_decl where
  "decl_bpf_map_push_elem = decl ''long'' ''bpf_map_push_elem''
     [''void *map'', ''const void *value'', ''__u64 flags''] 87"

definition decl_bpf_map_pop_elem :: helper_decl where
  "decl_bpf_map_pop_elem = decl ''long'' ''bpf_map_pop_elem'' [''void *map'', ''void *value''] 88"

definition decl_bpf_map_peek_elem :: helper_decl where
  "decl_bpf_map_peek_elem = decl ''long'' ''bpf_map_peek_elem'' [''void *map'', ''void *value''] 89"

definition decl_bpf_msg_push_data :: helper_decl where
  "decl_bpf_msg_push_data = decl ''long'' ''bpf_msg_push_data''
     [''struct sk_msg_md *msg'', ''__u32 start'', ''__u32 len'', ''__u64 flags''] 90"

definition decl_bpf_msg_pop_data :: helper_decl where
  "decl_bpf_msg_pop_data = decl ''long'' ''bpf_msg_pop_data''
     [''struct sk_msg_md *msg'', ''__u32 start'', ''__u32 len'', ''__u64 flags''] 91"

definition decl_bpf_rc_pointer_rel :: helper_decl where
  "decl_bpf_rc_pointer_rel = decl ''long'' ''bpf_rc_pointer_rel''
     [''void *ctx'', ''__s32 rel_x'', ''__s32 rel_y''] 92"

definition decl_bpf_spin_lock :: helper_decl where
  "decl_bpf_spin_lock = decl ''long'' ''bpf_spin_lock'' [''struct bpf_spin_lock *lock''] 93"

definition decl_bpf_spin_unlock :: helper_decl where
  "decl_bpf_spin_unlock = decl ''long'' ''bpf_spin_unlock'' [''struct bpf_spin_lock *lock''] 94"

definition decl_bpf_sk_fullsock :: helper_decl where
  "decl_bpf_sk_fullsock = decl ''struct bpf_sock *'' ''bpf_sk_fullsock'' [''struct bpf_sock *sk''] 95"

definition decl_bpf_tcp_sock :: helper_decl where
  "decl_bpf_tcp_sock = decl ''struct bpf_tcp_sock *'' ''bpf_tcp_sock'' [''struct bpf_sock *sk''] 96"

definition decl_bpf_skb_ecn_set_ce :: helper_decl where
  "decl_bpf_skb_ecn_set_ce = decl ''long'' ''bpf_skb_ecn_set_ce'' [''struct __sk_buff *skb''] 97"

definition decl_bpf_get_listener_sock :: helper_decl where
  "decl_bpf_get_listener_sock = decl ''struct bpf_sock *'' ''bpf_get_listener_sock''
     [''struct bpf_sock *sk''] 98"

definition decl_bpf_skc_lookup_tcp :: helper_decl where
  "decl_bpf_skc_lookup_tcp = decl ''struct bpf_sock *'' ''bpf_skc_lookup_tcp''
     [''void *ctx'', ''struct bpf_sock_tuple *tuple'', ''__u32 tuple_size'', ''__u64 netns'', ''__u64 flags''] 99"

definition decl_bpf_tcp_check_syncookie :: helper_decl where
  "decl_bpf_tcp_check_syncookie = decl ''long'' ''bpf_tcp_check_syncookie''
     [''void *sk'', ''void *iph'', ''__u32 iph_len'', ''struct tcphdr *th'', ''__u32 th_len''] 100"

definition decl_bpf_sysctl_get_name :: helper_decl where
  "decl_bpf_sysctl_get_name = decl ''long'' ''bpf_sysctl_get_name''
     [''struct bpf_sysctl *ctx'', ''char *buf'', ''unsigned long buf_len'', ''__u64 flags''] 101"

definition decl_bpf_sysctl_get_current_value :: helper_decl where
  "decl_bpf_sysctl_get_current_value = decl ''long'' ''bpf_sysctl_get_current_value''
     [''struct bpf_sysctl *ctx'', ''char *buf'', ''unsigned long buf_len''] 102"

definition decl_bpf_sysctl_get_new_value :: helper_decl where
  "decl_bpf_sysctl_get_new_value = decl ''long'' ''bpf_sysctl_get_new_value''
     [''struct bpf_sysctl *ctx'', ''char *buf'', ''unsigned long buf_len''] 103"

definition decl_bpf_sysctl_set_new_value :: helper_decl where
  "decl_bpf_sysctl_set_new_value = decl ''long'' ''bpf_sysctl_set_new_value''
     [''struct bpf_sysctl *ctx'', ''const char *buf'', ''unsigned long buf_len''] 104"

definition decl_bpf_strtol :: helper_decl where
  "decl_bpf_strtol = decl ''long'' ''bpf_strtol''
     [''const char *buf'', ''unsigned long buf_len'', ''__u64 flags'', ''long *res''] 105"

definition decl_bpf_strtoul :: helper_decl where
  "decl_bpf_strtoul = decl ''long'' ''bpf_strtoul''
     [''const char *buf'', ''unsigned long buf_len'', ''__u64 flags'', ''unsigned long *res''] 106"

definition decl_bpf_sk_storage_get :: helper_decl where
  "decl_bpf_sk_storage_get = decl ''void *'' ''bpf_sk_storage_get''
     [''void *map'', ''void *sk'', ''void *value'', ''__u64 flags''] 107"

definition decl_bpf_sk_storage_delete :: helper_decl where
  "decl_bpf_sk_storage_delete = decl ''long'' ''bpf_sk_storage_delete'' [''void *map'', ''void *sk''] 108"

definition decl_bpf_send_signal :: helper_decl where
  "decl_bpf_send_signal = decl ''long'' ''bpf_send_signal'' [''__u32 sig''] 109"

definition decl_bpf_tcp_gen_syncookie :: helper_decl where
  "decl_bpf_tcp_gen_syncookie = decl ''__s64'' ''bpf_tcp_gen_syncookie''
     [''void *sk'', ''void *iph'', ''__u32 iph_len'', ''struct tcphdr *th'', ''__u32 th_len''] 110"

definition decl_bpf_skb_output :: helper_decl where
  "decl_bpf_skb_output = decl ''long'' ''bpf_skb_output''
     [''void *ctx'', ''void *map'', ''__u64 flags'', ''void *data'', ''__u64 size''] 111"

definition decl_bpf_probe_read_user :: helper_decl where
  "decl_bpf_probe_read_user = decl ''long'' ''bpf_probe_read_user''
     [''void *dst'', ''__u32 size'', ''const void *unsafe_ptr''] 112"

definition decl_bpf_probe_read_kernel :: helper_decl where
  "decl_bpf_probe_read_kernel = decl ''long'' ''bpf_probe_read_kernel''
     [''void *dst'', ''__u32 size'', ''const void *unsafe_ptr''] 113"

definition decl_bpf_probe_read_user_str :: helper_decl where
  "decl_bpf_probe_read_user_str = decl ''long'' ''bpf_probe_read_user_str''
     [''void *dst'', ''__u32 size'', ''const void *unsafe_ptr''] 114"

definition decl_bpf_probe_read_kernel_str :: helper_decl where
  "decl_bpf_probe_read_kernel_str = decl ''long'' ''bpf_probe_read_kernel_str''
     [''void *dst'', ''__u32 size'', ''const void *unsafe_ptr''] 115"

definition decl_bpf_tcp_send_ack :: helper_decl where
  "decl_bpf_tcp_send_ack = decl ''long'' ''bpf_tcp_send_ack'' [''void *tp'', ''__u32 rcv_nxt''] 116"

definition decl_bpf_send_signal_thread :: helper_decl where
  "decl_bpf_send_signal_thread = decl ''long'' ''bpf_send_signal_thread'' [''__u32 sig''] 117"

definition decl_bpf_jiffies64 :: helper_decl where
  "decl_bpf_jiffies64 = decl ''__u64'' ''bpf_jiffies64'' [] 118"

definition decl_bpf_read_branch_records :: helper_decl where
  "decl_bpf_read_branch_records = decl ''long'' ''bpf_read_branch_records''
     [''struct bpf_perf_event_data *ctx'', ''void *buf'', ''__u32 size'', ''__u64 flags''] 119"

definition decl_bpf_get_ns_current_pid_tgid :: helper_decl where
  "decl_bpf_get_ns_current_pid_tgid = decl ''long'' ''bpf_get_ns_current_pid_tgid''
     [''__u64 dev'', ''__u64 ino'', ''struct bpf_pidns_info *nsdata'', ''__u32 size''] 120"

definition decl_bpf_xdp_output :: helper_decl where
  "decl_bpf_xdp_output = decl ''long'' ''bpf_xdp_output''
     [''void *ctx'', ''void *map'', ''__u64 flags'', ''void *data'', ''__u64 size''] 121"

definition decl_bpf_get_netns_cookie :: helper_decl where
  "decl_bpf_get_netns_cookie = decl ''__u64'' ''bpf_get_netns_cookie'' [''void *ctx''] 122"

definition decl_bpf_get_current_ancestor_cgroup_id :: helper_decl where
  "decl_bpf_get_current_ancestor_cgroup_id = decl ''__u64'' ''bpf_get_current_ancestor_cgroup_id''
     [''int ancestor_level''] 123"

definition decl_bpf_sk_assign :: helper_decl where
  "decl_bpf_sk_assign = decl ''long'' ''bpf_sk_assign'' [''void *ctx'', ''void *sk'', ''__u64 flags''] 124"

definition decl_bpf_ktime_get_boot_ns :: helper_decl where
  "decl_bpf_ktime_get_boot_ns = decl ''__u64'' ''bpf_ktime_get_boot_ns'' [] 125"

definition decl_bpf_seq_printf :: helper_decl where
  "decl_bpf_seq_printf = decl ''long'' ''bpf_seq_printf''
     [''struct seq_file *m'', ''const char *fmt'', ''__u32 fmt_size'', ''const void *data'', ''__u32 data_len''] 126"

definition decl_bpf_seq_write :: helper_decl where
  "decl_bpf_seq_write = decl ''long'' ''bpf_seq_write''
     [''struct seq_file *m'', ''const void *data'', ''__u32 len''] 127"

definition decl_bpf_sk_cgroup_id :: helper_decl where
  "decl_bpf_sk_cgroup_id = decl ''__u64'' ''bpf_sk_cgroup_id'' [''void *sk''] 128"

definition decl_bpf_sk_ancestor_cgroup_id :: helper_decl where
  "decl_bpf_sk_ancestor_cgroup_id = decl ''__u64'' ''bpf_sk_ancestor_cgroup_id''
     [''void *sk'', ''int ancestor_level''] 129"

definition decl_bpf_ringbuf_output :: helper_decl where
  "decl_bpf_ringbuf_output = decl ''long'' ''bpf_ringbuf_output''
     [''void *ringbuf'', ''void *data'', ''__u64 size'', ''__u64 flags''] 130"

definition decl_bpf_ringbuf_reserve :: helper_decl where
  "decl_bpf_ringbuf_reserve = decl ''void *'' ''bpf_ringbuf_reserve''
     [''void *ringbuf'', ''__u64 size'', ''__u64 flags''] 131"

definition decl_bpf_ringbuf_submit :: helper_decl where
  "decl_bpf_ringbuf_submit = decl ''void'' ''bpf_ringbuf_submit'' [''void *data'', ''__u64 flags''] 132"

definition decl_bpf_ringbuf_discard :: helper_decl where
  "decl_bpf_ringbuf_discard = decl ''void'' ''bpf_ringbuf_discard'' [''void *data'', ''__u64 flags''] 133"

definition decl_bpf_ringbuf_query :: helper_decl where
  "decl_bpf_ringbuf_query = decl ''__u64'' ''bpf_ringbuf_query'' [''void *ringbuf'', ''__u64 flags''] 134"

definition decl_bpf_csum_level :: helper_decl where
  "decl_bpf_csum_level = decl ''long'' ''bpf_csum_level'' [''struct __sk_buff *skb'', ''__u64 level''] 135"

definition decl_bpf_skc_to_tcp6_sock :: helper_decl where
  "decl_bpf_skc_to_tcp6_sock = decl ''struct tcp6_sock *'' ''bpf_skc_to_tcp6_sock'' [''void *sk''] 136"

definition decl_bpf_skc_to_tcp_sock :: helper_decl where
  "decl_bpf_skc_to_tcp_sock = decl ''struct tcp_sock *'' ''bpf_skc_to_tcp_sock'' [''void *sk''] 137"

definition decl_bpf_skc_to_tcp_timewait_sock :: helper_decl where
  "decl_bpf_skc_to_tcp_timewait_sock = decl ''struct tcp_timewait_sock *'' ''bpf_skc_to_tcp_timewait_sock''
     [''void *sk''] 138"

definition decl_bpf_skc_to_tcp_request_sock :: helper_decl where
  "decl_bpf_skc_to_tcp_request_sock = decl ''struct tcp_request_sock *'' ''bpf_skc_to_tcp_request_sock''
     [''void *sk''] 139"

definition decl_bpf_skc_to_udp6_sock :: helper_decl where
  "decl_bpf_skc_to_udp6_sock = decl ''struct udp6_sock *'' ''bpf_skc_to_udp6_sock'' [''void *sk''] 140"

definition decl_bpf_get_task_stack :: helper_decl where
  "decl_bpf_get_task_stack = decl ''long'' ''bpf_get_task_stack''
     [''struct task_struct *task'', ''void *buf'', ''__u32 size'', ''__u64 flags''] 141"

definition decl_bpf_load_hdr_opt :: helper_decl where
  "decl_bpf_load_hdr_opt = decl ''long'' ''bpf_load_hdr_opt''
     [''struct bpf_sock_ops *skops'', ''void *searchby_res'', ''__u32 len'', ''__u64 flags''] 142"

definition decl_bpf_store_hdr_opt :: helper_decl where
  "decl_bpf_store_hdr_opt = decl ''long'' ''bpf_store_hdr_opt''
     [''struct bpf_sock_ops *skops'', ''const void *from'', ''__u32 len'', ''__u64 flags''] 143"

definition decl_bpf_reserve_hdr_opt :: helper_decl where
  "decl_bpf_reserve_hdr_opt = decl ''long'' ''bpf_reserve_hdr_opt''
     [''struct bpf_sock_ops *skops'', ''__u32 len'', ''__u64 flags''] 144"

definition decl_bpf_inode_storage_get :: helper_decl where
  "decl_bpf_inode_storage_get = decl ''void *'' ''bpf_inode_storage_get''
     [''void *map'', ''void *inode'', ''void *value'', ''__u64 flags''] 145"

definition decl_bpf_inode_storage_delete :: helper_decl where
  "decl_bpf_inode_storage_delete = decl ''int'' ''bpf_inode_storage_delete''
     [''void *map'', ''void *inode''] 146"

definition decl_bpf_d_path :: helper_decl where
  "decl_bpf_d_path = decl ''long'' ''bpf_d_path'' [''struct path *path'', ''char *buf'', ''__u32 sz''] 147"

definition decl_bpf_copy_from_user :: helper_decl where
  "decl_bpf_copy_from_user = decl ''long'' ''bpf_copy_from_user''
     [''void *dst'', ''__u32 size'', ''const void *user_ptr''] 148"

definition decl_bpf_snprintf_btf :: helper_decl where
  "decl_bpf_snprintf_btf = decl ''long'' ''bpf_snprintf_btf''
     [''char *str'', ''__u32 str_size'', ''struct btf_ptr *ptr'', ''__u32 btf_ptr_size'', ''__u64 flags''] 149"

definition decl_bpf_seq_printf_btf :: helper_decl where
  "decl_bpf_seq_printf_btf = decl ''long'' ''bpf_seq_printf_btf''
     [''struct seq_file *m'', ''struct btf_ptr *ptr'', ''__u32 ptr_size'', ''__u64 flags''] 150"

definition decl_bpf_skb_cgroup_classid :: helper_decl where
  "decl_bpf_skb_cgroup_classid = decl ''__u64'' ''bpf_skb_cgroup_classid'' [''struct __sk_buff *skb''] 151"

definition decl_bpf_redirect_neigh :: helper_decl where
  "decl_bpf_redirect_neigh = decl ''long'' ''bpf_redirect_neigh''
     [''__u32 ifindex'', ''struct bpf_redir_neigh *params'', ''int plen'', ''__u64 flags''] 152"

definition decl_bpf_per_cpu_ptr :: helper_decl where
  "decl_bpf_per_cpu_ptr = decl ''void *'' ''bpf_per_cpu_ptr'' [''const void *percpu_ptr'', ''__u32 cpu''] 153"

definition decl_bpf_this_cpu_ptr :: helper_decl where
  "decl_bpf_this_cpu_ptr = decl ''void *'' ''bpf_this_cpu_ptr'' [''const void *percpu_ptr''] 154"

definition decl_bpf_redirect_peer :: helper_decl where
  "decl_bpf_redirect_peer = decl ''long'' ''bpf_redirect_peer'' [''__u32 ifindex'', ''__u64 flags''] 155"

definition decl_bpf_task_storage_get :: helper_decl where
  "decl_bpf_task_storage_get = decl ''void *'' ''bpf_task_storage_get''
     [''void *map'', ''struct task_struct *task'', ''void *value'', ''__u64 flags''] 156"

definition decl_bpf_task_storage_delete :: helper_decl where
  "decl_bpf_task_storage_delete = decl ''long'' ''bpf_task_storage_delete''
     [''void *map'', ''struct task_struct *task''] 157"

definition decl_bpf_get_current_task_btf :: helper_decl where
  "decl_bpf_get_current_task_btf = decl ''struct task_struct *'' ''bpf_get_current_task_btf'' [] 158"

definition decl_bpf_bprm_opts_set :: helper_decl where
  "decl_bpf_bprm_opts_set = decl ''long'' ''bpf_bprm_opts_set''
     [''struct linux_binprm *bprm'', ''__u64 flags''] 159"

definition decl_bpf_ktime_get_coarse_ns :: helper_decl where
  "decl_bpf_ktime_get_coarse_ns = decl ''__u64'' ''bpf_ktime_get_coarse_ns'' [] 160"

definition decl_bpf_ima_inode_hash :: helper_decl where
  "decl_bpf_ima_inode_hash = decl ''long'' ''bpf_ima_inode_hash''
     [''struct inode *inode'', ''void *dst'', ''__u32 size''] 161"

definition decl_bpf_sock_from_file :: helper_decl where
  "decl_bpf_sock_from_file = decl ''struct socket *'' ''bpf_sock_from_file'' [''struct file *file''] 162"

definition decl_bpf_check_mtu :: helper_decl where
  "decl_bpf_check_mtu = decl ''long'' ''bpf_check_mtu''
     [''void *ctx'', ''__u32 ifindex'', ''__u32 *mtu_len'', ''__s32 len_diff'', ''__u64 flags''] 163"

definition decl_bpf_for_each_map_elem :: helper_decl where
  "decl_bpf_for_each_map_elem = decl ''long'' ''bpf_for_each_map_elem''
     [''void *map'', ''void *callback_fn'', ''void *callback_ctx'', ''__u64 flags''] 164"

definition decl_bpf_snprintf :: helper_decl where
  "decl_bpf_snprintf = decl ''long'' ''bpf_snprintf''
     [''char *str'', ''__u32 str_size'', ''const char *fmt'', ''__u64 *data'', ''__u32 data_len''] 165"

definition decl_bpf_sys_bpf :: helper_decl where
  "decl_bpf_sys_bpf = decl ''long'' ''bpf_sys_bpf'' [''__u32 cmd'', ''void *attr'', ''__u32 attr_size''] 166"

definition decl_bpf_btf_find_by_name_kind :: helper_decl where
  "decl_bpf_btf_find_by_name_kind = decl ''long'' ''bpf_btf_find_by_name_kind''
     [''char *name'', ''int name_sz'', ''__u32 kind'', ''int flags''] 167"

definition decl_bpf_sys_close :: helper_decl where
  "decl_bpf_sys_close = decl ''long'' ''bpf_sys_close'' [''__u32 fd''] 168"

definition decl_bpf_timer_init :: helper_decl where
  "decl_bpf_timer_init = decl ''long'' ''bpf_timer_init''
     [''struct bpf_timer *timer'', ''void *map'', ''__u64 flags''] 169"

definition decl_bpf_timer_set_callback :: helper_decl where
  "decl_bpf_timer_set_callback = decl ''long'' ''bpf_timer_set_callback''
     [''struct bpf_timer *timer'', ''void *callback_fn''] 170"

definition decl_bpf_timer_start :: helper_decl where
  "decl_bpf_timer_start = decl ''long'' ''bpf_timer_start''
     [''struct bpf_timer *timer'', ''__u64 nsecs'', ''__u64 flags''] 171"

definition decl_bpf_timer_cancel :: helper_decl where
  "decl_bpf_timer_cancel = decl ''long'' ''bpf_timer_cancel'' [''struct bpf_timer *timer''] 172"

definition decl_bpf_get_func_ip :: helper_decl where
  "decl_bpf_get_func_ip = decl ''__u64'' ''bpf_get_func_ip'' [''void *ctx''] 173"

definition decl_bpf_get_attach_cookie :: helper_decl where
  "decl_bpf_get_attach_cookie = decl ''__u64'' ''bpf_get_attach_cookie'' [''void *ctx''] 174"

definition decl_bpf_task_pt_regs :: helper_decl where
  "decl_bpf_task_pt_regs = decl ''long'' ''bpf_task_pt_regs'' [''struct task_struct *task''] 175"

definition decl_bpf_get_branch_snapshot :: helper_decl where
  "decl_bpf_get_branch_snapshot = decl ''long'' ''bpf_get_branch_snapshot''
     [''void *entries'', ''__u32 size'', ''__u64 flags''] 176"

definition decl_bpf_trace_vprintk :: helper_decl where
  "decl_bpf_trace_vprintk = decl ''long'' ''bpf_trace_vprintk''
     [''const char *fmt'', ''__u32 fmt_size'', ''const void *data'', ''__u32 data_len''] 177"

definition decl_bpf_skc_to_unix_sock :: helper_decl where
  "decl_bpf_skc_to_unix_sock = decl ''struct unix_sock *'' ''bpf_skc_to_unix_sock'' [''void *sk''] 178"

definition decl_bpf_kallsyms_lookup_name :: helper_decl where
  "decl_bpf_kallsyms_lookup_name = decl ''long'' ''bpf_kallsyms_lookup_name''
     [''const char *name'', ''int name_sz'', ''int flags'', ''__u64 *res''] 179"

definition decl_bpf_find_vma :: helper_decl where
  "decl_bpf_find_vma = decl ''long'' ''bpf_find_vma''
     [''struct task_struct *task'', ''__u64 addr'', ''void *callback_fn'', ''void *callback_ctx'', ''__u64 flags''] 180"

definition decl_bpf_loop :: helper_decl where
  "decl_bpf_loop = decl ''long'' ''bpf_loop''
     [''__u32 nr_loops'', ''void *callback_fn'', ''void *callback_ctx'', ''__u64 flags''] 181"

definition decl_bpf_strncmp :: helper_decl where
  "decl_bpf_strncmp = decl ''long'' ''bpf_strncmp''
     [''const char *s1'', ''__u32 s1_sz'', ''const char *s2''] 182"

definition decl_bpf_get_func_arg :: helper_decl where
  "decl_bpf_get_func_arg = decl ''long'' ''bpf_get_func_arg''
     [''void *ctx'', ''__u32 n'', ''__u64 *value''] 183"

definition decl_bpf_get_func_ret :: helper_decl where
  "decl_bpf_get_func_ret = decl ''long'' ''bpf_get_func_ret'' [''void *ctx'', ''__u64 *value''] 184"

definition decl_bpf_get_func_arg_cnt :: helper_decl where
  "decl_bpf_get_func_arg_cnt = decl ''long'' ''bpf_get_func_arg_cnt'' [''void *ctx''] 185"

definition decl_bpf_get_retval :: helper_decl where
  "decl_bpf_get_retval = decl ''int'' ''bpf_get_retval'' [] 186"

definition decl_bpf_set_retval :: helper_decl where
  "decl_bpf_set_retval = decl ''int'' ''bpf_set_retval'' [''int retval''] 187"

definition decl_bpf_xdp_get_buff_len :: helper_decl where
  "decl_bpf_xdp_get_buff_len = decl ''__u64'' ''bpf_xdp_get_buff_len'' [''struct xdp_md *xdp_md''] 188"

definition decl_bpf_xdp_load_bytes :: helper_decl where
  "decl_bpf_xdp_load_bytes = decl ''long'' ''bpf_xdp_load_bytes''
     [''struct xdp_md *xdp_md'', ''__u32 offset'', ''void *buf'', ''__u32 len''] 189"

definition decl_bpf_xdp_store_bytes :: helper_decl where
  "decl_bpf_xdp_store_bytes = decl ''long'' ''bpf_xdp_store_bytes''
     [''struct xdp_md *xdp_md'', ''__u32 offset'', ''void *buf'', ''__u32 len''] 190"

definition decl_bpf_copy_from_user_task :: helper_decl where
  "decl_bpf_copy_from_user_task = decl ''long'' ''bpf_copy_from_user_task''
     [''void *dst'', ''__u32 size'', ''const void *user_ptr'', ''struct task_struct *tsk'', ''__u64 flags''] 191"

definition decl_bpf_skb_set_tstamp :: helper_decl where
  "decl_bpf_skb_set_tstamp = decl ''long'' ''bpf_skb_set_tstamp''
     [''struct __sk_buff *skb'', ''__u64 tstamp'', ''__u32 tstamp_type''] 192"

definition decl_bpf_ima_file_hash :: helper_decl where
  "decl_bpf_ima_file_hash = decl ''long'' ''bpf_ima_file_hash''
     [''struct file *file'', ''void *dst'', ''__u32 size''] 193"

definition decl_bpf_kptr_xchg :: helper_decl where
  "decl_bpf_kptr_xchg = decl ''void *'' ''bpf_kptr_xchg'' [''void *map_value'', ''void *ptr''] 194"

definition decl_bpf_map_lookup_percpu_elem :: helper_decl where
  "decl_bpf_map_lookup_percpu_elem = decl ''void *'' ''bpf_map_lookup_percpu_elem''
     [''void *map'', ''const void *key'', ''__u32 cpu''] 195"

definition decl_bpf_skc_to_mptcp_sock :: helper_decl where
  "decl_bpf_skc_to_mptcp_sock = decl ''struct mptcp_sock *'' ''bpf_skc_to_mptcp_sock'' [''void *sk''] 196"

definition decl_bpf_dynptr_from_mem :: helper_decl where
  "decl_bpf_dynptr_from_mem = decl ''long'' ''bpf_dynptr_from_mem''
     [''void *data'', ''__u32 size'', ''__u64 flags'', ''struct bpf_dynptr *ptr''] 197"

definition decl_bpf_ringbuf_reserve_dynptr :: helper_decl where
  "decl_bpf_ringbuf_reserve_dynptr = decl ''long'' ''bpf_ringbuf_reserve_dynptr''
     [''void *ringbuf'', ''__u32 size'', ''__u64 flags'', ''struct bpf_dynptr *ptr''] 198"

definition decl_bpf_ringbuf_submit_dynptr :: helper_decl where
  "decl_bpf_ringbuf_submit_dynptr = decl ''void'' ''bpf_ringbuf_submit_dynptr''
     [''struct bpf_dynptr *ptr'', ''__u64 flags''] 199"

definition decl_bpf_ringbuf_discard_dynptr :: helper_decl where
  "decl_bpf_ringbuf_discard_dynptr = decl ''void'' ''bpf_ringbuf_discard_dynptr''
     [''struct bpf_dynptr *ptr'', ''__u64 flags''] 200"

definition decl_bpf_dynptr_read :: helper_decl where
  "decl_bpf_dynptr_read = decl ''long'' ''bpf_dynptr_read''
     [''void *dst'', ''__u32 len'', ''const struct bpf_dynptr *src'', ''__u32 offset'', ''__u64 flags''] 201"

definition decl_bpf_dynptr_write :: helper_decl where
  "decl_bpf_dynptr_write = decl ''long'' ''bpf_dynptr_write''
     [''const struct bpf_dynptr *dst'', ''__u32 offset'', ''void *src'', ''__u32 len'', ''__u64 flags''] 202"

definition decl_bpf_dynptr_data :: helper_decl where
  "decl_bpf_dynptr_data = decl ''void *'' ''bpf_dynptr_data''
     [''const struct bpf_dynptr *ptr'', ''__u32 offset'', ''__u32 len''] 203"

definition decl_bpf_tcp_raw_gen_syncookie_ipv4 :: helper_decl where
  "decl_bpf_tcp_raw_gen_syncookie_ipv4 = decl ''__s64'' ''bpf_tcp_raw_gen_syncookie_ipv4''
     [''struct iphdr *iph'', ''struct tcphdr *th'', ''__u32 th_len''] 204"

definition decl_bpf_tcp_raw_gen_syncookie_ipv6 :: helper_decl where
  "decl_bpf_tcp_raw_gen_syncookie_ipv6 = decl ''__s64'' ''bpf_tcp_raw_gen_syncookie_ipv6''
     [''struct ipv6hdr *iph'', ''struct tcphdr *th'', ''__u32 th_len''] 205"

definition decl_bpf_tcp_raw_check_syncookie_ipv4 :: helper_decl where
  "decl_bpf_tcp_raw_check_syncookie_ipv4 = decl ''long'' ''bpf_tcp_raw_check_syncookie_ipv4''
     [''struct iphdr *iph'', ''struct tcphdr *th''] 206"

definition decl_bpf_tcp_raw_check_syncookie_ipv6 :: helper_decl where
  "decl_bpf_tcp_raw_check_syncookie_ipv6 = decl ''long'' ''bpf_tcp_raw_check_syncookie_ipv6''
     [''struct ipv6hdr *iph'', ''struct tcphdr *th''] 207"

definition decl_bpf_ktime_get_tai_ns :: helper_decl where
  "decl_bpf_ktime_get_tai_ns = decl ''__u64'' ''bpf_ktime_get_tai_ns'' [] 208"

definition decl_bpf_user_ringbuf_drain :: helper_decl where
  "decl_bpf_user_ringbuf_drain = decl ''long'' ''bpf_user_ringbuf_drain''
     [''void *map'', ''void *callback_fn'', ''void *ctx'', ''__u64 flags''] 209"

definition decl_bpf_cgrp_storage_get :: helper_decl where
  "decl_bpf_cgrp_storage_get = decl ''void *'' ''bpf_cgrp_storage_get''
     [''void *map'', ''struct cgroup *cgroup'', ''void *value'', ''__u64 flags''] 210"

definition decl_bpf_cgrp_storage_delete :: helper_decl where
  "decl_bpf_cgrp_storage_delete = decl ''long'' ''bpf_cgrp_storage_delete''
     [''void *map'', ''struct cgroup *cgroup''] 211"

text \<open>All of them, in the order of the file.\<close>

definition helper_defs :: "helper_decl list" where
  "helper_defs =
    [decl_bpf_map_lookup_elem, decl_bpf_map_update_elem, decl_bpf_map_delete_elem, decl_bpf_probe_read,
     decl_bpf_ktime_get_ns, decl_bpf_trace_printk, decl_bpf_get_prandom_u32, decl_bpf_get_smp_processor_id,
     decl_bpf_skb_store_bytes, decl_bpf_l3_csum_replace, decl_bpf_l4_csum_replace, decl_bpf_tail_call,
     decl_bpf_clone_redirect, decl_bpf_get_current_pid_tgid, decl_bpf_get_current_uid_gid,
     decl_bpf_get_current_comm, decl_bpf_get_cgroup_classid, decl_bpf_skb_vlan_push, decl_bpf_skb_vlan_pop,
     decl_bpf_skb_get_tunnel_key, decl_bpf_skb_set_tunnel_key, decl_bpf_perf_event_read, decl_bpf_redirect,
     decl_bpf_get_route_realm, decl_bpf_perf_event_output, decl_bpf_skb_load_bytes, decl_bpf_get_stackid,
     decl_bpf_csum_diff, decl_bpf_skb_get_tunnel_opt, decl_bpf_skb_set_tunnel_opt, decl_bpf_skb_change_proto,
     decl_bpf_skb_change_type, decl_bpf_skb_under_cgroup, decl_bpf_get_hash_recalc,
     decl_bpf_get_current_task, decl_bpf_probe_write_user, decl_bpf_current_task_under_cgroup,
     decl_bpf_skb_change_tail, decl_bpf_skb_pull_data, decl_bpf_csum_update, decl_bpf_set_hash_invalid,
     decl_bpf_get_numa_node_id, decl_bpf_skb_change_head, decl_bpf_xdp_adjust_head, decl_bpf_probe_read_str,
     decl_bpf_get_socket_cookie, decl_bpf_get_socket_uid, decl_bpf_set_hash, decl_bpf_setsockopt,
     decl_bpf_skb_adjust_room, decl_bpf_redirect_map, decl_bpf_sk_redirect_map, decl_bpf_sock_map_update,
     decl_bpf_xdp_adjust_meta, decl_bpf_perf_event_read_value, decl_bpf_perf_prog_read_value,
     decl_bpf_getsockopt, decl_bpf_override_return, decl_bpf_sock_ops_cb_flags_set,
     decl_bpf_msg_redirect_map, decl_bpf_msg_apply_bytes, decl_bpf_msg_cork_bytes, decl_bpf_msg_pull_data,
     decl_bpf_bind, decl_bpf_xdp_adjust_tail, decl_bpf_skb_get_xfrm_state, decl_bpf_get_stack,
     decl_bpf_skb_load_bytes_relative, decl_bpf_fib_lookup, decl_bpf_sock_hash_update,
     decl_bpf_msg_redirect_hash, decl_bpf_sk_redirect_hash, decl_bpf_lwt_push_encap,
     decl_bpf_lwt_seg6_store_bytes, decl_bpf_lwt_seg6_adjust_srh, decl_bpf_lwt_seg6_action,
     decl_bpf_rc_repeat, decl_bpf_rc_keydown, decl_bpf_skb_cgroup_id, decl_bpf_get_current_cgroup_id,
     decl_bpf_get_local_storage, decl_bpf_sk_select_reuseport, decl_bpf_skb_ancestor_cgroup_id,
     decl_bpf_sk_lookup_tcp, decl_bpf_sk_lookup_udp, decl_bpf_sk_release, decl_bpf_map_push_elem,
     decl_bpf_map_pop_elem, decl_bpf_map_peek_elem, decl_bpf_msg_push_data, decl_bpf_msg_pop_data,
     decl_bpf_rc_pointer_rel, decl_bpf_spin_lock, decl_bpf_spin_unlock, decl_bpf_sk_fullsock,
     decl_bpf_tcp_sock, decl_bpf_skb_ecn_set_ce, decl_bpf_get_listener_sock, decl_bpf_skc_lookup_tcp,
     decl_bpf_tcp_check_syncookie, decl_bpf_sysctl_get_name, decl_bpf_sysctl_get_current_value,
     decl_bpf_sysctl_get_new_value, decl_bpf_sysctl_set_new_value, decl_bpf_strtol, decl_bpf_strtoul,
     decl_bpf_sk_storage_get, decl_bpf_sk_storage_delete, decl_bpf_send_signal, decl_bpf_tcp_gen_syncookie,
     decl_bpf_skb_output, decl_bpf_probe_read_user, decl_bpf_probe_read_kernel, decl_bpf_probe_read_user_str,
     decl_bpf_probe_read_kernel_str, decl_bpf_tcp_send_ack, decl_bpf_send_signal_thread, decl_bpf_jiffies64,
     decl_bpf_read_branch_records, decl_bpf_get_ns_current_pid_tgid, decl_bpf_xdp_output,
     decl_bpf_get_netns_cookie, decl_bpf_get_current_ancestor_cgroup_id, decl_bpf_sk_assign,
     decl_bpf_ktime_get_boot_ns, decl_bpf_seq_printf, decl_bpf_seq_write, decl_bpf_sk_cgroup_id,
     decl_bpf_sk_ancestor_cgroup_id, decl_bpf_ringbuf_output, decl_bpf_ringbuf_reserve,
     decl_bpf_ringbuf_submit, decl_bpf_ringbuf_discard, decl_bpf_ringbuf_query, decl_bpf_csum_level,
     decl_bpf_skc_to_tcp6_sock, decl_bpf_skc_to_tcp_sock, decl_bpf_skc_to_tcp_timewait_sock,
     decl_bpf_skc_to_tcp_request_sock, decl_bpf_skc_to_udp6_sock, decl_bpf_get_task_stack,
     decl_bpf_load_hdr_opt, decl_bpf_store_hdr_opt, decl_bpf_reserve_hdr_opt, decl_bpf_inode_storage_get,
     decl_bpf_inode_storage_delete, decl_bpf_d_path, decl_bpf_copy_from_user, decl_bpf_snprintf_btf,
     decl_bpf_seq_printf_btf, decl_bpf_skb_cgroup_classid, decl_bpf_redirect_neigh, decl_bpf_per_cpu_ptr,
     decl_bpf_this_cpu_ptr, decl_bpf_redirect_peer, decl_bpf_task_storage_get, decl_bpf_task_storage_delete,
     decl_bpf_get_current_task_btf, decl_bpf_bprm_opts_set, decl_bpf_ktime_get_coarse_ns,
     decl_bpf_ima_inode_hash, decl_bpf_sock_from_file, decl_bpf_check_mtu, decl_bpf_for_each_map_elem,
     decl_bpf_snprintf, decl_bpf_sys_bpf, decl_bpf_btf_find_by_name_kind, decl_bpf_sys_close,
     decl_bpf_timer_init, decl_bpf_timer_set_callback, decl_bpf_timer_start, decl_bpf_timer_cancel,
     decl_bpf_get_func_ip, decl_bpf_get_attach_cookie, decl_bpf_task_pt_regs, decl_bpf_get_branch_snapshot,
     decl_bpf_trace_vprintk, decl_bpf_skc_to_unix_sock, decl_bpf_kallsyms_lookup_name, decl_bpf_find_vma,
     decl_bpf_loop, decl_bpf_strncmp, decl_bpf_get_func_arg, decl_bpf_get_func_ret,
     decl_bpf_get_func_arg_cnt, decl_bpf_get_retval, decl_bpf_set_retval, decl_bpf_xdp_get_buff_len,
     decl_bpf_xdp_load_bytes, decl_bpf_xdp_store_bytes, decl_bpf_copy_from_user_task,
     decl_bpf_skb_set_tstamp, decl_bpf_ima_file_hash, decl_bpf_kptr_xchg, decl_bpf_map_lookup_percpu_elem,
     decl_bpf_skc_to_mptcp_sock, decl_bpf_dynptr_from_mem, decl_bpf_ringbuf_reserve_dynptr,
     decl_bpf_ringbuf_submit_dynptr, decl_bpf_ringbuf_discard_dynptr, decl_bpf_dynptr_read,
     decl_bpf_dynptr_write, decl_bpf_dynptr_data, decl_bpf_tcp_raw_gen_syncookie_ipv4,
     decl_bpf_tcp_raw_gen_syncookie_ipv6, decl_bpf_tcp_raw_check_syncookie_ipv4,
     decl_bpf_tcp_raw_check_syncookie_ipv6, decl_bpf_ktime_get_tai_ns, decl_bpf_user_ringbuf_drain,
     decl_bpf_cgrp_storage_get, decl_bpf_cgrp_storage_delete]"

section \<open>The kernel's numbering\<close>

definition bpf_func_id_low :: "(string \<times> int) list" where
  "bpf_func_id_low =
    [(''BPF_FUNC_unspec'', 0), (''BPF_FUNC_map_lookup_elem'', 1), (''BPF_FUNC_map_update_elem'',
     2), (''BPF_FUNC_map_delete_elem'', 3), (''BPF_FUNC_probe_read'', 4),
     (''BPF_FUNC_ktime_get_ns'', 5), (''BPF_FUNC_trace_printk'', 6),
     (''BPF_FUNC_get_prandom_u32'', 7), (''BPF_FUNC_get_smp_processor_id'', 8),
     (''BPF_FUNC_skb_store_bytes'', 9), (''BPF_FUNC_l3_csum_replace'', 10),
     (''BPF_FUNC_l4_csum_replace'', 11), (''BPF_FUNC_tail_call'', 12),
     (''BPF_FUNC_clone_redirect'', 13), (''BPF_FUNC_get_current_pid_tgid'', 14),
     (''BPF_FUNC_get_current_uid_gid'', 15), (''BPF_FUNC_get_current_comm'', 16),
     (''BPF_FUNC_get_cgroup_classid'', 17), (''BPF_FUNC_skb_vlan_push'', 18),
     (''BPF_FUNC_skb_vlan_pop'', 19), (''BPF_FUNC_skb_get_tunnel_key'', 20),
     (''BPF_FUNC_skb_set_tunnel_key'', 21), (''BPF_FUNC_perf_event_read'', 22),
     (''BPF_FUNC_redirect'', 23), (''BPF_FUNC_get_route_realm'', 24),
     (''BPF_FUNC_perf_event_output'', 25), (''BPF_FUNC_skb_load_bytes'', 26),
     (''BPF_FUNC_get_stackid'', 27), (''BPF_FUNC_csum_diff'', 28),
     (''BPF_FUNC_skb_get_tunnel_opt'', 29), (''BPF_FUNC_skb_set_tunnel_opt'', 30),
     (''BPF_FUNC_skb_change_proto'', 31), (''BPF_FUNC_skb_change_type'', 32),
     (''BPF_FUNC_skb_under_cgroup'', 33), (''BPF_FUNC_get_hash_recalc'', 34),
     (''BPF_FUNC_get_current_task'', 35), (''BPF_FUNC_probe_write_user'', 36),
     (''BPF_FUNC_current_task_under_cgroup'', 37), (''BPF_FUNC_skb_change_tail'', 38),
     (''BPF_FUNC_skb_pull_data'', 39), (''BPF_FUNC_csum_update'', 40),
     (''BPF_FUNC_set_hash_invalid'', 41), (''BPF_FUNC_get_numa_node_id'', 42),
     (''BPF_FUNC_skb_change_head'', 43), (''BPF_FUNC_xdp_adjust_head'', 44),
     (''BPF_FUNC_probe_read_str'', 45), (''BPF_FUNC_get_socket_cookie'', 46),
     (''BPF_FUNC_get_socket_uid'', 47), (''BPF_FUNC_set_hash'', 48), (''BPF_FUNC_setsockopt'',
     49), (''BPF_FUNC_skb_adjust_room'', 50), (''BPF_FUNC_redirect_map'', 51),
     (''BPF_FUNC_sk_redirect_map'', 52), (''BPF_FUNC_sock_map_update'', 53),
     (''BPF_FUNC_xdp_adjust_meta'', 54), (''BPF_FUNC_perf_event_read_value'', 55),
     (''BPF_FUNC_perf_prog_read_value'', 56), (''BPF_FUNC_getsockopt'', 57),
     (''BPF_FUNC_override_return'', 58), (''BPF_FUNC_sock_ops_cb_flags_set'', 59),
     (''BPF_FUNC_msg_redirect_map'', 60), (''BPF_FUNC_msg_apply_bytes'', 61),
     (''BPF_FUNC_msg_cork_bytes'', 62), (''BPF_FUNC_msg_pull_data'', 63), (''BPF_FUNC_bind'',
     64), (''BPF_FUNC_xdp_adjust_tail'', 65), (''BPF_FUNC_skb_get_xfrm_state'', 66),
     (''BPF_FUNC_get_stack'', 67), (''BPF_FUNC_skb_load_bytes_relative'', 68),
     (''BPF_FUNC_fib_lookup'', 69), (''BPF_FUNC_sock_hash_update'', 70),
     (''BPF_FUNC_msg_redirect_hash'', 71), (''BPF_FUNC_sk_redirect_hash'', 72),
     (''BPF_FUNC_lwt_push_encap'', 73), (''BPF_FUNC_lwt_seg6_store_bytes'', 74),
     (''BPF_FUNC_lwt_seg6_adjust_srh'', 75), (''BPF_FUNC_lwt_seg6_action'', 76),
     (''BPF_FUNC_rc_repeat'', 77), (''BPF_FUNC_rc_keydown'', 78), (''BPF_FUNC_skb_cgroup_id'',
     79), (''BPF_FUNC_get_current_cgroup_id'', 80), (''BPF_FUNC_get_local_storage'', 81)]"

definition bpf_func_id_high :: "(string \<times> int) list" where
  "bpf_func_id_high =
    [(''BPF_FUNC_sk_select_reuseport'', 82), (''BPF_FUNC_skb_ancestor_cgroup_id'', 83),
     (''BPF_FUNC_sk_lookup_tcp'', 84), (''BPF_FUNC_sk_lookup_udp'', 85),
     (''BPF_FUNC_sk_release'', 86), (''BPF_FUNC_map_push_elem'', 87),
     (''BPF_FUNC_map_pop_elem'', 88), (''BPF_FUNC_map_peek_elem'', 89),
     (''BPF_FUNC_msg_push_data'', 90), (''BPF_FUNC_msg_pop_data'', 91),
     (''BPF_FUNC_rc_pointer_rel'', 92), (''BPF_FUNC_spin_lock'', 93), (''BPF_FUNC_spin_unlock'',
     94), (''BPF_FUNC_sk_fullsock'', 95), (''BPF_FUNC_tcp_sock'', 96),
     (''BPF_FUNC_skb_ecn_set_ce'', 97), (''BPF_FUNC_get_listener_sock'', 98),
     (''BPF_FUNC_skc_lookup_tcp'', 99), (''BPF_FUNC_tcp_check_syncookie'', 100),
     (''BPF_FUNC_sysctl_get_name'', 101), (''BPF_FUNC_sysctl_get_current_value'', 102),
     (''BPF_FUNC_sysctl_get_new_value'', 103), (''BPF_FUNC_sysctl_set_new_value'', 104),
     (''BPF_FUNC_strtol'', 105), (''BPF_FUNC_strtoul'', 106), (''BPF_FUNC_sk_storage_get'',
     107), (''BPF_FUNC_sk_storage_delete'', 108), (''BPF_FUNC_send_signal'', 109),
     (''BPF_FUNC_tcp_gen_syncookie'', 110), (''BPF_FUNC_skb_output'', 111),
     (''BPF_FUNC_probe_read_user'', 112), (''BPF_FUNC_probe_read_kernel'', 113),
     (''BPF_FUNC_probe_read_user_str'', 114), (''BPF_FUNC_probe_read_kernel_str'', 115),
     (''BPF_FUNC_tcp_send_ack'', 116), (''BPF_FUNC_send_signal_thread'', 117),
     (''BPF_FUNC_jiffies64'', 118), (''BPF_FUNC_read_branch_records'', 119),
     (''BPF_FUNC_get_ns_current_pid_tgid'', 120), (''BPF_FUNC_xdp_output'', 121),
     (''BPF_FUNC_get_netns_cookie'', 122), (''BPF_FUNC_get_current_ancestor_cgroup_id'', 123),
     (''BPF_FUNC_sk_assign'', 124), (''BPF_FUNC_ktime_get_boot_ns'', 125),
     (''BPF_FUNC_seq_printf'', 126), (''BPF_FUNC_seq_write'', 127), (''BPF_FUNC_sk_cgroup_id'',
     128), (''BPF_FUNC_sk_ancestor_cgroup_id'', 129), (''BPF_FUNC_ringbuf_output'', 130),
     (''BPF_FUNC_ringbuf_reserve'', 131), (''BPF_FUNC_ringbuf_submit'', 132),
     (''BPF_FUNC_ringbuf_discard'', 133), (''BPF_FUNC_ringbuf_query'', 134),
     (''BPF_FUNC_csum_level'', 135), (''BPF_FUNC_skc_to_tcp6_sock'', 136),
     (''BPF_FUNC_skc_to_tcp_sock'', 137), (''BPF_FUNC_skc_to_tcp_timewait_sock'', 138),
     (''BPF_FUNC_skc_to_tcp_request_sock'', 139), (''BPF_FUNC_skc_to_udp6_sock'', 140),
     (''BPF_FUNC_get_task_stack'', 141), (''BPF_FUNC_load_hdr_opt'', 142),
     (''BPF_FUNC_store_hdr_opt'', 143), (''BPF_FUNC_reserve_hdr_opt'', 144),
     (''BPF_FUNC_inode_storage_get'', 145), (''BPF_FUNC_inode_storage_delete'', 146),
     (''BPF_FUNC_d_path'', 147), (''BPF_FUNC_copy_from_user'', 148), (''BPF_FUNC_snprintf_btf'',
     149), (''BPF_FUNC_seq_printf_btf'', 150), (''BPF_FUNC_skb_cgroup_classid'', 151),
     (''BPF_FUNC_redirect_neigh'', 152), (''BPF_FUNC_per_cpu_ptr'', 153),
     (''BPF_FUNC_this_cpu_ptr'', 154), (''BPF_FUNC_redirect_peer'', 155),
     (''BPF_FUNC_task_storage_get'', 156), (''BPF_FUNC_task_storage_delete'', 157),
     (''BPF_FUNC_get_current_task_btf'', 158), (''BPF_FUNC_bprm_opts_set'', 159),
     (''BPF_FUNC_ktime_get_coarse_ns'', 160), (''BPF_FUNC_ima_inode_hash'', 161),
     (''__BPF_FUNC_MAX_ID'', 162)]"

definition bpf_func_id :: "(string \<times> int) list" where
  "bpf_func_id = bpf_func_id_low @ bpf_func_id_high"

section \<open>The helpers the programs call\<close>

definition http_calls :: "string list" where
  "http_calls = [''bpf_skb_load_bytes'', ''bpf_map_lookup_elem'', ''bpf_ktime_get_ns'',
     ''bpf_map_update_elem'', ''bpf_ringbuf_output'', ''bpf_map_delete_elem'']"

definition oomkill_calls :: "string list" where
  "oomkill_calls = [''bpf_probe_read_kernel'', ''bpf_get_current_pid_tgid'', ''bpf_get_current_comm'',
     ''bpf_probe_read_kernel_str'', ''bpf_ringbuf_output'']"

definition tcpsynbl_calls :: "string list" where
  "tcpsynbl_calls = [''bpf_probe_read_kernel'', ''bpf_ringbuf_output'']"

text \<open>The number the header gives a helper, and the name the kernel gives a number.\<close>

definition helper_id :: "string \<Rightarrow> int option" where
  "helper_id nm = map_of (map (\<lambda>d. (h_name d, h_id d)) helper_defs) nm"

definition kernel_helper :: "int \<Rightarrow> string option" where
  "kernel_helper n = map_of (map (\<lambda>(nm, i). (i, ''bpf_'' @ drop 9 nm)) bpf_func_id) n"

lemma helper_ids_consecutive: "map h_id helper_defs = [1..211]"
  by code_simp

lemma kernel_numbering:
  "map (\<lambda>(nm, i). (drop 9 nm, i)) (butlast (tl bpf_func_id)) =
   map (\<lambda>d. (drop 4 (h_name d), h_id d)) (take 161 helper_defs)"
  by code_simp

text \<open>Looking the programs' helpers up in both tables.\<close>

lemma calls_resolve:
  "let hs = map (\<lambda>d. (h_name d, h_id d)) helper_defs;
       ks = map (\<lambda>(nm, i). (i, ''bpf_'' @ drop 9 nm)) bpf_func_id
   in list_all (\<lambda>nm. case map_of hs nm of None \<Rightarrow> False | Some n \<Rightarrow> map_of ks n = Some nm)
        (remdups (http_calls @ oomkill_calls @ tcpsynbl_calls))"
  by code_simp

end
