(* ===== verification/Vmlinux_Objects.thy ===== *)
theory Vmlinux_Objects
  imports Vmlinux_Types
begin

text \<open>
  Further declarations of \<^verbatim>\<open>src/ebpf/include/vmlinux.h\<close>: the socket buffer and the context of a
  socket filter (\<^verbatim>\<open>sk_buff\<close>, \<^verbatim>\<open>__sk_buff\<close>), the protocol socket around the
  \<^verbatim>\<open>struct sock\<close> the backlog probe receives (\<^verbatim>\<open>tcp_sock\<close>), and the objects a task points
  to, among them the address space whose exhaustion the OOM probe reports (\<^verbatim>\<open>mm_struct\<close>).  Each C
  struct, union or typedef is one constant \<open>vm_<name>\<close>, closed under by-value members.  The lemmas say
  that every declaration is well-formed, so the placement lemmas of C_Layout apply to it, and evaluate the
  layouts the programs rely on.
\<close>

section \<open>Declarations\<close>

definition vm___sk_buff :: ctype where
  "vm___sk_buff = Struct [Fld ''len'' vm___u32,
    Fld ''pkt_type'' vm___u32,
    Fld ''mark'' vm___u32,
    Fld ''queue_mapping'' vm___u32,
    Fld ''protocol'' vm___u32,
    Fld ''vlan_present'' vm___u32,
    Fld ''vlan_tci'' vm___u32,
    Fld ''vlan_proto'' vm___u32,
    Fld ''priority'' vm___u32,
    Fld ''ingress_ifindex'' vm___u32,
    Fld ''ifindex'' vm___u32,
    Fld ''tc_index'' vm___u32,
    Fld ''cb'' (Arr vm___u32 5),
    Fld ''hash'' vm___u32,
    Fld ''tc_classid'' vm___u32,
    Fld ''data'' vm___u32,
    Fld ''data_end'' vm___u32,
    Fld ''napi_id'' vm___u32,
    Fld ''family'' vm___u32,
    Fld ''remote_ip4'' vm___u32,
    Fld ''local_ip4'' vm___u32,
    Fld ''remote_ip6'' (Arr vm___u32 4),
    Fld ''local_ip6'' (Arr vm___u32 4),
    Fld ''remote_port'' vm___u32,
    Fld ''local_port'' vm___u32,
    Fld ''data_meta'' vm___u32,
    Fld '''' (Union [Fld ''flow_keys'' Ptr]),
    Fld ''tstamp'' vm___u64,
    Fld ''wire_len'' vm___u32,
    Fld ''gso_segs'' vm___u32,
    Fld '''' (Union [Fld ''sk'' Ptr]),
    Fld ''gso_size'' vm___u32]"

definition vm___wsum :: ctype where
  "vm___wsum = vm___u32"

definition vm_sk_buff_data_t :: ctype where
  "vm_sk_buff_data_t = Prim 4"

definition vm_sk_buff :: ctype where
  "vm_sk_buff = Struct [Fld '''' (Union [Fld '''' (Struct [Fld ''next'' Ptr, Fld ''prev'' Ptr,
      Fld '''' (Union [Fld ''dev'' Ptr, Fld ''dev_scratch'' (Prim 8)])]),
      Fld ''rbnode'' vm_rb_node, Fld ''list'' vm_list_head]),
    Fld '''' (Union [Fld ''sk'' Ptr, Fld ''ip_defrag_offset'' (Prim 4)]),
    Fld '''' (Union [Fld ''tstamp'' vm_ktime_t, Fld ''skb_mstamp_ns'' vm_u64]),
    Fld ''cb'' (Arr (Prim 1) 48),
    Fld '''' (Union [Fld '''' (Struct [Fld ''_skb_refdst'' (Prim 8), Fld ''destructor'' Ptr]),
      Fld ''tcp_tsorted_anchor'' vm_list_head]),
    Fld ''_nfct'' (Prim 8),
    Fld ''len'' (Prim 4),
    Fld ''data_len'' (Prim 4),
    Fld ''mac_len'' vm___u16,
    Fld ''hdr_len'' vm___u16,
    Fld ''queue_mapping'' vm___u16,
    Fld ''__cloned_offset'' (Arr vm___u8 0),
    Bit ''cloned'' 1 1,
    Bit ''nohdr'' 1 1,
    Bit ''fclone'' 1 2,
    Bit ''peeked'' 1 1,
    Bit ''head_frag'' 1 1,
    Bit ''pfmemalloc'' 1 1,
    Fld ''active_extensions'' vm___u8,
    Fld ''headers_start'' (Arr vm___u32 0),
    Fld ''__pkt_type_offset'' (Arr vm___u8 0),
    Bit ''pkt_type'' 1 3,
    Bit ''ignore_df'' 1 1,
    Bit ''nf_trace'' 1 1,
    Bit ''ip_summed'' 1 2,
    Bit ''ooo_okay'' 1 1,
    Bit ''l4_hash'' 1 1,
    Bit ''sw_hash'' 1 1,
    Bit ''wifi_acked_valid'' 1 1,
    Bit ''wifi_acked'' 1 1,
    Bit ''no_fcs'' 1 1,
    Bit ''encapsulation'' 1 1,
    Bit ''encap_hdr_csum'' 1 1,
    Bit ''csum_valid'' 1 1,
    Fld ''__pkt_vlan_present_offset'' (Arr vm___u8 0),
    Bit ''vlan_present'' 1 1,
    Bit ''csum_complete_sw'' 1 1,
    Bit ''csum_level'' 1 2,
    Bit ''csum_not_inet'' 1 1,
    Bit ''dst_pending_confirm'' 1 1,
    Bit ''ndisc_nodetype'' 1 2,
    Bit ''ipvs_property'' 1 1,
    Bit ''inner_protocol_type'' 1 1,
    Bit ''remcsum_offload'' 1 1,
    Bit ''offload_fwd_mark'' 1 1,
    Bit ''offload_l3_fwd_mark'' 1 1,
    Bit ''tc_skip_classify'' 1 1,
    Bit ''tc_at_ingress'' 1 1,
    Bit ''redirected'' 1 1,
    Bit ''from_ingress'' 1 1,
    Bit ''decrypted'' 1 1,
    Bit ''scm_io_uring'' 1 1,
    Bit ''icmp_pingtrace'' 1 1,
    Fld ''tc_index'' vm___u16,
    Fld '''' (Union [Fld ''csum'' vm___wsum, Fld '''' (Struct [Fld ''csum_start'' vm___u16,
      Fld ''csum_offset'' vm___u16])]),
    Fld ''priority'' vm___u32,
    Fld ''skb_iif'' (Prim 4),
    Fld ''hash'' vm___u32,
    Fld ''vlan_proto'' vm___be16,
    Fld ''vlan_tci'' vm___u16,
    Fld '''' (Union [Fld ''napi_id'' (Prim 4), Fld ''sender_cpu'' (Prim 4)]),
    Fld ''secmark'' vm___u32,
    Fld '''' (Union [Fld ''mark'' vm___u32, Fld ''reserved_tailroom'' vm___u32]),
    Fld '''' (Union [Fld ''inner_protocol'' vm___be16, Fld ''inner_ipproto'' vm___u8]),
    Fld ''inner_transport_header'' vm___u16,
    Fld ''inner_network_header'' vm___u16,
    Fld ''inner_mac_header'' vm___u16,
    Fld ''protocol'' vm___be16,
    Fld ''transport_header'' vm___u16,
    Fld ''network_header'' vm___u16,
    Fld ''mac_header'' vm___u16,
    Fld ''headers_end'' (Arr vm___u32 0),
    Fld ''ck_reserved1'' (Prim 8),
    Fld ''tail'' vm_sk_buff_data_t,
    Fld ''end'' vm_sk_buff_data_t,
    Fld ''head'' Ptr,
    Fld ''data'' Ptr,
    Fld ''truesize'' (Prim 4),
    Fld ''users'' vm_refcount_t,
    Fld ''extensions'' Ptr]"

definition vm___s16 :: ctype where
  "vm___s16 = Prim 2"

definition vm_inet_cork :: ctype where
  "vm_inet_cork = Struct [Fld ''flags'' (Prim 4),
    Fld ''addr'' vm___be32,
    Fld ''opt'' Ptr,
    Fld ''fragsize'' (Prim 4),
    Fld ''length'' (Prim 4),
    Fld ''dst'' Ptr,
    Fld ''tx_flags'' vm_u8,
    Fld ''ttl'' vm___u8,
    Fld ''tos'' vm___s16,
    Fld ''priority'' (Prim 1),
    Fld ''gso_size'' vm___u16,
    Fld ''transmit_time'' vm_u64,
    Fld ''mark'' vm_u32]"

definition vm___be64 :: ctype where
  "vm___be64 = vm___u64"

definition vm_flowi_tunnel :: ctype where
  "vm_flowi_tunnel = Struct [Fld ''tun_id'' vm___be64]"

definition vm_flowi_common :: ctype where
  "vm_flowi_common = Struct [Fld ''flowic_oif'' (Prim 4),
    Fld ''flowic_iif'' (Prim 4),
    Fld ''flowic_mark'' vm___u32,
    Fld ''flowic_tos'' vm___u8,
    Fld ''flowic_scope'' vm___u8,
    Fld ''flowic_proto'' vm___u8,
    Fld ''flowic_flags'' vm___u8,
    Fld ''flowic_secid'' vm___u32,
    Fld ''flowic_uid'' vm_kuid_t,
    Fld ''flowic_tun_key'' vm_flowi_tunnel,
    Fld ''flowic_multipath_hash'' vm___u32]"

definition vm___le16 :: ctype where
  "vm___le16 = vm___u16"

definition vm_flowi_uli :: ctype where
  "vm_flowi_uli = Union [Fld ''ports'' (Struct [Fld ''dport'' vm___be16, Fld ''sport'' vm___be16]),
    Fld ''icmpt'' (Struct [Fld ''type'' vm___u8, Fld ''code'' vm___u8]),
    Fld ''dnports'' (Struct [Fld ''dport'' vm___le16, Fld ''sport'' vm___le16]),
    Fld ''spi'' vm___be32,
    Fld ''gre_key'' vm___be32,
    Fld ''mht'' (Struct [Fld ''type'' vm___u8])]"

definition vm_flowi4 :: ctype where
  "vm_flowi4 = Struct [Fld ''__fl_common'' vm_flowi_common,
    Fld ''saddr'' vm___be32,
    Fld ''daddr'' vm___be32,
    Fld ''uli'' vm_flowi_uli]"

definition vm_flowi6 :: ctype where
  "vm_flowi6 = Struct [Fld ''__fl_common'' vm_flowi_common,
    Fld ''daddr'' vm_in6_addr,
    Fld ''saddr'' vm_in6_addr,
    Fld ''flowlabel'' vm___be32,
    Fld ''uli'' vm_flowi_uli,
    Fld ''mp_hash'' vm___u32]"

definition vm_flowidn :: ctype where
  "vm_flowidn = Struct [Fld ''__fl_common'' vm_flowi_common,
    Fld ''daddr'' vm___le16,
    Fld ''saddr'' vm___le16,
    Fld ''uli'' vm_flowi_uli]"

definition vm_flowi :: ctype where
  "vm_flowi = Struct [Fld ''u'' (Union [Fld ''__fl_common'' vm_flowi_common, Fld ''ip4'' vm_flowi4,
      Fld ''ip6'' vm_flowi6, Fld ''dn'' vm_flowidn])]"

definition vm_inet_cork_full :: ctype where
  "vm_inet_cork_full = Struct [Fld ''base'' vm_inet_cork,
    Fld ''fl'' vm_flowi]"

definition vm_inet_sock :: ctype where
  "vm_inet_sock = Struct [Fld ''sk'' vm_sock,
    Fld ''pinet6'' Ptr,
    Fld ''inet_saddr'' vm___be32,
    Fld ''uc_ttl'' vm___s16,
    Fld ''cmsg_flags'' vm___u16,
    Fld ''inet_sport'' vm___be16,
    Fld ''inet_id'' vm___u16,
    Fld ''inet_opt'' Ptr,
    Fld ''rx_dst_ifindex'' (Prim 4),
    Fld ''tos'' vm___u8,
    Fld ''min_ttl'' vm___u8,
    Fld ''mc_ttl'' vm___u8,
    Fld ''pmtudisc'' vm___u8,
    Bit ''recverr'' 1 1,
    Bit ''is_icsk'' 1 1,
    Bit ''freebind'' 1 1,
    Bit ''hdrincl'' 1 1,
    Bit ''mc_loop'' 1 1,
    Bit ''transparent'' 1 1,
    Bit ''mc_all'' 1 1,
    Bit ''nodefrag'' 1 1,
    Bit ''bind_address_no_port'' 1 1,
    Bit ''recverr_rfc4884'' 1 1,
    Bit ''defer_connect'' 1 1,
    Fld ''rcv_tos'' vm___u8,
    Fld ''convert_csum'' vm___u8,
    Fld ''uc_index'' (Prim 4),
    Fld ''mc_index'' (Prim 4),
    Fld ''mc_addr'' vm___be32,
    Fld ''mc_list'' Ptr,
    Fld ''cork'' vm_inet_cork_full]"

definition vm_fastopen_queue :: ctype where
  "vm_fastopen_queue = Struct [Fld ''rskq_rst_head'' Ptr,
    Fld ''rskq_rst_tail'' Ptr,
    Fld ''lock'' vm_spinlock_t,
    Fld ''qlen'' (Prim 4),
    Fld ''max_qlen'' (Prim 4),
    Fld ''ctx'' Ptr]"

definition vm_request_sock_queue :: ctype where
  "vm_request_sock_queue = Struct [Fld ''rskq_lock'' vm_spinlock_t,
    Fld ''rskq_defer_accept'' vm_u8,
    Fld ''synflood_warned'' vm_u32,
    Fld ''qlen'' vm_atomic_t,
    Fld ''young'' vm_atomic_t,
    Fld ''rskq_accept_head'' Ptr,
    Fld ''rskq_accept_tail'' Ptr,
    Fld ''fastopenq'' vm_fastopen_queue]"

definition vm_inet_connection_sock :: ctype where
  "vm_inet_connection_sock = Struct [Fld ''icsk_inet'' vm_inet_sock,
    Fld ''icsk_accept_queue'' vm_request_sock_queue,
    Fld ''icsk_bind_hash'' Ptr,
    Fld ''icsk_timeout'' (Prim 8),
    Fld ''icsk_retransmit_timer'' vm_timer_list,
    Fld ''icsk_delack_timer'' vm_timer_list,
    Fld ''icsk_rto'' vm___u32,
    Fld ''icsk_rto_min'' vm___u32,
    Fld ''icsk_delack_max'' vm___u32,
    Fld ''icsk_pmtu_cookie'' vm___u32,
    Fld ''icsk_ca_ops'' Ptr,
    Fld ''icsk_af_ops'' Ptr,
    Fld ''icsk_ulp_ops'' Ptr,
    Fld ''icsk_ulp_data'' Ptr,
    Fld ''icsk_clean_acked'' Ptr,
    Fld ''icsk_listen_portaddr_node'' vm_hlist_node,
    Fld ''icsk_sync_mss'' Ptr,
    Bit ''icsk_ca_state'' 1 5,
    Bit ''icsk_ca_initialized'' 1 1,
    Bit ''icsk_ca_setsockopt'' 1 1,
    Bit ''icsk_ca_dst_locked'' 1 1,
    Fld ''icsk_retransmits'' vm___u8,
    Fld ''icsk_pending'' vm___u8,
    Fld ''icsk_backoff'' vm___u8,
    Fld ''icsk_syn_retries'' vm___u8,
    Fld ''icsk_probes_out'' vm___u8,
    Fld ''icsk_ext_hdr_len'' vm___u16,
    Fld ''icsk_ack'' (Struct [Fld ''pending'' vm___u8, Fld ''quick'' vm___u8,
      Fld ''pingpong'' vm___u8, Fld ''retry'' vm___u8, Fld ''ato'' vm___u32,
      Fld ''timeout'' (Prim 8), Fld ''lrcvtime'' vm___u32, Fld ''last_seg_size'' vm___u16,
      Fld ''rcv_mss'' vm___u16]),
    Fld ''icsk_mtup'' (Struct [Fld ''enabled'' (Prim 4), Fld ''search_high'' (Prim 4),
      Fld ''search_low'' (Prim 4), Fld ''probe_size'' (Prim 4),
      Fld ''probe_timestamp'' vm_u32]),
    Fld ''icsk_probes_tstamp'' vm_u32,
    Fld ''icsk_user_timeout'' vm_u32,
    Fld ''icsk_tcp_rt_ops'' Ptr,
    Fld ''icsk_tcp_rt_priv'' Ptr,
    Fld ''icsk_ca_priv'' (Arr vm_u64 13)]"

definition vm_tcp_rack :: ctype where
  "vm_tcp_rack = Struct [Fld ''mstamp'' vm_u64,
    Fld ''rtt_us'' vm_u32,
    Fld ''end_seq'' vm_u32,
    Fld ''last_delivered'' vm_u32,
    Fld ''reo_wnd_steps'' vm_u8,
    Bit ''reo_wnd_persist'' 1 5,
    Bit ''dsack_seen'' 1 1,
    Bit ''advanced'' 1 1]"

definition vm_minmax_sample :: ctype where
  "vm_minmax_sample = Struct [Fld ''t'' vm_u32,
    Fld ''v'' vm_u32]"

definition vm_minmax :: ctype where
  "vm_minmax = Struct [Fld ''s'' (Arr vm_minmax_sample 3)]"

definition vm_tcp_options_received :: ctype where
  "vm_tcp_options_received = Struct [Fld ''ts_recent_stamp'' (Prim 4),
    Fld ''ts_recent'' vm_u32,
    Fld ''rcv_tsval'' vm_u32,
    Fld ''rcv_tsecr'' vm_u32,
    Bit ''saw_tstamp'' 2 1,
    Bit ''tstamp_ok'' 2 1,
    Bit ''dsack'' 2 1,
    Bit ''wscale_ok'' 2 1,
    Bit ''sack_ok'' 2 3,
    Bit ''smc_ok'' 2 1,
    Bit ''snd_wscale'' 2 4,
    Bit ''rcv_wscale'' 2 4,
    Bit ''saw_unknown'' 1 1,
    Bit ''unused'' 1 7,
    Fld ''num_sacks'' vm_u8,
    Fld ''user_mss'' vm_u16,
    Fld ''mss_clamp'' vm_u16]"

definition vm_tcp_sack_block :: ctype where
  "vm_tcp_sack_block = Struct [Fld ''start_seq'' vm_u32,
    Fld ''end_seq'' vm_u32]"

definition vm_tcp_sock :: ctype where
  "vm_tcp_sock = Struct [Fld ''inet_conn'' vm_inet_connection_sock,
    Fld ''tcp_header_len'' vm_u16,
    Fld ''gso_segs'' vm_u16,
    Fld ''pred_flags'' vm___be32,
    Fld ''bytes_received'' vm_u64,
    Fld ''segs_in'' vm_u32,
    Fld ''data_segs_in'' vm_u32,
    Fld ''rcv_nxt'' vm_u32,
    Fld ''copied_seq'' vm_u32,
    Fld ''rcv_wup'' vm_u32,
    Fld ''snd_nxt'' vm_u32,
    Fld ''segs_out'' vm_u32,
    Fld ''data_segs_out'' vm_u32,
    Fld ''bytes_sent'' vm_u64,
    Fld ''bytes_acked'' vm_u64,
    Fld ''dsack_dups'' vm_u32,
    Fld ''snd_una'' vm_u32,
    Fld ''snd_sml'' vm_u32,
    Fld ''rcv_tstamp'' vm_u32,
    Fld ''lsndtime'' vm_u32,
    Fld ''last_oow_ack_time'' vm_u32,
    Fld ''compressed_ack_rcv_nxt'' vm_u32,
    Fld ''tsoffset'' vm_u32,
    Fld ''tsq_node'' vm_list_head,
    Fld ''tsorted_sent_queue'' vm_list_head,
    Fld ''snd_wl1'' vm_u32,
    Fld ''snd_wnd'' vm_u32,
    Fld ''max_window'' vm_u32,
    Fld ''mss_cache'' vm_u32,
    Fld ''window_clamp'' vm_u32,
    Fld ''rcv_ssthresh'' vm_u32,
    Fld ''rack'' vm_tcp_rack,
    Fld ''advmss'' vm_u16,
    Fld ''compressed_ack'' vm_u8,
    Bit ''dup_ack_counter'' 1 2,
    Bit ''tlp_retrans'' 1 1,
    Bit ''unused'' 1 5,
    Fld ''chrono_start'' vm_u32,
    Fld ''chrono_stat'' (Arr vm_u32 3),
    Bit ''chrono_type'' 1 2,
    Bit ''rate_app_limited'' 1 1,
    Bit ''fastopen_connect'' 1 1,
    Bit ''fastopen_no_cookie'' 1 1,
    Bit ''is_sack_reneg'' 1 1,
    Bit ''fastopen_client_fail'' 1 2,
    Bit ''nonagle'' 1 4,
    Bit ''thin_lto'' 1 1,
    Bit ''recvmsg_inq'' 1 1,
    Bit ''repair'' 1 1,
    Bit ''frto'' 1 1,
    Fld ''repair_queue'' vm_u8,
    Bit ''save_syn'' 1 2,
    Bit ''syn_data'' 1 1,
    Bit ''syn_fastopen'' 1 1,
    Bit ''syn_fastopen_exp'' 1 1,
    Bit ''syn_fastopen_ch'' 1 1,
    Bit ''syn_data_acked'' 1 1,
    Bit ''is_cwnd_limited'' 1 1,
    Fld ''tlp_high_seq'' vm_u32,
    Fld ''tcp_tx_delay'' vm_u32,
    Fld ''tcp_wstamp_ns'' vm_u64,
    Fld ''tcp_clock_cache'' vm_u64,
    Fld ''tcp_mstamp'' vm_u64,
    Fld ''srtt_us'' vm_u32,
    Fld ''mdev_us'' vm_u32,
    Fld ''mdev_max_us'' vm_u32,
    Fld ''rttvar_us'' vm_u32,
    Fld ''rtt_seq'' vm_u32,
    Fld ''rtt_min'' vm_minmax,
    Fld ''packets_out'' vm_u32,
    Fld ''retrans_out'' vm_u32,
    Fld ''max_packets_out'' vm_u32,
    Fld ''max_packets_seq'' vm_u32,
    Fld ''urg_data'' vm_u16,
    Fld ''ecn_flags'' vm_u8,
    Fld ''keepalive_probes'' vm_u8,
    Fld ''reordering'' vm_u32,
    Fld ''reord_seen'' vm_u32,
    Fld ''snd_up'' vm_u32,
    Fld ''rx_opt'' vm_tcp_options_received,
    Fld ''snd_ssthresh'' vm_u32,
    Fld ''snd_cwnd'' vm_u32,
    Fld ''snd_cwnd_cnt'' vm_u32,
    Fld ''snd_cwnd_clamp'' vm_u32,
    Fld ''snd_cwnd_used'' vm_u32,
    Fld ''snd_cwnd_stamp'' vm_u32,
    Fld ''prior_cwnd'' vm_u32,
    Fld ''prr_delivered'' vm_u32,
    Fld ''prr_out'' vm_u32,
    Fld ''delivered'' vm_u32,
    Fld ''delivered_ce'' vm_u32,
    Fld ''lost'' vm_u32,
    Fld ''app_limited'' vm_u32,
    Fld ''first_tx_mstamp'' vm_u64,
    Fld ''delivered_mstamp'' vm_u64,
    Fld ''rate_delivered'' vm_u32,
    Fld ''rate_interval_us'' vm_u32,
    Fld ''rcv_wnd'' vm_u32,
    Fld ''write_seq'' vm_u32,
    Fld ''notsent_lowat'' vm_u32,
    Fld ''pushed_seq'' vm_u32,
    Fld ''lost_out'' vm_u32,
    Fld ''sacked_out'' vm_u32,
    Fld ''pacing_timer'' vm_hrtimer,
    Fld ''compressed_ack_timer'' vm_hrtimer,
    Fld ''lost_skb_hint'' Ptr,
    Fld ''retransmit_skb_hint'' Ptr,
    Fld ''out_of_order_queue'' vm_rb_root,
    Fld ''ooo_last_skb'' Ptr,
    Fld ''duplicate_sack'' (Arr vm_tcp_sack_block 1),
    Fld ''selective_acks'' (Arr vm_tcp_sack_block 4),
    Fld ''recv_sack_cache'' (Arr vm_tcp_sack_block 4),
    Fld ''highest_sack'' Ptr,
    Fld ''lost_cnt_hint'' (Prim 4),
    Fld ''prior_ssthresh'' vm_u32,
    Fld ''high_seq'' vm_u32,
    Fld ''retrans_stamp'' vm_u32,
    Fld ''undo_marker'' vm_u32,
    Fld ''undo_retrans'' (Prim 4),
    Fld ''bytes_retrans'' vm_u64,
    Fld ''total_retrans'' vm_u32,
    Fld ''urg_seq'' vm_u32,
    Fld ''keepalive_time'' (Prim 4),
    Fld ''keepalive_intvl'' (Prim 4),
    Fld ''linger2'' (Prim 4),
    Fld ''bpf_sock_ops_cb_flags'' vm_u8,
    Fld ''timeout_rehash'' vm_u16,
    Fld ''rcv_ooopack'' vm_u32,
    Fld ''rcv_rtt_last_tsecr'' vm_u32,
    Fld ''rcv_rtt_est'' (Struct [Fld ''rtt_us'' vm_u32, Fld ''seq'' vm_u32,
      Fld ''time'' vm_u64]),
    Fld ''rcvq_space'' (Struct [Fld ''space'' vm_u32, Fld ''seq'' vm_u32, Fld ''time'' vm_u64]),
    Fld ''mtu_probe'' (Struct [Fld ''probe_seq_start'' vm_u32, Fld ''probe_seq_end'' vm_u32]),
    Fld ''mtu_info'' vm_u32,
    Fld ''is_mptcp'' (Prim 1),
    Fld ''smc_hs_congested'' Ptr,
    Fld ''syn_smc'' (Prim 1),
    Fld ''af_specific'' Ptr,
    Fld ''md5sig_info'' Ptr,
    Fld ''fastopen_req'' Ptr,
    Fld ''fastopen_rsk'' Ptr,
    Fld ''saved_syn'' Ptr]"

definition vm_rw_semaphore :: ctype where
  "vm_rw_semaphore = Struct [Fld ''count'' vm_atomic_long_t,
    Fld ''owner'' vm_atomic_long_t,
    Fld ''osq'' vm_optimistic_spin_queue,
    Fld ''wait_lock'' vm_raw_spinlock_t,
    Fld ''wait_list'' vm_list_head]"

definition vm_mm_rss_stat :: ctype where
  "vm_mm_rss_stat = Struct [Fld ''count'' (Arr vm_atomic_long_t 4)]"

definition vm_s16 :: ctype where
  "vm_s16 = vm___s16"

definition vm_mm_context_t :: ctype where
  "vm_mm_context_t = Struct [Fld ''ctx_id'' vm_u64,
    Fld ''tlb_gen'' vm_atomic64_t,
    Fld ''ldt_usr_sem'' vm_rw_semaphore,
    Fld ''ldt'' Ptr,
    Fld ''ia32_compat'' (Prim 2),
    Fld ''lock'' vm_mutex,
    Fld ''vdso'' Ptr,
    Fld ''vdso_image'' Ptr,
    Fld ''perf_rdpmc_allowed'' vm_atomic_t,
    Fld ''pkey_allocation_map'' vm_u16,
    Fld ''execute_only_pkey'' vm_s16]"

definition vm_uprobes_state :: ctype where
  "vm_uprobes_state = Struct [Fld ''xol_area'' Ptr]"

definition vm_work_func_t :: ctype where
  "vm_work_func_t = Ptr"

definition vm_work_struct :: ctype where
  "vm_work_struct = Struct [Fld ''data'' vm_atomic_long_t,
    Fld ''entry'' vm_list_head,
    Fld ''func'' vm_work_func_t]"

definition vm_mm_struct :: ctype where
  "vm_mm_struct = Struct [Fld '''' (Struct [Fld ''mmap'' Ptr, Fld ''mm_rb'' vm_rb_root,
      Fld ''vmacache_seqnum'' vm_u64, Fld ''get_unmapped_area'' Ptr,
      Fld ''mmap_base'' (Prim 8), Fld ''mmap_legacy_base'' (Prim 8),
      Fld ''mmap_compat_base'' (Prim 8), Fld ''mmap_compat_legacy_base'' (Prim 8),
      Fld ''task_size'' (Prim 8), Fld ''highest_vm_end'' (Prim 8), Fld ''pgd'' Ptr,
      Fld ''membarrier_state'' vm_atomic_t, Fld ''mm_users'' vm_atomic_t,
      Fld ''mm_count'' vm_atomic_t, Fld ''has_pinned'' vm_atomic_t,
      Fld ''pgtables_bytes'' vm_atomic_long_t, Fld ''map_count'' (Prim 4),
      Fld ''page_table_lock'' vm_spinlock_t, Fld ''mmap_lock'' vm_rw_semaphore,
      Fld ''mmlist'' vm_list_head, Fld ''hiwater_rss'' (Prim 8), Fld ''hiwater_vm'' (Prim 8),
      Fld ''total_vm'' (Prim 8), Fld ''locked_vm'' (Prim 8), Fld ''pinned_vm'' vm_atomic64_t,
      Fld ''data_vm'' (Prim 8), Fld ''exec_vm'' (Prim 8), Fld ''stack_vm'' (Prim 8),
      Fld ''def_flags'' (Prim 8), Fld ''write_protect_seq'' vm_seqcount_t,
      Fld ''arg_lock'' vm_spinlock_t, Fld ''start_code'' (Prim 8), Fld ''end_code'' (Prim 8),
      Fld ''start_data'' (Prim 8), Fld ''end_data'' (Prim 8), Fld ''start_brk'' (Prim 8),
      Fld ''brk'' (Prim 8), Fld ''start_stack'' (Prim 8), Fld ''arg_start'' (Prim 8),
      Fld ''arg_end'' (Prim 8), Fld ''env_start'' (Prim 8), Fld ''env_end'' (Prim 8),
      Fld ''saved_auxv'' (Arr (Prim 8) 48), Fld ''rss_stat'' vm_mm_rss_stat,
      Fld ''binfmt'' Ptr, Fld ''context'' vm_mm_context_t, Fld ''flags'' (Prim 8),
      Fld ''core_state'' Ptr, Fld ''ioctx_lock'' vm_spinlock_t, Fld ''ioctx_table'' Ptr,
      Fld ''owner'' Ptr, Fld ''user_ns'' Ptr, Fld ''exe_file'' Ptr,
      Fld ''notifier_subscriptions'' Ptr, Fld ''numa_next_scan'' (Prim 8),
      Fld ''numa_scan_offset'' (Prim 8), Fld ''numa_scan_seq'' (Prim 4),
      Fld ''tlb_flush_pending'' vm_atomic_t, Fld ''tlb_flush_batched'' (Prim 1),
      Fld ''uprobes_state'' vm_uprobes_state, Fld ''hugetlb_usage'' vm_atomic_long_t,
      Fld ''async_put_work'' vm_work_struct, Fld ''pasid'' vm_u32, Fld ''fcm_mm'' Ptr,
      Fld ''fcm_flags'' (Prim 8)]),
    Fld ''ck_reserved1'' (Prim 8),
    Fld ''ck_reserved2'' (Prim 8),
    Fld ''cpu_bitmap'' (Arr (Prim 8) 0)]"

definition vm___kernel_gid32_t :: ctype where
  "vm___kernel_gid32_t = Prim 4"

definition vm_gid_t :: ctype where
  "vm_gid_t = vm___kernel_gid32_t"

definition vm_kgid_t :: ctype where
  "vm_kgid_t = Struct [Fld ''val'' vm_gid_t]"

definition vm_kernel_cap_struct :: ctype where
  "vm_kernel_cap_struct = Struct [Fld ''cap'' (Arr vm___u32 2)]"

definition vm_kernel_cap_t :: ctype where
  "vm_kernel_cap_t = vm_kernel_cap_struct"

definition vm_cred :: ctype where
  "vm_cred = Struct [Fld ''usage'' vm_atomic_t,
    Fld ''uid'' vm_kuid_t,
    Fld ''gid'' vm_kgid_t,
    Fld ''suid'' vm_kuid_t,
    Fld ''sgid'' vm_kgid_t,
    Fld ''euid'' vm_kuid_t,
    Fld ''egid'' vm_kgid_t,
    Fld ''fsuid'' vm_kuid_t,
    Fld ''fsgid'' vm_kgid_t,
    Fld ''securebits'' (Prim 4),
    Fld ''cap_inheritable'' vm_kernel_cap_t,
    Fld ''cap_permitted'' vm_kernel_cap_t,
    Fld ''cap_effective'' vm_kernel_cap_t,
    Fld ''cap_bset'' vm_kernel_cap_t,
    Fld ''cap_ambient'' vm_kernel_cap_t,
    Fld ''jit_keyring'' (Prim 1),
    Fld ''session_keyring'' Ptr,
    Fld ''process_keyring'' Ptr,
    Fld ''thread_keyring'' Ptr,
    Fld ''request_key_auth'' Ptr,
    Fld ''security'' Ptr,
    Fld ''user'' Ptr,
    Fld ''user_ns'' Ptr,
    Fld ''group_info'' Ptr,
    Fld '''' (Union [Fld ''non_rcu'' (Prim 4), Fld ''rcu'' vm_callback_head])]"

definition vm_cpu_itimer :: ctype where
  "vm_cpu_itimer = Struct [Fld ''expires'' vm_u64,
    Fld ''incr'' vm_u64]"

definition vm_task_cputime_atomic :: ctype where
  "vm_task_cputime_atomic = Struct [Fld ''utime'' vm_atomic64_t,
    Fld ''stime'' vm_atomic64_t,
    Fld ''sum_exec_runtime'' vm_atomic64_t]"

definition vm_thread_group_cputimer :: ctype where
  "vm_thread_group_cputimer = Struct [Fld ''cputime_atomic'' vm_task_cputime_atomic]"

definition vm_rlimit :: ctype where
  "vm_rlimit = Struct [Fld ''rlim_cur'' vm___kernel_ulong_t,
    Fld ''rlim_max'' vm___kernel_ulong_t]"

definition vm_pacct_struct :: ctype where
  "vm_pacct_struct = Struct [Fld ''ac_flag'' (Prim 4),
    Fld ''ac_exitcode'' (Prim 8),
    Fld ''ac_mem'' (Prim 8),
    Fld ''ac_utime'' vm_u64,
    Fld ''ac_stime'' vm_u64,
    Fld ''ac_minflt'' (Prim 8),
    Fld ''ac_majflt'' (Prim 8)]"

definition vm_signal_struct :: ctype where
  "vm_signal_struct = Struct [Fld ''sigcnt'' vm_refcount_t,
    Fld ''live'' vm_atomic_t,
    Fld ''nr_threads'' (Prim 4),
    Fld ''thread_head'' vm_list_head,
    Fld ''wait_chldexit'' vm_wait_queue_head_t,
    Fld ''curr_target'' Ptr,
    Fld ''shared_pending'' vm_sigpending,
    Fld ''multiprocess'' vm_hlist_head,
    Fld ''group_exit_code'' (Prim 4),
    Fld ''notify_count'' (Prim 4),
    Fld ''group_exit_task'' Ptr,
    Fld ''group_stop_count'' (Prim 4),
    Fld ''flags'' (Prim 4),
    Bit ''is_child_subreaper'' 4 1,
    Bit ''has_child_subreaper'' 4 1,
    Fld ''posix_timer_id'' (Prim 4),
    Fld ''posix_timers'' vm_list_head,
    Fld ''real_timer'' vm_hrtimer,
    Fld ''it_real_incr'' vm_ktime_t,
    Fld ''it'' (Arr vm_cpu_itimer 2),
    Fld ''cputimer'' vm_thread_group_cputimer,
    Fld ''posix_cputimers'' vm_posix_cputimers,
    Fld ''pids'' (Arr Ptr 4),
    Fld ''tick_dep_mask'' vm_atomic_t,
    Fld ''tty_old_pgrp'' Ptr,
    Fld ''leader'' (Prim 4),
    Fld ''tty'' Ptr,
    Fld ''autogroup'' Ptr,
    Fld ''stats_lock'' vm_seqlock_t,
    Fld ''utime'' vm_u64,
    Fld ''stime'' vm_u64,
    Fld ''cutime'' vm_u64,
    Fld ''cstime'' vm_u64,
    Fld ''gtime'' vm_u64,
    Fld ''cgtime'' vm_u64,
    Fld ''prev_cputime'' vm_prev_cputime,
    Fld ''nvcsw'' (Prim 8),
    Fld ''nivcsw'' (Prim 8),
    Fld ''cnvcsw'' (Prim 8),
    Fld ''cnivcsw'' (Prim 8),
    Fld ''min_flt'' (Prim 8),
    Fld ''maj_flt'' (Prim 8),
    Fld ''cmin_flt'' (Prim 8),
    Fld ''cmaj_flt'' (Prim 8),
    Fld ''inblock'' (Prim 8),
    Fld ''oublock'' (Prim 8),
    Fld ''cinblock'' (Prim 8),
    Fld ''coublock'' (Prim 8),
    Fld ''maxrss'' (Prim 8),
    Fld ''cmaxrss'' (Prim 8),
    Fld ''ioac'' vm_task_io_accounting,
    Fld ''sum_sched_runtime'' (Prim 8),
    Fld ''rlim'' (Arr vm_rlimit 16),
    Fld ''pacct'' vm_pacct_struct,
    Fld ''stats'' Ptr,
    Fld ''audit_tty'' (Prim 4),
    Fld ''tty_audit_buf'' Ptr,
    Fld ''oom_flag_origin'' (Prim 1),
    Fld ''oom_score_adj'' (Prim 2),
    Fld ''oom_score_adj_min'' (Prim 2),
    Fld ''oom_mm'' Ptr,
    Fld ''cred_guard_mutex'' vm_mutex,
    Fld ''exec_update_lock'' vm_rw_semaphore,
    Fld ''ck_reserved1'' (Prim 8),
    Fld ''ck_reserved2'' (Prim 8)]"

definition vm___sighandler_t :: ctype where
  "vm___sighandler_t = Ptr"

definition vm___sigrestore_t :: ctype where
  "vm___sigrestore_t = Ptr"

definition vm_sigaction :: ctype where
  "vm_sigaction = Struct [Fld ''sa_handler'' vm___sighandler_t,
    Fld ''sa_flags'' (Prim 8),
    Fld ''sa_restorer'' vm___sigrestore_t,
    Fld ''sa_mask'' vm_sigset_t]"

definition vm_k_sigaction :: ctype where
  "vm_k_sigaction = Struct [Fld ''sa'' vm_sigaction]"

definition vm_sighand_struct :: ctype where
  "vm_sighand_struct = Struct [Fld ''siglock'' vm_spinlock_t,
    Fld ''count'' vm_refcount_t,
    Fld ''signalfd_wqh'' vm_wait_queue_head_t,
    Fld ''action'' (Arr vm_k_sigaction 64)]"

definition vm_fdtable :: ctype where
  "vm_fdtable = Struct [Fld ''max_fds'' (Prim 4),
    Fld ''fd'' Ptr,
    Fld ''close_on_exec'' Ptr,
    Fld ''open_fds'' Ptr,
    Fld ''full_fds_bits'' Ptr,
    Fld ''rcu'' vm_callback_head]"

definition vm_files_struct :: ctype where
  "vm_files_struct = Struct [Fld ''count'' vm_atomic_t,
    Fld ''resize_in_progress'' (Prim 1),
    Fld ''resize_wait'' vm_wait_queue_head_t,
    Fld ''fdt'' Ptr,
    Fld ''fdtab'' vm_fdtable,
    Bit '''' 8 64,
    Bit '''' 8 64,
    Bit '''' 8 64,
    Bit '''' 8 64,
    Fld ''file_lock'' vm_spinlock_t,
    Fld ''next_fd'' (Prim 4),
    Fld ''close_on_exec_init'' (Arr (Prim 8) 1),
    Fld ''open_fds_init'' (Arr (Prim 8) 1),
    Fld ''full_fds_bits_init'' (Arr (Prim 8) 1),
    Fld ''fd_array'' (Arr Ptr 64),
    Bit '''' 8 64,
    Bit '''' 8 64,
    Bit '''' 8 64,
    Bit '''' 8 64]"

definition vm_fs_struct :: ctype where
  "vm_fs_struct = Struct [Fld ''users'' (Prim 4),
    Fld ''lock'' vm_spinlock_t,
    Fld ''seq'' vm_seqcount_spinlock_t,
    Fld ''umask'' (Prim 4),
    Fld ''in_exec'' (Prim 4),
    Fld ''root'' vm_path,
    Fld ''pwd'' vm_path]"

definition vm_kref :: ctype where
  "vm_kref = Struct [Fld ''refcount'' vm_refcount_t]"

definition vm_xarray :: ctype where
  "vm_xarray = Struct [Fld ''xa_lock'' vm_spinlock_t,
    Fld ''xa_flags'' vm_gfp_t,
    Fld ''xa_head'' Ptr]"

definition vm_idr :: ctype where
  "vm_idr = Struct [Fld ''idr_rt'' vm_xarray,
    Fld ''idr_base'' (Prim 4),
    Fld ''idr_next'' (Prim 4)]"

definition vm_ns_common :: ctype where
  "vm_ns_common = Struct [Fld ''stashed'' vm_atomic_long_t,
    Fld ''ops'' Ptr,
    Fld ''inum'' (Prim 4)]"

definition vm_pid_namespace :: ctype where
  "vm_pid_namespace = Struct [Fld ''kref'' vm_kref,
    Fld ''idr'' vm_idr,
    Fld ''rcu'' vm_callback_head,
    Fld ''pid_allocated'' (Prim 4),
    Fld ''child_reaper'' Ptr,
    Fld ''pid_cachep'' Ptr,
    Fld ''level'' (Prim 4),
    Fld ''parent'' Ptr,
    Fld ''bacct'' Ptr,
    Fld ''user_ns'' Ptr,
    Fld ''ucounts'' Ptr,
    Fld ''reboot'' (Prim 4),
    Fld ''ns'' vm_ns_common]"

definition vm_nsproxy :: ctype where
  "vm_nsproxy = Struct [Fld ''count'' vm_atomic_t,
    Fld ''uts_ns'' Ptr,
    Fld ''ipc_ns'' Ptr,
    Fld ''mnt_ns'' Ptr,
    Fld ''pid_ns_for_children'' Ptr,
    Fld ''net_ns'' Ptr,
    Fld ''time_ns'' Ptr,
    Fld ''time_ns_for_children'' Ptr,
    Fld ''cgroup_ns'' Ptr]"

section \<open>Layout\<close>

text \<open>The declarations of this theory that are not part of another one.\<close>

definition vm_objects :: "ctype list" where
  "vm_objects = [vm___sk_buff, vm_sk_buff, vm_inet_sock, vm_inet_connection_sock, vm_tcp_sock, vm_mm_struct, vm_cred, vm_signal_struct, vm_sighand_struct, vm_files_struct, vm_fs_struct, vm_pid_namespace, vm_nsproxy]"

lemma vm_objects_wf: "list_all wf_type vm_objects"
  by code_simp

lemma vm_objects_sizes: "map size_of vm_objects = [184, 232, 1072, 1544, 2384, 1080, 168, 1120, 2080, 704, 56, 144, 72]"
  by code_simp

text \<open>The socket a probe on a TCP function receives is the first member, through three levels, of the
  protocol's own socket, so its members have the same offsets in both.\<close>

lemma tcp_sock_starts_with_sock:
  "offsetof vm_tcp_sock ''inet_conn'' = Some 0" "offsetof vm_inet_connection_sock ''icsk_inet'' = Some 0"
  "offsetof vm_inet_sock ''sk'' = Some 0"
  by code_simp+

end
