(* ===== verification/Bpf_Arch.thy ===== *)
theory Bpf_Arch
  imports Bpf_Tracing Kprobe_Env
begin

text \<open>
  The per-architecture part of \<^verbatim>\<open>src/ebpf/include/bpf_tracing.h\<close>: how the target architecture is
  chosen from the macros that are defined, which register of the frame holds which argument of a function
  and of a system call, and the accessor macros built on it.  Registers are the member names the macros
  expand to.  The lemmas say that the comments of the header about the tables are true, and that the table
  the build selects is the one the probes' argument macros read.
\<close>

section \<open>Choosing the target\<close>

text \<open>The macros that name a target explicitly and what the compiler defines, in the order they are tested.
  \<open>xlen\<close> is the value of \<^verbatim>\<open>__riscv_xlen\<close>.\<close>

definition explicit_targets :: "(string \<times> string) list" where
  "explicit_targets =
    [(''__TARGET_ARCH_x86'', ''x86''), (''__TARGET_ARCH_s390'', ''s390''), (''__TARGET_ARCH_arm'', ''arm''),
     (''__TARGET_ARCH_arm64'', ''arm64''), (''__TARGET_ARCH_mips'', ''mips''),
     (''__TARGET_ARCH_powerpc'', ''powerpc''), (''__TARGET_ARCH_sparc'', ''sparc''),
     (''__TARGET_ARCH_riscv'', ''riscv''), (''__TARGET_ARCH_arc'', ''arc''),
     (''__TARGET_ARCH_loongarch'', ''loongarch'')]"

definition compiler_targets :: "int \<Rightarrow> (string \<times> string) list" where
  "compiler_targets xlen =
    [(''__x86_64__'', ''x86''), (''__s390__'', ''s390''), (''__arm__'', ''arm''), (''__aarch64__'', ''arm64''),
     (''__mips__'', ''mips''), (''__powerpc__'', ''powerpc''), (''__sparc__'', ''sparc'')] @
    (if xlen = 64 then [(''__riscv'', ''riscv'')] else []) @
    [(''__arc__'', ''arc''), (''__loongarch__'', ''loongarch'')]"

fun first_defined :: "string list \<Rightarrow> (string \<times> string) list \<Rightarrow> string option" where
  "first_defined D [] = None"
| "first_defined D ((m, t) # ts) = (if m \<in> set D then Some t else first_defined D ts)"

definition bpf_target :: "string list \<Rightarrow> int \<Rightarrow> string option" where
  "bpf_target D xlen =
     (case first_defined D explicit_targets of
        Some t \<Rightarrow> Some t
      | None \<Rightarrow> first_defined D (compiler_targets xlen))"

section \<open>Register tables\<close>

text \<open>The type the frame is cast to (empty: none), the registers of function arguments and of system call
  arguments, the struct through which the first system call argument is read (empty: the frame itself), the
  special registers, and whether system call handlers get their arguments through a nested frame.\<close>

record reg_table =
  rt_cast :: string
  rt_parm :: "string list"
  rt_syscall :: "string list"
  rt_syscall1_via :: string
  rt_ret :: string
  rt_fp :: string
  rt_rc :: string
  rt_sp :: string
  rt_ip :: string
  rt_syscall_wrapper :: bool

definition regs_x86_kernel :: "reg_table" where
  "regs_x86_kernel =
    \<lparr>rt_cast = '''',
     rt_parm = [''di'', ''si'', ''dx'', ''cx'', ''r8'', ''r9''],
     rt_syscall = [''di'', ''si'', ''dx'', ''r10'', ''r8'', ''r9''],
     rt_syscall1_via = '''',
     rt_ret = ''sp'', rt_fp = ''bp'', rt_rc = ''ax'', rt_sp = ''sp'', rt_ip = ''ip'',
     rt_syscall_wrapper = True\<rparr>"

definition regs_i386 :: "reg_table" where
  "regs_i386 =
    \<lparr>rt_cast = '''',
     rt_parm = [''eax'', ''edx'', ''ecx''],
     rt_syscall = [''ebx'', ''ecx'', ''edx'', ''esi'', ''edi'', ''ebp''],
     rt_syscall1_via = '''',
     rt_ret = ''esp'', rt_fp = ''ebp'', rt_rc = ''eax'', rt_sp = ''esp'', rt_ip = ''eip'',
     rt_syscall_wrapper = True\<rparr>"

definition regs_x86_64 :: "reg_table" where
  "regs_x86_64 =
    \<lparr>rt_cast = '''',
     rt_parm = [''rdi'', ''rsi'', ''rdx'', ''rcx'', ''r8'', ''r9''],
     rt_syscall = [''rdi'', ''rsi'', ''rdx'', ''r10'', ''r8'', ''r9''],
     rt_syscall1_via = '''',
     rt_ret = ''rsp'', rt_fp = ''rbp'', rt_rc = ''rax'', rt_sp = ''rsp'', rt_ip = ''rip'',
     rt_syscall_wrapper = True\<rparr>"

definition regs_s390 :: "reg_table" where
  "regs_s390 =
    \<lparr>rt_cast = ''user_pt_regs'',
     rt_parm = [''gprs[2]'', ''gprs[3]'', ''gprs[4]'', ''gprs[5]'', ''gprs[6]''],
     rt_syscall = [''orig_gpr2'', ''gprs[3]'', ''gprs[4]'', ''gprs[5]'', ''gprs[6]'', ''gprs[7]''],
     rt_syscall1_via = ''struct pt_regs___s390'',
     rt_ret = ''gprs[14]'', rt_fp = ''gprs[11]'', rt_rc = ''gprs[2]'', rt_sp = ''gprs[15]'',
       rt_ip = ''psw.addr'',
     rt_syscall_wrapper = True\<rparr>"

definition regs_arm :: "reg_table" where
  "regs_arm =
    \<lparr>rt_cast = '''',
     rt_parm = [''uregs[0]'', ''uregs[1]'', ''uregs[2]'', ''uregs[3]''],
     rt_syscall = [''uregs[0]'', ''uregs[1]'', ''uregs[2]'', ''uregs[3]'', ''uregs[4]'',
       ''uregs[5]'', ''uregs[6]''],
     rt_syscall1_via = '''',
     rt_ret = ''uregs[14]'', rt_fp = ''uregs[11]'', rt_rc = ''uregs[0]'', rt_sp = ''uregs[13]'',
       rt_ip = ''uregs[12]'',
     rt_syscall_wrapper = True\<rparr>"

definition regs_arm64 :: "reg_table" where
  "regs_arm64 =
    \<lparr>rt_cast = ''struct user_pt_regs'',
     rt_parm = [''regs[0]'', ''regs[1]'', ''regs[2]'', ''regs[3]'', ''regs[4]'', ''regs[5]'',
       ''regs[6]'', ''regs[7]''],
     rt_syscall = [''orig_x0'', ''regs[1]'', ''regs[2]'', ''regs[3]'', ''regs[4]'', ''regs[5]''],
     rt_syscall1_via = ''struct pt_regs___arm64'',
     rt_ret = ''regs[30]'', rt_fp = ''regs[29]'', rt_rc = ''regs[0]'', rt_sp = ''sp'',
       rt_ip = ''pc'',
     rt_syscall_wrapper = True\<rparr>"

definition regs_mips :: "reg_table" where
  "regs_mips =
    \<lparr>rt_cast = '''',
     rt_parm = [''regs[4]'', ''regs[5]'', ''regs[6]'', ''regs[7]'', ''regs[8]'', ''regs[9]'',
       ''regs[10]'', ''regs[11]''],
     rt_syscall = [''regs[4]'', ''regs[5]'', ''regs[6]'', ''regs[7]'', ''regs[8]'', ''regs[9]''],
     rt_syscall1_via = '''',
     rt_ret = ''regs[31]'', rt_fp = ''regs[30]'', rt_rc = ''regs[2]'', rt_sp = ''regs[29]'',
       rt_ip = ''cp0_epc'',
     rt_syscall_wrapper = True\<rparr>"

definition regs_powerpc :: "bool \<Rightarrow> reg_table" where
  "regs_powerpc arch64 =
    \<lparr>rt_cast = '''',
     rt_parm = [''gpr[3]'', ''gpr[4]'', ''gpr[5]'', ''gpr[6]'', ''gpr[7]'', ''gpr[8]'', ''gpr[9]'',
       ''gpr[10]''],
     rt_syscall = [''orig_gpr3'', ''gpr[4]'', ''gpr[5]'', ''gpr[6]'', ''gpr[7]'',
       ''gpr[8]''] @ (if arch64 then [] else [''gpr[9]'']),
     rt_syscall1_via = '''',
     rt_ret = ''regs[31]'', rt_fp = ''__unsupported__'', rt_rc = ''gpr[3]'', rt_sp = ''sp'',
       rt_ip = ''nip'',
     rt_syscall_wrapper = False\<rparr>"

definition regs_sparc :: "bool \<Rightarrow> reg_table" where
  "regs_sparc arch64 =
    \<lparr>rt_cast = '''',
     rt_parm = [''u_regs[UREG_I0]'', ''u_regs[UREG_I1]'', ''u_regs[UREG_I2]'', ''u_regs[UREG_I3]'',
       ''u_regs[UREG_I4]'', ''u_regs[UREG_I5]''],
     rt_syscall = [''u_regs[UREG_I0]'', ''u_regs[UREG_I1]'', ''u_regs[UREG_I2]'',
       ''u_regs[UREG_I3]'', ''u_regs[UREG_I4]'', ''u_regs[UREG_I5]''],
     rt_syscall1_via = '''',
     rt_ret = ''u_regs[UREG_I7]'', rt_fp = ''__unsupported__'', rt_rc = ''u_regs[UREG_I0]'',
       rt_sp = ''u_regs[UREG_FP]'', rt_ip = (if arch64 then ''tpc'' else ''pc''),
     rt_syscall_wrapper = True\<rparr>"

definition regs_riscv :: "reg_table" where
  "regs_riscv =
    \<lparr>rt_cast = ''struct user_regs_struct'',
     rt_parm = [''a0'', ''a1'', ''a2'', ''a3'', ''a4'', ''a5'', ''a6'', ''a7''],
     rt_syscall = [''a0'', ''a1'', ''a2'', ''a3'', ''a4'', ''a5''],
     rt_syscall1_via = '''',
     rt_ret = ''ra'', rt_fp = ''s0'', rt_rc = ''a0'', rt_sp = ''sp'', rt_ip = ''pc'',
     rt_syscall_wrapper = True\<rparr>"

definition regs_arc :: "reg_table" where
  "regs_arc =
    \<lparr>rt_cast = ''struct user_regs_struct'',
     rt_parm = [''scratch.r0'', ''scratch.r1'', ''scratch.r2'', ''scratch.r3'', ''scratch.r4'',
       ''scratch.r5'', ''scratch.r6'', ''scratch.r7''],
     rt_syscall = [''scratch.r0'', ''scratch.r1'', ''scratch.r2'', ''scratch.r3'', ''scratch.r4'',
       ''scratch.r5''],
     rt_syscall1_via = '''',
     rt_ret = ''scratch.blink'', rt_fp = ''scratch.fp'', rt_rc = ''scratch.r0'',
       rt_sp = ''scratch.sp'', rt_ip = ''scratch.ret'',
     rt_syscall_wrapper = False\<rparr>"

definition regs_loongarch :: "reg_table" where
  "regs_loongarch =
    \<lparr>rt_cast = ''struct user_pt_regs'',
     rt_parm = [''regs[4]'', ''regs[5]'', ''regs[6]'', ''regs[7]'', ''regs[8]'', ''regs[9]'',
       ''regs[10]'', ''regs[11]''],
     rt_syscall = [''regs[4]'', ''regs[5]'', ''regs[6]'', ''regs[7]'', ''regs[8]'', ''regs[9]''],
     rt_syscall1_via = '''',
     rt_ret = ''regs[1]'', rt_fp = ''regs[22]'', rt_rc = ''regs[4]'', rt_sp = ''regs[3]'',
       rt_ip = ''csr_era'',
     rt_syscall_wrapper = False\<rparr>"

text \<open>The table of a target: x86 has three, the kernel's names being used when the kernel's headers or
  \<^verbatim>\<open>vmlinux.h\<close> are included.\<close>

definition table_of :: "string list \<Rightarrow> string \<Rightarrow> reg_table option" where
  "table_of D t =
    (let arch64 = ''__arch64__'' \<in> set D
     in if t = ''x86'' then
          Some (if ''__KERNEL__'' \<in> set D \<or> ''__VMLINUX_H__'' \<in> set D then regs_x86_kernel
                else if ''__i386__'' \<in> set D then regs_i386 else regs_x86_64)
        else map_of [(''s390'', regs_s390), (''arm'', regs_arm), (''arm64'', regs_arm64), (''mips'', regs_mips),
               (''powerpc'', regs_powerpc arch64), (''sparc'', regs_sparc arch64), (''riscv'', regs_riscv),
               (''arc'', regs_arc), (''loongarch'', regs_loongarch)] t)"

text \<open>Arguments the architecture does not pass in registers.\<close>

definition PT_PARM_REG :: "reg_table \<Rightarrow> nat \<Rightarrow> string" where
  "PT_PARM_REG t n = (if 1 \<le> n \<and> n \<le> length (rt_parm t) then rt_parm t ! (n - 1) else ''__unsupported__'')"

definition PT_PARM_SYSCALL_REG :: "reg_table \<Rightarrow> nat \<Rightarrow> string" where
  "PT_PARM_SYSCALL_REG t n =
     (if 1 \<le> n \<and> n \<le> length (rt_syscall t) then rt_syscall t ! (n - 1) else ''__unsupported__'')"

section \<open>Access\<close>

text \<open>A register of the x86-64 frame by its member name; a name that is no member does not compile.\<close>

definition reg_names :: "string list" where
  "reg_names = [''r15'', ''r14'', ''r13'', ''r12'', ''bp'', ''bx'', ''r11'', ''r10'', ''r9'', ''r8'', ''ax'', ''cx'',
     ''dx'', ''si'', ''di'', ''orig_ax'', ''ip'', ''cs'', ''flags'', ''sp'', ''ss'']"

definition reg_value :: "pt_regs \<Rightarrow> string \<Rightarrow> u64 option" where
  "reg_value x r = map_of (zip reg_names (regs_words x)) r"

text \<open>\<^verbatim>\<open>PT_REGS_PARMn\<close>, \<^verbatim>\<open>PT_REGS_PARMn_SYSCALL\<close> and the others, in any architecture whose frame
  is this one.\<close>

definition PT_REGS_PARM :: "reg_table \<Rightarrow> nat \<Rightarrow> pt_regs \<Rightarrow> u64 option" where
  "PT_REGS_PARM t n x = reg_value x (PT_PARM_REG t n)"

definition PT_REGS_PARM_SYSCALL :: "reg_table \<Rightarrow> nat \<Rightarrow> pt_regs \<Rightarrow> u64 option" where
  "PT_REGS_PARM_SYSCALL t n x = reg_value x (PT_PARM_SYSCALL_REG t n)"

text \<open>The \<^verbatim>\<open>_CORE\<close> variants read a register of the frame at an address through the probe-read
  helper.\<close>

definition reg_core :: "(nat \<Rightarrow> u64 \<Rightarrow> int \<times> byte list) \<Rightarrow> string \<Rightarrow> u64 \<Rightarrow> u64 option" where
  "reg_core read r a = map_option (\<lambda>off. le_word (snd (read 8 (a + of_int off)))) (offsetof vm_pt_regs r)"

definition PT_REGS_PARM_CORE :: "(nat \<Rightarrow> u64 \<Rightarrow> int \<times> byte list) \<Rightarrow> reg_table \<Rightarrow> nat \<Rightarrow> u64 \<Rightarrow> u64 option" where
  "PT_REGS_PARM_CORE read t n a = reg_core read (PT_PARM_REG t n) a"

definition PT_REGS_RET_CORE :: "(nat \<Rightarrow> u64 \<Rightarrow> int \<times> byte list) \<Rightarrow> reg_table \<Rightarrow> u64 \<Rightarrow> u64 option" where
  "PT_REGS_RET_CORE read t a = reg_core read (rt_ret t) a"

definition PT_REGS_FP_CORE :: "(nat \<Rightarrow> u64 \<Rightarrow> int \<times> byte list) \<Rightarrow> reg_table \<Rightarrow> u64 \<Rightarrow> u64 option" where
  "PT_REGS_FP_CORE read t a = reg_core read (rt_fp t) a"

definition PT_REGS_RC_CORE :: "(nat \<Rightarrow> u64 \<Rightarrow> int \<times> byte list) \<Rightarrow> reg_table \<Rightarrow> u64 \<Rightarrow> u64 option" where
  "PT_REGS_RC_CORE read t a = reg_core read (rt_rc t) a"

definition PT_REGS_SP_CORE :: "(nat \<Rightarrow> u64 \<Rightarrow> int \<times> byte list) \<Rightarrow> reg_table \<Rightarrow> u64 \<Rightarrow> u64 option" where
  "PT_REGS_SP_CORE read t a = reg_core read (rt_sp t) a"

definition PT_REGS_IP_CORE :: "(nat \<Rightarrow> u64 \<Rightarrow> int \<times> byte list) \<Rightarrow> reg_table \<Rightarrow> u64 \<Rightarrow> u64 option" where
  "PT_REGS_IP_CORE read t a = reg_core read (rt_ip t) a"

definition PT_REGS_PARM_CORE_SYSCALL ::
  "(nat \<Rightarrow> u64 \<Rightarrow> int \<times> byte list) \<Rightarrow> reg_table \<Rightarrow> nat \<Rightarrow> u64 \<Rightarrow> u64 option" where
  "PT_REGS_PARM_CORE_SYSCALL read t n a = reg_core read (PT_PARM_SYSCALL_REG t n) a"

text \<open>The frame of a system call: a pointer to it (\<open>Inl\<close>) is the first argument of the handler when the
  architecture wraps system calls, and otherwise the handler's own frame is it.\<close>

definition PT_REGS_SYSCALL_REGS :: "reg_table \<Rightarrow> pt_regs \<Rightarrow> (u64 + pt_regs) option" where
  "PT_REGS_SYSCALL_REGS t x = (if rt_syscall_wrapper t then map_option Inl (PT_REGS_PARM t 1 x) else Some (Inr x))"

text \<open>Without a target every accessor expands to an error of the compiler.\<close>

definition with_target :: "string list \<Rightarrow> int \<Rightarrow> (reg_table \<Rightarrow> 'a option) \<Rightarrow> 'a option" where
  "with_target D xlen access =
     (case bpf_target D xlen of None \<Rightarrow> None | Some t \<Rightarrow> Option.bind (table_of D t) access)"

text \<open>The address the probed function returns to.\<close>

definition BPF_KPROBE_READ_RET_IP :: "(nat \<Rightarrow> u64 \<Rightarrow> int \<times> byte list) \<Rightarrow> pt_regs \<Rightarrow> u64" where
  "BPF_KPROBE_READ_RET_IP read x = le_word (snd (read 8 (PT_REGS_RET x)))"

definition BPF_KRETPROBE_READ_RET_IP :: "(nat \<Rightarrow> u64 \<Rightarrow> int \<times> byte list) \<Rightarrow> pt_regs \<Rightarrow> u64" where
  "BPF_KRETPROBE_READ_RET_IP read x = le_word (snd (read 8 (PT_REGS_FP x + 8)))"

section \<open>Facts about the tables\<close>

definition all_tables :: "reg_table list" where
  "all_tables = [regs_x86_kernel, regs_i386, regs_x86_64, regs_s390, regs_arm, regs_arm64, regs_mips,
     regs_powerpc True, regs_powerpc False, regs_sparc True, regs_sparc False, regs_riscv, regs_arc,
     regs_loongarch]"

lemma tables_complete: "table_of D t = Some r \<Longrightarrow> r \<in> set all_tables"
  unfolding table_of_def all_tables_def by (cases "''__arch64__'' \<in> set D") (auto simp: Let_def split: if_splits)

lemma tables_conventions:
  "list_all (\<lambda>t. 3 \<le> length (rt_parm t) \<and> length (rt_parm t) \<le> 8 \<and>
     (length (rt_syscall t) = 6 \<or> length (rt_syscall t) = 7) \<and> distinct (rt_parm t) \<and> distinct (rt_syscall t))
   all_tables"
  by code_simp

text \<open>An explicit target wins over the compiler's.\<close>

lemma explicit_target_wins: "first_defined D explicit_targets = Some t \<Longrightarrow> bpf_target D xlen = Some t"
  by (simp add: bpf_target_def)

lemma targets_have_tables: "bpf_target D xlen = Some t \<Longrightarrow> \<exists>r. table_of D t = Some r"
  unfolding bpf_target_def explicit_targets_def compiler_targets_def
  by (auto simp: table_of_def Let_def split: if_splits option.splits)

text \<open>The build defines the x86 target and includes \<^verbatim>\<open>vmlinux.h\<close>.\<close>

definition build_defines :: "string list" where
  "build_defines = [''__TARGET_ARCH_x86'', ''__VMLINUX_H__'', ''__BPF__'']"

lemma build_table: "bpf_target build_defines xlen = Some ''x86''" "table_of build_defines ''x86'' = Some regs_x86_kernel"
  by (simp_all add: bpf_target_def explicit_targets_def build_defines_def table_of_def)

lemma reg_value_names:
  "reg_value x ''di'' = Some (di x)" "reg_value x ''si'' = Some (si x)" "reg_value x ''dx'' = Some (dx x)"
  "reg_value x ''cx'' = Some (cx x)" "reg_value x ''r8'' = Some (r8 x)" "reg_value x ''r9'' = Some (r9 x)"
  "reg_value x ''r10'' = Some (r10 x)" "reg_value x ''__unsupported__'' = None"
  by (simp_all add: reg_value_def reg_names_def regs_words_def)

text \<open>The generic accessor on the build's table is the macro the probes use.\<close>

lemma build_parms:
  "PT_REGS_PARM regs_x86_kernel 1 x = Some (PT_REGS_PARM1 x)"
  "PT_REGS_PARM regs_x86_kernel 2 x = Some (PT_REGS_PARM2 x)"
  "PT_REGS_PARM regs_x86_kernel 3 x = Some (PT_REGS_PARM3 x)"
  "PT_REGS_PARM regs_x86_kernel 4 x = Some (PT_REGS_PARM4 x)"
  "PT_REGS_PARM regs_x86_kernel 5 x = Some (PT_REGS_PARM5 x)"
  "PT_REGS_PARM regs_x86_kernel 6 x = Some (PT_REGS_PARM6 x)"
  "6 < n \<Longrightarrow> PT_REGS_PARM regs_x86_kernel n x = None"
  by (simp_all add: PT_REGS_PARM_def PT_PARM_REG_def regs_x86_kernel_def reg_value_names PT_REGS_defs
      nth_Cons' numeral_eq_Suc)

text \<open>Without a target nothing can be accessed, with one the accessor sees the table of the target.\<close>

lemma with_target_none: "bpf_target D xlen = None \<Longrightarrow> with_target D xlen access = None"
  by (simp add: with_target_def)

lemma build_target: "with_target build_defines xlen access = access regs_x86_kernel"
  by (simp add: with_target_def build_table)

lemma build_syscall_regs: "PT_REGS_SYSCALL_REGS regs_x86_kernel x = Some (Inl (PT_REGS_PARM1 x))"
  using build_parms(1) [of x] by (simp add: PT_REGS_SYSCALL_REGS_def) (simp add: regs_x86_kernel_def)

text \<open>Every register of the frame lies at its word of the C struct.\<close>

lemma frame_offsets: "map (offsetof vm_pt_regs) reg_names = map (\<lambda>i. Some (8 * i)) [0..20]"
  by code_simp

lemma frame_word:
  assumes "i < 21"
  shows "offsetof vm_pt_regs (reg_names ! i) = Some (8 * int i)"
    and "le_word (bslice (8 * i) 8 (regs_bytes x)) = regs_words x ! i"
proof -
  have "map (offsetof vm_pt_regs) reg_names ! i = map (\<lambda>i. Some (8 * i)) [0..20] ! i" by (simp only: frame_offsets)
  moreover have "length reg_names = 21" by (simp add: reg_names_def)
  ultimately show "offsetof vm_pt_regs (reg_names ! i) = Some (8 * int i)" using assms by simp
  have "length (regs_words x) = 21" by (simp add: regs_words_def)
  then show "le_word (bslice (8 * i) 8 (regs_bytes x)) = regs_words x ! i"
    using assms by (simp add: regs_bytes_def bslice_concat_words)
qed

lemma reg_value_nth: "i < 21 \<Longrightarrow> reg_value x (reg_names ! i) = Some (regs_words x ! i)"
proof -
  have "distinct reg_names" "length reg_names = 21" by (simp_all add: reg_names_def)
  moreover have "length (regs_words x) = 21" by (simp add: regs_words_def)
  ultimately show "i < 21 \<Longrightarrow> reg_value x (reg_names ! i) = Some (regs_words x ! i)"
    unfolding reg_value_def by (simp add: map_of_zip_nth)
qed

text \<open>Reading a register of a frame in memory gives the register of the frame.\<close>

lemma reg_core_frame:
  assumes "i < 21" and "read 8 (a + of_nat (8 * i)) = (0, bslice (8 * i) 8 (regs_bytes x))"
  shows "reg_core read (reg_names ! i) a = reg_value x (reg_names ! i)"
  using frame_word(1) [OF assms(1)] frame_word(2) [OF assms(1), of x] reg_value_nth [OF assms(1), of x] assms(2)
  by (simp add: reg_core_def)

end
