(* ===== verification/Bpf_Args.thy ===== *)
theory Bpf_Args
  imports Bpf_Arch
begin

text \<open>
  The macros of \<^verbatim>\<open>src/ebpf/include/bpf_tracing.h\<close> that turn the context of a program into named
  arguments: counting macro arguments, \<^verbatim>\<open>BPF_PROG\<close> over an array of words, \<^verbatim>\<open>BPF_PROG2\<close> with
  arguments of several sizes, and \<^verbatim>\<open>BPF_KPROBE\<close>, \<^verbatim>\<open>BPF_KRETPROBE\<close> and
  \<^verbatim>\<open>BPF_KSYSCALL\<close> over a register frame.  A family of numbered macros is one recursive function; what
  does not compile is \<open>None\<close>.
\<close>

section \<open>Counting arguments\<close>

text \<open>The tokens a counting macro shifts: an argument, one of the numbers behind them, or the mark for any number but none.\<close>

datatype token = Arg | Num nat | Many

definition bpf_nth :: "token list \<Rightarrow> token" where
  "bpf_nth ts = ts ! 13"

definition bpf_nth2 :: "token list \<Rightarrow> token" where
  "bpf_nth2 ts = ts ! 25"

definition bpf_narg :: "nat \<Rightarrow> token" where
  "bpf_narg n = bpf_nth (Arg # replicate n Arg @ map Num [12, 11, 10, 9, 8, 7, 6, 5, 4, 3, 2, 1, 0])"

definition bpf_narg2 :: "nat \<Rightarrow> token" where
  "bpf_narg2 n = bpf_nth2 (Arg # replicate n Arg @ map Num
     [12, 12, 11, 11, 10, 10, 9, 9, 8, 8, 7, 7, 6, 6, 5, 5, 4, 4, 3, 3, 2, 2, 1, 1, 0])"

lemma narg_counts: "n \<le> 12 \<Longrightarrow> bpf_narg n = Num n"
proof -
  have "list_all (\<lambda>n. bpf_narg n = Num n) [0..<13]" by code_simp
  then show "n \<le> 12 \<Longrightarrow> bpf_narg n = Num n" by (simp add: list_all_iff)
qed

text \<open>Types and names come in pairs, so the second count is half the number of tokens.\<close>

lemma narg2_counts: "n \<le> 12 \<Longrightarrow> bpf_narg2 (2 * n) = Num n"
proof -
  have "list_all (\<lambda>n. bpf_narg2 (2 * n) = Num n) [0..<13]" by code_simp
  then show "n \<le> 12 \<Longrightarrow> bpf_narg2 (2 * n) = Num n" by (simp add: list_all_iff)
qed

section \<open>Programs over an array of words\<close>

text \<open>\<^verbatim>\<open>___bpf_ctx_cast\<close>: the last argument is taken from the highest index.\<close>

fun ctx_cast :: "nat \<Rightarrow> u64 list \<Rightarrow> u64 list" where
  "ctx_cast 0 ctx = []"
| "ctx_cast (Suc n) ctx = ctx_cast n ctx @ [ctx ! n]"

definition bpf_ctx_cast :: "nat \<Rightarrow> u64 list \<Rightarrow> u64 list option" where
  "bpf_ctx_cast n ctx = (case bpf_narg n of Num k \<Rightarrow> Some (ctx_cast k ctx) | _ \<Rightarrow> None)"

definition BPF_PROG :: "(u64 list \<Rightarrow> u64 list \<Rightarrow> int) \<Rightarrow> nat \<Rightarrow> u64 list \<Rightarrow> int option" where
  "BPF_PROG body n ctx = map_option (body ctx) (bpf_ctx_cast n ctx)"

lemma ctx_cast_take: "n \<le> length ctx \<Longrightarrow> ctx_cast n ctx = take n ctx"
  by (induction n) (simp_all add: take_Suc_conv_app_nth)

text \<open>A program with up to twelve arguments receives the words of the context in order; with more, the count is
  an argument and the program does not compile.\<close>

lemma BPF_PROG_args: "n \<le> 12 \<Longrightarrow> n \<le> length ctx \<Longrightarrow> BPF_PROG body n ctx = Some (body ctx (take n ctx))"
  by (simp add: BPF_PROG_def bpf_ctx_cast_def narg_counts ctx_cast_take)

lemma narg_overflow: "12 < n \<Longrightarrow> bpf_narg n = Arg"
  by (simp add: bpf_narg_def bpf_nth_def nth_append nth_Cons')

lemma BPF_PROG_overflow: "12 < n \<Longrightarrow> BPF_PROG body n ctx = None"
  by (simp add: BPF_PROG_def bpf_ctx_cast_def narg_overflow)

text \<open>The words an argument of a given size takes.\<close>

definition treg_cnt :: "nat \<Rightarrow> nat option" where
  "treg_cnt sz =
     (if sz = 1 then Some 1 else if sz = 2 then Some 1 else if sz = 4 then Some 1 else if sz = 8 then Some 1
      else if sz = 16 then Some 2 else None)"

fun reg_cnt :: "nat list \<Rightarrow> nat option" where
  "reg_cnt [] = Some 0"
| "reg_cnt (t # args) =
     (case (reg_cnt args, treg_cnt t) of (Some a, Some b) \<Rightarrow> Some (a + b) | _ \<Rightarrow> None)"

definition bpf_reg_cnt :: "nat list \<Rightarrow> nat option" where
  "bpf_reg_cnt args = (case bpf_narg2 (2 * length args) of Num k \<Rightarrow> reg_cnt (take k args) | _ \<Rightarrow> None)"

text \<open>The bytes of the argument whose words start at index \<open>n\<close>.\<close>

definition union_arg :: "nat \<Rightarrow> u64 list \<Rightarrow> nat \<Rightarrow> byte list option" where
  "union_arg sz ctx n =
     (if sz = 1 then Some (le_bytes 1 (ctx ! n)) else if sz = 2 then Some (le_bytes 2 (ctx ! n))
      else if sz = 4 then Some (le_bytes 4 (ctx ! n)) else if sz = 8 then Some (le_bytes 8 (ctx ! n))
      else if sz = 16 then Some (le_bytes 8 (ctx ! n) @ le_bytes 8 (ctx ! (n + 1))) else None)"

fun ctx_arg :: "nat \<Rightarrow> u64 list \<Rightarrow> nat list \<Rightarrow> byte list list option" where
  "ctx_arg n ctx [] = Some []"
| "ctx_arg n ctx (t # args) =
     (case reg_cnt (t # args) of
        None \<Rightarrow> None
      | Some c \<Rightarrow>
          (case (union_arg t ctx (n - c), ctx_arg n ctx args) of
             (Some v, Some vs) \<Rightarrow> Some (v # vs)
           | _ \<Rightarrow> None))"

definition bpf_ctx_arg :: "u64 list \<Rightarrow> nat list \<Rightarrow> byte list list option" where
  "bpf_ctx_arg ctx args =
     (case (bpf_narg2 (2 * length args), bpf_reg_cnt args) of
        (Num k, Some n) \<Rightarrow> ctx_arg n ctx (take k args)
      | _ \<Rightarrow> None)"

definition BPF_PROG2 :: "(u64 list \<Rightarrow> byte list list \<Rightarrow> int) \<Rightarrow> nat list \<Rightarrow> u64 list \<Rightarrow> int option" where
  "BPF_PROG2 body args ctx = map_option (body ctx) (bpf_ctx_arg ctx args)"

text \<open>How the kernel lays the arguments out: each in one or two words, in order.\<close>

definition store_arg :: "byte list \<Rightarrow> u64 list" where
  "store_arg v = (if length v = 16 then [le_word (take 8 v), le_word (drop 8 v)] else [le_word v])"

definition arg_ok :: "byte list \<Rightarrow> bool" where
  "arg_ok v \<longleftrightarrow> length v = 1 \<or> length v = 2 \<or> length v = 4 \<or> length v = 8 \<or> length v = 16"

lemma store_arg_cnt: "arg_ok v \<Longrightarrow> treg_cnt (length v) = Some (length (store_arg v))"
  by (auto simp: arg_ok_def treg_cnt_def store_arg_def)

lemma reg_cnt_store: "list_all arg_ok vs \<Longrightarrow> reg_cnt (map length vs) = Some (length (concat (map store_arg vs)))"
proof (induction vs)
  case (Cons v vs)
  then show ?case using store_arg_cnt [of v] by simp
qed simp

lemma union_arg_store:
  assumes "arg_ok v"
  shows "union_arg (length v) (pre @ store_arg v @ rest) (length pre) = Some v"
proof (cases "length v = 16")
  case True
  then have "le_bytes 8 (le_word (take 8 v) :: u64) = take 8 v" "le_bytes 8 (le_word (drop 8 v) :: u64) = drop 8 v"
    using le_bytes_le_word [where 'a = 64, of "take 8 v"] le_bytes_le_word [where 'a = 64, of "drop 8 v"] by simp_all
  with True show ?thesis by (simp add: union_arg_def store_arg_def nth_append)
next
  case False
  with assms have "le_bytes (length v) (le_word v :: u64) = v" by (intro le_bytes_le_word) (auto simp: arg_ok_def)
  moreover have "union_arg (length v) (pre @ [le_word v] @ rest) (length pre) = Some (le_bytes (length v) (le_word v :: u64))"
    using False assms by (auto simp: union_arg_def arg_ok_def)
  ultimately show ?thesis using False by (simp add: store_arg_def)
qed

lemma ctx_arg_store:
  "list_all arg_ok vs \<Longrightarrow> ctx = pre @ concat (map store_arg vs) \<Longrightarrow> ctx_arg (length ctx) ctx (map length vs) = Some vs"
proof (induction vs arbitrary: pre)
  case (Cons v vs)
  have "reg_cnt (map length (v # vs)) = Some (length (concat (map store_arg (v # vs))))"
    by (rule reg_cnt_store [OF Cons.prems(1)])
  moreover have "union_arg (length v) ctx (length pre) = Some v"
    using Cons.prems union_arg_store [of v pre "concat (map store_arg vs)"] by simp
  moreover have "ctx_arg (length ctx) ctx (map length vs) = Some vs"
    using Cons.prems Cons.IH [of "pre @ store_arg v"] by simp
  moreover have "length ctx - length (concat (map store_arg (v # vs))) = length pre"
    using Cons.prems(2) by simp
  ultimately show ?case by (simp del: reg_cnt.simps)
qed simp

section \<open>Programs over a register frame\<close>

fun kprobe_args :: "reg_table \<Rightarrow> nat \<Rightarrow> pt_regs \<Rightarrow> u64 option list" where
  "kprobe_args t 0 ctx = []"
| "kprobe_args t (Suc n) ctx = kprobe_args t n ctx @ [PT_REGS_PARM t (Suc n) ctx]"

definition BPF_KPROBE :: "reg_table \<Rightarrow> (pt_regs \<Rightarrow> u64 list \<Rightarrow> int) \<Rightarrow> nat \<Rightarrow> pt_regs \<Rightarrow> int option" where
  "BPF_KPROBE t body n ctx = map_option (body ctx) (those (kprobe_args t n ctx))"

text \<open>A return probe has the return value as its only argument.\<close>

fun kretprobe_args :: "nat \<Rightarrow> pt_regs \<Rightarrow> u64 list option" where
  "kretprobe_args 0 ctx = Some []"
| "kretprobe_args (Suc 0) ctx = Some [PT_REGS_RC ctx]"
| "kretprobe_args n ctx = None"

definition BPF_KRETPROBE :: "(pt_regs \<Rightarrow> u64 list \<Rightarrow> int) \<Rightarrow> nat \<Rightarrow> pt_regs \<Rightarrow> int option" where
  "BPF_KRETPROBE body n ctx = map_option (body ctx) (kretprobe_args n ctx)"

text \<open>A system call handler on a kernel with syscall wrappers gets a pointer to the frame of the call and
  reads it through the probe-read helper, otherwise its own frame is that of the call.\<close>

fun syscall_args :: "reg_table \<Rightarrow> nat \<Rightarrow> pt_regs \<Rightarrow> u64 option list" where
  "syscall_args t 0 regs = []"
| "syscall_args t (Suc n) regs = syscall_args t n regs @ [PT_REGS_PARM_SYSCALL t (Suc n) regs]"

fun syswrap_args :: "(nat \<Rightarrow> u64 \<Rightarrow> int \<times> byte list) \<Rightarrow> reg_table \<Rightarrow> nat \<Rightarrow> u64 \<Rightarrow> u64 option list" where
  "syswrap_args read t 0 regs = []"
| "syswrap_args read t (Suc n) regs =
     syswrap_args read t n regs @ [PT_REGS_PARM_CORE_SYSCALL read t (Suc n) regs]"

definition BPF_KSYSCALL ::
  "bool \<Rightarrow> (nat \<Rightarrow> u64 \<Rightarrow> int \<times> byte list) \<Rightarrow> reg_table \<Rightarrow> (pt_regs \<Rightarrow> u64 list \<Rightarrow> int) \<Rightarrow> nat \<Rightarrow> pt_regs \<Rightarrow> int option" where
  "BPF_KSYSCALL wrapper read t body n ctx =
     (if wrapper then
        Option.bind (PT_REGS_PARM t 1 ctx) (\<lambda>regs. map_option (body ctx) (those (syswrap_args read t n regs)))
      else map_option (body ctx) (those (syscall_args t n ctx)))"

lemma kprobe_args_map: "kprobe_args t n ctx = map (\<lambda>i. PT_REGS_PARM t i ctx) [1..<Suc n]"
  by (induction n) simp_all

lemma syscall_args_map: "syscall_args t n regs = map (\<lambda>i. PT_REGS_PARM_SYSCALL t i regs) [1..<Suc n]"
  by (induction n) simp_all

lemma syswrap_args_map: "syswrap_args read t n a = map (\<lambda>i. PT_REGS_PARM_CORE_SYSCALL read t i a) [1..<Suc n]"
  by (induction n) simp_all

lemma those_snoc: "those (xs @ [x]) = (case (those xs, x) of (Some ys, Some y) \<Rightarrow> Some (ys @ [y]) | _ \<Rightarrow> None)"
  by (induction xs) (auto split: option.splits)

lemma those_None: "None \<in> set xs \<Longrightarrow> those xs = None"
  by (induction xs) (auto split: option.splits)

text \<open>With wrappers a system call handler sees the registers of the call's frame in memory.\<close>

definition frame_at :: "(nat \<Rightarrow> u64 \<Rightarrow> int \<times> byte list) \<Rightarrow> u64 \<Rightarrow> pt_regs \<Rightarrow> bool" where
  "frame_at read a x \<longleftrightarrow> (\<forall>i < 21. read 8 (a + of_nat (8 * i)) = (0, bslice (8 * i) 8 (regs_bytes x)))"

lemma reg_core_value:
  assumes "frame_at read a x" and "r \<in> set reg_names \<or> r = ''__unsupported__''"
  shows "reg_core read r a = reg_value x r"
proof (cases "r \<in> set reg_names")
  case True
  moreover have "length reg_names = 21" by (simp add: reg_names_def)
  ultimately obtain i where "i < 21" "r = reg_names ! i" unfolding in_set_conv_nth by auto
  with assms(1) reg_core_frame [of i read a x] show ?thesis by (simp add: frame_at_def)
next
  case False
  with assms(2) have r: "r = ''__unsupported__''" by simp
  have "offsetof vm_pt_regs ''__unsupported__'' = None" by code_simp
  then show ?thesis by (simp add: r reg_core_def reg_value_names)
qed

lemma syswrap_is_syscall:
  assumes "frame_at read a x" and "set (rt_syscall t) \<subseteq> set reg_names"
  shows "syswrap_args read t n a = syscall_args t n x"
proof -
  have "PT_REGS_PARM_CORE_SYSCALL read t i a = PT_REGS_PARM_SYSCALL t i x" for i
  proof -
    have "PT_PARM_SYSCALL_REG t i \<in> set reg_names \<or> PT_PARM_SYSCALL_REG t i = ''__unsupported__''"
      using assms(2) by (auto simp: PT_PARM_SYSCALL_REG_def)
    from reg_core_value [OF assms(1) this] show ?thesis
      by (simp add: PT_REGS_PARM_CORE_SYSCALL_def PT_REGS_PARM_SYSCALL_def)
  qed
  then show ?thesis by (simp add: syswrap_args_map syscall_args_map)
qed

lemma build_ksyscall:
  assumes "frame_at read (PT_REGS_PARM1 ctx) regs"
  shows "BPF_KSYSCALL True read regs_x86_kernel body n ctx =
    map_option (body ctx) (those (map (\<lambda>i. PT_REGS_PARM_SYSCALL regs_x86_kernel i regs) [1..<Suc n]))"
proof -
  have "set (rt_syscall regs_x86_kernel) \<subseteq> set reg_names" by (simp add: regs_x86_kernel_def reg_names_def)
  from syswrap_is_syscall [OF assms this] show ?thesis
    by (simp only: BPF_KSYSCALL_def build_parms(1) syscall_args_map if_True Option.bind.bind_lunit)
qed

text \<open>On the build's target a probe can name up to six arguments.\<close>

lemma build_kprobe:
  "BPF_KPROBE regs_x86_kernel body 2 ctx = Some (body ctx [PT_REGS_PARM1 ctx, PT_REGS_PARM2 ctx])"
  "6 < n \<Longrightarrow> BPF_KPROBE regs_x86_kernel body n ctx = None"
proof -
  show "BPF_KPROBE regs_x86_kernel body 2 ctx = Some (body ctx [PT_REGS_PARM1 ctx, PT_REGS_PARM2 ctx])"
    using build_parms(1,2) [of ctx] by (simp add: BPF_KPROBE_def numeral_2_eq_2)
  assume "6 < n"
  then have "PT_REGS_PARM regs_x86_kernel 7 ctx \<in> set (kprobe_args regs_x86_kernel n ctx)"
    unfolding kprobe_args_map set_map set_upt by (intro imageI) simp
  moreover have "PT_REGS_PARM regs_x86_kernel 7 ctx = None" using build_parms(7) [of 7] by simp
  ultimately show "BPF_KPROBE regs_x86_kernel body n ctx = None" by (simp add: BPF_KPROBE_def those_None)
qed

end
