(* ===== verification/Bpf_Core_Read.thy ===== *)
theory Bpf_Core_Read
  imports Bpf_Args
begin

text \<open>
  The relocatable reads of \<^verbatim>\<open>src/ebpf/include/bpf_core_read.h\<close>.  What the compiler and the loader
  know about a field (its offset, size, signedness and shifts) is the record \<open>field_info\<close>; \<open>describes\<close>
  says what it holds for a bit-field.  Bit-fields are read and written through shifts and masks of a 64-bit
  word; chains of pointers are followed one probe read at a time.
\<close>

section \<open>Kinds of relocation\<close>

datatype bpf_field_info_kind =
    BPF_FIELD_BYTE_OFFSET | BPF_FIELD_BYTE_SIZE | BPF_FIELD_EXISTS | BPF_FIELD_SIGNED
  | BPF_FIELD_LSHIFT_U64 | BPF_FIELD_RSHIFT_U64

fun field_info_kind_val :: "bpf_field_info_kind \<Rightarrow> nat" where
  "field_info_kind_val BPF_FIELD_BYTE_OFFSET = 0"
| "field_info_kind_val BPF_FIELD_BYTE_SIZE = 1"
| "field_info_kind_val BPF_FIELD_EXISTS = 2"
| "field_info_kind_val BPF_FIELD_SIGNED = 3"
| "field_info_kind_val BPF_FIELD_LSHIFT_U64 = 4"
| "field_info_kind_val BPF_FIELD_RSHIFT_U64 = 5"

datatype bpf_type_id_kind = BPF_TYPE_ID_LOCAL | BPF_TYPE_ID_TARGET

fun type_id_kind_val :: "bpf_type_id_kind \<Rightarrow> nat" where
  "type_id_kind_val BPF_TYPE_ID_LOCAL = 0"
| "type_id_kind_val BPF_TYPE_ID_TARGET = 1"

datatype bpf_type_info_kind = BPF_TYPE_EXISTS | BPF_TYPE_SIZE | BPF_TYPE_MATCHES

fun type_info_kind_val :: "bpf_type_info_kind \<Rightarrow> nat" where
  "type_info_kind_val BPF_TYPE_EXISTS = 0"
| "type_info_kind_val BPF_TYPE_SIZE = 1"
| "type_info_kind_val BPF_TYPE_MATCHES = 2"

datatype bpf_enum_value_kind = BPF_ENUMVAL_EXISTS | BPF_ENUMVAL_VALUE

fun enum_value_kind_val :: "bpf_enum_value_kind \<Rightarrow> nat" where
  "enum_value_kind_val BPF_ENUMVAL_EXISTS = 0"
| "enum_value_kind_val BPF_ENUMVAL_VALUE = 1"

text \<open>What the loader finds out about a field of the target kernel.\<close>

record field_info =
  fi_exists :: bool
  fi_offset :: u64
  fi_size :: nat
  fi_signed :: bool
  fi_lshift :: nat
  fi_rshift :: nat

text \<open>\<^verbatim>\<open>__builtin_preserve_field_info\<close> after relocation.\<close>

fun CORE_RELO :: "field_info \<Rightarrow> bpf_field_info_kind \<Rightarrow> nat" where
  "CORE_RELO f BPF_FIELD_BYTE_OFFSET = unat (fi_offset f)"
| "CORE_RELO f BPF_FIELD_BYTE_SIZE = fi_size f"
| "CORE_RELO f BPF_FIELD_EXISTS = (if fi_exists f then 1 else 0)"
| "CORE_RELO f BPF_FIELD_SIGNED = (if fi_signed f then 1 else 0)"
| "CORE_RELO f BPF_FIELD_LSHIFT_U64 = fi_lshift f"
| "CORE_RELO f BPF_FIELD_RSHIFT_U64 = fi_rshift f"

text \<open>The convenience forms.  A field is named by one expression or by a type and a member, which the argument
  count tells apart; both refer to the same field.\<close>

definition field_ref :: "nat \<Rightarrow> field_info \<Rightarrow> field_info option" where
  "field_ref n f = (case bpf_narg n of Num k \<Rightarrow> if k = 1 \<or> k = 2 then Some f else None | _ \<Rightarrow> None)"

definition bpf_core_field_exists :: "nat \<Rightarrow> field_info \<Rightarrow> nat option" where
  "bpf_core_field_exists n f = map_option (\<lambda>f. CORE_RELO f BPF_FIELD_EXISTS) (field_ref n f)"

definition bpf_core_field_size :: "nat \<Rightarrow> field_info \<Rightarrow> nat option" where
  "bpf_core_field_size n f = map_option (\<lambda>f. CORE_RELO f BPF_FIELD_BYTE_SIZE) (field_ref n f)"

definition bpf_core_field_offset :: "nat \<Rightarrow> field_info \<Rightarrow> nat option" where
  "bpf_core_field_offset n f = map_option (\<lambda>f. CORE_RELO f BPF_FIELD_BYTE_OFFSET) (field_ref n f)"

text \<open>Questions about types and enumerators, asked of the compiler's built-ins (parameters) with the number of
  the question.\<close>

record ('t, 'e) core_builtins =
  btf_type_id :: "'t \<Rightarrow> nat \<Rightarrow> u32"
  preserve_type_info :: "'t \<Rightarrow> nat \<Rightarrow> u32"
  preserve_enum_value :: "'e \<Rightarrow> nat \<Rightarrow> u64"

definition bpf_core_type_id_local :: "('t, 'e) core_builtins \<Rightarrow> 't \<Rightarrow> u32" where
  "bpf_core_type_id_local B t = btf_type_id B t (type_id_kind_val BPF_TYPE_ID_LOCAL)"

definition bpf_core_type_id_kernel :: "('t, 'e) core_builtins \<Rightarrow> 't \<Rightarrow> u32" where
  "bpf_core_type_id_kernel B t = btf_type_id B t (type_id_kind_val BPF_TYPE_ID_TARGET)"

definition bpf_core_type_exists :: "('t, 'e) core_builtins \<Rightarrow> 't \<Rightarrow> u32" where
  "bpf_core_type_exists B t = preserve_type_info B t (type_info_kind_val BPF_TYPE_EXISTS)"

definition bpf_core_type_matches :: "('t, 'e) core_builtins \<Rightarrow> 't \<Rightarrow> u32" where
  "bpf_core_type_matches B t = preserve_type_info B t (type_info_kind_val BPF_TYPE_MATCHES)"

definition bpf_core_type_size :: "('t, 'e) core_builtins \<Rightarrow> 't \<Rightarrow> u32" where
  "bpf_core_type_size B t = preserve_type_info B t (type_info_kind_val BPF_TYPE_SIZE)"

definition bpf_core_enum_value_exists :: "('t, 'e) core_builtins \<Rightarrow> 'e \<Rightarrow> u64" where
  "bpf_core_enum_value_exists B v = preserve_enum_value B v (enum_value_kind_val BPF_ENUMVAL_EXISTS)"

definition bpf_core_enum_value :: "('t, 'e) core_builtins \<Rightarrow> 'e \<Rightarrow> u64" where
  "bpf_core_enum_value B v = preserve_enum_value B v (enum_value_kind_val BPF_ENUMVAL_VALUE)"

section \<open>Bit-fields\<close>

text \<open>The shifts that move the field to the low end of the word.\<close>

definition extract_bits :: "field_info \<Rightarrow> u64 \<Rightarrow> u64" where
  "extract_bits f val =
    (let val = push_bit (fi_lshift f) val
     in if fi_signed f then signed_drop_bit (fi_rshift f) val else drop_bit (fi_rshift f) val)"

definition BPF_CORE_READ_BITFIELD_PROBED :: "(nat \<Rightarrow> u64 \<Rightarrow> int \<times> byte list) \<Rightarrow> field_info \<Rightarrow> u64 \<Rightarrow> u64" where
  "BPF_CORE_READ_BITFIELD_PROBED read f s = extract_bits f (le_word (snd (read (fi_size f) (s + fi_offset f))))"

text \<open>The loads of the switch; a size it does not list leaves the variable undefined.\<close>

definition load_storage :: "kmem \<Rightarrow> nat \<Rightarrow> u64 \<Rightarrow> u64 option" where
  "load_storage mem sz p =
     (if sz = 1 \<or> sz = 2 \<or> sz = 4 \<or> sz = 8 then map_option le_word (mem_bytes mem p sz) else None)"

definition BPF_CORE_READ_BITFIELD :: "kmem \<Rightarrow> field_info \<Rightarrow> u64 \<Rightarrow> u64 option" where
  "BPF_CORE_READ_BITFIELD mem f s = map_option (extract_bits f) (load_storage mem (fi_size f) (s + fi_offset f))"

definition insert_field :: "field_info \<Rightarrow> u64 \<Rightarrow> u64 \<Rightarrow> u64" where
  "insert_field f nval val =
    (let rpad = fi_rshift f - fi_lshift f;
         mask = drop_bit (fi_lshift f) (push_bit (fi_rshift f) (NOT 0))
     in (val AND NOT mask) OR (push_bit rpad nval AND mask))"

definition BPF_CORE_WRITE_BITFIELD :: "kmem \<Rightarrow> field_info \<Rightarrow> u64 \<Rightarrow> u64 \<Rightarrow> kmem option" where
  "BPF_CORE_WRITE_BITFIELD mem f s nval =
     map_option (\<lambda>val. mem_write mem (s + fi_offset f) (le_bytes (fi_size f) (insert_field f nval val)))
       (load_storage mem (fi_size f) (s + fi_offset f))"

text \<open>What the relocations of a bit-field are on a little-endian machine: the field occupies \<open>w\<close> bits from
  bit \<open>b\<close> of its storage.\<close>

definition describes :: "field_info \<Rightarrow> nat \<Rightarrow> nat \<Rightarrow> bool" where
  "describes f b w \<longleftrightarrow>
     (fi_size f = 1 \<or> fi_size f = 2 \<or> fi_size f = 4 \<or> fi_size f = 8) \<and> 0 < w \<and> b + w \<le> 8 * fi_size f \<and>
     fi_lshift f = 64 - (b + w) \<and> fi_rshift f = 64 - w"

lemma describes_room: "describes f b w \<Longrightarrow> b + w \<le> 64 \<and> 0 < w"
  by (auto simp: describes_def)

text \<open>Extraction takes the bits of the field, with or without its sign.\<close>

lemma extract_field:
  assumes "describes f b w"
  shows "extract_bits f val = (if fi_signed f then signed_take_bit (w - 1) (drop_bit b val) else take_bit w (drop_bit b val))"
proof (rule bit_word_eqI)
  fix i assume i: "i < LENGTH(64)"
  note r = describes_room [OF assms]
  have s: "fi_lshift f = 64 - (b + w)" "fi_rshift f = 64 - w" using assms by (simp_all add: describes_def)
  show "bit (extract_bits f val) i \<longleftrightarrow>
      bit (if fi_signed f then signed_take_bit (w - 1) (drop_bit b val) else take_bit w (drop_bit b val)) i"
  proof (cases "fi_signed f")
    case False
    then show ?thesis using r i
      by (auto simp: extract_bits_def s bit_drop_bit_eq bit_push_bit_iff bit_take_bit_iff add.commute
          dest: bit_imp_le_length)
  next
    case True
    consider (low) "i < w - 1" | (sign) "i = w - 1" | (high) "w \<le> i" by linarith
    then show ?thesis using True r i
      by cases (auto simp: extract_bits_def s bit_signed_drop_bit_iff bit_drop_bit_eq bit_push_bit_iff
          bit_signed_take_bit_iff add.commute min_def dest: bit_imp_le_length)
  qed
qed

text \<open>Insertion changes the bits of the field and no other.\<close>

lemma bit_insert_field:
  assumes "describes f b w"
  shows "bit (insert_field f nval val) i \<longleftrightarrow> (if b \<le> i \<and> i < b + w then bit nval (i - b) else bit val i)"
proof -
  note r = describes_room [OF assms]
  have s: "fi_lshift f = 64 - (b + w)" "fi_rshift f = 64 - w" "fi_rshift f - fi_lshift f = b"
    using assms r by (auto simp: describes_def)
  show ?thesis using r
    by (auto simp: insert_field_def Let_def s bit_and_iff bit_or_iff bit_not_iff bit_drop_bit_eq bit_push_bit_iff
        bit_mask_iff dest: bit_imp_le_length)
qed

text \<open>Reading back what was written.\<close>

lemma load_after_write:
  assumes "sz = 1 \<or> sz = 2 \<or> sz = 4 \<or> sz = 8"
  shows "load_storage (mem_write mem p (le_bytes sz v)) sz p = Some (take_bit (8 * sz) v)"
proof -
  have "mem_bytes (mem_write mem p (le_bytes sz v)) p sz = Some (le_bytes sz v)"
    using mem_bytes_write [of 0 sz "le_bytes sz v" mem p] assms by (auto simp: bslice_def)
  moreover have "le_word (le_bytes sz v) = take_bit (8 * sz) v"
  proof (rule bit_word_eqI)
    fix i assume "i < LENGTH(64)"
    then show "bit (le_word (le_bytes sz v) :: u64) i \<longleftrightarrow> bit (take_bit (8 * sz) v) i"
      by (auto simp: bit_le_word bit_le_bytes_nth bit_take_bit_iff less_mult_imp_div_less)
  qed
  ultimately show ?thesis using assms by (simp add: load_storage_def)
qed

lemma bitfield_roundtrip:
  assumes "describes f b w" and "BPF_CORE_WRITE_BITFIELD mem f s nval = Some mem'"
  shows "BPF_CORE_READ_BITFIELD mem' f s = Some (if fi_signed f then signed_take_bit (w - 1) nval else take_bit w nval)"
    and "\<exists>old new. load_storage mem (fi_size f) (s + fi_offset f) = Some old \<and>
      load_storage mem' (fi_size f) (s + fi_offset f) = Some new \<and>
      (\<forall>i. \<not> (b \<le> i \<and> i < b + w) \<longrightarrow> i < 8 * fi_size f \<longrightarrow> bit new i = bit old i)"
proof -
  obtain old where old: "load_storage mem (fi_size f) (s + fi_offset f) = Some old"
    and mem': "mem' = mem_write mem (s + fi_offset f) (le_bytes (fi_size f) (insert_field f nval old))"
    using assms(2) by (auto simp: BPF_CORE_WRITE_BITFIELD_def)
  let ?new = "take_bit (8 * fi_size f) (insert_field f nval old)"
  have new: "load_storage mem' (fi_size f) (s + fi_offset f) = Some ?new"
    unfolding mem' using assms(1) by (intro load_after_write) (simp add: describes_def)
  have room: "b + w \<le> 8 * fi_size f" using assms(1) by (simp add: describes_def)
  have "take_bit w (drop_bit b ?new) = take_bit w nval"
    using room by (intro bit_word_eqI) (auto simp: bit_take_bit_iff bit_drop_bit_eq bit_insert_field [OF assms(1)])
  moreover from this have "signed_take_bit (w - 1) (drop_bit b ?new) = signed_take_bit (w - 1) nval"
    using describes_room [OF assms(1)] by (simp add: signed_take_bit_eq_iff_take_bit_eq)
  ultimately show "BPF_CORE_READ_BITFIELD mem' f s = Some (if fi_signed f then signed_take_bit (w - 1) nval else take_bit w nval)"
    by (simp add: BPF_CORE_READ_BITFIELD_def new extract_field [OF assms(1)])
  have "bit ?new i = bit old i" if "\<not> (b \<le> i \<and> i < b + w)" "i < 8 * fi_size f" for i
    using that by (auto simp: bit_take_bit_iff bit_insert_field [OF assms(1)])
  with old new show "\<exists>old new. load_storage mem (fi_size f) (s + fi_offset f) = Some old \<and>
      load_storage mem' (fi_size f) (s + fi_offset f) = Some new \<and>
      (\<forall>i. \<not> (b \<le> i \<and> i < b + w) \<longrightarrow> i < 8 * fi_size f \<longrightarrow> bit new i = bit old i)" by blast
qed

section \<open>Chains of pointers\<close>

text \<open>Counting macro arguments: up to ten, and the test for none.  A count the numbered macros do not have is
  a program that does not compile, \<open>None\<close>.\<close>

definition core_nth :: "token list \<Rightarrow> token" where
  "core_nth ts = ts ! 11"

definition core_narg :: "nat \<Rightarrow> token" where
  "core_narg n = core_nth (Arg # replicate n Arg @ map Num [10, 9, 8, 7, 6, 5, 4, 3, 2, 1, 0])"

definition core_empty :: "nat \<Rightarrow> token" where
  "core_empty n = core_nth (Arg # replicate n Arg @ replicate 10 Many @ [Num 0])"

lemma core_narg_counts: "n \<le> 10 \<Longrightarrow> core_narg n = Num n"
proof -
  have "list_all (\<lambda>n. core_narg n = Num n) [0..<11]" by code_simp
  then show "n \<le> 10 \<Longrightarrow> core_narg n = Num n" by (simp add: list_all_iff)
qed

lemma core_empty_tests: "n \<le> 10 \<Longrightarrow> core_empty n = (if n = 0 then Num 0 else Many)"
proof -
  have "list_all (\<lambda>n. core_empty n = (if n = 0 then Num 0 else Many)) [0..<11]" by code_simp
  then show "n \<le> 10 \<Longrightarrow> core_empty n = (if n = 0 then Num 0 else Many)" by (simp add: list_all_iff)
qed

lemma core_overflow: "10 < n \<Longrightarrow> core_narg n = Arg" "10 < n \<Longrightarrow> core_empty n = Arg"
  by (simp_all add: core_narg_def core_empty_def core_nth_def nth_append nth_Cons')

text \<open>\<^verbatim>\<open>___last\<close> and \<^verbatim>\<open>___nolast\<close> split off the last argument, \<^verbatim>\<open>___arrow\<close> joins a pointer
  and accessors into the expression whose type is taken.\<close>

definition core_last :: "'a list \<Rightarrow> 'a option" where
  "core_last xs = (case core_narg (length xs) of Num k \<Rightarrow> if 1 \<le> k \<and> k \<le> 10 then Some (last xs) else None | _ \<Rightarrow> None)"

definition core_nolast :: "'a list \<Rightarrow> 'a list option" where
  "core_nolast xs =
     (case core_narg (length xs) of Num k \<Rightarrow> if 2 \<le> k \<and> k \<le> 10 then Some (butlast xs) else None | _ \<Rightarrow> None)"

definition core_arrow :: "'a list \<Rightarrow> 'a list option" where
  "core_arrow xs = (case core_narg (length xs) of Num k \<Rightarrow> if 1 \<le> k \<and> k \<le> 10 then Some xs else None | _ \<Rightarrow> None)"

lemma core_list_macros:
  "xs \<noteq> [] \<Longrightarrow> length xs \<le> 10 \<Longrightarrow> core_last xs = Some (last xs)"
  "2 \<le> length xs \<Longrightarrow> length xs \<le> 10 \<Longrightarrow> core_nolast xs = Some (butlast xs)"
  "10 < length xs \<Longrightarrow> core_nolast xs = None"
  "core_arrow xs = (if xs \<noteq> [] \<and> length xs \<le> 10 then Some xs else None)"
proof -
  show "xs \<noteq> [] \<Longrightarrow> length xs \<le> 10 \<Longrightarrow> core_last xs = Some (last xs)"
    by (cases xs) (simp_all add: core_last_def core_narg_counts)
  show "2 \<le> length xs \<Longrightarrow> length xs \<le> 10 \<Longrightarrow> core_nolast xs = Some (butlast xs)"
    by (simp add: core_nolast_def core_narg_counts)
  show "10 < length xs \<Longrightarrow> core_nolast xs = None" by (simp add: core_nolast_def core_overflow)
  show "core_arrow xs = (if xs \<noteq> [] \<and> length xs \<le> 10 then Some xs else None)"
    by (cases "length xs \<le> 10") (auto simp: core_arrow_def core_narg_counts core_overflow Suc_le_eq)
qed

text \<open>An accessor is the offset of a member, possibly nested, in the type the pointer so far has: after
  relocation in the \<^verbatim>\<open>CORE\<close> forms, as compiled in the others.  The numbered macros
  \<^verbatim>\<open>___rd_p1\<close> to \<^verbatim>\<open>___rd_p9\<close> read one pointer more each; a read leaves its bytes in the
  local variable even when it fails.\<close>

type_synonym read_fn = "nat \<Rightarrow> u64 \<Rightarrow> int \<times> byte list"

fun rd_p :: "nat \<Rightarrow> read_fn \<Rightarrow> u64 \<Rightarrow> u64 list \<Rightarrow> u64 option" where
  "rd_p 0 fn src as = None"
| "rd_p (Suc n) fn src as =
    (if n = 0 then Some (le_word (snd (fn 8 (src + hd as))))
     else Option.bind (core_nolast (src # as)) (\<lambda>front.
       Option.bind (rd_p n fn (hd front) (tl front)) (\<lambda>t.
       map_option (\<lambda>a. le_word (snd (fn 8 (t + a)))) (core_last (src # as)))))"

definition read_ptrs :: "read_fn \<Rightarrow> u64 \<Rightarrow> u64 list \<Rightarrow> u64 option" where
  "read_ptrs fn src as = (case core_narg (length as) of Num k \<Rightarrow> if k \<le> 9 then rd_p k fn src as else None | _ \<Rightarrow> None)"

definition core_read0 :: "read_fn \<Rightarrow> nat \<Rightarrow> u64 \<Rightarrow> u64 \<Rightarrow> (int \<times> byte list) option" where
  "core_read0 fn sz src a = Some (fn sz (src + a))"

definition core_readN :: "read_fn \<Rightarrow> read_fn \<Rightarrow> nat \<Rightarrow> u64 \<Rightarrow> u64 list \<Rightarrow> (int \<times> byte list) option" where
  "core_readN fn fn_ptr sz src as =
     Option.bind (core_nolast as) (\<lambda>front.
     Option.bind (read_ptrs fn_ptr src front) (\<lambda>t.
     Option.bind (core_arrow (src # front)) (\<lambda>_.
     map_option (\<lambda>a. fn sz (t + a)) (core_last as))))"

text \<open>\<open>sz\<close> is the size of the destination; \<open>fn\<close> reads the last member, \<open>fn_ptr\<close> the pointers before it.\<close>

definition core_read :: "read_fn \<Rightarrow> read_fn \<Rightarrow> nat \<Rightarrow> u64 \<Rightarrow> u64 \<Rightarrow> u64 list \<Rightarrow> (int \<times> byte list) option" where
  "core_read fn fn_ptr sz src a as =
     (case core_empty (length as) of
        Num _ \<Rightarrow> core_read0 fn sz src a
      | Many \<Rightarrow> core_readN fn fn_ptr sz src (a # as)
      | Arg \<Rightarrow> None)"

text \<open>The variants: kernel or user memory, plain or string.\<close>

record readers =
  probe_read_kernel :: read_fn
  probe_read_user :: read_fn
  probe_read_kernel_str :: read_fn
  probe_read_user_str :: read_fn

definition BPF_CORE_READ_INTO :: "readers \<Rightarrow> nat \<Rightarrow> u64 \<Rightarrow> u64 \<Rightarrow> u64 list \<Rightarrow> (int \<times> byte list) option" where
  "BPF_CORE_READ_INTO R = core_read (probe_read_kernel R) (probe_read_kernel R)"

definition BPF_CORE_READ_USER_INTO :: "readers \<Rightarrow> nat \<Rightarrow> u64 \<Rightarrow> u64 \<Rightarrow> u64 list \<Rightarrow> (int \<times> byte list) option" where
  "BPF_CORE_READ_USER_INTO R = core_read (probe_read_user R) (probe_read_user R)"

definition BPF_CORE_READ_STR_INTO :: "readers \<Rightarrow> nat \<Rightarrow> u64 \<Rightarrow> u64 \<Rightarrow> u64 list \<Rightarrow> (int \<times> byte list) option" where
  "BPF_CORE_READ_STR_INTO R = core_read (probe_read_kernel_str R) (probe_read_kernel R)"

definition BPF_CORE_READ_USER_STR_INTO :: "readers \<Rightarrow> nat \<Rightarrow> u64 \<Rightarrow> u64 \<Rightarrow> u64 list \<Rightarrow> (int \<times> byte list) option" where
  "BPF_CORE_READ_USER_STR_INTO R = core_read (probe_read_user_str R) (probe_read_user R)"

definition BPF_PROBE_READ_INTO :: "readers \<Rightarrow> nat \<Rightarrow> u64 \<Rightarrow> u64 \<Rightarrow> u64 list \<Rightarrow> (int \<times> byte list) option" where
  "BPF_PROBE_READ_INTO R = core_read (probe_read_kernel R) (probe_read_kernel R)"

definition BPF_PROBE_READ_USER_INTO :: "readers \<Rightarrow> nat \<Rightarrow> u64 \<Rightarrow> u64 \<Rightarrow> u64 list \<Rightarrow> (int \<times> byte list) option" where
  "BPF_PROBE_READ_USER_INTO R = core_read (probe_read_user R) (probe_read_user R)"

definition BPF_PROBE_READ_STR_INTO :: "readers \<Rightarrow> nat \<Rightarrow> u64 \<Rightarrow> u64 \<Rightarrow> u64 list \<Rightarrow> (int \<times> byte list) option" where
  "BPF_PROBE_READ_STR_INTO R = core_read (probe_read_kernel_str R) (probe_read_kernel R)"

definition BPF_PROBE_READ_USER_STR_INTO :: "readers \<Rightarrow> nat \<Rightarrow> u64 \<Rightarrow> u64 \<Rightarrow> u64 list \<Rightarrow> (int \<times> byte list) option" where
  "BPF_PROBE_READ_USER_STR_INTO R = core_read (probe_read_user_str R) (probe_read_user R)"

text \<open>The value forms name the type of the whole chain, return the bytes and drop the error.\<close>

definition value_of :: "(int \<times> byte list) option \<Rightarrow> u64 \<Rightarrow> u64 list \<Rightarrow> byte list option" where
  "value_of r src as = Option.bind (core_arrow (src # as)) (\<lambda>_. map_option snd r)"

definition BPF_CORE_READ :: "readers \<Rightarrow> nat \<Rightarrow> u64 \<Rightarrow> u64 \<Rightarrow> u64 list \<Rightarrow> byte list option" where
  "BPF_CORE_READ R sz src a as = value_of (BPF_CORE_READ_INTO R sz src a as) src (a # as)"

definition BPF_CORE_READ_USER :: "readers \<Rightarrow> nat \<Rightarrow> u64 \<Rightarrow> u64 \<Rightarrow> u64 list \<Rightarrow> byte list option" where
  "BPF_CORE_READ_USER R sz src a as = value_of (BPF_CORE_READ_USER_INTO R sz src a as) src (a # as)"

definition BPF_PROBE_READ :: "readers \<Rightarrow> nat \<Rightarrow> u64 \<Rightarrow> u64 \<Rightarrow> u64 list \<Rightarrow> byte list option" where
  "BPF_PROBE_READ R sz src a as = value_of (BPF_PROBE_READ_INTO R sz src a as) src (a # as)"

definition BPF_PROBE_READ_USER :: "readers \<Rightarrow> nat \<Rightarrow> u64 \<Rightarrow> u64 \<Rightarrow> u64 list \<Rightarrow> byte list option" where
  "BPF_PROBE_READ_USER R sz src a as = value_of (BPF_PROBE_READ_USER_INTO R sz src a as) src (a # as)"

text \<open>The reference: follow the pointers from the left, stopping at the first that cannot be read.\<close>

fun walk :: "kmem \<Rightarrow> nat \<Rightarrow> u64 \<Rightarrow> u64 \<Rightarrow> u64 list \<Rightarrow> byte list option" where
  "walk mem sz src a [] = mem_bytes mem (src + a) sz"
| "walk mem sz src a (b # as) = Option.bind (mem_bytes mem (src + a) 8) (\<lambda>bs. walk mem sz (le_word bs) b as)"

text \<open>Reading the pointers from the left, one call per accessor.\<close>

fun ptrs_left :: "read_fn \<Rightarrow> u64 \<Rightarrow> u64 list \<Rightarrow> u64" where
  "ptrs_left fn src [] = src"
| "ptrs_left fn src (a # as) = ptrs_left fn (le_word (snd (fn 8 (src + a)))) as"

lemma ptrs_left_snoc: "ptrs_left fn src (as @ [a]) = le_word (snd (fn 8 (ptrs_left fn src as + a)))"
  by (induction as arbitrary: src) simp_all

lemma rd_p_left: "as \<noteq> [] \<Longrightarrow> length as \<le> 9 \<Longrightarrow> rd_p (length as) fn src as = Some (ptrs_left fn src as)"
proof (induction as rule: rev_induct)
  case (snoc a as)
  show ?case
  proof (cases "as = []")
    case False
    have "core_nolast (src # as @ [a]) = Some (src # as)" "core_last (src # as @ [a]) = Some a"
      using snoc.prems core_list_macros(1,2) [of "src # as @ [a]"] by simp_all
    with False snoc show ?thesis by (simp add: ptrs_left_snoc)
  qed simp
qed simp

lemma read_ptrs_left: "as \<noteq> [] \<Longrightarrow> length as \<le> 9 \<Longrightarrow> read_ptrs fn src as = Some (ptrs_left fn src as)"
  by (simp add: read_ptrs_def core_narg_counts rd_p_left)

text \<open>Up to ten accessors are read from the left; the macros have no more.\<close>

definition read_left :: "read_fn \<Rightarrow> read_fn \<Rightarrow> nat \<Rightarrow> u64 \<Rightarrow> u64 list \<Rightarrow> int \<times> byte list" where
  "read_left fn fn_ptr sz src as = fn sz (ptrs_left fn_ptr src (butlast as) + last as)"

lemma core_read_left:
  assumes "length as \<le> 9"
  shows "core_read fn fn_ptr sz src a as = Some (read_left fn fn_ptr sz src (a # as))"
proof (cases as rule: rev_cases)
  case Nil
  then show ?thesis by (simp add: core_read_def core_read0_def core_empty_tests read_left_def)
next
  case (snoc bs z)
  with assms have "core_nolast (a # bs @ [z]) = Some (a # bs)" "core_last (a # bs @ [z]) = Some z"
    "core_arrow (src # a # bs) = Some (src # a # bs)" "core_empty (length as) = Many"
    "read_ptrs fn_ptr src (a # bs) = Some (ptrs_left fn_ptr src (a # bs))"
    using core_list_macros(1,2) [of "a # bs @ [z]"] core_list_macros(4) [of "src # a # bs"]
      core_empty_tests [of "length as"] read_ptrs_left [of "a # bs"] by simp_all
  with snoc show ?thesis by (simp add: core_read_def core_readN_def read_left_def butlast_append del: ptrs_left.simps)
qed

lemma core_read_too_long: "9 < length as \<Longrightarrow> core_read fn fn_ptr sz src a as = None"
proof (cases "length as = 10")
  case True
  then show ?thesis
    using core_list_macros(3) [of "a # as"] by (auto simp: core_read_def core_empty_tests core_readN_def)
next
  case False
  moreover assume "9 < length as"
  ultimately show ?thesis by (simp add: core_read_def core_overflow)
qed

lemma read_left_Cons: "read_left fn fn_ptr sz src (a # b # as) = read_left fn fn_ptr sz (le_word (snd (fn_ptr 8 (src + a)))) (b # as)"
  by (simp add: read_left_def)

context kernel_reader
begin

text \<open>With the first page unmapped, a chain through a pointer that cannot be read faults at every later step.\<close>

lemma low_fault:
  assumes "\<And>x. x < 4096 \<Longrightarrow> mem x = None" and "a < 4096" and "0 < n"
  shows "fst (probe mem n a) < 0" and "snd (probe mem n a) = replicate n 0"
proof -
  have "mem_bytes mem a n = None" using assms by (cases n) simp_all
  from probe_fault [OF this] show "fst (probe mem n a) < 0" "snd (probe mem n a) = replicate n 0" by simp_all
qed

lemma le_word_zeros: "le_word (replicate n 0) = 0"
  by (induction n) simp_all

lemma chain_from_null:
  assumes "\<And>x. x < 4096 \<Longrightarrow> mem x = None" and "list_all (\<lambda>a. a < 4096) as"
  shows "ptrs_left (probe mem) 0 as = 0"
  using assms(2)
proof (induction as)
  case (Cons a as)
  then have "snd (probe mem 8 a) = replicate 8 0" using low_fault(2) [where mem = mem and a = a and n = 8] assms(1) by simp
  then have "le_word (snd (probe mem 8 a)) = (0 :: u64)" by (simp only: le_word_zeros)
  with Cons show ?case by simp
qed simp

lemma read_left_walk:
  assumes "\<And>x. x < 4096 \<Longrightarrow> mem x = None" and "list_all (\<lambda>a. a < 4096) (a # as)" and "0 < sz"
  shows "case walk mem sz src a as of
      Some bs \<Rightarrow> read_left (probe mem) (probe mem) sz src (a # as) = (0, bs)
    | None \<Rightarrow> fst (read_left (probe mem) (probe mem) sz src (a # as)) < 0 \<and>
        snd (read_left (probe mem) (probe mem) sz src (a # as)) = replicate sz 0"
  using assms(2)
proof (induction as arbitrary: src a)
  case Nil
  then show ?case
    using probe_mapped [of mem "src + a" sz] probe_fault [of mem "src + a" sz]
    by (simp add: read_left_def split: option.split)
next
  case (Cons b as)
  show ?case
  proof (cases "mem_bytes mem (src + a) 8")
    case (Some bs)
    from Cons.prems have "list_all (\<lambda>a. a < 4096) (b # as)" by simp
    from Cons.IH [OF this, of "le_word bs"] Some show ?thesis using probe_mapped [OF Some]
      by (simp add: read_left_Cons split: option.splits)
  next
    case None
    have "snd (probe mem 8 (src + a)) = replicate 8 0" using probe_fault [OF None] by simp
    then have null: "le_word (snd (probe mem 8 (src + a))) = (0 :: u64)" by (simp only: le_word_zeros)
    have "list_all (\<lambda>a. a < 4096) (b # as)" using Cons.prems by simp
    then have low: "list_all (\<lambda>a. a < 4096) (butlast (b # as))" "last (b # as) < 4096"
      by (auto simp: list_all_iff dest: in_set_butlastD)
    note chain_from_null [where mem = mem, OF assms(1) low(1)] low_fault [where mem = mem, OF assms(1) low(2) assms(3)]
    with null None show ?thesis unfolding read_left_Cons read_left_def [of _ _ _ _ "b # as"] by simp
  qed
qed

lemma core_read_walk:
  assumes "\<And>x. x < 4096 \<Longrightarrow> mem x = None" and "list_all (\<lambda>a. a < 4096) (a # as)" and "0 < sz" and "length as \<le> 9"
  obtains r where "core_read (probe mem) (probe mem) sz src a as = Some r"
    and "case walk mem sz src a as of Some bs \<Rightarrow> r = (0, bs) | None \<Rightarrow> fst r < 0 \<and> snd r = replicate sz 0"
  using read_left_walk [where mem = mem and src = src, OF assms(1-3)] core_read_left [OF assms(4)] by blast

end

end
