(* ===== verification/Bpf_Helpers.thy ===== *)
theory Bpf_Helpers
  imports Bpf_Args
begin

text \<open>
  The computing macros of \<^verbatim>\<open>src/ebpf/include/bpf_helpers.h\<close>: version numbers, the way from a
  member to its object, the parameter arrays of the printing macros, and the loop over a numeric
  iterator.  The attributes and section macros only annotate declarations.
\<close>

section \<open>Versions\<close>

text \<open>\<^verbatim>\<open>int\<close> arithmetic; the last component is capped so that it stays in its byte.\<close>

definition KERNEL_VERSION :: "int \<Rightarrow> int \<Rightarrow> int \<Rightarrow> int" where
  "KERNEL_VERSION a b c = push_bit 16 a + push_bit 8 b + (if 255 < c then 255 else c)"

text \<open>Versions compare like their components, up to the cap.\<close>

lemma KERNEL_VERSION_less:
  assumes "0 \<le> b" "b \<le> 255" "0 \<le> c" "0 \<le> b'" "b' \<le> 255" "0 \<le> c'"
  shows "KERNEL_VERSION a b c < KERNEL_VERSION a' b' c' \<longleftrightarrow>
    a < a' \<or> a = a' \<and> (b < b' \<or> b = b' \<and> min c 255 < min c' 255)"
proof -
  have v: "KERNEL_VERSION x y z = 65536 * x + 256 * y + min z 255" for x y z
    by (simp add: KERNEL_VERSION_def push_bit_eq_mult min_def)
  define m m' where "m = min c 255" and "m' = min c' 255"
  have m: "0 \<le> m" "m \<le> 255" "0 \<le> m'" "m' \<le> 255" using assms by (simp_all add: m_def m'_def)
  have less: "65536 * x + 256 * y + z < 65536 * x' + 256 * y' + (z' :: int)"
    if "x < x' \<or> x = x' \<and> y < y'" "0 \<le> y'" "y \<le> 255" "0 \<le> z'" "z \<le> 255" for x x' y y' z z'
    using that by (elim disjE conjE; linarith)
  consider (l) "a < a' \<or> a = a' \<and> b < b'" | (g) "a' < a \<or> a' = a \<and> b' < b" | (e) "a = a'" "b = b'" by linarith
  then show ?thesis
  proof cases
    case l
    then have "KERNEL_VERSION a b c < KERNEL_VERSION a' b' c'"
      using less [OF l, of m' m] assms m by (simp only: v m_def m'_def)
    with l show ?thesis by blast
  next
    case g
    then have "KERNEL_VERSION a' b' c' < KERNEL_VERSION a b c"
      using less [OF g, of m m'] assms m by (simp only: v m_def m'_def)
    with g show ?thesis by auto
  qed (simp add: v)
qed

section \<open>From a member to its object\<close>

text \<open>\<^verbatim>\<open>container_of\<close>, with the offset of the member in its type.\<close>

definition container_of :: "u64 \<Rightarrow> u64 \<Rightarrow> u64" where
  "container_of ptr off = ptr - off"

lemma container_of_member: "container_of (p + off) off = p"
  by (simp add: container_of_def)

section \<open>Tail calls\<close>

text \<open>The registers the inline assembly sets and the number of the helper it calls; a slot that is not a constant
  is a trap, which does not compile.\<close>

definition bpf_tail_call_static :: "bool \<Rightarrow> u64 \<Rightarrow> u64 \<Rightarrow> u32 \<Rightarrow> ((nat \<times> u64) list \<times> nat) option" where
  "bpf_tail_call_static is_const ctx m slot =
     (if \<not> is_const then None else Some ([(1, ctx), (2, m), (3, ucast slot)], 12))"

section \<open>Enumerations\<close>

datatype libbpf_pin_type = LIBBPF_PIN_NONE | LIBBPF_PIN_BY_NAME

fun pin_type_val :: "libbpf_pin_type \<Rightarrow> nat" where
  "pin_type_val LIBBPF_PIN_NONE = 0"
| "pin_type_val LIBBPF_PIN_BY_NAME = 1"

datatype libbpf_tristate = TRI_NO | TRI_YES | TRI_MODULE

fun tristate_val :: "libbpf_tristate \<Rightarrow> nat" where
  "tristate_val TRI_NO = 0"
| "tristate_val TRI_YES = 1"
| "tristate_val TRI_MODULE = 2"

section \<open>Printing\<close>

text \<open>\<^verbatim>\<open>___bpf_fill\<close>: one assignment per argument.\<close>

fun fill_from :: "u64 list \<Rightarrow> nat \<Rightarrow> u64 list \<Rightarrow> u64 list" where
  "fill_from arr p [] = arr"
| "fill_from arr p (x # args) = fill_from (arr[p := x]) (p + 1) args"

definition bpf_fill :: "u64 list \<Rightarrow> u64 list \<Rightarrow> u64 list option" where
  "bpf_fill arr args = (case bpf_narg (length args) of Num k \<Rightarrow> Some (fill_from arr 0 (take k args)) | _ \<Rightarrow> None)"

lemma fill_from_all:
  "p + length args \<le> length arr \<Longrightarrow> fill_from arr p args = take p arr @ args @ drop (p + length args) arr"
proof (induction args arbitrary: arr p)
  case (Cons x args)
  then have "fill_from (arr[p := x]) (p + 1) args =
      take (p + 1) (arr[p := x]) @ args @ drop (p + 1 + length args) (arr[p := x])" by simp
  moreover have "take (p + 1) (arr[p := x]) = take p arr @ [x]" using Cons.prems by (simp add: take_Suc_conv_app_nth)
  ultimately show ?case by simp
qed simp

text \<open>The printing macros declare an array of as many words as they have arguments, whose initial contents
  \<open>junk\<close> do not matter, fill it, and call a helper (a parameter) with the format and its terminator, the sizes
  being those of the two arrays.\<close>

definition c_string :: "string \<Rightarrow> byte list" where
  "c_string fmt = ascii fmt @ [0]"

definition params :: "u64 list \<Rightarrow> u64 list \<Rightarrow> u64 list option" where
  "params junk args =
     (case bpf_narg (length args) of Num k \<Rightarrow> bpf_fill (take k junk) args | _ \<Rightarrow> None)"

definition BPF_SEQ_PRINTF ::
  "(byte list \<Rightarrow> nat \<Rightarrow> u64 list \<Rightarrow> nat \<Rightarrow> 'r) \<Rightarrow> u64 list \<Rightarrow> string \<Rightarrow> u64 list \<Rightarrow> 'r option" where
  "BPF_SEQ_PRINTF seq_printf junk fmt args =
     map_option (\<lambda>param. seq_printf (c_string fmt) (length (c_string fmt)) param (8 * length param)) (params junk args)"

definition BPF_SNPRINTF ::
  "(byte list \<Rightarrow> u64 list \<Rightarrow> nat \<Rightarrow> 'r) \<Rightarrow> u64 list \<Rightarrow> string \<Rightarrow> u64 list \<Rightarrow> 'r option" where
  "BPF_SNPRINTF snprintf junk fmt args =
     map_option (\<lambda>param. snprintf (c_string fmt) param (8 * length param)) (params junk args)"

definition bpf_vprintk ::
  "(byte list \<Rightarrow> nat \<Rightarrow> u64 list \<Rightarrow> nat \<Rightarrow> 'r) \<Rightarrow> u64 list \<Rightarrow> string \<Rightarrow> u64 list \<Rightarrow> 'r option" where
  "bpf_vprintk trace_vprintk junk fmt args =
     map_option (\<lambda>param. trace_vprintk (c_string fmt) (length (c_string fmt)) param (8 * length param)) (params junk args)"

definition bpf_printk3 :: "(byte list \<Rightarrow> nat \<Rightarrow> u64 list \<Rightarrow> 'r) \<Rightarrow> string \<Rightarrow> u64 list \<Rightarrow> 'r" where
  "bpf_printk3 trace_printk fmt args = trace_printk (c_string fmt) (length (c_string fmt)) args"

lemma params_eq: "length args \<le> 12 \<Longrightarrow> length args \<le> length junk \<Longrightarrow> params junk args = Some args"
  by (simp add: params_def bpf_fill_def narg_counts fill_from_all)

text \<open>The helper gets the arguments themselves, in order, whatever the array held before.\<close>

lemma seq_printf_passes:
  "length args \<le> 12 \<Longrightarrow> length args \<le> length junk \<Longrightarrow>
   BPF_SEQ_PRINTF seq_printf junk fmt args = Some (seq_printf (ascii fmt @ [0]) (length fmt + 1) args (8 * length args))"
  by (simp add: BPF_SEQ_PRINTF_def params_eq c_string_def ascii_def)

text \<open>\<^verbatim>\<open>bpf_printk\<close> chooses the helper by the number of arguments.\<close>

datatype printk = Printk | Vprintk

definition bpf_pick_printk :: "nat \<Rightarrow> printk option" where
  "bpf_pick_printk n =
     (replicate (n + 1) None @ replicate 9 (Some Vprintk) @ replicate 4 (Some Printk)) ! 13"

lemma pick_printk: "n \<le> 12 \<Longrightarrow> bpf_pick_printk n = Some (if n \<le> 3 then Printk else Vprintk)"
proof -
  have "list_all (\<lambda>n. bpf_pick_printk n = Some (if n \<le> 3 then Printk else Vprintk)) [0..<13]" by code_simp
  then show "n \<le> 12 \<Longrightarrow> bpf_pick_printk n = Some (if n \<le> 3 then Printk else Vprintk)" by (simp add: list_all_iff)
qed

definition bpf_printk ::
  "(byte list \<Rightarrow> nat \<Rightarrow> u64 list \<Rightarrow> 'r) \<Rightarrow> (byte list \<Rightarrow> nat \<Rightarrow> u64 list \<Rightarrow> nat \<Rightarrow> 'r) \<Rightarrow>
   u64 list \<Rightarrow> string \<Rightarrow> u64 list \<Rightarrow> 'r option" where
  "bpf_printk trace_printk trace_vprintk junk fmt args =
     (case bpf_pick_printk (length args) of
        None \<Rightarrow> None
      | Some Printk \<Rightarrow> Some (bpf_printk3 trace_printk fmt args)
      | Some Vprintk \<Rightarrow> bpf_vprintk trace_vprintk junk fmt args)"

text \<open>A message of up to twelve arguments is printed with all of them, by the helper that takes three when that
  is enough.\<close>

lemma printk_passes:
  assumes "length args \<le> 12" and "length args \<le> length junk"
  shows "bpf_printk trace_printk trace_vprintk junk fmt args =
    Some (if length args \<le> 3 then trace_printk (ascii fmt @ [0]) (length fmt + 1) args
          else trace_vprintk (ascii fmt @ [0]) (length fmt + 1) args (8 * length args))"
  using assms by (simp add: bpf_printk_def pick_printk bpf_printk3_def bpf_vprintk_def params_eq c_string_def ascii_def)

section \<open>Numeric loops\<close>

text \<open>The iterator is kernel code: \<open>it_new\<close> and \<open>it_next\<close> are parameters.  The loop stops when the iterator
  ends or leaves the range; \<open>fuel\<close> bounds the iterations the model runs.\<close>

record 'i num_iter =
  it_new :: "int \<Rightarrow> int \<Rightarrow> 'i"
  it_next :: "'i \<Rightarrow> int option \<times> 'i"

fun bpf_for_loop :: "'i num_iter \<Rightarrow> int \<Rightarrow> int \<Rightarrow> nat \<Rightarrow> 'i \<Rightarrow> (int \<Rightarrow> 's \<Rightarrow> 's) \<Rightarrow> 's \<Rightarrow> 's option" where
  "bpf_for_loop I start stop 0 it body s = None"
| "bpf_for_loop I start stop (Suc fuel) it body s =
    (case it_next I it of
       (None, it') \<Rightarrow> Some s
     | (Some i, it') \<Rightarrow>
         if start \<le> i \<and> i < stop then bpf_for_loop I start stop fuel it' body (body i s) else Some s)"

definition bpf_for :: "'i num_iter \<Rightarrow> nat \<Rightarrow> int \<Rightarrow> int \<Rightarrow> (int \<Rightarrow> 's \<Rightarrow> 's) \<Rightarrow> 's \<Rightarrow> 's option" where
  "bpf_for I fuel start stop body s = bpf_for_loop I start stop fuel (it_new I start stop) body s"

text \<open>\<^verbatim>\<open>bpf_for_each\<close> over any iterator: the body runs for every element until the iterator ends.
  \<^verbatim>\<open>bpf_repeat\<close> does the same on a numeric iterator and ignores the numbers.\<close>

fun for_each_loop :: "('i \<Rightarrow> 'e option \<times> 'i) \<Rightarrow> nat \<Rightarrow> 'i \<Rightarrow> ('e \<Rightarrow> 's \<Rightarrow> 's) \<Rightarrow> 's \<Rightarrow> 's option" where
  "for_each_loop nxt 0 it body s = None"
| "for_each_loop nxt (Suc fuel) it body s =
    (case nxt it of
       (None, it') \<Rightarrow> Some s
     | (Some e, it') \<Rightarrow> for_each_loop nxt fuel it' body (body e s))"

definition bpf_for_each :: "('a \<Rightarrow> 'i) \<Rightarrow> ('i \<Rightarrow> 'e option \<times> 'i) \<Rightarrow> nat \<Rightarrow> 'a \<Rightarrow> ('e \<Rightarrow> 's \<Rightarrow> 's) \<Rightarrow> 's \<Rightarrow> 's option" where
  "bpf_for_each new nxt fuel args body s = for_each_loop nxt fuel (new args) body s"

definition bpf_repeat :: "'i num_iter \<Rightarrow> nat \<Rightarrow> int \<Rightarrow> ('s \<Rightarrow> 's) \<Rightarrow> 's \<Rightarrow> 's option" where
  "bpf_repeat I fuel n body s = for_each_loop (it_next I) fuel (it_new I 0 n) (\<lambda>_. body) s"

text \<open>The iterator the kernel documents: it yields the numbers from \<open>start\<close> to \<open>stop - 1\<close> in turn, none
  when the range is empty or longer than \<open>limit\<close>.  \<open>left\<close> tells what an iterator has still to yield.\<close>

locale num_iterator =
  fixes I :: "'i num_iter" and left :: "'i \<Rightarrow> int list" and limit :: int
  assumes new_left: "left (it_new I start stop) = (if start \<le> stop \<and> stop - start \<le> limit then [start..stop - 1] else [])"
    and next_end: "left it = [] \<Longrightarrow> fst (it_next I it) = None"
    and next_step: "left it = i # js \<Longrightarrow> fst (it_next I it) = Some i \<and> left (snd (it_next I it)) = js"
begin

lemma for_loop_runs:
  "list_all (\<lambda>i. start \<le> i \<and> i < stop) (left it) \<Longrightarrow> length (left it) < fuel \<Longrightarrow>
   bpf_for_loop I start stop fuel it body s = Some (fold body (left it) s)"
proof (induction fuel arbitrary: it s)
  case (Suc fuel)
  obtain r it' where r: "it_next I it = (r, it')" by (cases "it_next I it")
  show ?case
  proof (cases "left it")
    case Nil
    then show ?thesis using next_end [OF Nil] r by simp
  next
    case (Cons i js)
    from next_step [OF Cons] r have "r = Some i" "left it' = js" by simp_all
    with Suc.prems Cons r Suc.IH [of it' "body i s"] show ?thesis by simp
  qed
qed simp

text \<open>The loop ends and runs its body for every number of the range in order, and for no other.\<close>

lemma bpf_for_runs:
  assumes "nat (stop - start) < fuel"
  shows "bpf_for I fuel start stop body s =
    Some (fold body (if start \<le> stop \<and> stop - start \<le> limit then [start..stop - 1] else []) s)"
proof -
  let ?it = "it_new I start stop"
  have "list_all (\<lambda>i. start \<le> i \<and> i < stop) (left ?it)" by (auto simp: new_left list_all_iff)
  moreover have "length (left ?it) < fuel" using assms by (auto simp: new_left)
  ultimately show ?thesis unfolding bpf_for_def by (subst for_loop_runs) (simp_all add: new_left)
qed

text \<open>Without the range check the loop runs the same way.\<close>

lemma for_each_runs:
  "length (left it) < fuel \<Longrightarrow> for_each_loop (it_next I) fuel it body s = Some (fold body (left it) s)"
proof (induction fuel arbitrary: it s)
  case (Suc fuel)
  obtain r it' where r: "it_next I it = (r, it')" by (cases "it_next I it")
  show ?case
  proof (cases "left it")
    case Nil
    then show ?thesis using next_end [OF Nil] r by simp
  next
    case (Cons i js)
    from next_step [OF Cons] r have "r = Some i" "left it' = js" by simp_all
    with Suc.prems Cons r Suc.IH [of it' "body i s"] show ?thesis by simp
  qed
qed simp

lemma fold_const: "fold (\<lambda>_. f) xs s = (f ^^ length xs) s"
  by (induction xs arbitrary: s) (simp_all add: funpow_swap1)

lemma bpf_repeat_runs:
  assumes "0 \<le> n" and "n \<le> limit" and "nat n < fuel"
  shows "bpf_repeat I fuel n body s = Some ((body ^^ nat n) s)"
  using assms for_each_runs [of "it_new I 0 n" fuel "\<lambda>_. body" s] by (simp add: bpf_repeat_def new_left fold_const)

end

text \<open>The kernel's iterator as a pair of the next number and the end, at most \<^verbatim>\<open>BPF_MAX_LOOPS\<close> long.\<close>

definition ref_iter :: "(int \<times> int) num_iter" where
  "ref_iter = \<lparr>it_new = (\<lambda>start stop. if start \<le> stop \<and> stop - start \<le> 8388608 then (start, stop) else (0, 0)),
     it_next = (\<lambda>(cur, stop). if cur < stop then (Some cur, (cur + 1, stop)) else (None, (cur, stop)))\<rparr>"

interpretation ref_num: num_iterator ref_iter "\<lambda>(cur, stop). [cur..stop - 1]" 8388608
proof
  fix it :: "int \<times> int" and i js
  obtain cur e where it: "it = (cur, e)" by (cases it)
  show "fst (it_next ref_iter it) = None" if "(case it of (cur, stop) \<Rightarrow> [cur..stop - 1]) = []"
    using that by (auto simp: it ref_iter_def upto_Nil2)
  show "fst (it_next ref_iter it) = Some i \<and> (case snd (it_next ref_iter it) of (cur, stop) \<Rightarrow> [cur..stop - 1]) = js"
    if "(case it of (cur, stop) \<Rightarrow> [cur..stop - 1]) = i # js"
    using that by (cases "cur < e") (auto simp: it ref_iter_def upto.simps [of cur "e - 1"])
qed (auto simp: ref_iter_def)

end
