(* ===== verification/Platform_Properties.thy ===== *)
theory Platform_Properties
  imports Http_Filter Oomkill_Probe Tcpsynbl_Probe Bpf_Helper_Defs Vmlinux_Objects Bpf_Core_Read Bpf_Helpers
begin

text \<open>
  Properties of what the three programs stand on: byte order, struct layout, the register frame, the
  helper numbers, and the macros of the libbpf headers over contexts, kernel memory and iterators.
\<close>

section \<open>Byte order\<close>

text \<open>C36: The byte-order macros give the same value whether or not the compiler sees a constant, and
  converting to network order and back is the identity, at all three widths.\<close>

theorem endian_branches_agree:
  "bpf_ntohs c x = builtin_bswap16 x \<and> bpf_ntohl c y = builtin_bswap32 y \<and>
   bpf_be64_to_cpu c z = builtin_bswap64 z \<and>
   bpf_ntohs c (bpf_htons d x) = x \<and> bpf_ntohl c (bpf_htonl d y) = y \<and>
   bpf_be64_to_cpu c (bpf_cpu_to_be64 d z) = z"
  by (simp add: bpf_ntohs_def bpf_htons_def bpf_ntohl_def bpf_htonl_def bpf_be64_to_cpu_def
      bpf_cpu_to_be64_def bpf_swab16_bswap bpf_swab32_bswap bpf_swab64_bswap)

section \<open>Struct layout\<close>

text \<open>In every well-formed struct the members are placed in declaration order without overlap,
  inside the struct, and each ordinary member at a multiple of its alignment.\<close>

theorem members_disjoint_inside:
  assumes "wf_mems ms"
  shows "sorted_wrt (\<lambda>(m, s, e) (m', s', e'). e \<le> s') (placements 0 ms) \<and>
    (\<forall>(m, s, e) \<in> set (placements 0 ms). 0 \<le> s \<and> s \<le> e \<and> e \<le> 8 * size_of (Struct ms))"
proof -
  have "0 \<le> s \<and> s \<le> e \<and> e \<le> 8 * size_of (Struct ms)" if "(m, s, e) \<in> set (placements 0 ms)" for m s e
    using placements_bounds [OF assms order_refl that] struct_end_inside [OF assms] by auto
  then show ?thesis using placements_disjoint [OF assms, of 0] by auto
qed

fun members :: "ctype \<Rightarrow> cmember list" where
  "members (Struct ms) = ms"
| "members (Union ms) = ms"
| "members t = []"

theorem members_disjoint_inside_witness:
  "sorted_wrt (\<lambda>(m, s, e) (m', s', e'). e \<le> s') (placements 0 (members vm_tcphdr))"
proof -
  have "wf_mems (members vm_tcphdr)" by code_simp
  then show ?thesis using members_disjoint_inside by blast
qed

text \<open>The constants of the socket filter agree with the declarations in \<^verbatim>\<open>vmlinux.h\<close>: the
  offsets of the Ethernet type and the IP protocol, the header sizes, the position of the total length,
  the addresses, the ports and the two header-length bit-fields.\<close>

theorem header_constants_match:
  "offsetof vm_ethhdr ''h_proto'' = Some 12 \<and> size_of vm_ethhdr = uint ETH_HLEN \<and>
   offsetof vm_iphdr ''protocol'' = Some 9 \<and> size_of vm_iphdr = 20 \<and> size_of vm_tcphdr = 20 \<and>
   offsetof vm_iphdr ''tot_len'' = Some 2 \<and> offsetof vm_iphdr ''saddr'' = Some 12 \<and>
   offsetof vm_iphdr ''daddr'' = Some 16 \<and> off_type vm_iphdr ''ihl'' = Some 0 \<and>
   offsetof vm_tcphdr ''source'' = Some 0 \<and> offsetof vm_tcphdr ''dest'' = Some 2 \<and>
   off_type vm_tcphdr ''doff'' = Some (12 * 8 + 4)"
  by (simp add: packet_header_layout ETH_HLEN_def)

section \<open>Registers and helpers\<close>

text \<open>The helper header declares 211 helpers numbered consecutively from 1, and its first 161 entries
  are, name by name and number by number, the entries of the kernel's enum between its first and last
  marker.\<close>

theorem helper_table_matches_kernel:
  "map h_id helper_defs = [1..211] \<and>
   map (\<lambda>d. (drop 4 (h_name d), h_id d)) (take 161 helper_defs) =
     map (\<lambda>(nm, i). (drop 9 nm, i)) (butlast (tl bpf_func_id))"
  by (simp only: helper_ids_consecutive kernel_numbering simp_thms)

text \<open>The argument macros read the register words at the offsets that \<^verbatim>\<open>struct pt_regs\<close> of
  \<^verbatim>\<open>vmlinux.h\<close> gives to \<^verbatim>\<open>di\<close> and \<^verbatim>\<open>si\<close>.\<close>

theorem parms_at_struct_offsets:
  "offsetof vm_pt_regs ''di'' = Some 112 \<and> offsetof vm_pt_regs ''si'' = Some 104 \<and>
   le_word (bslice 112 8 (regs_bytes ctx)) = PT_REGS_PARM1 ctx \<and>
   le_word (bslice 104 8 (regs_bytes ctx)) = PT_REGS_PARM2 ctx"
  using parm_at_offset(1,2) [of ctx] by (simp add: register_offsets)

text \<open>Every helper the three programs call has, in \<^verbatim>\<open>bpf_helper_defs.h\<close>, the number under
  which the kernel's enum in \<^verbatim>\<open>vmlinux.h\<close> knows it.\<close>

theorem helper_numbers_agree:
  assumes "nm \<in> set (http_calls @ oomkill_calls @ tcpsynbl_calls)"
  shows "\<exists>n. helper_id nm = Some n \<and> kernel_helper n = Some nm"
  using calls_resolve assms
  by (auto simp: Let_def list_all_iff helper_id_def kernel_helper_def split: option.splits)

theorem helper_numbers_agree_witness:
  "\<exists>n. helper_id ''bpf_ringbuf_output'' = Some n \<and> kernel_helper n = Some ''bpf_ringbuf_output''"
  by (rule helper_numbers_agree) (simp add: http_calls_def)

text \<open>The number the tail-call function calls is that of the helper it stands for.\<close>

lemma tail_call_number: "helper_id ''bpf_tail_call'' = Some 12" "kernel_helper 12 = Some ''bpf_tail_call''"
  by code_simp+

section \<open>Macros over contexts and kernel memory\<close>

text \<open>Whatever target the macros select, it has a register table; in every table functions have three to
  eight argument registers and system calls six or seven, all different.  The build selects the kernel's x86-64
  table, whose every entry is a word of the register frame at its offset in \<^verbatim>\<open>struct pt_regs\<close>, and a probe
  that names two arguments gets the two the programs read.\<close>

theorem register_tables_conventions:
  "(bpf_target D xlen = Some t \<longrightarrow>
      (\<exists>r. table_of D t = Some r \<and> 3 \<le> length (rt_parm r) \<and> length (rt_parm r) \<le> 8 \<and>
        length (rt_syscall r) \<in> {6, 7} \<and> distinct (rt_parm r) \<and> distinct (rt_syscall r))) \<and>
   table_of build_defines (the (bpf_target build_defines xlen)) = Some regs_x86_kernel \<and>
   (\<forall>i < 21. offsetof vm_pt_regs (reg_names ! i) = Some (8 * int i) \<and>
      reg_value ctx (reg_names ! i) = Some (le_word (bslice (8 * i) 8 (regs_bytes ctx)))) \<and>
   BPF_KPROBE regs_x86_kernel body 2 ctx = Some (body ctx [PT_REGS_PARM1 ctx, PT_REGS_PARM2 ctx])"
proof -
  have "\<exists>r. table_of D t = Some r \<and> 3 \<le> length (rt_parm r) \<and> length (rt_parm r) \<le> 8 \<and>
      length (rt_syscall r) \<in> {6, 7} \<and> distinct (rt_parm r) \<and> distinct (rt_syscall r)" if "bpf_target D xlen = Some t"
    using targets_have_tables [OF that] tables_complete tables_conventions by (fastforce simp: list_all_iff)
  moreover have "reg_value ctx (reg_names ! i) = Some (le_word (bslice (8 * i) 8 (regs_bytes ctx)))" if "i < 21" for i
    using frame_word(2) [OF that, of ctx] reg_value_nth [OF that] by simp
  ultimately show ?thesis using build_table build_kprobe(1) frame_word(1) by simp
qed

theorem register_tables_conventions_witness:
  "bpf_target [''__TARGET_ARCH_arm64''] 0 = Some ''arm64'' \<and>
   (\<exists>r. table_of [''__TARGET_ARCH_arm64''] ''arm64'' = Some r \<and> length (rt_parm r) \<le> 8)"
proof -
  have t: "bpf_target [''__TARGET_ARCH_arm64''] 0 = Some ''arm64''" by code_simp
  with register_tables_conventions [of "[''__TARGET_ARCH_arm64'']" 0 "''arm64''"] show ?thesis by blast
qed

text \<open>A program over an array of words with at most twelve arguments of 1, 2, 4, 8 or 16 bytes receives exactly the
  arguments the kernel stored there, although the macros count the words from the last argument.\<close>

theorem struct_args_roundtrip:
  assumes "list_all arg_ok vs" and "length vs \<le> 12"
  shows "BPF_PROG2 body (map length vs) (concat (map store_arg vs)) = Some (body (concat (map store_arg vs)) vs)"
  using reg_cnt_store [OF assms(1)] ctx_arg_store [OF assms(1), of "concat (map store_arg vs)" "[]"] assms(2)
  by (simp add: BPF_PROG2_def bpf_ctx_arg_def bpf_reg_cnt_def narg2_counts)

theorem struct_args_roundtrip_witness:
  "BPF_PROG2 (\<lambda>ctx args. int (length (args ! 1))) [4, 16, 8] [7, 1, 2, 9] = Some 16"
proof -
  let ?vs = "[[7, 0, 0, 0], [1, 0, 0, 0, 0, 0, 0, 0, 2, 0, 0, 0, 0, 0, 0, 0], [9, 0, 0, 0, 0, 0, 0, 0]] :: byte list list"
  have ok: "list_all arg_ok ?vs" "length ?vs \<le> 12" by (simp_all add: arg_ok_def)
  have eqs: "map length ?vs = [4, 16, 8]" "concat (map store_arg ?vs) = [7, 1, 2, 9]" by code_simp+
  show ?thesis
    unfolding struct_args_roundtrip [OF ok, of "\<lambda>ctx args. int (length (args ! 1))", unfolded eqs] by simp
qed

text \<open>C38: Writing a bit-field and reading it back gives the value cut to the field's width, sign-extended when the
  field is signed, and leaves every other bit of the storage as it was.\<close>

theorem bitfield_write_read:
  assumes "describes f b w" and "BPF_CORE_WRITE_BITFIELD mem f s nval = Some mem'"
  shows "BPF_CORE_READ_BITFIELD mem' f s = Some (if fi_signed f then signed_take_bit (w - 1) nval else take_bit w nval) \<and>
    (\<exists>old new. load_storage mem (fi_size f) (s + fi_offset f) = Some old \<and>
      load_storage mem' (fi_size f) (s + fi_offset f) = Some new \<and>
      (\<forall>i. \<not> (b \<le> i \<and> i < b + w) \<longrightarrow> i < 8 * fi_size f \<longrightarrow> bit new i = bit old i))"
  using bitfield_roundtrip [OF assms] by blast

text \<open>The data offset of a TCP header: the high half of a byte, here in a one-byte storage unit.\<close>

definition doff_info :: field_info where
  "doff_info = \<lparr>fi_exists = True, fi_offset = 12, fi_size = 1, fi_signed = False, fi_lshift = 56, fi_rshift = 60\<rparr>"

theorem bitfield_write_read_witness:
  "BPF_CORE_READ_BITFIELD (mem_write (mem_of [(0x1000, replicate 20 0x53)]) 0x100c [0x83]) doff_info 0x1000 = Some 8"
proof -
  let ?mem = "mem_of [(0x1000, replicate 20 0x53)]"
  have d: "describes doff_info 4 4" by (simp add: describes_def doff_info_def)
  have "load_storage ?mem 1 0x100c = Some 0x53" by code_simp
  moreover have "insert_field doff_info 8 0x53 = 0x83" by code_simp
  ultimately have "BPF_CORE_WRITE_BITFIELD ?mem doff_info 0x1000 8 = Some (mem_write ?mem 0x100c [0x83])"
    by (simp add: BPF_CORE_WRITE_BITFIELD_def) (simp add: doff_info_def)
  from bitfield_write_read [OF d this] show ?thesis by (simp add: doff_info_def take_bit_eq_mod)
qed

text \<open>C39: A relocatable read through a chain of up to ten accessors is the walk along the pointers: it returns the
  bytes of the last member when every pointer can be read, and otherwise fails with zeros, when nothing is
  mapped in the first page and the members lie within a page of their objects.  The form that returns a value
  takes one accessor less and gives the bytes that were read; longer chains do not compile.\<close>

theorem core_read_follows_pointers:
  assumes "kernel_reader probe probe_str" and "\<And>x. x < 4096 \<Longrightarrow> mem x = None"
    and "list_all (\<lambda>a. a < 4096) (a # as)" and "0 < sz" and "probe_read_kernel R = probe mem"
  shows "if length (a # as) \<le> 10 then
      \<exists>r. BPF_CORE_READ_INTO R sz src a as = Some r \<and>
        (case walk mem sz src a as of Some bs \<Rightarrow> r = (0, bs) | None \<Rightarrow> fst r < 0 \<and> snd r = replicate sz 0) \<and>
        BPF_CORE_READ R sz src a as = (if length (a # as) \<le> 9 then Some (snd r) else None)
    else BPF_CORE_READ_INTO R sz src a as = None"
proof (cases "length as \<le> 9")
  case True
  obtain r where "core_read (probe mem) (probe mem) sz src a as = Some r"
    "case walk mem sz src a as of Some bs \<Rightarrow> r = (0, bs) | None \<Rightarrow> fst r < 0 \<and> snd r = replicate sz 0"
    using kernel_reader.core_read_walk [where mem = mem and src = src, OF assms(1-4) True] by blast
  with True assms(5) show ?thesis
    by (simp add: BPF_CORE_READ_INTO_def BPF_CORE_READ_def value_of_def core_list_macros(4))
next
  case False
  then show ?thesis by (simp add: BPF_CORE_READ_INTO_def core_read_too_long)
qed

definition chain_mem :: kmem where
  "chain_mem = mem_of [(0x2000, replicate 16 0 @ le_bytes 8 (0x3000 :: u64)), (0x3000, [1, 2, 3, 4])]"

definition chain_readers :: readers where
  "chain_readers = \<lparr>probe_read_kernel = ref_probe chain_mem, probe_read_user = ref_probe (\<lambda>x. None),
     probe_read_kernel_str = ref_probe_str chain_mem, probe_read_user_str = ref_probe_str (\<lambda>x. None)\<rparr>"

theorem core_read_follows_pointers_witness:
  "BPF_CORE_READ_INTO chain_readers 4 0x2000 16 [0] = Some (0, [1, 2, 3, 4])"
proof -
  have low: "chain_mem x = None" if "x < 4096" for x
    unfolding chain_mem_def by (rule mem_of_low [OF _ that]) simp
  have "walk chain_mem 4 0x2000 16 [0] = Some [1, 2, 3, 4]" by code_simp
  with core_read_follows_pointers [where mem = chain_mem and a = 16 and as = "[0]" and sz = 4
    and R = chain_readers and src = "0x2000", OF ref_kread.kernel_reader_axioms low]
  show ?thesis by (simp add: chain_readers_def)
qed

text \<open>C40: A numeric loop over the kernel's iterator ends and runs its body exactly for the numbers of the range, in
  order; the range check of the macro never cuts it short.\<close>

theorem bpf_for_visits_range:
  assumes "num_iterator I left limit" and "nat (stop - start) < fuel" and "start \<le> stop" and "stop - start \<le> limit"
  shows "bpf_for I fuel start stop body s = Some (fold body [start..stop - 1] s)"
  using num_iterator.bpf_for_runs [OF assms(1,2)] assms(3,4) by simp

theorem bpf_for_visits_range_witness: "bpf_for ref_iter 10 2 6 (\<lambda>i s. s + i) 0 = Some 14"
proof -
  have "bpf_for ref_iter 10 2 6 (\<lambda>i s. s + i) 0 = Some (fold (\<lambda>i s. s + i) [2..6 - 1] 0)"
    by (rule bpf_for_visits_range [OF ref_num.num_iterator_axioms]) simp_all
  then show ?thesis by (simp add: upto.simps)
qed

end
