(* ===== verification/Go_Lib.thy ===== *)
theory Go_Lib
  imports Kbb_Prelude Complex_Main
begin

text \<open>
  What the agent uses of the Go language and its standard library: strings as byte sequences, indexing
  that panics, \<^verbatim>\<open>bytes.IndexByte\<close>, \<^verbatim>\<open>strings.TrimRight\<close>, \<^verbatim>\<open>strconv.Itoa\<close> and
  \<^verbatim>\<open>strconv.Atoi\<close>, \<^verbatim>\<open>encoding/binary\<close>, the text form of \<^verbatim>\<open>net.IP\<close> and
  \<^verbatim>\<open>net.ParseIP\<close>, and \<^verbatim>\<open>float32\<close> arithmetic with rounding to nearest, ties to even.
\<close>

section \<open>Failures\<close>

text \<open>An error value, or a run-time panic that ends the agent.\<close>

datatype go_fail = GoErr string | GoPanic string

type_synonym 'a go = "go_fail + 'a"

definition go_index :: "'a list \<Rightarrow> nat \<Rightarrow> 'a go" where
  "go_index xs i = (if i < length xs then Inr (xs ! i) else Inl (GoPanic ''index out of range''))"

text \<open>\<^verbatim>\<open>xs[:n]\<close>; \<open>n\<close> is an \<^verbatim>\<open>int\<close> and may be negative.\<close>

definition go_prefix :: "'a list \<Rightarrow> int \<Rightarrow> 'a list go" where
  "go_prefix xs n =
     (if 0 \<le> n \<and> n \<le> int (length xs) then Inr (take (nat n) xs)
      else Inl (GoPanic ''slice bounds out of range''))"

fun go_bind :: "'a go \<Rightarrow> ('a \<Rightarrow> 'b go) \<Rightarrow> 'b go" where
  "go_bind (Inl e) f = Inl e"
| "go_bind (Inr x) f = f x"

section \<open>Bytes and strings\<close>

text \<open>\<^verbatim>\<open>string(b)\<close> of a byte slice.\<close>

definition gostr :: "byte list \<Rightarrow> string" where
  "gostr bs = map (\<lambda>b. char_of (uint b)) bs"

fun index_byte_from :: "int \<Rightarrow> byte list \<Rightarrow> byte \<Rightarrow> int" where
  "index_byte_from i [] c = -1"
| "index_byte_from i (b # bs) c = (if b = c then i else index_byte_from (i + 1) bs c)"

text \<open>\<^verbatim>\<open>bytes.IndexByte\<close>\<close>

definition IndexByte :: "byte list \<Rightarrow> byte \<Rightarrow> int" where
  "IndexByte bs c = index_byte_from 0 bs c"

text \<open>\<^verbatim>\<open>strings.TrimRight(s, cutset)\<close> with a cutset of one character.\<close>

definition TrimRight :: "string \<Rightarrow> char \<Rightarrow> string" where
  "TrimRight s c = rev (dropWhile (\<lambda>x. x = c) (rev s))"

section \<open>Numbers as text\<close>

definition digit_char :: "int \<Rightarrow> char" where
  "digit_char d = char_of (48 + d)"

definition is_digit :: "char \<Rightarrow> bool" where
  "is_digit c \<longleftrightarrow> 48 \<le> (of_char c :: int) \<and> (of_char c :: int) \<le> 57"

definition digit_val :: "char \<Rightarrow> int" where
  "digit_val c = of_char c - 48"

text \<open>\<^verbatim>\<open>strconv.Itoa\<close> of a non-negative number.\<close>

function Itoa :: "int \<Rightarrow> string" where
  "Itoa n = (if n < 10 then [digit_char n] else Itoa (n div 10) @ [digit_char (n mod 10)])"
  by pat_completeness auto
termination
  by (relation "measure nat") auto

declare Itoa.simps [simp del]

definition digits_val :: "string \<Rightarrow> int" where
  "digits_val s = foldl (\<lambda>n c. 10 * n + digit_val c) 0 s"

text \<open>The value of \<^verbatim>\<open>strconv.Atoi\<close>: an optional sign and at least one digit; for any other text the
  value is 0, and beyond the range of a 64-bit integer it is the nearest one in the range.\<close>

definition Atoi :: "string \<Rightarrow> int" where
  "Atoi s =
    (let neg = (s \<noteq> [] \<and> hd s = CHR ''-'');
         body = (if s \<noteq> [] \<and> (hd s = CHR ''-'' \<or> hd s = CHR ''+'') then tl s else s)
     in if body = [] \<or> \<not> list_all is_digit body then 0
        else if neg then max (- (2 ^ 63)) (- digits_val body) else min (2 ^ 63 - 1) (digits_val body))"

section \<open>Byte order\<close>

text \<open>\<^verbatim>\<open>binary.BigEndian.PutUint16\<close> and \<^verbatim>\<open>PutUint32\<close> into a fresh buffer.\<close>

definition be_bytes :: "nat \<Rightarrow> 'a::len word \<Rightarrow> byte list" where
  "be_bytes n w = rev (le_bytes n w)"

section \<open>IP addresses\<close>

text \<open>One octet in decimal.\<close>

definition dec_octet :: "byte \<Rightarrow> string" where
  "dec_octet b =
    (let v = uint b
     in if v < 10 then [digit_char v]
        else if v < 100 then [digit_char (v div 10), digit_char (v mod 10)]
        else [digit_char (v div 100), digit_char (v div 10 mod 10), digit_char (v mod 10)])"

text \<open>\<^verbatim>\<open>net.IP.String\<close> of a four-byte address.\<close>

definition ip4_String :: "byte list \<Rightarrow> string" where
  "ip4_String b = dec_octet (b ! 0) @ ''.'' @ dec_octet (b ! 1) @ ''.'' @ dec_octet (b ! 2) @ ''.'' @
     dec_octet (b ! 3)"

fun split_on :: "char \<Rightarrow> string \<Rightarrow> string list" where
  "split_on c [] = [[]]"
| "split_on c (x # xs) = (if x = c then [] # split_on c xs
     else (case split_on c xs of [] \<Rightarrow> [[x]] | s # ss \<Rightarrow> (x # s) # ss))"

text \<open>An octet has one to three digits, no leading zero and a value below 256.\<close>

definition parse_octet :: "string \<Rightarrow> byte option" where
  "parse_octet s =
     (if s = [] \<or> 3 < length s \<or> \<not> list_all is_digit s \<or> (1 < length s \<and> hd s = CHR ''0'') \<or>
         255 < digits_val s
      then None else Some (of_int (digits_val s)))"

definition v4_in_v6_prefix :: "byte list" where
  "v4_in_v6_prefix = replicate 10 0 @ [0xff, 0xff]"

definition parse_ipv4 :: "string \<Rightarrow> byte list option" where
  "parse_ipv4 s =
    (let parts = split_on CHR ''.'' s
     in if length parts \<noteq> 4 then None
        else map_option (\<lambda>b. v4_in_v6_prefix @ b) (those (map parse_octet parts)))"

text \<open>\<^verbatim>\<open>net.ParseIP\<close>: the first dot or colon decides which parser reads the text; an IPv4 address
  comes back in its sixteen-byte form, an invalid one as nil.  \<open>v6\<close> reads the texts with a
  colon.\<close>

definition ParseIP :: "(string \<Rightarrow> byte list option) \<Rightarrow> string \<Rightarrow> byte list" where
  "ParseIP v6 s =
    (case dropWhile (\<lambda>c. c \<noteq> CHR ''.'' \<and> c \<noteq> CHR '':'') s of
       [] \<Rightarrow> []
     | c # _ \<Rightarrow> (case (if c = CHR ''.'' then parse_ipv4 s else v6 s) of None \<Rightarrow> [] | Some ip \<Rightarrow> ip))"

section \<open>Single-precision numbers\<close>

text \<open>Rounding a rational to 24 significant bits, ties to even; all values the agent computes
  lie in the range of normal \<^verbatim>\<open>float32\<close> numbers.\<close>

definition round_even :: "rat \<Rightarrow> int" where
  "round_even x =
    (let f = \<lfloor>x\<rfloor>; d = x - of_int f
     in if d < 1 / 2 then f else if 1 / 2 < d then f + 1 else if even f then f else f + 1)"

definition pow2 :: "int \<Rightarrow> rat" where
  "pow2 e = (if 0 \<le> e then 2 ^ nat e else 1 / 2 ^ nat (- e))"

text \<open>The number of binary digits.\<close>

function bits :: "int \<Rightarrow> int" where
  "bits n = (if n \<le> 0 then 0 else 1 + bits (n div 2))"
  by pat_completeness auto
termination
  by (relation "measure nat") auto

declare bits.simps [simp del]

definition f32_exp :: "rat \<Rightarrow> int" where
  "f32_exp q =
    (let (a, b) = quotient_of q;
         e = bits a - bits b - 24
     in if q < pow2 (e + 24) then e else e + 1)"

definition f32_pos :: "rat \<Rightarrow> rat" where
  "f32_pos q = (if q = 0 then 0 else of_int (round_even (q / pow2 (f32_exp q))) * pow2 (f32_exp q))"

definition f32 :: "rat \<Rightarrow> rat" where
  "f32 q = (if q < 0 then - f32_pos (- q) else f32_pos q)"

definition f32_of_int :: "int \<Rightarrow> rat" where "f32_of_int n = f32 (of_int n)"
definition f32_div :: "rat \<Rightarrow> rat \<Rightarrow> rat" where "f32_div a b = f32 (a / b)"
definition f32_mul :: "rat \<Rightarrow> rat \<Rightarrow> rat" where "f32_mul a b = f32 (a * b)"

section \<open>Searching and trimming\<close>

lemma index_byte_from_found:
  "c \<in> set bs \<Longrightarrow> index_byte_from i bs c = i + int (length (takeWhile (\<lambda>b. b \<noteq> c) bs))"
  by (induction bs arbitrary: i) auto

lemma index_byte_from_missing: "c \<notin> set bs \<Longrightarrow> index_byte_from i bs c = -1"
  by (induction bs arbitrary: i) auto

text \<open>Cutting a buffer at its first occurrence of a byte: the bytes before it, or a panic.\<close>

lemma go_prefix_IndexByte:
  "go_prefix bs (IndexByte bs c) =
     (if c \<in> set bs then Inr (takeWhile (\<lambda>b. b \<noteq> c) bs)
      else Inl (GoPanic ''slice bounds out of range''))"
proof (cases "c \<in> set bs")
  case True
  then show ?thesis
    by (simp add: IndexByte_def go_prefix_def index_byte_from_found length_takeWhile_le takeWhile_eq_take [symmetric])
next
  case False
  then show ?thesis by (simp add: IndexByte_def go_prefix_def index_byte_from_missing)
qed

lemma takeWhile_zpad: "0 \<notin> set bs \<Longrightarrow> takeWhile (\<lambda>b. b \<noteq> 0) (zpad n bs) = bs"
proof -
  assume "0 \<notin> set bs"
  then have "takeWhile (\<lambda>b. b \<noteq> 0) (zpad n bs) = bs @ takeWhile (\<lambda>b. b \<noteq> 0) (replicate (n - length bs) 0)"
    unfolding zpad_def by (intro takeWhile_append2) auto
  then show ?thesis by (cases "n - length bs") auto
qed

lemma char_of_uint_eq: "(char_of (uint (a :: byte)) = char_of (uint b)) \<longleftrightarrow> a = b"
proof
  assume eq: "char_of (uint a) = char_of (uint b)"
  have lt: "uint a < 256" "uint b < 256"
    using unsigned_less [of a, where 'a = int] unsigned_less [of b, where 'a = int] by simp_all
  then have "uint a = uint b" using arg_cong [OF eq, of "of_char :: char \<Rightarrow> int"] by simp
  then show "a = b" by (simp only: word_uint_eq_iff)
qed simp

lemma gostr_append: "gostr (xs @ ys) = gostr xs @ gostr ys"
  by (simp add: gostr_def)

lemma gostr_inject [simp]: "gostr xs = gostr ys \<longleftrightarrow> xs = ys"
proof
  have "inj (\<lambda>b :: byte. char_of (uint b))" by (rule injI) (simp only: char_of_uint_eq)
  then show "gostr xs = gostr ys \<Longrightarrow> xs = ys" by (simp add: gostr_def inj_map_eq_map)
qed simp

lemma uint_of_char: "uint (of_char c :: byte) = of_char c"
proof -
  have "uint (of_char c :: byte) = uint (of_nat (of_char c) :: byte)" by (simp only: of_nat_of_char)
  also have "\<dots> = int (of_char c) mod 256" by (simp only: unsigned_of_nat take_bit_eq_mod) simp
  also have "\<dots> = of_char c" by (simp only: of_nat_of_char of_char_mod_256)
  finally show ?thesis .
qed

lemma gostr_ascii [simp]: "gostr (ascii s) = s"
  by (induction s) (simp_all add: gostr_def uint_of_char)

text \<open>A zero-padded buffer, as a string without its trailing NUL characters.\<close>

lemma TrimRight_zpad:
  assumes "u = [] \<or> last u \<noteq> 0"
  shows "TrimRight (gostr (zpad n u)) (char_of (0 :: int)) = gostr u"
proof -
  have z: "gostr (replicate k 0) = replicate k (char_of (0 :: int))" for k
    by (simp add: gostr_def)
  have "dropWhile (\<lambda>x. x = char_of (0 :: int)) (replicate k (char_of (0 :: int)) @ rev (gostr u)) = rev (gostr u)" for k
  proof (cases u rule: rev_cases)
    case Nil
    then show ?thesis by (simp add: gostr_def)
  next
    case (snoc v b)
    with assms have "char_of (uint b) \<noteq> char_of (0 :: int)" using char_of_uint_eq [of b 0] by simp
    with snoc show ?thesis by (induction k) (simp_all add: gostr_def)
  qed
  then show ?thesis by (simp add: TrimRight_def zpad_def gostr_append z)
qed

section \<open>Printing and parsing addresses\<close>

lemma octets_low: "list_all (\<lambda>n. parse_octet (dec_octet (word_of_int n)) = Some (word_of_int n)) [0..127]"
  by code_simp

lemma octets_high: "list_all (\<lambda>n. parse_octet (dec_octet (word_of_int n)) = Some (word_of_int n)) [128..255]"
  by code_simp

lemma parse_octet_digits: "parse_octet s = Some b \<Longrightarrow> list_all is_digit s"
  by (auto simp: parse_octet_def split: if_splits)

lemma octet_roundtrip: "parse_octet (dec_octet b) = Some b"
proof -
  have "uint b < 256" using unsigned_less [of b, where 'a = int] by simp
  then have "uint b \<in> set [0..127] \<or> uint b \<in> set [128..255]"
    unfolding set_upto atLeastAtMost_iff using unsigned_greater_eq [of b, where 'a = int] by linarith
  then have "parse_octet (dec_octet (word_of_int (uint b))) = Some (word_of_int (uint b))"
    using octets_low octets_high unfolding list_all_iff by blast
  then show ?thesis by simp
qed

lemma dec_octet_no_dot: "CHR ''.'' \<notin> set (dec_octet b)" "CHR '':'' \<notin> set (dec_octet b)"
  using parse_octet_digits [OF octet_roundtrip, of b] by (auto simp: list_all_iff is_digit_def)

lemma split_on_none: "c \<notin> set s \<Longrightarrow> split_on c s = [s]"
  by (induction s) auto

lemma split_on_append: "c \<notin> set s \<Longrightarrow> split_on c (s @ c # t) = s # split_on c t"
  by (induction s) auto

lemma length_four: "length b = 4 \<Longrightarrow> \<exists>w x y z. b = [w, x, y, z]"
  by (auto simp: numeral_eq_Suc length_Suc_conv)

lemma dropWhile_stop: "\<forall>x \<in> set xs. P x \<Longrightarrow> \<not> P y \<Longrightarrow> dropWhile P (xs @ y # ys) = y # ys"
  by (induction xs) auto

lemma parse_ip4_String:
  "length b = 4 \<Longrightarrow> parse_ipv4 (ip4_String b) = Some (v4_in_v6_prefix @ b)"
  by (auto dest!: length_four
      simp: parse_ipv4_def ip4_String_def split_on_append split_on_none dec_octet_no_dot octet_roundtrip)

lemma ParseIP_ip4_String:
  assumes "length b = 4"
  shows "ParseIP v6 (ip4_String b) = v4_in_v6_prefix @ b"
proof -
  have "dropWhile (\<lambda>c. c \<noteq> CHR ''.'' \<and> c \<noteq> CHR '':'') (ip4_String b) =
      CHR ''.'' # dec_octet (b ! 1) @ ''.'' @ dec_octet (b ! 2) @ ''.'' @ dec_octet (b ! 3)"
    unfolding ip4_String_def append_Cons append_Nil
    using dec_octet_no_dot [of "b ! 0"] by (intro dropWhile_stop) auto
  then show ?thesis by (simp add: ParseIP_def parse_ip4_String [OF assms])
qed

lemma ip4_String_inject:
  "length a = 4 \<Longrightarrow> length b = 4 \<Longrightarrow> ip4_String a = ip4_String b \<longleftrightarrow> a = b"
  by (metis ParseIP_ip4_String same_append_eq)

lemma length_those: "those xs = Some ys \<Longrightarrow> length ys = length xs"
  by (induction xs arbitrary: ys) (auto split: option.splits)

text \<open>The parser's result is nil or the sixteen-byte form of an IPv4 address.\<close>

lemma parse_ipv4_prefix: "parse_ipv4 s = Some ip \<Longrightarrow> \<exists>b. length b = 4 \<and> ip = v4_in_v6_prefix @ b"
  by (auto simp: parse_ipv4_def Let_def split: if_splits) (metis length_those length_map)

section \<open>Rounding errors\<close>

lemma round_even_error: "\<bar>of_int (round_even x) - x\<bar> \<le> 1 / 2"
proof -
  have "0 \<le> x - of_int \<lfloor>x\<rfloor>" "x - of_int \<lfloor>x\<rfloor> < 1" by linarith+
  then show ?thesis unfolding round_even_def Let_def abs_if by (simp; linarith)
qed

lemma pow2_pos [simp]: "0 < pow2 e"
  by (simp add: pow2_def)

lemma pow2_nonzero [simp]: "pow2 e \<noteq> 0"
  by (simp add: pow2_def)

lemma bits_nonneg: "0 \<le> bits n"
proof (induction n rule: bits.induct)
  case (1 n)
  then show ?case by (subst bits.simps) simp
qed

lemma bits_bounds: "0 < n \<Longrightarrow> 2 ^ nat (bits n - 1) \<le> n \<and> n < 2 ^ nat (bits n)"
proof (induction n rule: bits.induct)
  case (1 n)
  show ?case
  proof (cases "n = 1")
    case True
    then show ?thesis by (simp add: bits.simps)
  next
    case False
    with 1 have IH: "2 ^ nat (bits (n div 2) - 1) \<le> n div 2" "n div 2 < 2 ^ nat (bits (n div 2))" by auto
    have b: "bits n = 1 + bits (n div 2)" using 1 by (subst bits.simps) simp
    have "0 < bits (n div 2)"
      using False 1 bits_nonneg [of "n div 2 div 2"] by (subst bits.simps) simp
    then have "nat (bits n - 1) = Suc (nat (bits (n div 2) - 1))" "nat (bits n) = Suc (nat (bits (n div 2)))"
      using b by auto
    moreover have "2 * (n div 2) \<le> n" "n < 2 * (n div 2) + 2" by auto
    ultimately show ?thesis using IH by simp
  qed
qed

lemma pow2_add: "pow2 (a + b) = pow2 a * pow2 b"
  by (simp add: pow2_def) (auto simp: power_add [symmetric] field_simps nat_add_distrib [symmetric])

lemma pow2_nat: "pow2 (int n) = 2 ^ n"
  by (simp add: pow2_def)

text \<open>Dividing a positive rational by the power of its exponent leaves a 24-bit number.\<close>

lemma bits_pow2: "0 < n \<Longrightarrow> pow2 (bits n - 1) \<le> of_int n \<and> of_int n < pow2 (bits n)"
proof -
  assume n: "0 < n"
  then have "0 \<le> bits n - 1" using bits_nonneg [of "n div 2"] by (subst bits.simps) simp
  moreover from bits_bounds [OF n] have
    "(of_int (2 ^ nat (bits n - 1)) :: rat) \<le> of_int n" "of_int n < (of_int (2 ^ nat (bits n)) :: rat)"
    by (simp_all only: of_int_le_iff of_int_less_iff)
  ultimately show ?thesis by (simp add: pow2_def)
qed

lemma f32_exp_lower:
  assumes "0 < q"
  shows "pow2 (f32_exp q + 23) \<le> q"
proof -
  obtain a b where ab: "quotient_of q = (a, b)" by (cases "quotient_of q")
  then have b: "0 < b" by (rule quotient_of_denom_pos)
  have q: "q = of_int a / of_int b" using ab by (rule quotient_of_div)
  with assms b have a: "0 < a" by (simp add: zero_less_divide_iff)
  let ?e = "bits a - bits b - 24"
  have "pow2 (?e + 23) * pow2 (bits b) = pow2 (bits a - 1)" by (simp add: pow2_add [symmetric])
  moreover have "pow2 (?e + 23) * of_int b \<le> pow2 (?e + 23) * pow2 (bits b)"
    using bits_pow2 [OF b] by (simp add: less_imp_le)
  ultimately have "pow2 (?e + 23) * of_int b \<le> of_int a" using bits_pow2 [OF a] by linarith
  then have "pow2 (?e + 23) \<le> q" using b by (simp add: q pos_le_divide_eq)
  then show ?thesis by (simp add: f32_exp_def ab Let_def add.commute)
qed

text \<open>The relative error of one rounding is at most \<open>2 ^ -24\<close>.\<close>

lemma f32_error:
  assumes "0 < q"
  shows "\<bar>f32 q - q\<bar> \<le> q / 2 ^ 24"
proof -
  let ?p = "pow2 (f32_exp q)"
  have "f32 q - q = (of_int (round_even (q / ?p)) - q / ?p) * ?p"
    using assms by (simp add: f32_def f32_pos_def field_simps)
  then have "\<bar>f32 q - q\<bar> = \<bar>of_int (round_even (q / ?p)) - q / ?p\<bar> * ?p"
    by (simp add: abs_mult less_imp_le)
  also have "\<dots> \<le> 1 / 2 * ?p"
    using round_even_error by (intro mult_right_mono) (simp_all add: less_imp_le)
  also have "?p * 2 ^ 23 \<le> q"
    using f32_exp_lower [OF assms] by (simp add: pow2_add pow2_nat [of 23, simplified])
  then have "1 / 2 * ?p \<le> q / 2 ^ 24" by simp
  finally show ?thesis .
qed

section \<open>Monotonicity\<close>

lemma round_even_le: "x \<le> of_int n \<Longrightarrow> round_even x \<le> n"
proof -
  assume x: "x \<le> of_int n"
  have f: "of_int \<lfloor>x\<rfloor> \<le> x" by linarith
  show ?thesis
  proof (cases "\<lfloor>x\<rfloor> = n")
    case True
    with x f have "x = of_int n" by simp
    then show ?thesis by (simp add: round_even_def)
  next
    case False
    with x f have "\<lfloor>x\<rfloor> + 1 \<le> n" by linarith
    then show ?thesis by (simp add: round_even_def Let_def)
  qed
qed

lemma round_even_ge: "of_int n \<le> x \<Longrightarrow> n \<le> round_even x"
proof -
  assume "of_int n \<le> x"
  then have "n \<le> \<lfloor>x\<rfloor>" by (simp add: le_floor_iff)
  then show ?thesis by (simp add: round_even_def Let_def)
qed

lemma round_even_mono: "x \<le> y \<Longrightarrow> round_even x \<le> round_even y"
proof (cases "\<lfloor>x\<rfloor> = \<lfloor>y\<rfloor>")
  case True
  assume "x \<le> y"
  with True show ?thesis by (auto simp: round_even_def Let_def)
next
  case False
  assume "x \<le> y"
  with False have "\<lfloor>x\<rfloor> + 1 \<le> \<lfloor>y\<rfloor>" using floor_mono [of x y] by linarith
  moreover have "x \<le> of_int (\<lfloor>x\<rfloor> + 1)" by linarith
  moreover have "of_int \<lfloor>y\<rfloor> \<le> y" by linarith
  ultimately show ?thesis using round_even_le round_even_ge by (meson order_trans)
qed

lemma pow2_mono: "a \<le> b \<Longrightarrow> pow2 a \<le> pow2 b"
proof -
  assume "a \<le> b"
  then have "pow2 b = pow2 a * 2 ^ nat (b - a)" using pow2_add [of a "b - a"] by (simp add: pow2_def)
  moreover have "(1 :: rat) \<le> 2 ^ nat (b - a)" by simp
  ultimately show ?thesis using mult_left_mono [of 1 "2 ^ nat (b - a)" "pow2 a"] by (simp add: less_imp_le)
qed

lemma pow2_less_iff: "pow2 a < pow2 b \<longleftrightarrow> a < b"
proof
  show "a < b" if "pow2 a < pow2 b" using that pow2_mono [of b a] by linarith
  assume "a < b"
  then have "pow2 (a + 1) \<le> pow2 b" by (intro pow2_mono) simp
  moreover have "pow2 (a + 1) = 2 * pow2 a" using pow2_add [of a 1] by (simp add: pow2_def)
  ultimately show "pow2 a < pow2 b" using pow2_pos [of a] by linarith
qed

lemma f32_exp_upper:
  assumes "0 < q"
  shows "q < pow2 (f32_exp q + 24)"
proof -
  obtain a b where ab: "quotient_of q = (a, b)" by (cases "quotient_of q")
  then have b: "0 < b" by (rule quotient_of_denom_pos)
  have q: "q = of_int a / of_int b" using ab by (rule quotient_of_div)
  with assms b have a: "0 < a" by (simp add: zero_less_divide_iff)
  let ?e = "bits a - bits b - 24"
  have "pow2 (?e + 25) * pow2 (bits b - 1) = pow2 (bits a)" by (simp add: pow2_add [symmetric])
  moreover have "pow2 (?e + 25) * pow2 (bits b - 1) \<le> pow2 (?e + 25) * of_int b"
    using bits_pow2 [OF b] by (simp add: less_imp_le)
  ultimately have "of_int a < pow2 (?e + 25) * of_int b" using bits_pow2 [OF a] by linarith
  then have "q < pow2 (?e + 25)" using b by (simp add: q pos_divide_less_eq)
  then show ?thesis by (simp add: f32_exp_def ab Let_def add.commute)
qed

text \<open>A number that is a multiple of the rounding unit bounds the rounded value.\<close>

lemma f32_le:
  assumes "0 < q" and "q \<le> of_int n * pow2 e" and "f32_exp q \<le> e"
  shows "f32 q \<le> of_int n * pow2 e"
proof -
  let ?E = "f32_exp q" and ?k = "nat (e - f32_exp q)"
  have e: "pow2 e = 2 ^ ?k * pow2 ?E" using pow2_add [of "e - ?E" ?E] assms(3) by (simp add: pow2_def)
  have "q / pow2 ?E \<le> of_int (n * 2 ^ ?k)" using assms(2) by (simp add: pos_divide_le_eq e)
  then have "round_even (q / pow2 ?E) \<le> n * 2 ^ ?k" by (rule round_even_le)
  then have "(of_int (round_even (q / pow2 ?E)) :: rat) \<le> of_int (n * 2 ^ ?k)" by (simp only: of_int_le_iff)
  then have "of_int (round_even (q / pow2 ?E)) * pow2 ?E \<le> of_int (n * 2 ^ ?k) * pow2 ?E"
    by (intro mult_right_mono) (simp_all add: less_imp_le)
  then show ?thesis using assms(1) by (simp add: f32_def f32_pos_def e)
qed

lemma f32_ge_unit:
  assumes "0 < q"
  shows "pow2 (f32_exp q + 23) \<le> f32 q"
proof -
  have "of_int (2 ^ 23) \<le> q / pow2 (f32_exp q)"
    using f32_exp_lower [OF assms] by (simp add: pos_le_divide_eq pow2_add pow2_nat [of 23, simplified] mult.commute)
  then have "2 ^ 23 \<le> round_even (q / pow2 (f32_exp q))" by (rule round_even_ge)
  then have "(of_int (2 ^ 23) :: rat) \<le> of_int (round_even (q / pow2 (f32_exp q)))" by (simp only: of_int_le_iff)
  then have "of_int (2 ^ 23) * pow2 (f32_exp q) \<le> of_int (round_even (q / pow2 (f32_exp q))) * pow2 (f32_exp q)"
    by (intro mult_right_mono) (simp_all add: less_imp_le)
  then show ?thesis using assms by (simp add: f32_def f32_pos_def pow2_add pow2_nat [of 23, simplified] mult.commute)
qed

lemma f32_zero [simp]: "f32 0 = 0"
  by (simp add: f32_def f32_pos_def)

lemma f32_positive: "0 < q \<Longrightarrow> 0 < f32 q"
  using f32_ge_unit [of q] pow2_pos [of "f32_exp q + 23"] by linarith

lemma f32_mono:
  assumes "0 \<le> p" and "p \<le> q"
  shows "f32 p \<le> f32 q"
proof (cases "p = 0")
  case True
  then show ?thesis using f32_positive [of q] assms by (cases "q = 0") auto
next
  case False
  with assms have p: "0 < p" and q: "0 < q" by auto
  have "pow2 (f32_exp p + 23) < pow2 (f32_exp q + 24)"
    using f32_exp_lower [OF p] f32_exp_upper [OF q] assms(2) by linarith
  then have le: "f32_exp p \<le> f32_exp q" by (simp add: pow2_less_iff)
  show ?thesis
  proof (cases "f32_exp p = f32_exp q")
    case True
    have "round_even (p / pow2 (f32_exp q)) \<le> round_even (q / pow2 (f32_exp q))"
      using assms(2) by (intro round_even_mono divide_right_mono) (simp_all add: less_imp_le)
    then have "(of_int (round_even (p / pow2 (f32_exp q))) :: rat) * pow2 (f32_exp q)
        \<le> of_int (round_even (q / pow2 (f32_exp q))) * pow2 (f32_exp q)"
      by (intro mult_right_mono) (simp_all add: less_imp_le)
    then show ?thesis using p q by (simp add: f32_def f32_pos_def True)
  next
    case False
    have "f32 p \<le> of_int 1 * pow2 (f32_exp p + 24)"
      using f32_exp_upper [OF p] by (intro f32_le [OF p]) simp_all
    also have "\<dots> \<le> pow2 (f32_exp q + 23)" using le False pow2_mono [of "f32_exp p + 24" "f32_exp q + 23"] by simp
    also have "\<dots> \<le> f32 q" by (rule f32_ge_unit [OF q])
    finally show ?thesis .
  qed
qed

lemma f32_nonneg: "0 \<le> q \<Longrightarrow> 0 \<le> f32 q"
  using f32_mono [of 0 q] by simp

text \<open>Small integers times a power of two bound what is rounded below them.\<close>

lemma f32_le_small:
  assumes "q \<le> of_int n" and "0 \<le> q" and "n < 2 ^ 23"
  shows "f32 q \<le> of_int n"
proof (cases "q = 0")
  case True
  then show ?thesis using assms by simp
next
  case False
  with assms have q: "0 < q" by simp
  have "(of_int n :: rat) < of_int (2 ^ 23)" using assms(3) by (simp only: of_int_less_iff)
  then have "pow2 (f32_exp q + 23) < pow2 23"
    using f32_exp_lower [OF q] assms(1) pow2_nat [of 23] by simp
  then have "f32_exp q \<le> 0" by (simp add: pow2_less_iff)
  then show ?thesis using f32_le [OF q, of n 0] assms(1) by (simp add: pow2_def)
qed

text \<open>A rounded number divided by a constant: the error of two roundings.\<close>

lemma f32_div_error:
  assumes "0 \<le> n" and "0 < c"
  shows "\<bar>f32_div (f32 n) c - n / c\<bar> \<le> n / c * (1 / 2 ^ 23 + 1 / 2 ^ 48)"
proof (cases "n = 0")
  case True
  then show ?thesis by (simp add: f32_div_def)
next
  case False
  with assms have n: "0 < n" by simp
  have "\<bar>f32 n / c - n / c\<bar> = \<bar>f32 n - n\<bar> / c" using assms(2) by (simp add: abs_if field_simps)
  also have "\<dots> \<le> n / 2 ^ 24 / c" using f32_error [OF n] assms(2) by (intro divide_right_mono) simp_all
  finally have a: "\<bar>f32 n / c - n / c\<bar> \<le> n / c / 2 ^ 24" by simp
  have "0 < f32 n / c" using f32_positive [OF n] assms(2) by simp
  from f32_error [OF this] have b: "\<bar>f32 (f32 n / c) - f32 n / c\<bar> \<le> f32 n / c / 2 ^ 24" .
  define x y z where "x = f32 n / c" and "y = n / c" and "z = f32 (f32 n / c)"
  have "\<bar>z - x\<bar> \<le> x / 2 ^ 24" "\<bar>x - y\<bar> \<le> y / 2 ^ 24" using a b by (simp_all add: x_def y_def z_def)
  then have "\<bar>z - y\<bar> \<le> y * (1 / 2 ^ 23 + 1 / 2 ^ 48)" by (simp add: abs_if split: if_splits)
  then show ?thesis by (simp add: x_def y_def z_def f32_div_def)
qed

end
