(* ===== verification/Agent_Decode.thy ===== *)
theory Agent_Decode
  imports Go_Lib Http_Filter Oomkill_Probe Tcpsynbl_Probe
begin

text \<open>
  The agent's side of the ring buffers: the Go structs that \<^verbatim>\<open>bpf2go\<close> generated from the C
  structs (\<^verbatim>\<open>plugins/*/*_bpfel_x86.go\<close>), \<^verbatim>\<open>binary.Read\<close> with little-endian order
  into them, the conversions of \<^verbatim>\<open>plugins/http/ebpf.go\<close> and the three functions
  \<^verbatim>\<open>DecodeMapItem\<close> that turn a record into a metric.  The pod lookups the decoders call are
  arguments (\<^verbatim>\<open>GetPodByEndpoint\<close> is modelled in Endpoint2Pod).
\<close>

section \<open>Generated structs\<close>

record httpPacket =
  hp_Type :: u32
  hp_Method :: u32
  hp_DstIp :: u32
  hp_DstPort :: u16
  hp_SrcIp :: u32
  hp_SrcPort :: u16
  hp_Duration :: u32
  hp_ReqPayloadSize :: u32
  hp_RspPayloadSize :: u32
  hp_Status :: "byte list"
  hp_Url :: "byte list"

record oomkillEvent =
  ok_Fpid :: u32
  ok_Tpid :: u32
  ok_Pages :: u64
  ok_Fcomm :: "byte list"
  ok_Tcomm :: "byte list"
  ok_Message :: "byte list"

record tcpsynblEvent =
  tb_Pid :: u32
  tb_MaxAckBacklog :: u32
  tb_AckBacklog :: u32

section \<open>Reading a record\<close>

text \<open>\<^verbatim>\<open>binary.Read\<close> first fills a buffer of the struct's size and fails if the record is
  shorter; then it decodes the fields in order, blank fields being skipped.\<close>

definition read_full :: "nat \<Rightarrow> byte list \<Rightarrow> byte list go" where
  "read_full n bs =
     (if n \<le> length bs then Inr (take n bs)
      else Inl (GoErr (if bs = [] then ''EOF'' else ''unexpected EOF'')))"

definition get_word :: "nat \<Rightarrow> byte list \<Rightarrow> 'a::len word \<times> byte list" where
  "get_word n bs = (le_word (take n bs), drop n bs)"

definition get_array :: "nat \<Rightarrow> byte list \<Rightarrow> byte list \<times> byte list" where
  "get_array n bs = (take n bs, drop n bs)"

definition read_httpPacket :: "byte list \<Rightarrow> httpPacket go" where
  "read_httpPacket raw = go_bind (read_full 296 raw) (\<lambda>b.
    (let (ty, b) = get_word 4 b; (method, b) = get_word 4 b; (dst, b) = get_word 4 b;
         (dport, b) = get_word 2 b; (_, b) = get_array 2 b;
         (src, b) = get_word 4 b; (sport, b) = get_word 2 b; (_, b) = get_array 2 b;
         (dur, b) = get_word 4 b; (reqs, b) = get_word 4 b; (rsps, b) = get_word 4 b;
         (status, b) = get_array 3 b; (url, b) = get_array 256 b
     in Inr \<lparr>hp_Type = ty, hp_Method = method, hp_DstIp = dst, hp_DstPort = dport, hp_SrcIp = src,
          hp_SrcPort = sport, hp_Duration = dur, hp_ReqPayloadSize = reqs, hp_RspPayloadSize = rsps,
          hp_Status = status, hp_Url = url\<rparr>))"

definition read_oomkillEvent :: "byte list \<Rightarrow> oomkillEvent go" where
  "read_oomkillEvent raw = go_bind (read_full 176 raw) (\<lambda>b.
    (let (fpid, b) = get_word 4 b; (tpid, b) = get_word 4 b; (pages, b) = get_word 8 b;
         (fcomm, b) = get_array 16 b; (tcomm, b) = get_array 16 b; (msg, b) = get_array 128 b
     in Inr \<lparr>ok_Fpid = fpid, ok_Tpid = tpid, ok_Pages = pages, ok_Fcomm = fcomm, ok_Tcomm = tcomm,
          ok_Message = msg\<rparr>))"

definition read_tcpsynblEvent :: "byte list \<Rightarrow> tcpsynblEvent go" where
  "read_tcpsynblEvent raw = go_bind (read_full 12 raw) (\<lambda>b.
    (let (pid, b) = get_word 4 b; (mx, b) = get_word 4 b; (ack, b) = get_word 4 b
     in Inr \<lparr>tb_Pid = pid, tb_MaxAckBacklog = mx, tb_AckBacklog = ack\<rparr>))"

section \<open>Conversions\<close>

definition MethodToString :: "u32 \<Rightarrow> string" where
  "MethodToString method =
     (if method = 1 then ''GET'' else if method = 2 then ''POST'' else if method = 3 then ''PUT''
      else if method = 4 then ''DELETE'' else if method = 5 then ''HEAD''
      else if method = 6 then ''PATCH'' else '''')"

definition ipv4ToUint32 :: "byte list \<Rightarrow> u32 go" where
  "ipv4ToUint32 addr =
     go_bind (go_index addr 0) (\<lambda>a. go_bind (go_index addr 1) (\<lambda>b.
     go_bind (go_index addr 2) (\<lambda>c. go_bind (go_index addr 3) (\<lambda>d.
       Inr (push_bit 24 (ucast a) OR push_bit 16 (ucast b) OR push_bit 8 (ucast c) OR ucast d)))))"

definition intToIP :: "u32 \<Rightarrow> byte list" where
  "intToIP ipNum = le_bytes 4 ipNum"

definition Htons :: "u16 \<Rightarrow> u16" where "Htons i = le_word (be_bytes 2 i)"
definition Htonl :: "u32 \<Rightarrow> u32" where "Htonl i = le_word (be_bytes 4 i)"
definition Ntohs :: "u16 \<Rightarrow> u16" where "Ntohs i = le_word (be_bytes 2 i)"
definition Ntohl :: "u32 \<Rightarrow> u32" where "Ntohl i = le_word (be_bytes 4 i)"

section \<open>Metrics\<close>

record provider =
  pr_PodName :: string
  pr_NodeName :: string
  pr_NameSpace :: string
  pr_ServiceName :: string

record traffic =
  tr_Type :: u32
  tr_Flow :: int
  tr_DstIP :: string
  tr_DstPort :: u16
  tr_SrcIP :: string
  tr_SrcPort :: u16
  tr_Duration :: rat
  tr_Method :: string
  tr_URL :: string
  tr_Code :: string
  tr_PodName :: string
  tr_NodeName :: string
  tr_NameSpace :: string
  tr_ServiceName :: string

text \<open>\<^verbatim>\<open>float32(packet.Duration) / (1000 * 1000)\<close>\<close>

definition duration_ms :: "u32 \<Rightarrow> rat" where
  "duration_ms d = f32_div (f32_of_int (uint d)) 1000000"

definition http_DecodeMapItem ::
  "(string \<Rightarrow> 32 word \<Rightarrow> provider option) \<Rightarrow> httpPacket \<Rightarrow> traffic go" where
  "http_DecodeMapItem GetPodByEndpoint packet =
    (let traffic = \<lparr>tr_Type = hp_Type packet, tr_Flow = 0,
           tr_DstIP = ip4_String (intToIP (hp_DstIp packet)), tr_DstPort = Ntohs (hp_DstPort packet),
           tr_SrcIP = ip4_String (intToIP (hp_SrcIp packet)), tr_SrcPort = Ntohs (hp_SrcPort packet),
           tr_Duration = duration_ms (hp_Duration packet),
           tr_Method = MethodToString (hp_Method packet),
           tr_URL = TrimRight (gostr (hp_Url packet)) (char_of (0 :: int)),
           tr_Code = gostr (hp_Status packet),
           tr_PodName = '''', tr_NodeName = '''', tr_NameSpace = '''', tr_ServiceName = ''''\<rparr>
     in case GetPodByEndpoint (tr_DstIP traffic) (ucast (tr_DstPort traffic)) of
          None \<Rightarrow> Inl (GoErr ''can't find pod by Endpoint'')
        | Some provider \<Rightarrow>
            Inr (traffic\<lparr>tr_Flow := 1, tr_PodName := pr_PodName provider,
              tr_NodeName := pr_NodeName provider, tr_NameSpace := pr_NameSpace provider,
              tr_ServiceName := pr_ServiceName provider\<rparr>))"

record pod_info =
  pi_Namespace :: string
  pi_NodeName :: string
  pi_PodName :: string
  pi_PodUID :: string
  pi_PodLabel :: "(string \<times> string) list"
  pi_ContainerID :: string
  pi_ContainerName :: string

record pod_fields =
  pf_PodName :: string
  pf_NodeName :: string
  pf_Namespace :: string
  pf_PodUID :: string
  pf_ContainerID :: string
  pf_ContainerName :: string

record oom_metric = pod_fields +
  om_Pid :: u32
  om_Comm :: string
  om_TriggerPid :: u32
  om_TriggerComm :: string
  om_Message :: string
  om_Pages :: u64

record syn_metric = pod_fields +
  sm_Pid :: u32
  sm_Comm :: string
  sm_MaxAckBacklog :: u32
  sm_AckBacklog :: u32

text \<open>The assignments from the pod's data, shared by two decoders.\<close>

definition set_pod :: "pod_info \<Rightarrow> 'a pod_fields_scheme \<Rightarrow> 'a pod_fields_scheme" where
  "set_pod i e = e\<lparr>pf_Namespace := pi_Namespace i, pf_NodeName := pi_NodeName i,
     pf_PodName := pi_PodName i, pf_PodUID := pi_PodUID i, pf_ContainerID := pi_ContainerID i,
     pf_ContainerName := pi_ContainerName i\<rparr>"

text \<open>A text with a default for the empty one.\<close>

definition or_default :: "string \<Rightarrow> string \<Rightarrow> string" where
  "or_default d s = (if s = '''' then d else s)"

definition oomkill_DecodeMapItem ::
  "(u32 \<Rightarrow> pod_info go) \<Rightarrow> oomkillEvent \<Rightarrow> oom_metric go" where
  "oomkill_DecodeMapItem GetPodInfoByPid event =
    go_bind (go_prefix (ok_Fcomm event) (IndexByte (ok_Fcomm event) 0)) (\<lambda>fcomm.
    go_bind (go_prefix (ok_Tcomm event) (IndexByte (ok_Tcomm event) 0)) (\<lambda>tcomm.
    go_bind (go_prefix (ok_Message event) (IndexByte (ok_Message event) 0)) (\<lambda>msg.
      (let e = \<lparr>pf_PodName = '''', pf_NodeName = '''', pf_Namespace = '''', pf_PodUID = '''',
             pf_ContainerID = '''', pf_ContainerName = '''', om_Pid = ok_Tpid event,
             om_Comm = or_default ''unknown'' (gostr tcomm), om_TriggerPid = ok_Fpid event,
             om_TriggerComm = or_default ''unknown'' (gostr fcomm),
             om_Message = or_default ''Out of memory'' (gostr msg), om_Pages = ok_Pages event\<rparr>
       in case GetPodInfoByPid (om_Pid e) of
            Inl (GoPanic m) \<Rightarrow> Inl (GoPanic m)
          | Inl (GoErr _) \<Rightarrow> Inr e
          | Inr podInfo \<Rightarrow> Inr (set_pod podInfo e)))))"

text \<open>\<open>getCommByPid\<close> reads \<^verbatim>\<open>/proc/<pid>/comm\<close> and returns the empty text on an error.\<close>

definition tcpsynbl_DecodeMapItem ::
  "(u32 \<Rightarrow> string) \<Rightarrow> (u32 \<Rightarrow> pod_info go) \<Rightarrow> tcpsynblEvent \<Rightarrow> syn_metric go" where
  "tcpsynbl_DecodeMapItem getCommByPid GetPodInfoByPid event =
    (let e = \<lparr>pf_PodName = '''', pf_NodeName = '''', pf_Namespace = '''', pf_PodUID = '''',
           pf_ContainerID = '''', pf_ContainerName = '''', sm_Pid = tb_Pid event,
           sm_Comm = getCommByPid (tb_Pid event), sm_MaxAckBacklog = tb_MaxAckBacklog event,
           sm_AckBacklog = tb_AckBacklog event\<rparr>
     in case GetPodInfoByPid (sm_Pid e) of
          Inl (GoPanic m) \<Rightarrow> Inl (GoPanic m)
        | Inl (GoErr _) \<Rightarrow> Inr e
        | Inr podInfo \<Rightarrow> Inr (set_pod podInfo e))"

section \<open>Reading what the programs wrote\<close>

lemma get_word_append [simp]:
  "get_word n (le_bytes n w @ bs) = (le_word (le_bytes n w), bs)"
  by (simp add: get_word_def)

lemma get_word_all [simp]: "get_word n (le_bytes n w) = (le_word (le_bytes n w), [])"
  by (simp add: get_word_def)

lemma get_array_append: "length xs = n \<Longrightarrow> get_array n (xs @ bs) = (xs, bs)"
  by (simp add: get_array_def)

lemma get_pad [simp]: "get_array 2 (0 # 0 # bs) = ([0, 0], bs)"
  by (simp add: get_array_def numeral_2_eq_2)

lemma read_full_append: "length xs = n \<Longrightarrow> read_full n (xs @ bs) = Inr xs"
  by (simp add: read_full_def)

definition go_packet :: "packet \<Rightarrow> httpPacket" where
  "go_packet p = \<lparr>hp_Type = p_type p, hp_Method = p_method p, hp_DstIp = p_dst_ip p,
     hp_DstPort = p_dst_port p, hp_SrcIp = p_src_ip p, hp_SrcPort = p_src_port p,
     hp_Duration = p_duration p, hp_ReqPayloadSize = p_req_payload_size p,
     hp_RspPayloadSize = p_rsp_payload_size p, hp_Status = p_status p, hp_Url = p_url p\<rparr>"

definition go_oom_event :: "oom_event \<Rightarrow> oomkillEvent" where
  "go_oom_event e = \<lparr>ok_Fpid = oe_fpid e, ok_Tpid = oe_tpid e, ok_Pages = oe_pages e,
     ok_Fcomm = oe_fcomm e, ok_Tcomm = oe_tcomm e, ok_Message = oe_message e\<rparr>"

definition go_syn_event :: "syn_event \<Rightarrow> tcpsynblEvent" where
  "go_syn_event e = \<lparr>tb_Pid = se_pid e, tb_MaxAckBacklog = se_max_ack_backlog e,
     tb_AckBacklog = se_ack_backlog e\<rparr>"

text \<open>The arrays of the C structs have their declared lengths.\<close>

definition packet_sized :: "packet \<Rightarrow> bool" where
  "packet_sized p \<longleftrightarrow> length (p_status p) = STATUS_LEN \<and> length (p_url p) = MAX_URL_LEN"

definition oom_event_sized :: "oom_event \<Rightarrow> bool" where
  "oom_event_sized e \<longleftrightarrow> length (oe_fcomm e) = TASK_COMM_LEN \<and> length (oe_tcomm e) = TASK_COMM_LEN \<and>
     length (oe_message e) = 128"

lemma packet_record_size: "packet_sized p \<Longrightarrow> length (packet_bytes p) = 296"
  by (simp add: packet_bytes_def packet_sized_def http_consts)

lemma length_oom_event_bytes: "oom_event_sized e \<Longrightarrow> length (oom_event_bytes e) = 176"
  by (simp add: oom_event_bytes_def oom_event_sized_def TASK_COMM_LEN_def)

lemma length_syn_event_bytes: "length (syn_event_bytes e) = 12"
  by (simp add: syn_event_bytes_def)

lemma read_packet_bytes:
  assumes "packet_sized p"
  shows "read_httpPacket (packet_bytes p @ junk) = Inr (go_packet p)"
proof -
  have l: "length (p_status p) = 3" "length (p_url p) = 256"
    using assms by (simp_all add: packet_sized_def http_consts)
  show ?thesis
    unfolding read_httpPacket_def read_full_append [OF packet_record_size [OF assms]] go_bind.simps
    unfolding packet_bytes_def
    by (simp add: get_array_append l go_packet_def)
qed

lemma read_oom_event_bytes:
  assumes "oom_event_sized e"
  shows "read_oomkillEvent (oom_event_bytes e @ junk) = Inr (go_oom_event e)"
proof -
  have l: "length (oe_fcomm e) = 16" "length (oe_tcomm e) = 16" "length (oe_message e) = 128"
    using assms by (simp_all add: oom_event_sized_def TASK_COMM_LEN_def)
  show ?thesis
    unfolding read_oomkillEvent_def read_full_append [OF length_oom_event_bytes [OF assms]] go_bind.simps
    unfolding oom_event_bytes_def
    using get_array_append [OF l(3), of "[]"] by (simp add: get_array_append l go_oom_event_def)
qed

lemma read_syn_event_bytes: "read_tcpsynblEvent (syn_event_bytes e @ junk) = Inr (go_syn_event e)"
  unfolding read_tcpsynblEvent_def read_full_append [OF length_syn_event_bytes] go_bind.simps
  unfolding syn_event_bytes_def
  by (simp add: go_syn_event_def)

lemma read_short_fails:
  "length raw < 296 \<Longrightarrow> \<exists>m. read_httpPacket raw = Inl (GoErr m)"
  "length raw < 176 \<Longrightarrow> \<exists>m. read_oomkillEvent raw = Inl (GoErr m)"
  "length raw < 12 \<Longrightarrow> \<exists>m. read_tcpsynblEvent raw = Inl (GoErr m)"
  by (simp_all add: read_httpPacket_def read_oomkillEvent_def read_tcpsynblEvent_def read_full_def)

section \<open>Conversions\<close>

lemma Ntohs_swaps: "Ntohs x = builtin_bswap16 x" "Htons x = builtin_bswap16 x"
  "Ntohl y = builtin_bswap32 y" "Htonl y = builtin_bswap32 y"
  by (simp_all add: Ntohs_def Htons_def Ntohl_def Htonl_def be_bytes_def builtin_bswap16_def
      builtin_bswap32_def)

lemma MethodToString_method: "MethodToString (of_int (method_val m)) = method_name m"
  by (cases m) (simp_all add: MethodToString_def)

text \<open>The first four bytes of a parsed IPv4 address are zero, so the conversion yields zero.\<close>

lemma ipv4ToUint32_mapped: "ipv4ToUint32 (v4_in_v6_prefix @ b) = Inr 0"
  by (simp add: ipv4ToUint32_def go_index_def v4_in_v6_prefix_def nth_append)

text \<open>The metric of an event before the pod lookup, with the texts cut at their NUL bytes.\<close>

definition oom_base :: "oomkillEvent \<Rightarrow> oom_metric" where
  "oom_base ev =
    (let txt = (\<lambda>d bs. or_default d (gostr (takeWhile (\<lambda>b. b \<noteq> 0) bs)))
     in \<lparr>pf_PodName = '''', pf_NodeName = '''', pf_Namespace = '''', pf_PodUID = '''',
         pf_ContainerID = '''', pf_ContainerName = '''', om_Pid = ok_Tpid ev,
         om_Comm = txt ''unknown'' (ok_Tcomm ev), om_TriggerPid = ok_Fpid ev,
         om_TriggerComm = txt ''unknown'' (ok_Fcomm ev),
         om_Message = txt ''Out of memory'' (ok_Message ev), om_Pages = ok_Pages ev\<rparr>)"

lemma oomkill_Decode_cases:
  "oomkill_DecodeMapItem pod ev =
    (if 0 \<in> set (ok_Fcomm ev) \<and> 0 \<in> set (ok_Tcomm ev) \<and> 0 \<in> set (ok_Message ev)
     then (case pod (ok_Tpid ev) of
            Inl (GoPanic m) \<Rightarrow> Inl (GoPanic m)
          | Inl (GoErr _) \<Rightarrow> Inr (oom_base ev)
          | Inr podInfo \<Rightarrow> Inr (set_pod podInfo (oom_base ev)))
     else Inl (GoPanic ''slice bounds out of range''))"
  by (simp add: oomkill_DecodeMapItem_def go_prefix_IndexByte oom_base_def Let_def split: sum.splits go_fail.splits)

end
