(* ===== verification/Endpoint2Pod.thy ===== *)
theory Endpoint2Pod
  imports Agent_Decode
begin

text \<open>
  The endpoint table of \<^verbatim>\<open>src/internal/endpoint2pod/endpoint2pod.go\<close>: which pod of this node
  serves an address and port.  The informer's three callbacks fold over the subsets, addresses and
  ports of a Kubernetes \<^verbatim>\<open>Endpoints\<close> object and call the registered handlers, which act on a
  state of their own (\<open>hstate\<close>).  A nil \<^verbatim>\<open>TargetRef\<close> of a local address and a panicking handler
  end the agent.  The abstract table of an object is \<open>table\<close>; \<open>informed\<close> is the relation between the
  objects the cluster holds and the table, built from the callbacks.
\<close>

section \<open>Data\<close>

record endpoint =
  ep_IP :: string
  ep_Port :: "32 word"

text \<open>The fields of \<^verbatim>\<open>core.Endpoints\<close> the callbacks read; a nil pointer is \<open>None\<close>.\<close>

record target_ref =
  tg_Name :: string
  tg_Namespace :: string

record address =
  ad_IP :: string
  ad_NodeName :: "string option"
  ad_TargetRef :: "target_ref option"

record subset =
  ss_Addresses :: "address list"
  ss_Ports :: "32 word list"

record endpoints =
  en_Name :: string
  en_Subsets :: "subset list"

text \<open>An event handler: its error is returned and ignored, a panic is not.\<close>

type_synonym 'h handler = "endpoint \<Rightarrow> provider \<Rightarrow> 'h \<Rightarrow> unit go \<times> 'h"

record 'h endpoint2pod =
  Providers :: "endpoint \<Rightarrow> provider option"
  AddEventHandlers :: "'h handler list"
  DeleteEventHandlers :: "'h handler list"
  hstate :: 'h

section \<open>Operations\<close>

definition GetPodByEndpoint :: "'h endpoint2pod \<Rightarrow> string \<Rightarrow> 32 word \<Rightarrow> provider option" where
  "GetPodByEndpoint i addr port = Providers i \<lparr>ep_IP = addr, ep_Port = port\<rparr>"

text \<open>A range loop whose body may panic.\<close>

fun go_for :: "('a \<Rightarrow> 's \<Rightarrow> 's go) \<Rightarrow> 'a list \<Rightarrow> 's \<Rightarrow> 's go" where
  "go_for body [] s = Inr s"
| "go_for body (x # xs) s = go_bind (body x s) (go_for body xs)"

definition call_handler :: "endpoint \<Rightarrow> provider \<Rightarrow> 'h handler \<Rightarrow> 'h \<Rightarrow> 'h go" where
  "call_handler e p h s =
     (case h e p s of (Inl (GoPanic m), _) \<Rightarrow> Inl (GoPanic m) | (_, s') \<Rightarrow> Inr s')"

definition local_address :: "string \<Rightarrow> address \<Rightarrow> bool" where
  "local_address nodeName a \<longleftrightarrow> ad_NodeName a = Some nodeName"

definition deref :: "'a option \<Rightarrow> 'a go" where
  "deref p = (case p of None \<Rightarrow> Inl (GoPanic ''nil pointer dereference'') | Some x \<Rightarrow> Inr x)"

definition make_provider :: "string \<Rightarrow> string \<Rightarrow> target_ref \<Rightarrow> provider" where
  "make_provider service nodeName t = \<lparr>pr_PodName = tg_Name t, pr_NodeName = nodeName,
     pr_NameSpace = tg_Namespace t, pr_ServiceName = service\<rparr>"

definition add_one :: "string \<Rightarrow> string \<Rightarrow> address \<Rightarrow> 32 word \<Rightarrow> 'h endpoint2pod \<Rightarrow> 'h endpoint2pod go" where
  "add_one service nodeName a port i =
    (if local_address nodeName a then
       go_bind (deref (ad_TargetRef a)) (\<lambda>t.
         let provider = make_provider service nodeName t;
             e = \<lparr>ep_IP = ad_IP a, ep_Port = port\<rparr>;
             i = i\<lparr>Providers := (Providers i)(e \<mapsto> provider)\<rparr>
         in go_bind (go_for (call_handler e provider) (AddEventHandlers i) (hstate i)) (\<lambda>h.
              Inr (i\<lparr>hstate := h\<rparr>)))
     else Inr i)"

text \<open>The deleted provider is built inside the handler loop, so its nil pointer matters only when a
  handler is registered.\<close>

definition delete_one :: "string \<Rightarrow> string \<Rightarrow> address \<Rightarrow> 32 word \<Rightarrow> 'h endpoint2pod \<Rightarrow> 'h endpoint2pod go" where
  "delete_one service nodeName a port i =
    (if local_address nodeName a then
       (let e = \<lparr>ep_IP = ad_IP a, ep_Port = port\<rparr>;
            i = i\<lparr>Providers := (Providers i)(e := None)\<rparr>
        in go_bind (go_for (\<lambda>handler h. go_bind (deref (ad_TargetRef a)) (\<lambda>t.
               call_handler e (make_provider service nodeName t) handler h))
             (DeleteEventHandlers i) (hstate i)) (\<lambda>h.
             Inr (i\<lparr>hstate := h\<rparr>)))
     else Inr i)"

definition addEndpoints :: "string \<Rightarrow> endpoints \<Rightarrow> 'h endpoint2pod \<Rightarrow> 'h endpoint2pod go" where
  "addEndpoints nodeName new i =
     go_for (\<lambda>sub. go_for (\<lambda>a. go_for (\<lambda>port.
       add_one (en_Name new) nodeName a port) (ss_Ports sub)) (ss_Addresses sub)) (en_Subsets new) i"

definition deleteEndpoints :: "string \<Rightarrow> endpoints \<Rightarrow> 'h endpoint2pod \<Rightarrow> 'h endpoint2pod go" where
  "deleteEndpoints nodeName old i =
     go_for (\<lambda>sub. go_for (\<lambda>a. go_for (\<lambda>port.
       delete_one (en_Name old) nodeName a port) (ss_Ports sub)) (ss_Addresses sub)) (en_Subsets old) i"

definition updateEndpoints ::
  "string \<Rightarrow> endpoints \<Rightarrow> endpoints \<Rightarrow> 'h endpoint2pod \<Rightarrow> 'h endpoint2pod go" where
  "updateEndpoints nodeName old new i =
     go_bind (go_for (\<lambda>sub. go_for (\<lambda>a. go_for (\<lambda>port.
       delete_one (en_Name old) nodeName a port) (ss_Ports sub)) (ss_Addresses sub)) (en_Subsets old) i)
     (go_for (\<lambda>sub. go_for (\<lambda>a. go_for (\<lambda>port.
       add_one (en_Name new) nodeName a port) (ss_Ports sub)) (ss_Addresses sub)) (en_Subsets new))"

text \<open>What a plugin's \<^verbatim>\<open>Registry\<close> does to the two handler lists.\<close>

definition register_handlers :: "'h handler \<Rightarrow> 'h handler \<Rightarrow> 'h endpoint2pod \<Rightarrow> 'h endpoint2pod" where
  "register_handlers h g i = i\<lparr>AddEventHandlers := AddEventHandlers i @ [h],
     DeleteEventHandlers := DeleteEventHandlers i @ [g]\<rparr>"

section \<open>The abstract table\<close>

text \<open>The address-port pairs of an object in loop order, those of this node, and the entries they
  stand for.\<close>

definition pairs :: "endpoints \<Rightarrow> (address \<times> 32 word) list" where
  "pairs en = [(a, port). sub \<leftarrow> en_Subsets en, a \<leftarrow> ss_Addresses sub, port \<leftarrow> ss_Ports sub]"

definition local_keys :: "string \<Rightarrow> endpoints \<Rightarrow> endpoint set" where
  "local_keys nodeName en =
     {\<lparr>ep_IP = ad_IP a, ep_Port = port\<rparr> | a port. (a, port) \<in> set (pairs en) \<and> local_address nodeName a}"

fun entries_of :: "string \<Rightarrow> string \<Rightarrow> (address \<times> 32 word) list \<Rightarrow> (endpoint \<times> provider) list" where
  "entries_of service nodeName [] = []"
| "entries_of service nodeName ((a, port) # ps) =
     (case (local_address nodeName a, ad_TargetRef a) of
        (True, Some t) \<Rightarrow>
          (\<lparr>ep_IP = ad_IP a, ep_Port = port\<rparr>, make_provider service nodeName t) #
            entries_of service nodeName ps
      | _ \<Rightarrow> entries_of service nodeName ps)"

text \<open>Later entries replace earlier ones.\<close>

definition table :: "string \<Rightarrow> endpoints \<Rightarrow> endpoint \<Rightarrow> provider option" where
  "table nodeName en = map_of (rev (entries_of (en_Name en) nodeName (pairs en)))"

text \<open>Every local address names its pod.\<close>

definition targets_ok :: "string \<Rightarrow> endpoints \<Rightarrow> bool" where
  "targets_ok nodeName en \<longleftrightarrow>
     (\<forall>(a, port) \<in> set (pairs en). local_address nodeName a \<longrightarrow> ad_TargetRef a \<noteq> None)"

text \<open>A handler that never panics.\<close>

definition calm :: "'h handler \<Rightarrow> bool" where
  "calm h \<longleftrightarrow> (\<forall>e p s m. fst (h e p s) \<noteq> Inl (GoPanic m))"

section \<open>Loops\<close>

lemma go_bind_Inr [simp]: "go_bind x Inr = x"
  by (cases x) auto

lemma go_bind_assoc: "go_bind (go_bind x f) g = go_bind x (\<lambda>y. go_bind (f y) g)"
  by (cases x) auto

lemma go_for_fun:
  "go_for body [] = Inr"
  "go_for body (x # xs) = (\<lambda>s. go_bind (body x s) (go_for body xs))"
  by (rule ext, simp)+

lemma go_for_append: "go_for body (xs @ ys) = (\<lambda>s. go_bind (go_for body xs s) (go_for body ys))"
  by (induction xs) (simp_all add: go_for_fun go_bind_assoc)

lemma go_for_concat: "go_for body (concat xss) = go_for (go_for body) xss"
  by (induction xss) (simp_all add: go_for_fun go_for_append)

lemma go_for_map: "go_for body (map f xs) = go_for (\<lambda>x. body (f x)) xs"
  by (induction xs) (simp_all add: go_for_fun)

text \<open>The three nested loops are one loop over the pairs.\<close>

lemma nested_loops:
  "go_for (\<lambda>sub. go_for (\<lambda>a. go_for (\<lambda>port. body a port) (ss_Ports sub)) (ss_Addresses sub)) (en_Subsets en) =
   go_for (\<lambda>(a, port). body a port) (pairs en)"
  by (simp add: pairs_def go_for_concat go_for_map comp_def)

lemma call_handlers_calm:
  "list_all calm hs \<Longrightarrow> go_for (call_handler e p) hs s = Inr (foldl (\<lambda>s h. snd (h e p s)) s hs)"
proof (induction hs arbitrary: s)
  case Nil
  then show ?case by simp
next
  case (Cons h hs)
  then have "call_handler e p h s = Inr (snd (h e p s))"
    by (auto simp: call_handler_def calm_def split: prod.splits sum.splits go_fail.splits dest!: spec [of _ e] spec [of _ p] spec [of _ s])
  with Cons show ?case by simp
qed

section \<open>Effect on the table\<close>

text \<open>What all callbacks keep: the registered handlers.\<close>

definition same_handlers :: "'h endpoint2pod \<Rightarrow> 'h endpoint2pod \<Rightarrow> bool" where
  "same_handlers i j \<longleftrightarrow> AddEventHandlers j = AddEventHandlers i \<and> DeleteEventHandlers j = DeleteEventHandlers i"

lemma add_one_effect:
  assumes "list_all calm (AddEventHandlers i)" and "local_address n a \<Longrightarrow> ad_TargetRef a \<noteq> None"
  obtains j where "add_one sv n a port i = Inr j" and "same_handlers i j"
    and "Providers j = Providers i ++ map_of (entries_of sv n [(a, port)])"
proof (cases "local_address n a")
  case False
  then have "add_one sv n a port i = Inr i" by (simp add: add_one_def)
  then show ?thesis using that [of i] False by (simp add: same_handlers_def)
next
  case True
  with assms(2) obtain t where "ad_TargetRef a = Some t" by auto
  with True show ?thesis
    using that by (simp add: add_one_def deref_def call_handlers_calm [OF assms(1)] same_handlers_def Let_def)
qed

lemma add_pairs_effect:
  assumes "list_all calm (AddEventHandlers i)"
    and "\<forall>(a, port) \<in> set ps. local_address n a \<longrightarrow> ad_TargetRef a \<noteq> None"
  shows "\<exists>j. go_for (\<lambda>(a, port). add_one sv n a port) ps i = Inr j \<and> same_handlers i j \<and>
    Providers j = Providers i ++ map_of (rev (entries_of sv n ps))"
  using assms
proof (induction ps arbitrary: i)
  case Nil
  then show ?case by (simp add: same_handlers_def)
next
  case (Cons p ps)
  obtain a port where p: "p = (a, port)" by (cases p)
  obtain j where j: "add_one sv n a port i = Inr j" "same_handlers i j"
    "Providers j = Providers i ++ map_of (entries_of sv n [(a, port)])"
    using add_one_effect [OF Cons.prems(1), of n a sv port] Cons.prems(2) by (auto simp: p)
  moreover have "\<exists>k. go_for (\<lambda>(a, port). add_one sv n a port) ps j = Inr k \<and> same_handlers j k \<and>
      Providers k = Providers j ++ map_of (rev (entries_of sv n ps))"
    using Cons.prems j(2) by (intro Cons.IH) (simp_all add: same_handlers_def)
  moreover have "rev (entries_of sv n (p # ps)) = rev (entries_of sv n ps) @ entries_of sv n [(a, port)]"
    by (auto simp: p split: bool.splits option.splits)
  ultimately show ?case by (auto simp: p same_handlers_def map_add_assoc simp del: entries_of.simps)
qed

lemma delete_handlers_calm:
  "list_all calm hs \<Longrightarrow> go_for (\<lambda>handler h. go_bind (deref (Some t)) (\<lambda>t. call_handler e (f t) handler h)) hs s =
     Inr (foldl (\<lambda>s h. snd (h e (f t) s)) s hs)"
  using call_handlers_calm [of hs e "f t" s] by (simp add: deref_def)

definition keys_of :: "string \<Rightarrow> (address \<times> 32 word) list \<Rightarrow> endpoint set" where
  "keys_of n ps = {\<lparr>ep_IP = ad_IP a, ep_Port = port\<rparr> | a port. (a, port) \<in> set ps \<and> local_address n a}"

lemma delete_one_effect:
  assumes "list_all calm (DeleteEventHandlers i)" and "local_address n a \<Longrightarrow> ad_TargetRef a \<noteq> None"
  obtains j where "delete_one sv n a port i = Inr j" and "same_handlers i j"
    and "Providers j = Providers i |` (- keys_of n [(a, port)])"
proof (cases "local_address n a")
  case False
  then have "delete_one sv n a port i = Inr i" "keys_of n [(a, port)] = {}"
    by (simp_all add: delete_one_def keys_of_def)
  then show ?thesis using that [of i] by (simp add: same_handlers_def restrict_map_def fun_eq_iff)
next
  case True
  with assms(2) obtain t where t: "ad_TargetRef a = Some t" by auto
  have "keys_of n [(a, port)] = {\<lparr>ep_IP = ad_IP a, ep_Port = port\<rparr>}" using True by (auto simp: keys_of_def)
  with True t show ?thesis
    using that by (simp add: delete_one_def delete_handlers_calm [OF assms(1)] same_handlers_def Let_def
        restrict_map_def fun_eq_iff fun_upd_def)
qed

lemma keys_of_Cons: "keys_of n (p # ps) = keys_of n [p] \<union> keys_of n ps"
  by (auto simp: keys_of_def)

lemma delete_pairs_effect:
  assumes "list_all calm (DeleteEventHandlers i)"
    and "\<forall>(a, port) \<in> set ps. local_address n a \<longrightarrow> ad_TargetRef a \<noteq> None"
  shows "\<exists>j. go_for (\<lambda>(a, port). delete_one sv n a port) ps i = Inr j \<and> same_handlers i j \<and>
    Providers j = Providers i |` (- keys_of n ps)"
  using assms
proof (induction ps arbitrary: i)
  case Nil
  then show ?case by (simp add: same_handlers_def keys_of_def)
next
  case (Cons p ps)
  obtain a port where p: "p = (a, port)" by (cases p)
  obtain j where j: "delete_one sv n a port i = Inr j" "same_handlers i j"
    "Providers j = Providers i |` (- keys_of n [p])"
    using delete_one_effect [OF Cons.prems(1), of n a sv port] Cons.prems(2) by (auto simp: p)
  moreover have "\<exists>k. go_for (\<lambda>(a, port). delete_one sv n a port) ps j = Inr k \<and> same_handlers j k \<and>
      Providers k = Providers j |` (- keys_of n ps)"
    using Cons.prems j(2) by (intro Cons.IH) (simp_all add: same_handlers_def)
  ultimately show ?case
    by (auto simp: p same_handlers_def keys_of_Cons [of n "(a, port)" ps] Int_commute)
qed

lemma dom_table: "targets_ok n en \<Longrightarrow> dom (table n en) = local_keys n en"
proof -
  have "fst ` set (entries_of sv n ps) = keys_of n ps"
    if "\<forall>(a, port) \<in> set ps. local_address n a \<longrightarrow> ad_TargetRef a \<noteq> None" for sv ps
    using that
  proof (induction ps)
    case Nil
    then show ?case by (simp add: keys_of_def)
  next
    case (Cons p ps)
    then show ?case
      by (cases p) (auto simp: keys_of_Cons [of n p ps] keys_of_def split: bool.splits option.splits)
  qed
  moreover assume "targets_ok n en"
  ultimately show ?thesis
    by (simp add: table_def dom_map_of_conv_image_fst targets_ok_def local_keys_def keys_of_def)
qed

text \<open>The three callbacks on the table.\<close>

lemma addEndpoints_effect:
  assumes "list_all calm (AddEventHandlers i)" and "targets_ok n new"
  shows "\<exists>j. addEndpoints n new i = Inr j \<and> same_handlers i j \<and> Providers j = Providers i ++ table n new"
  using add_pairs_effect [OF assms(1), of "pairs new" n "en_Name new"] assms(2)
  unfolding addEndpoints_def nested_loops table_def targets_ok_def by blast

lemma deleteEndpoints_effect:
  assumes "list_all calm (DeleteEventHandlers i)" and "targets_ok n old"
  shows "\<exists>j. deleteEndpoints n old i = Inr j \<and> same_handlers i j \<and>
    Providers j = Providers i |` (- local_keys n old)"
  using delete_pairs_effect [OF assms(1), of "pairs old" n "en_Name old"] assms(2)
  unfolding deleteEndpoints_def nested_loops targets_ok_def local_keys_def keys_of_def by blast

lemma updateEndpoints_is: "updateEndpoints n old new i = go_bind (deleteEndpoints n old i) (addEndpoints n new)"
  by (simp add: updateEndpoints_def deleteEndpoints_def addEndpoints_def [abs_def])

lemma updateEndpoints_effect:
  assumes "list_all calm (AddEventHandlers i)" and "list_all calm (DeleteEventHandlers i)"
    and "targets_ok n old" and "targets_ok n new"
  shows "\<exists>j. updateEndpoints n old new i = Inr j \<and> same_handlers i j \<and>
    Providers j = Providers i |` (- local_keys n old) ++ table n new"
proof -
  obtain k where k: "deleteEndpoints n old i = Inr k" "same_handlers i k"
    "Providers k = Providers i |` (- local_keys n old)"
    using deleteEndpoints_effect [OF assms(2,3)] by blast
  then have "list_all calm (AddEventHandlers k)" using assms(1) by (simp add: same_handlers_def)
  from addEndpoints_effect [OF this assms(4)] k show ?thesis
    by (auto simp: updateEndpoints_is same_handlers_def)
qed

section \<open>The table follows the cluster\<close>

text \<open>The informer reports the objects of the cluster one change at a time.  \<open>informed n C i\<close>: the table
  \<open>i\<close> arises from the callbacks when the cluster holds the objects \<open>C\<close> and no two objects ever share
  an address and port of this node.\<close>

definition apart :: "string \<Rightarrow> endpoints \<Rightarrow> endpoints set \<Rightarrow> bool" where
  "apart n en C \<longleftrightarrow> (\<forall>x \<in> C. local_keys n x \<inter> local_keys n en = {})"

inductive informed :: "string \<Rightarrow> endpoints set \<Rightarrow> 'h endpoint2pod \<Rightarrow> bool" for n :: string where
  informed_init: "Providers i = Map.empty \<Longrightarrow> AddEventHandlers i = [] \<Longrightarrow> DeleteEventHandlers i = [] \<Longrightarrow>
    informed n {} i"
| informed_register: "informed n C i \<Longrightarrow> calm h \<Longrightarrow> calm g \<Longrightarrow> informed n C (register_handlers h g i)"
| informed_add: "informed n C i \<Longrightarrow> apart n en C \<Longrightarrow> targets_ok n en \<Longrightarrow> addEndpoints n en i = Inr j \<Longrightarrow>
    informed n (insert en C) j"
| informed_delete: "informed n C i \<Longrightarrow> en \<in> C \<Longrightarrow> deleteEndpoints n en i = Inr j \<Longrightarrow>
    informed n (C - {en}) j"
| informed_update: "informed n C i \<Longrightarrow> old \<in> C \<Longrightarrow> apart n new (C - {old}) \<Longrightarrow> targets_ok n new \<Longrightarrow>
    updateEndpoints n old new i = Inr j \<Longrightarrow> informed n (insert new (C - {old})) j"

text \<open>The table holds exactly the entries of the objects.\<close>

definition mirrors :: "string \<Rightarrow> endpoints set \<Rightarrow> 'h endpoint2pod \<Rightarrow> bool" where
  "mirrors n C i \<longleftrightarrow>
     (\<forall>en \<in> C. targets_ok n en \<and> (\<forall>k \<in> local_keys n en. Providers i k = table n en k)) \<and>
     dom (Providers i) = (\<Union>en \<in> C. local_keys n en) \<and>
     (\<forall>x \<in> C. \<forall>y \<in> C. x \<noteq> y \<longrightarrow> local_keys n x \<inter> local_keys n y = {})"

lemma mirrors_add:
  assumes "mirrors n C i" and "apart n en C" and "targets_ok n en"
    and "Providers j = Providers i ++ table n en"
  shows "mirrors n (insert en C) j"
proof -
  have D: "dom (table n en) = local_keys n en" by (rule dom_table [OF assms(3)])
  have apart: "local_keys n x \<inter> local_keys n en = {}" if "x \<in> C" for x
    using that assms(2) by (simp add: apart_def)
  have new: "Providers j k = table n en k" if "k \<in> local_keys n en" for k
    using that D assms(4) by (auto simp: map_add_dom_app_simps)
  have old: "Providers j k = table n x k" if "x \<in> C" "k \<in> local_keys n x" for x k
  proof -
    have "k \<notin> dom (table n en)" using D apart [OF that(1)] that(2) by blast
    then have "Providers j k = Providers i k" by (simp add: assms(4) map_add_dom_app_simps)
    with that assms(1) show ?thesis by (simp add: mirrors_def)
  qed
  have doms: "dom (Providers j) = (\<Union>x \<in> insert en C. local_keys n x)"
    using assms(1,4) D by (simp add: mirrors_def)
  have dis: "local_keys n x \<inter> local_keys n y = {}" if "x \<in> insert en C" "y \<in> insert en C" "x \<noteq> y" for x y
    using that apart assms(1) unfolding mirrors_def by blast
  show ?thesis
    unfolding mirrors_def
  proof (intro conjI ballI impI)
    show "dom (Providers j) = (\<Union>x \<in> insert en C. local_keys n x)" by (rule doms)
  qed (use new old dis assms(1,3) in \<open>auto simp: mirrors_def\<close>)
qed

lemma mirrors_delete:
  assumes "mirrors n C i" and "en \<in> C" and "Providers j = Providers i |` (- local_keys n en)"
  shows "mirrors n (C - {en}) j"
proof -
  have apart: "local_keys n x \<inter> local_keys n en = {}" if "x \<in> C - {en}" for x
    using that assms(1,2) by (auto simp: mirrors_def)
  have "Providers j k = table n x k" if "x \<in> C - {en}" "k \<in> local_keys n x" for x k
    using that assms(1,3) apart [OF that(1)] by (auto simp: mirrors_def restrict_map_def)
  moreover have "dom (Providers j) = (\<Union>x \<in> C - {en}. local_keys n x)"
  proof -
    have "dom (Providers j) = (\<Union>x \<in> C. local_keys n x) - local_keys n en"
      using assms(1,3) by (auto simp: mirrors_def)
    then show ?thesis using apart by blast
  qed
  ultimately show ?thesis
    using assms(1) by (simp add: mirrors_def)
qed

definition calm_handlers :: "'h endpoint2pod \<Rightarrow> bool" where
  "calm_handlers i \<longleftrightarrow> list_all calm (AddEventHandlers i) \<and> list_all calm (DeleteEventHandlers i)"

lemma calm_handlers_same: "calm_handlers i \<Longrightarrow> same_handlers i j \<Longrightarrow> calm_handlers j"
  by (simp add: calm_handlers_def same_handlers_def)

lemma informed_inv: "informed n C i \<Longrightarrow> mirrors n C i \<and> calm_handlers i"
proof (induction rule: informed.induct)
  case (informed_init i)
  then show ?case by (simp add: mirrors_def calm_handlers_def)
next
  case (informed_register C i h g)
  then show ?case by (simp add: mirrors_def calm_handlers_def register_handlers_def)
next
  case (informed_add C i en j)
  then have "same_handlers i j \<and> Providers j = Providers i ++ table n en"
    using addEndpoints_effect [of i n en] by (auto simp: calm_handlers_def)
  with informed_add show ?case using mirrors_add calm_handlers_same by blast
next
  case (informed_delete C i en j)
  then have "same_handlers i j \<and> Providers j = Providers i |` (- local_keys n en)"
    using deleteEndpoints_effect [of i n en] by (auto simp: calm_handlers_def mirrors_def)
  with informed_delete show ?case using mirrors_delete calm_handlers_same by blast
next
  case (informed_update C i old new j)
  then have ok: "calm_handlers i" "targets_ok n old" by (auto simp: mirrors_def)
  then obtain k where k: "deleteEndpoints n old i = Inr k" "same_handlers i k"
    "Providers k = Providers i |` (- local_keys n old)"
    using deleteEndpoints_effect [of i n old] by (auto simp: calm_handlers_def)
  then have "mirrors n (C - {old}) k" "calm_handlers k"
    using informed_update.IH informed_update.hyps(2) mirrors_delete calm_handlers_same by blast+
  moreover have "addEndpoints n new k = Inr j" using informed_update.hyps k by (simp add: updateEndpoints_is)
  ultimately have "same_handlers k j \<and> Providers j = Providers k ++ table n new"
    using addEndpoints_effect [of k n new] informed_update.hyps by (auto simp: calm_handlers_def)
  with \<open>mirrors n (C - {old}) k\<close> \<open>calm_handlers k\<close> show ?case
    using mirrors_add informed_update.hyps calm_handlers_same by blast
qed

end
