(* ===== verification/Filter_Ip.thy ===== *)
theory Filter_Ip
  imports Endpoint2Pod Http_Traces
begin

text \<open>
  How the agent maintains the socket filter's \<^verbatim>\<open>filter_ip\<close> map (\<^verbatim>\<open>AddFilterIP\<close>,
  \<^verbatim>\<open>DeleteFilterIP\<close>, \<^verbatim>\<open>WriteFilterIP\<close> and \<^verbatim>\<open>Registry\<close> of
  \<^verbatim>\<open>src/plugins/http/ebpf.go\<close>).  The map operations are those of the interface
  \<open>bpf_hash_map\<close>, whose laws are all the lemmas use; the handlers are registered with the endpoint table
  and run inside its callbacks.
\<close>

section \<open>The handlers\<close>

definition AddFilterIP ::
  "(string \<Rightarrow> byte list option) \<Rightarrow> ('f \<Rightarrow> u32 \<Rightarrow> u32 \<Rightarrow> int \<times> 'f) \<Rightarrow> 'f handler" where
  "AddFilterIP v6 put e provider flt =
    (case ipv4ToUint32 (ParseIP v6 (ep_IP e)) of
       Inl x \<Rightarrow> (Inl x, flt)
     | Inr k \<Rightarrow>
         let (rc, flt') = put flt k 1
         in if rc \<noteq> 0 then (Inl (GoErr ''add filter ip map failed''), flt') else (Inr (), flt'))"

definition DeleteFilterIP ::
  "(string \<Rightarrow> byte list option) \<Rightarrow> ('f \<Rightarrow> u32 \<Rightarrow> int \<times> 'f) \<Rightarrow> 'f handler" where
  "DeleteFilterIP v6 del e provider flt =
    (case ipv4ToUint32 (ParseIP v6 (ep_IP e)) of
       Inl x \<Rightarrow> (Inl x, flt)
     | Inr k \<Rightarrow>
         let (rc, flt') = del flt k
         in if rc \<noteq> 0 then (Inl (GoErr ''delete filter ip map failed''), flt') else (Inr (), flt'))"

text \<open>The initial contents: every endpoint of the table, in the order in which the map is ranged over;
  the first error ends the loop.\<close>

fun WriteFilterIP ::
  "(string \<Rightarrow> byte list option) \<Rightarrow> ('f \<Rightarrow> u32 \<Rightarrow> u32 \<Rightarrow> int \<times> 'f) \<Rightarrow> endpoint list \<Rightarrow> 'f \<Rightarrow> unit go \<times> 'f" where
  "WriteFilterIP v6 put [] flt = (Inr (), flt)"
| "WriteFilterIP v6 put (e # es) flt =
    (case ipv4ToUint32 (ParseIP v6 (ep_IP e)) of
       Inl x \<Rightarrow> (Inl x, flt)
     | Inr k \<Rightarrow>
         let (rc, flt') = put flt k 1
         in if rc \<noteq> 0 then (Inl (GoErr ''write filter ip map failed''), flt')
            else WriteFilterIP v6 put es flt')"

definition http_Registry ::
  "(string \<Rightarrow> byte list option) \<Rightarrow> ('f \<Rightarrow> u32 \<Rightarrow> u32 \<Rightarrow> int \<times> 'f) \<Rightarrow> ('f \<Rightarrow> u32 \<Rightarrow> int \<times> 'f) \<Rightarrow>
   'f endpoint2pod \<Rightarrow> 'f endpoint2pod" where
  "http_Registry v6 put del i = register_handlers (AddFilterIP v6 put) (DeleteFilterIP v6 del) i"

section \<open>Which keys they touch\<close>

text \<open>An endpoint whose address is an IPv4 address in text form.\<close>

definition ipv4_endpoint :: "endpoint \<Rightarrow> bool" where
  "ipv4_endpoint e \<longleftrightarrow> (\<exists>b. length b = 4 \<and> ep_IP e = ip4_String b)"

lemma filter_key_zero: "ipv4_endpoint e \<Longrightarrow> ipv4ToUint32 (ParseIP v6 (ep_IP e)) = Inr 0"
  by (auto simp: ipv4_endpoint_def ParseIP_ip4_String ipv4ToUint32_mapped)

text \<open>A text that is no address makes the conversion index into a nil slice.\<close>

lemma filter_key_panic: "ParseIP v6 (ep_IP e) = [] \<Longrightarrow> \<exists>m. ipv4ToUint32 (ParseIP v6 (ep_IP e)) = Inl (GoPanic m)"
  by (simp add: ipv4ToUint32_def go_index_def)

text \<open>The handlers' effect on a map that holds at most the key 0.\<close>

lemma AddFilterIP_zero:
  assumes "bpf_hash_map look put store del" and "ipv4_endpoint e" and "dom (look flt) \<subseteq> {0}"
  shows "dom (look (snd (AddFilterIP v6 put e p flt))) \<subseteq> {0}"
    and "\<not> (\<exists>m. fst (AddFilterIP v6 put e p flt) = Inl (GoPanic m))"
  using bpf_hash_map.update_cases [OF assms(1), of flt 0 1] assms(3)
  by (auto simp: AddFilterIP_def filter_key_zero [OF assms(2)] split_def Let_def split: if_splits)

lemma DeleteFilterIP_zero:
  assumes "bpf_hash_map look put store del" and "ipv4_endpoint e" and "dom (look flt) \<subseteq> {0}"
  shows "look (snd (DeleteFilterIP v6 del e p flt)) = Map.empty"
    and "\<not> (\<exists>m. fst (DeleteFilterIP v6 del e p flt) = Inl (GoPanic m))"
proof -
  have "(look flt)(0 := None) = Map.empty" using assms(3) by (auto simp: fun_eq_iff dom_def)
  then show "look (snd (DeleteFilterIP v6 del e p flt)) = Map.empty"
    and "\<not> (\<exists>m. fst (DeleteFilterIP v6 del e p flt) = Inl (GoPanic m))"
    using bpf_hash_map.delete_removes [OF assms(1), of flt 0]
    by (auto simp: DeleteFilterIP_def filter_key_zero [OF assms(2)] split_def Let_def split: if_splits)
qed

lemma WriteFilterIP_zero:
  assumes "bpf_hash_map look put store del" and "\<forall>e \<in> set es. ipv4_endpoint e" and "dom (look flt) \<subseteq> {0}"
  shows "dom (look (snd (WriteFilterIP v6 put es flt))) \<subseteq> {0}"
  using assms(2,3)
proof (induction es arbitrary: flt)
  case Nil
  then show ?case by simp
next
  case (Cons e es)
  then have "dom (look (snd (put flt 0 1))) \<subseteq> {0}"
    using bpf_hash_map.update_cases [OF assms(1), of flt 0 1] by auto
  with Cons show ?case by (simp add: filter_key_zero split_def Let_def)
qed

text \<open>After a complete copy the keys of the copied endpoints are in the map, and no other key has changed.\<close>

lemma WriteFilterIP_keys:
  assumes "bpf_hash_map look put store del" and "WriteFilterIP v6 put es flt = (Inr (), flt')"
  shows "look flt' k = (if \<exists>e \<in> set es. ipv4ToUint32 (ParseIP v6 (ep_IP e)) = Inr k then Some 1 else look flt k)"
  using assms(2)
proof (induction es arbitrary: flt)
  case (Cons e es)
  obtain x where x: "ipv4ToUint32 (ParseIP v6 (ep_IP e)) = Inr x" using Cons.prems by (simp split: sum.splits)
  then have ok: "fst (put flt x 1) = 0" and rest: "WriteFilterIP v6 put es (snd (put flt x 1)) = (Inr (), flt')"
    using Cons.prems by (simp_all add: split_def Let_def split: if_splits)
  show ?case using x Cons.IH [OF rest] bpf_hash_map.update_ok [OF assms(1) ok] by auto
qed simp

text \<open>A history of the map: written at start, then changed by the handlers.\<close>

inductive filter_history ::
  "(string \<Rightarrow> byte list option) \<Rightarrow> ('f \<Rightarrow> u32 \<Rightarrow> u32 \<Rightarrow> int \<times> 'f) \<Rightarrow> ('f \<Rightarrow> u32 \<Rightarrow> int \<times> 'f) \<Rightarrow> 'f \<Rightarrow> 'f \<Rightarrow> bool"
  for v6 put del flt0 where
  fh_write: "\<forall>e \<in> set es. ipv4_endpoint e \<Longrightarrow>
    filter_history v6 put del flt0 (snd (WriteFilterIP v6 put es flt0))"
| fh_add: "filter_history v6 put del flt0 flt \<Longrightarrow> ipv4_endpoint e \<Longrightarrow>
    filter_history v6 put del flt0 (snd (AddFilterIP v6 put e p flt))"
| fh_delete: "filter_history v6 put del flt0 flt \<Longrightarrow> ipv4_endpoint e \<Longrightarrow>
    filter_history v6 put del flt0 (snd (DeleteFilterIP v6 del e p flt))"

lemma filter_history_zero:
  assumes "filter_history v6 put del flt0 flt" and "bpf_hash_map look put store del"
    and "look flt0 = Map.empty"
  shows "dom (look flt) \<subseteq> {0}"
  using assms(1)
proof (induction rule: filter_history.induct)
  case (fh_write es)
  then show ?case using WriteFilterIP_zero [OF assms(2)] assms(3) by (metis dom_empty empty_subsetI)
next
  case (fh_add flt e p)
  then show ?case using AddFilterIP_zero(1) [OF assms(2)] by blast
next
  case (fh_delete flt e p)
  then show ?case using DeleteFilterIP_zero(1) [OF assms(2)] by (metis dom_empty empty_subsetI)
qed

end
