(* ===== verification/Agent_Properties.thy ===== *)
theory Agent_Properties
  imports Filter_Ip Probe_Properties Http_Samples
begin

text \<open>
  Properties of the agent: what the kernel programs write is what the agent reads, what its metrics say,
  when it panics, how the endpoint table follows the cluster, and what the agent's filter handlers do to
  the socket filter.
\<close>

section \<open>Records across the ring buffer\<close>

text \<open>C16: The agent reads back every member of \<^verbatim>\<open>struct packet\<close> from the bytes the filter wrote,
  whatever follows them; the record has the size of the C struct, and a shorter one is an error, not a
  panic.\<close>

theorem packet_record_roundtrip:
  assumes "packet_sized p"
  shows "read_httpPacket (packet_bytes p @ junk) = Inr (go_packet p)
    \<and> int (length (packet_bytes p)) = size_of packet_t
    \<and> (\<forall>n < length (packet_bytes p). \<exists>m. read_httpPacket (take n (packet_bytes p)) = Inl (GoErr m))"
proof -
  have "size_of packet_t = 296" by code_simp
  then show ?thesis
    using read_packet_bytes [OF assms] packet_record_size [OF assms]
      read_short_fails(1) [of "take n (packet_bytes p)" for n]
    by simp
qed

theorem packet_record_roundtrip_witness:
  "read_httpPacket (packet_bytes packet_zero) = Inr (go_packet packet_zero)"
  using packet_record_roundtrip [of packet_zero "[]"] by (simp add: packet_sized_def packet_zero_def)

text \<open>C26: The agent reads back every member of the two kprobe events.\<close>

theorem event_records_roundtrip:
  assumes "oom_event_sized e"
  shows "read_oomkillEvent (oom_event_bytes e @ junk) = Inr (go_oom_event e)
    \<and> int (length (oom_event_bytes e)) = size_of oom_event_t
    \<and> read_tcpsynblEvent (syn_event_bytes s @ junk) = Inr (go_syn_event s)
    \<and> int (length (syn_event_bytes s)) = size_of syn_event_t"
proof -
  have "size_of oom_event_t = 176" "size_of syn_event_t = 12" by code_simp+
  then show ?thesis
    using read_oom_event_bytes [OF assms] length_oom_event_bytes [OF assms] read_syn_event_bytes
      length_syn_event_bytes
    by simp
qed

theorem event_records_roundtrip_witness:
  "read_oomkillEvent (oom_event_bytes oom_event_zero) = Inr (go_oom_event oom_event_zero)"
  using event_records_roundtrip [of oom_event_zero "[]"] by (simp add: oom_event_sized_def oom_event_zero_def)

section \<open>Metrics\<close>

text \<open>Two roundings of a number of nanoseconds.\<close>

lemma duration_ms_error:
  assumes "unat d = ns"
  shows "\<bar>duration_ms d - of_nat ns / 1000000\<bar> \<le> of_nat ns / 1000000 * (1 / 2 ^ 23 + 1 / 2 ^ 48)"
proof -
  have u: "(of_int (uint d) :: rat) = of_nat ns" using assms by (metis of_int_of_nat_eq uint_nat)
  have "0 \<le> (of_int (uint d) :: rat)" unfolding u by simp
  from f32_div_error [OF this, of 1000000] show ?thesis by (simp only: duration_ms_def f32_of_int_def u)
qed

text \<open>Reading and decoding a completed request.\<close>

lemma completed_sized: "request_ok k q \<Longrightarrow> length st = 3 \<Longrightarrow> packet_sized (complete_req now n st q)"
  by (simp add: packet_sized_def complete_req_def request_ok_def http_consts)

lemma decode_completed:
  assumes "request_ok k q" and "p_method q = of_int (method_val m)" and "length st = 3"
    and "GetPodByEndpoint i (ip4_String (intToIP (k_dst_ip k))) (ucast (bpf_ntohs c (k_dst_port k))) = Some pr"
  shows "\<exists>tr. go_bind (read_httpPacket (packet_bytes (complete_req now n st q))) (http_DecodeMapItem (GetPodByEndpoint i))
        = Inr tr
    \<and> tr_Method tr = method_name m \<and> tr_Code tr = gostr st
    \<and> tr_URL tr = TrimRight (gostr (p_url q)) (char_of (0 :: int))
    \<and> tr_DstPort tr = bpf_ntohs c (k_dst_port k) \<and> tr_SrcPort tr = bpf_ntohs c (k_src_port k)
    \<and> tr_DstIP tr = ip4_String (intToIP (k_dst_ip k)) \<and> tr_PodName tr = pr_PodName pr
    \<and> tr_ServiceName tr = pr_ServiceName pr \<and> tr_NameSpace tr = pr_NameSpace pr
    \<and> tr_NodeName tr = pr_NodeName pr \<and> tr_Duration tr = duration_ms (ucast (now - ucast (p_duration q)))"
proof -
  let ?p = "complete_req now n st q"
  have rd: "read_httpPacket (packet_bytes ?p) = Inr (go_packet ?p)"
    using read_packet_bytes [OF completed_sized [OF assms(1,3)], of now n "[]"] by simp
  have port: "Ntohs x = bpf_ntohs c x" for x by (simp add: Ntohs_swaps bpf_ntohs_def bpf_swab16_bswap)
  show ?thesis
    unfolding rd go_bind.simps
    using assms by (simp add: http_DecodeMapItem_def go_packet_def complete_req_def request_ok_def port
        MethodToString_method)
qed

definition sample_provider :: provider where
  "sample_provider = \<lparr>pr_PodName = ''web-0'', pr_NodeName = ''node-1'', pr_NameSpace = ''shop'',
     pr_ServiceName = ''web''\<rparr>"

definition sample_table :: "unit endpoint2pod" where
  "sample_table = \<lparr>Providers = [\<lparr>ep_IP = ''10.244.0.7'', ep_Port = 80\<rparr> \<mapsto> sample_provider],
     AddEventHandlers = [], DeleteEventHandlers = [], hstate = ()\<rparr>"

lemma sample_lookup:
  "GetPodByEndpoint sample_table (ip4_String (intToIP (k_dst_ip sample_key)))
     (ucast (bpf_ntohs False (k_dst_port sample_key))) = Some sample_provider"
proof -
  have "ip4_String (intToIP (k_dst_ip sample_key)) = ''10.244.0.7''" by code_simp
  moreover have "(ucast (bpf_ntohs False (k_dst_port sample_key)) :: 32 word) = 80" by code_simp
  ultimately show ?thesis by (simp add: GetPodByEndpoint_def sample_table_def)
qed

lemma sample_packet_method: "p_method sample_packet = of_int (method_val M_GET)"
  by (simp add: sample_packet_def request_of_def)

text \<open>A record whose destination the endpoint table does not know produces an error and no metric.\<close>

theorem http_unknown_endpoint:
  assumes "packet_sized p"
  shows "(\<exists>tr. go_bind (read_httpPacket (packet_bytes p)) (http_DecodeMapItem (GetPodByEndpoint i)) = Inr tr) \<longleftrightarrow>
    Providers i \<lparr>ep_IP = ip4_String (intToIP (p_dst_ip p)), ep_Port = ucast (Ntohs (p_dst_port p))\<rparr> \<noteq> None"
  using read_packet_bytes [OF assms, of "[]"]
  by (simp add: http_DecodeMapItem_def GetPodByEndpoint_def go_packet_def Let_def split: option.splits)

theorem http_unknown_endpoint_witness:
  "\<not> (\<exists>tr. go_bind (read_httpPacket (packet_bytes packet_zero)) (http_DecodeMapItem (GetPodByEndpoint sample_table))
     = Inr tr)"
proof -
  have "packet_sized packet_zero" by (simp add: packet_sized_def packet_zero_def)
  moreover have "ip4_String (intToIP (p_dst_ip packet_zero)) = ''0.0.0.0''" by code_simp
  ultimately show ?thesis using http_unknown_endpoint [of packet_zero sample_table] by (simp add: sample_table_def)
qed

text \<open>C27: The duration of a metric differs from the record's nanoseconds over a million by a relative error
  of at most \<open>2 ^ -23 + 2 ^ -48\<close>, the error of two single-precision roundings.\<close>

theorem duration_metric_error:
  "\<bar>duration_ms d - of_int (uint d) / 1000000\<bar> \<le> of_int (uint d) / 1000000 * (1 / 2 ^ 23 + 1 / 2 ^ 48)"
proof -
  have "(of_int (uint d) :: rat) = of_nat (unat d)" by (metis of_int_of_nat_eq uint_nat)
  then show ?thesis using duration_ms_error [OF refl, of d] by simp
qed

section \<open>Panics\<close>

text \<open>The OOM decoder panics exactly when one of the three texts has no NUL byte or the pod lookup
  panics; otherwise it returns a metric, also for processes of no pod.\<close>

theorem oom_decode_total:
  "(\<exists>metric. oomkill_DecodeMapItem pod ev = Inr metric) \<longleftrightarrow>
     0 \<in> set (ok_Fcomm ev) \<and> 0 \<in> set (ok_Tcomm ev) \<and> 0 \<in> set (ok_Message ev) \<and>
     (\<forall>m. pod (ok_Tpid ev) \<noteq> Inl (GoPanic m))"
  by (auto simp: oomkill_Decode_cases split: sum.splits go_fail.splits)

section \<open>The endpoint table\<close>

text \<open>An object with one pod of this node, and the table before and after it is added.\<close>

definition sample_en :: "string \<Rightarrow> endpoints" where
  "sample_en service = \<lparr>en_Name = service, en_Subsets = [\<lparr>ss_Addresses = [\<lparr>ad_IP = ''10.244.0.7'',
     ad_NodeName = Some ''node-1'', ad_TargetRef = Some \<lparr>tg_Name = ''web-0'', tg_Namespace = ''shop''\<rparr>\<rparr>],
     ss_Ports = [80]\<rparr>]\<rparr>"

definition empty_table :: "unit endpoint2pod" where
  "empty_table = \<lparr>Providers = Map.empty, AddEventHandlers = [], DeleteEventHandlers = [], hstate = ()\<rparr>"

lemma sample_en_simps:
  "pairs (sample_en sv) = [(\<lparr>ad_IP = ''10.244.0.7'', ad_NodeName = Some ''node-1'',
     ad_TargetRef = Some \<lparr>tg_Name = ''web-0'', tg_Namespace = ''shop''\<rparr>\<rparr>, 80)]"
  "targets_ok ''node-1'' (sample_en sv)"
  "local_keys ''node-1'' (sample_en sv) = {\<lparr>ep_IP = ''10.244.0.7'', ep_Port = 80\<rparr>}"
proof -
  show p: "pairs (sample_en sv) = [(\<lparr>ad_IP = ''10.244.0.7'', ad_NodeName = Some ''node-1'',
     ad_TargetRef = Some \<lparr>tg_Name = ''web-0'', tg_Namespace = ''shop''\<rparr>\<rparr>, 80)]"
    by (simp add: pairs_def sample_en_def)
  then show "targets_ok ''node-1'' (sample_en sv)"
    and "local_keys ''node-1'' (sample_en sv) = {\<lparr>ep_IP = ''10.244.0.7'', ep_Port = 80\<rparr>}"
    by (auto simp: targets_ok_def local_keys_def local_address_def p)
qed




text \<open>An update of an object is its deletion followed by the addition of the new version; on calm
  handlers neither panics, and the table loses the old keys and gains the new entries.\<close>

theorem update_deletes_then_adds:
  assumes "list_all calm (AddEventHandlers i)" and "list_all calm (DeleteEventHandlers i)"
    and "targets_ok n old" and "targets_ok n new"
  shows "updateEndpoints n old new i = go_bind (deleteEndpoints n old i) (addEndpoints n new) \<and>
    (\<exists>j. updateEndpoints n old new i = Inr j \<and>
      Providers j = Providers i |` (- local_keys n old) ++ table n new)"
  using updateEndpoints_is updateEndpoints_effect [OF assms] by blast

theorem update_deletes_then_adds_witness:
  "\<exists>j. updateEndpoints ''node-1'' (sample_en ''web'') (sample_en ''api'') sample_table = Inr j \<and>
     dom (Providers j) = {\<lparr>ep_IP = ''10.244.0.7'', ep_Port = 80\<rparr>}"
proof -
  have "list_all calm (AddEventHandlers sample_table)" "list_all calm (DeleteEventHandlers sample_table)"
    by (simp_all add: sample_table_def)
  from update_deletes_then_adds [OF this sample_en_simps(2,2), of "''web''" "''api''"]
  obtain j where "updateEndpoints ''node-1'' (sample_en ''web'') (sample_en ''api'') sample_table = Inr j"
    "Providers j = Providers sample_table |` (- local_keys ''node-1'' (sample_en ''web'')) ++
      table ''node-1'' (sample_en ''api'')"
    by blast
  moreover have "Providers sample_table |` (- local_keys ''node-1'' (sample_en ''web'')) = Map.empty"
    by (simp add: sample_en_simps sample_table_def restrict_map_def fun_eq_iff)
  ultimately show ?thesis
    using dom_table [OF sample_en_simps(2), of "''api''"] by (simp add: sample_en_simps(3))
qed

text \<open>C28: Deleting one object removes an address and port that another object still serves: the table keeps
  no count of the objects behind an entry.\<close>

theorem delete_drops_shared_endpoint:
  assumes "list_all calm (AddEventHandlers i)" and "list_all calm (DeleteEventHandlers i)"
    and "targets_ok n a" and "targets_ok n b" and "k \<in> local_keys n a" and "k \<in> local_keys n b"
  shows "\<exists>j l. addEndpoints n a i = Inr j \<and> go_bind (addEndpoints n b j) (deleteEndpoints n b) = Inr l \<and>
    Providers j k \<noteq> None \<and> Providers l k = None"
proof -
  obtain j where j: "addEndpoints n a i = Inr j" "same_handlers i j" "Providers j = Providers i ++ table n a"
    using addEndpoints_effect [OF assms(1,3)] by blast
  then have "list_all calm (AddEventHandlers j)" "list_all calm (DeleteEventHandlers j)"
    using assms(1,2) by (simp_all add: same_handlers_def)
  then obtain m where m: "addEndpoints n b j = Inr m" "same_handlers j m"
    using addEndpoints_effect assms(4) by blast
  then have "list_all calm (DeleteEventHandlers m)"
    using \<open>list_all calm (DeleteEventHandlers j)\<close> by (simp add: same_handlers_def)
  then obtain l where l: "deleteEndpoints n b m = Inr l" "Providers l = Providers m |` (- local_keys n b)"
    using deleteEndpoints_effect assms(4) by blast
  have "k \<in> dom (table n a)" using assms(5) dom_table [OF assms(3)] by simp
  then have "Providers j k \<noteq> None" using j(3) by auto
  moreover have "Providers l k = None" using l(2) assms(6) by simp
  ultimately show ?thesis using j(1) m(1) l(1) by auto
qed

theorem delete_drops_shared_endpoint_witness:
  "\<exists>j l. addEndpoints ''node-1'' (sample_en ''web'') empty_table = Inr j \<and>
     go_bind (addEndpoints ''node-1'' (sample_en ''api'') j) (deleteEndpoints ''node-1'' (sample_en ''api'')) = Inr l \<and>
     Providers l \<lparr>ep_IP = ''10.244.0.7'', ep_Port = 80\<rparr> = None"
  using delete_drops_shared_endpoint [of empty_table "''node-1''" "sample_en ''web''" "sample_en ''api''"
      "\<lparr>ep_IP = ''10.244.0.7'', ep_Port = 80\<rparr>"]
  by (auto simp: sample_en_simps empty_table_def)

section \<open>The agent's filter\<close>

text \<open>C23: However the agent's handlers filled the \<open>filter_ip\<close> map from IPv4 endpoints, the map never
  drops a TCP segment of a real connection: a request is handled unless both its addresses are
  \<open>0.0.0.0\<close>.\<close>

theorem agent_filter_never_drops:
  assumes "filter_history v6 put del flt0 (filter_ip s)"
    and "bpf_hash_map (filter_lookup E) put store del" and "filter_lookup E flt0 = Map.empty"
    and "v = view_frame (skb_load_bytes E) f" and "view_tcp v" and "is_http_request (fv_pre_char v) \<noteq> 0"
    and "iph_saddr (fv_iph v) \<noteq> 0 \<or> iph_daddr (fv_iph v) \<noteq> 0"
  shows "fst (socket_filter_http E now f s) = 0"
proof -
  have "dom (filter_lookup E (filter_ip s)) \<subseteq> {0}" by (rule filter_history_zero [OF assms(1-3)])
  then have "\<not> view_filtered (listed_in E (filter_ip s)) v"
    using assms(7) by (auto simp: view_filtered_def listed_in_def)
  with assms(4-6) show ?thesis by (simp add: socket_filter_http_view Let_def)
qed

theorem agent_filter_never_drops_witness:
  "fst (socket_filter_http ref_http_env 1000 sample_request
     (http_init\<lparr>filter_ip := snd (AddFilterIP (\<lambda>_. None) ref_update \<lparr>ep_IP = ''10.244.0.7'', ep_Port = 80\<rparr>
        sample_provider (filter_ip http_init))\<rparr>)) = 0"
proof -
  let ?e = "\<lparr>ep_IP = ''10.244.0.7'', ep_Port = 80\<rparr>" and ?f0 = "filter_ip http_init"
  have "ip4_String [10, 244, 0, 7] = ''10.244.0.7''" by code_simp
  then have "ipv4_endpoint ?e" by (auto simp: ipv4_endpoint_def intro!: exI [of _ "[10, 244, 0, 7]"])
  then have "filter_history (\<lambda>_. None) ref_update ref_delete ?f0
      (snd (AddFilterIP (\<lambda>_. None) ref_update ?e sample_provider ?f0))"
    using fh_add [OF fh_write [of "[]"]] by auto
  moreover have "bpf_hash_map (filter_lookup ref_http_env) ref_update ref_store ref_delete"
    by (simp add: ref_http_env_def ref_hash.bpf_hash_map_axioms)
  moreover have "filter_lookup ref_http_env ?f0 = Map.empty"
    by (simp add: ref_http_env_def http_init_def ref_lookup_def fun_eq_iff)
  moreover have "iph_saddr (fv_iph (view_frame ref_load sample_request)) = 0x0500f40a" by code_simp
  ultimately show ?thesis
    using agent_filter_never_drops [where s = "http_init\<lparr>filter_ip := snd (AddFilterIP (\<lambda>_. None) ref_update ?e
        sample_provider ?f0)\<rparr>" and f = sample_request and E = ref_http_env] sample_views(1) sample_is_request(1)
    by (simp add: ref_http_load)
qed

end
