(* ===== verification/Metrics.thy ===== *)
theory Metrics
  imports Agent_Decode
begin

text \<open>
  The metric type of \<^verbatim>\<open>src/internal/metric/metric.go\<close>, the conversions of the three plugins into
  it, and the point buffer of \<^verbatim>\<open>src/internal/influxdb/influxdb.go\<close>.  A Go map is nil or a finite
  map; ranging over one visits its keys in an order the program does not control, so every range loop
  takes that order as an argument.  The client library is an interface: the constructors of a point
  (\<open>influx_points\<close>) and the blocking write (\<open>influx_server\<close>).
\<close>

section \<open>Metrics\<close>

datatype field = F32 rat | U64 u64 | Str string

record metric =
  Measurement :: string
  Tags :: "(string \<Rightarrow> string option) option"
  Fields :: "(string \<Rightarrow> field option) option"

text \<open>\<^verbatim>\<open>var m metric.Metric\<close>: both maps are nil.\<close>

definition metric_zero :: metric where
  "metric_zero = \<lparr>Measurement = '''', Tags = None, Fields = None\<rparr>"

definition AddTags :: "string \<Rightarrow> string \<Rightarrow> metric \<Rightarrow> metric" where
  "AddTags k v m =
    (let tags = (case Tags m of None \<Rightarrow> Map.empty | Some t \<Rightarrow> t)
     in m\<lparr>Tags := Some (tags(k \<mapsto> v))\<rparr>)"

definition AddField :: "string \<Rightarrow> field \<Rightarrow> metric \<Rightarrow> metric" where
  "AddField k v m =
    (let fields = (case Fields m of None \<Rightarrow> Map.empty | Some t \<Rightarrow> t)
     in m\<lparr>Fields := Some (fields(k \<mapsto> v))\<rparr>)"

definition traffic_CovertMetric :: "traffic \<Rightarrow> metric" where
  "traffic_CovertMetric m =
    (let x = metric_zero\<lparr>Measurement := ''traffic''\<rparr>;
         x = AddTags ''podname'' (tr_PodName m) x;
         x = AddTags ''nodename'' (tr_NodeName m) x;
         x = AddTags ''namespace'' (tr_NameSpace m) x;
         x = AddTags ''servicename'' (tr_ServiceName m) x;
         x = AddTags ''type'' (Itoa (uint (tr_Type m))) x;
         x = AddTags ''flow'' (Itoa (tr_Flow m)) x;
         x = AddTags ''dstip'' (tr_DstIP m) x;
         x = AddTags ''dstport'' (Itoa (uint (tr_DstPort m))) x;
         x = AddTags ''srcip'' (tr_SrcIP m) x;
         x = AddTags ''srcport'' (Itoa (uint (tr_SrcPort m))) x;
         x = AddTags ''method'' (tr_Method m) x;
         x = AddTags ''url'' (tr_URL m) x;
         x = AddTags ''code'' (tr_Code m) x
     in AddField ''duration'' (F32 (tr_Duration m)) x)"

definition oomkill_CovertMetric :: "oom_metric \<Rightarrow> metric" where
  "oomkill_CovertMetric m =
    (let x = metric_zero\<lparr>Measurement := ''oomkill''\<rparr>;
         x = AddTags ''poduid'' (pf_PodUID m) x;
         x = AddTags ''podname'' (pf_PodName m) x;
         x = AddTags ''nodename'' (pf_NodeName m) x;
         x = AddTags ''namespace'' (pf_Namespace m) x;
         x = AddTags ''containerid'' (pf_ContainerID m) x;
         x = AddTags ''containername'' (pf_ContainerName m) x;
         x = AddTags ''pid'' (Itoa (uint (om_Pid m))) x;
         x = AddTags ''comm'' (om_Comm m) x;
         x = AddTags ''triggerpid'' (Itoa (uint (om_TriggerPid m))) x;
         x = AddTags ''triggercomm'' (om_TriggerComm m) x;
         x = AddTags ''message'' (om_Message m) x
     in AddField ''pages'' (U64 (om_Pages m)) x)"

definition tcpsynbl_CovertMetric :: "syn_metric \<Rightarrow> metric" where
  "tcpsynbl_CovertMetric m =
    (let x = metric_zero\<lparr>Measurement := ''tcpsynbl''\<rparr>;
         x = AddTags ''poduid'' (pf_PodUID m) x;
         x = AddTags ''podname'' (pf_PodName m) x;
         x = AddTags ''nodename'' (pf_NodeName m) x;
         x = AddTags ''namespace'' (pf_Namespace m) x;
         x = AddTags ''containerid'' (pf_ContainerID m) x;
         x = AddTags ''containername'' (pf_ContainerName m) x;
         x = AddTags ''pid'' (Itoa (uint (sm_Pid m))) x;
         x = AddTags ''comm'' (sm_Comm m) x;
         x = AddField ''maxackbacklog'' (Str (Itoa (uint (sm_MaxAckBacklog m)))) x
     in AddField ''ackbacklog'' (Str (Itoa (uint (sm_AckBacklog m)))) x)"

text \<open>What a metric shows, whether its maps are nil or not.\<close>

definition tag_of :: "metric \<Rightarrow> string \<Rightarrow> string option" where
  "tag_of m k = (case Tags m of None \<Rightarrow> None | Some t \<Rightarrow> t k)"

definition field_of :: "metric \<Rightarrow> string \<Rightarrow> field option" where
  "field_of m k = (case Fields m of None \<Rightarrow> None | Some t \<Rightarrow> t k)"

lemma AddTags_effect [simp]:
  "tag_of (AddTags k v m) k' = (if k' = k then Some v else tag_of m k')"
  "field_of (AddTags k v m) = field_of m" "Measurement (AddTags k v m) = Measurement m"
  by (auto simp: AddTags_def tag_of_def field_of_def Let_def split: option.split)

lemma AddField_effect [simp]:
  "field_of (AddField k v m) k' = (if k' = k then Some v else field_of m k')"
  "tag_of (AddField k v m) = tag_of m" "Measurement (AddField k v m) = Measurement m"
  by (auto simp: AddField_def tag_of_def field_of_def Let_def split: option.split)

lemma metric_zero_empty [simp]: "tag_of metric_zero k = None" "field_of metric_zero k = None"
  "tag_of (metric_zero\<lparr>Measurement := n\<rparr>) k = None" "field_of (metric_zero\<lparr>Measurement := n\<rparr>) k = None"
  by (simp_all add: metric_zero_def tag_of_def field_of_def)

section \<open>The point buffer\<close>

text \<open>The constructors of a point, from the client library.\<close>

record 'p point_api =
  NewPointWithMeasurement :: "string \<Rightarrow> 'p"
  AddTag :: "'p \<Rightarrow> string \<Rightarrow> string \<Rightarrow> 'p"
  pt_AddField :: "'p \<Rightarrow> string \<Rightarrow> field \<Rightarrow> 'p"

text \<open>One iteration of a range loop over a map: the key of the iteration is present.\<close>

definition visit :: "('p \<Rightarrow> string \<Rightarrow> 'v \<Rightarrow> 'p) \<Rightarrow> (string \<Rightarrow> 'v option) \<Rightarrow> string \<Rightarrow> 'p \<Rightarrow> 'p" where
  "visit add m k p = (case m k of None \<Rightarrow> p | Some v \<Rightarrow> add p k v)"

text \<open>The point \<^verbatim>\<open>Write\<close> builds, with the orders of its two range loops.\<close>

definition make_point :: "'p point_api \<Rightarrow> string list \<Rightarrow> string list \<Rightarrow> metric \<Rightarrow> 'p" where
  "make_point A tks fks m =
    (let p = NewPointWithMeasurement A (Measurement m);
         p = fold (visit (AddTag A) (tag_of m)) tks p
     in fold (visit (pt_AddField A) (field_of m)) fks p)"

record 'p influxdb =
  Points :: "'p list"

definition Write :: "'p point_api \<Rightarrow> string list \<Rightarrow> string list \<Rightarrow> metric \<Rightarrow> 'p influxdb \<Rightarrow> 'p influxdb" where
  "Write A tks fks m i = i\<lparr>Points := Points i @ [make_point A tks fks m]\<rparr>"

definition ClearPoints :: "'p influxdb \<Rightarrow> 'p influxdb" where
  "ClearPoints i = i\<lparr>Points := []\<rparr>"

text \<open>\<^verbatim>\<open>WritePoint\<close> acts on the server's state and returns an error text or nothing.\<close>

definition Commit ::
  "('w \<Rightarrow> 'p list \<Rightarrow> string option \<times> 'w) \<Rightarrow> 'w \<times> 'p influxdb \<Rightarrow> string option \<times> 'w \<times> 'p influxdb" where
  "Commit WritePoint wi =
    (case wi of (w, i) \<Rightarrow>
      (case WritePoint w (Points i) of
         (Some err, w') \<Rightarrow> (Some err, w', i)
       | (None, w') \<Rightarrow> (None, w', ClearPoints i)))"

text \<open>The two users of the buffer, each under the lock: the main loop, which writes the metrics it
  receives, and the ticker of \<^verbatim>\<open>Run\<close>, which commits.\<close>

datatype db_op = OpWrite "string list" "string list" metric | OpCommit

fun db_step :: "'p point_api \<Rightarrow> ('w \<Rightarrow> 'p list \<Rightarrow> string option \<times> 'w) \<Rightarrow> db_op \<Rightarrow>
    'w \<times> 'p influxdb \<Rightarrow> 'w \<times> 'p influxdb" where
  "db_step A WritePoint (OpWrite tks fks m) (w, i) = (w, Write A tks fks m i)"
| "db_step A WritePoint OpCommit wi = snd (Commit WritePoint wi)"

fun db_run :: "'p point_api \<Rightarrow> ('w \<Rightarrow> 'p list \<Rightarrow> string option \<times> 'w) \<Rightarrow> db_op list \<Rightarrow>
    'w \<times> 'p influxdb \<Rightarrow> 'w \<times> 'p influxdb" where
  "db_run A WritePoint [] wi = wi"
| "db_run A WritePoint (x # xs) wi = db_run A WritePoint xs (db_step A WritePoint x wi)"

text \<open>The points the operations of a run build, in order.\<close>

fun points_of :: "'p point_api \<Rightarrow> db_op list \<Rightarrow> 'p list" where
  "points_of A [] = []"
| "points_of A (OpWrite tks fks m # xs) = make_point A tks fks m # points_of A xs"
| "points_of A (OpCommit # xs) = points_of A xs"

section \<open>Laws of the client library\<close>

text \<open>A point shows its measurement, and the last tag and field added under each name.\<close>

locale influx_points =
  fixes A :: "'p point_api" and pt_name :: "'p \<Rightarrow> string" and pt_tag :: "'p \<Rightarrow> string \<Rightarrow> string option"
    and pt_field :: "'p \<Rightarrow> string \<Rightarrow> field option"
  assumes new_point: "pt_name (NewPointWithMeasurement A n) = n"
      "pt_tag (NewPointWithMeasurement A n) k = None" "pt_field (NewPointWithMeasurement A n) k = None"
    and add_tag: "pt_name (AddTag A p k v) = pt_name p" "pt_tag (AddTag A p k v) = (pt_tag p)(k \<mapsto> v)"
      "pt_field (AddTag A p k v) = pt_field p"
    and add_field: "pt_name (pt_AddField A p k f) = pt_name p" "pt_tag (pt_AddField A p k f) = pt_tag p"
      "pt_field (pt_AddField A p k f) = (pt_field p)(k \<mapsto> f)"
begin

lemma fold_tags:
  "pt_name (fold (visit (AddTag A) t) ks p) = pt_name p"
  "pt_field (fold (visit (AddTag A) t) ks p) = pt_field p"
  "pt_tag (fold (visit (AddTag A) t) ks p) k = (if k \<in> set ks \<and> t k \<noteq> None then t k else pt_tag p k)"
  by (induction ks arbitrary: p) (auto simp: visit_def add_tag split: option.split)

lemma fold_fields:
  "pt_name (fold (visit (pt_AddField A) t) ks p) = pt_name p"
  "pt_tag (fold (visit (pt_AddField A) t) ks p) = pt_tag p"
  "pt_field (fold (visit (pt_AddField A) t) ks p) k = (if k \<in> set ks \<and> t k \<noteq> None then t k else pt_field p k)"
  by (induction ks arbitrary: p) (auto simp: visit_def add_field split: option.split)

text \<open>Whatever the orders of the loops, the point shows the metric.\<close>

lemma point_shows_metric:
  assumes "dom (tag_of m) \<subseteq> set tks" and "dom (field_of m) \<subseteq> set fks"
  shows "pt_name (make_point A tks fks m) = Measurement m"
    and "pt_tag (make_point A tks fks m) = tag_of m" and "pt_field (make_point A tks fks m) = field_of m"
proof -
  show "pt_name (make_point A tks fks m) = Measurement m"
    by (simp add: make_point_def fold_tags fold_fields new_point)
  show "pt_tag (make_point A tks fks m) = tag_of m"
  proof
    fix k
    have "k \<notin> set tks \<Longrightarrow> tag_of m k = None" using assms(1) by auto
    then show "pt_tag (make_point A tks fks m) k = tag_of m k"
      by (cases "tag_of m k") (auto simp: make_point_def fold_tags fold_fields new_point)
  qed
  show "pt_field (make_point A tks fks m) = field_of m"
  proof
    fix k
    have "k \<notin> set fks \<Longrightarrow> field_of m k = None" using assms(2) by auto
    then show "pt_field (make_point A tks fks m) k = field_of m k"
      by (cases "field_of m k") (auto simp: make_point_def fold_tags fold_fields new_point)
  qed
qed

end

text \<open>A write that succeeds stores all its points behind those already stored.\<close>

locale influx_server =
  fixes WritePoint :: "'w \<Rightarrow> 'p list \<Rightarrow> string option \<times> 'w" and stored :: "'w \<Rightarrow> 'p list"
  assumes write_ok: "WritePoint w ps = (None, w') \<Longrightarrow> stored w' = stored w @ ps"
    and write_keeps: "set (stored w) \<subseteq> set (stored (snd (WritePoint w ps)))"
begin

text \<open>No point is lost: it is stored or still in the buffer, whatever the server answers.\<close>

lemma commit_keeps:
  "set (stored w) \<union> set (Points i) \<subseteq>
   set (stored (fst (snd (Commit WritePoint (w, i))))) \<union> set (Points (snd (snd (Commit WritePoint (w, i)))))"
proof (cases "WritePoint w (Points i)")
  case (Pair e w')
  then show ?thesis
    using write_ok [of w "Points i" w'] write_keeps [of w "Points i"]
    by (cases e) (auto simp: Commit_def)
qed

lemma no_point_lost:
  "set (stored w) \<union> set (Points i) \<union> set (points_of A ops) \<subseteq>
   set (stored (fst (db_run A WritePoint ops (w, i)))) \<union> set (Points (snd (db_run A WritePoint ops (w, i))))"
proof (induction ops arbitrary: w i)
  case (Cons x xs)
  show ?case
  proof (cases x)
    case (OpWrite tks fks m)
    with Cons.IH [of w "Write A tks fks m i"] show ?thesis by (auto simp: Write_def)
  next
    case OpCommit
    obtain w' i' where s: "snd (Commit WritePoint (w, i)) = (w', i')" by (cases "snd (Commit WritePoint (w, i))")
    with Cons.IH [of w' i'] commit_keeps [of w i] OpCommit show ?thesis by auto
  qed
qed simp

end

text \<open>A server that stores nothing of a write it refuses stores every point once, in order.\<close>

locale atomic_influx_server = influx_server +
  assumes write_refused: "WritePoint w ps = (Some err, w') \<Longrightarrow> stored w' = stored w"
begin

lemma commit_order:
  "stored (fst (snd (Commit WritePoint (w, i)))) @ Points (snd (snd (Commit WritePoint (w, i)))) = stored w @ Points i"
proof (cases "WritePoint w (Points i)")
  case (Pair e w')
  then show ?thesis
    using write_ok [of w "Points i" w'] write_refused [of w "Points i" _ w']
    by (cases e) (auto simp: Commit_def ClearPoints_def)
qed

lemma stored_in_order:
  "stored (fst (db_run A WritePoint ops (w, i))) @ Points (snd (db_run A WritePoint ops (w, i))) =
   stored w @ Points i @ points_of A ops"
proof (induction ops arbitrary: w i)
  case (Cons x xs)
  show ?case
  proof (cases x)
    case (OpWrite tks fks m)
    with Cons.IH [of w "Write A tks fks m i"] show ?thesis by (simp add: Write_def)
  next
    case OpCommit
    obtain w' i' where s: "snd (Commit WritePoint (w, i)) = (w', i')" by (cases "snd (Commit WritePoint (w, i))")
    with Cons.IH [of w' i'] commit_order [of w i] OpCommit show ?thesis by simp
  qed
qed simp

text \<open>A commit the server accepts empties the buffer.\<close>

lemma accepted_commit:
  assumes "fst (Commit WritePoint (fst (db_run A WritePoint ops (w, i)), snd (db_run A WritePoint ops (w, i)))) = None"
  shows "stored (fst (db_run A WritePoint (ops @ [OpCommit]) (w, i))) = stored w @ Points i @ points_of A ops"
proof -
  have app: "db_run A WritePoint (xs @ ys) wi = db_run A WritePoint ys (db_run A WritePoint xs wi)" for xs ys wi
    by (induction xs arbitrary: wi) auto
  obtain w' i' where r: "db_run A WritePoint ops (w, i) = (w', i')" by (cases "db_run A WritePoint ops (w, i)")
  obtain w'' where c: "WritePoint w' (Points i') = (None, w'')"
    using assms r by (cases "WritePoint w' (Points i')") (auto simp: Commit_def split: option.splits)
  then show ?thesis using stored_in_order [where ops = ops and w = w and i = i and A = A] write_ok [OF c] r
    by (simp add: app Commit_def)
qed

end

text \<open>A metric that was written is a point somewhere, and the point shows it.\<close>

lemma written_kept:
  assumes "influx_points A nm tg fl" and "influx_server WP st"
    and "OpWrite tks fks m \<in> set ops" and "dom (tag_of m) \<subseteq> set tks" and "dom (field_of m) \<subseteq> set fks"
  shows "\<exists>p \<in> set (st (fst (db_run A WP ops (w, i)))) \<union> set (Points (snd (db_run A WP ops (w, i)))).
      nm p = Measurement m \<and> tg p = tag_of m \<and> fl p = field_of m"
proof -
  have "make_point A tks fks m \<in> set (points_of A ops)"
    using assms(3) by (induction ops rule: points_of.induct) auto
  then have "make_point A tks fks m \<in> set (st (fst (db_run A WP ops (w, i)))) \<union> set (Points (snd (db_run A WP ops (w, i))))"
    using influx_server.no_point_lost [OF assms(2)] by blast
  then show ?thesis using influx_points.point_shows_metric [OF assms(1,4,5)] by (intro bexI) simp_all
qed

section \<open>The interfaces on concrete clients\<close>

text \<open>A point as a record of its parts, and a server that keeps what it accepts and refuses a write
  while it is down.\<close>

record ref_point =
  rp_name :: string
  rp_tags :: "string \<Rightarrow> string option"
  rp_fields :: "string \<Rightarrow> field option"

definition ref_points :: "ref_point point_api" where
  "ref_points = \<lparr>NewPointWithMeasurement = (\<lambda>n. \<lparr>rp_name = n, rp_tags = Map.empty, rp_fields = Map.empty\<rparr>),
     AddTag = (\<lambda>p k v. p\<lparr>rp_tags := (rp_tags p)(k \<mapsto> v)\<rparr>),
     pt_AddField = (\<lambda>p k f. p\<lparr>rp_fields := (rp_fields p)(k \<mapsto> f)\<rparr>)\<rparr>"

interpretation ref_points: influx_points ref_points rp_name rp_tags rp_fields
  by unfold_locales (simp_all add: ref_points_def)

record 'p ref_server =
  sv_outages :: "bool list"
  sv_points :: "'p list"

definition ref_write :: "'p ref_server \<Rightarrow> 'p list \<Rightarrow> string option \<times> 'p ref_server" where
  "ref_write w ps =
    (case sv_outages w of
       True # os \<Rightarrow> (Some ''service unavailable'', w\<lparr>sv_outages := os\<rparr>)
     | os \<Rightarrow> (None, w\<lparr>sv_outages := tl os, sv_points := sv_points w @ ps\<rparr>))"

interpretation ref_server: atomic_influx_server ref_write sv_points
  by unfold_locales (auto simp: ref_write_def split: list.splits bool.splits)

end
