(* ===== verification/Red_Metric.thy ===== *)
theory Red_Metric
  imports Metrics
begin

text \<open>
  The aggregation of \<^verbatim>\<open>src/plugins/http/http.go\<close>: every traffic sample updates the counters of its
  pod and is passed on, and once a minute the rates of every pod are computed, sent and reset
  (\<^verbatim>\<open>src/plugins/http/red_metric.go\<close>).  Go's \<^verbatim>\<open>int\<close> is a 64-bit word read as signed, and
  \<^verbatim>\<open>float32\<close> arithmetic rounds after every operation.  The specification is \<open>red_of\<close>, computed
  from the samples of the current minute alone.
\<close>

section \<open>Data\<close>

record red =
  rd_PodName :: string
  rd_NodeName :: string
  rd_NameSpace :: string
  rd_ServiceName :: string
  rd_RequestCount :: "64 word"
  rd_ErrCount :: "64 word"
  rd_DurationCount :: "64 word"
  rd_QPS :: rat
  rd_ErrRate :: rat
  rd_Duration :: rat

definition RED_CovertMetric :: "red \<Rightarrow> metric" where
  "RED_CovertMetric r =
    (let m = metric_zero\<lparr>Measurement := ''red''\<rparr>;
         m = AddTags ''podname'' (rd_PodName r) m;
         m = AddTags ''nodename'' (rd_NodeName r) m;
         m = AddTags ''namespace'' (rd_NameSpace r) m;
         m = AddTags ''servicename'' (rd_ServiceName r) m;
         m = AddField ''qps'' (F32 (rd_QPS r)) m;
         m = AddField ''errrate'' (F32 (rd_ErrRate r)) m
     in AddField ''duration'' (F32 (rd_Duration r)) m)"

section \<open>The loop of Gather\<close>

text \<open>\<^verbatim>\<open>int(x)\<close> of a \<^verbatim>\<open>float32\<close>: the fraction is dropped.\<close>

definition int_of_f32 :: "rat \<Rightarrow> 64 word" where
  "int_of_f32 x = word_of_int (if x < 0 then \<lceil>x\<rceil> else \<lfloor>x\<rfloor>)"

text \<open>\<^verbatim>\<open>float32(n)\<close> of an \<^verbatim>\<open>int\<close>.\<close>

definition f32_of_word :: "64 word \<Rightarrow> rat" where
  "f32_of_word n = f32_of_int (sint n)"

type_synonym red_table = "string \<Rightarrow> red option"

definition red_sample :: "traffic \<Rightarrow> red_table \<Rightarrow> red_table" where
  "red_sample m redMetric =
    (let isErr = (if 499 < Atoi (tr_Code m) then 1 else 0)
     in case redMetric (tr_PodName m) of
          Some v \<Rightarrow> redMetric(tr_PodName m \<mapsto>
            v\<lparr>rd_RequestCount := rd_RequestCount v + 1, rd_ErrCount := rd_ErrCount v + isErr,
              rd_DurationCount := rd_DurationCount v + int_of_f32 (tr_Duration m)\<rparr>)
        | None \<Rightarrow> redMetric(tr_PodName m \<mapsto>
            \<lparr>rd_PodName = tr_PodName m, rd_NodeName = tr_NodeName m, rd_NameSpace = tr_NameSpace m,
             rd_ServiceName = tr_NameSpace m, rd_RequestCount = 1, rd_ErrCount = isErr,
             rd_DurationCount = int_of_f32 (tr_Duration m), rd_QPS = 0, rd_ErrRate = 0, rd_Duration = 0\<rparr>))"

definition red_rates :: "red \<Rightarrow> red" where
  "red_rates v =
    (let v = v\<lparr>rd_QPS := f32_div (f32_of_word (rd_RequestCount v)) 60\<rparr>;
         v = v\<lparr>rd_ErrRate := f32_mul (f32_div (f32_of_word (rd_ErrCount v)) (f32_of_word (rd_RequestCount v))) 100\<rparr>
     in v\<lparr>rd_Duration := f32_div (f32_of_word (rd_DurationCount v)) (f32_of_word (rd_RequestCount v))\<rparr>)"

text \<open>The range loop of the tick, over the keys in the order Go picks; every key is deleted once its
  metric is sent.\<close>

fun red_tick :: "string list \<Rightarrow> red_table \<Rightarrow> metric list \<times> red_table" where
  "red_tick [] redMetric = ([], redMetric)"
| "red_tick (k # ks) redMetric =
    (case redMetric k of
       None \<Rightarrow> red_tick ks redMetric
     | Some v \<Rightarrow> (let (c, redMetric) = red_tick ks (redMetric(k := None))
                 in (RED_CovertMetric (red_rates v) # c, redMetric)))"

datatype gather_event = Sample traffic | Tick "string list"

fun gather_step :: "gather_event \<Rightarrow> red_table \<Rightarrow> metric list \<times> red_table" where
  "gather_step (Sample m) redMetric = ([traffic_CovertMetric m], red_sample m redMetric)"
| "gather_step (Tick ks) redMetric = red_tick ks redMetric"

fun Gather :: "gather_event list \<Rightarrow> red_table \<Rightarrow> metric list \<times> red_table" where
  "Gather [] redMetric = ([], redMetric)"
| "Gather (e # es) redMetric =
    (let (c, redMetric) = gather_step e redMetric; (c', redMetric) = Gather es redMetric
     in (c @ c', redMetric))"

section \<open>Specification\<close>

text \<open>The counters of a pod from the samples of a minute.\<close>

definition pod_samples :: "string \<Rightarrow> traffic list \<Rightarrow> traffic list" where
  "pod_samples p ts = filter (\<lambda>m. tr_PodName m = p) ts"

definition failed :: "traffic \<Rightarrow> bool" where
  "failed m \<longleftrightarrow> 499 < Atoi (tr_Code m)"

definition red_of :: "string \<Rightarrow> traffic list \<Rightarrow> red option" where
  "red_of p ts =
    (case pod_samples p ts of
       [] \<Rightarrow> None
     | m # ms \<Rightarrow> Some \<lparr>rd_PodName = p, rd_NodeName = tr_NodeName m, rd_NameSpace = tr_NameSpace m,
         rd_ServiceName = tr_NameSpace m, rd_RequestCount = of_nat (length (m # ms)),
         rd_ErrCount = of_nat (length (filter failed (m # ms))),
         rd_DurationCount = sum_list (map (\<lambda>m. int_of_f32 (tr_Duration m)) (m # ms)),
         rd_QPS = 0, rd_ErrRate = 0, rd_Duration = 0\<rparr>)"

text \<open>The samples after the last tick, and traces whose ticks range over exactly the pods seen.\<close>

fun window_from :: "traffic list \<Rightarrow> gather_event list \<Rightarrow> traffic list" where
  "window_from ts [] = ts"
| "window_from ts (Sample m # es) = window_from (ts @ [m]) es"
| "window_from ts (Tick ks # es) = window_from [] es"

fun ticks_range_from :: "traffic list \<Rightarrow> gather_event list \<Rightarrow> bool" where
  "ticks_range_from ts [] = True"
| "ticks_range_from ts (Sample m # es) = ticks_range_from (ts @ [m]) es"
| "ticks_range_from ts (Tick ks # es) =
     (distinct ks \<and> set ks = set (map tr_PodName ts) \<and> ticks_range_from [] es)"

text \<open>What the channel should carry.\<close>

fun red_spec :: "traffic list \<Rightarrow> gather_event list \<Rightarrow> metric list" where
  "red_spec ts [] = []"
| "red_spec ts (Sample m # es) = traffic_CovertMetric m # red_spec (ts @ [m]) es"
| "red_spec ts (Tick ks # es) =
     map (\<lambda>k. RED_CovertMetric (red_rates (the (red_of k ts)))) ks @ red_spec [] es"

section \<open>The table is the window\<close>

lemma red_of_Nil [simp]: "red_of p [] = None"
  by (simp add: red_of_def pod_samples_def)

lemma red_of_None: "red_of p ts = None \<longleftrightarrow> p \<notin> set (map tr_PodName ts)"
proof -
  have "red_of p ts = None \<longleftrightarrow> pod_samples p ts = []" by (simp add: red_of_def split: list.split)
  then show ?thesis by (auto simp: pod_samples_def filter_empty_conv)
qed

lemma red_of_snoc: "red_of p (ts @ [m]) = red_sample m (\<lambda>p. red_of p ts) p"
proof (cases "tr_PodName m = p")
  case True
  show ?thesis
  proof (cases "pod_samples p ts")
    case Nil
    with True show ?thesis by (simp add: red_sample_def red_of_def pod_samples_def failed_def)
  next
    case (Cons a as)
    with True have "pod_samples p (ts @ [m]) = a # as @ [m]" by (simp add: pod_samples_def)
    with Cons True show ?thesis by (simp add: red_sample_def red_of_def failed_def Let_def)
  qed
next
  case False
  then have "pod_samples p (ts @ [m]) = pod_samples p ts" by (simp add: pod_samples_def)
  with False show ?thesis by (auto simp: red_sample_def red_of_def Let_def split: option.split)
qed

lemma red_tick_all:
  "distinct ks \<Longrightarrow> set ks = dom t \<Longrightarrow>
   red_tick ks t = (map (\<lambda>k. RED_CovertMetric (red_rates (the (t k)))) ks, Map.empty)"
proof (induction ks arbitrary: t)
  case Nil
  then have "dom t = {}" by simp
  then show ?case by (simp add: dom_eq_empty_conv)
next
  case (Cons k ks)
  then obtain v where v: "t k = Some v" by (metis domD list.set_intros(1))
  have "red_tick ks (t(k := None)) =
      (map (\<lambda>k'. RED_CovertMetric (red_rates (the ((t(k := None)) k')))) ks, Map.empty)"
  proof (rule Cons.IH)
    have "dom (t(k := None)) = dom t - {k}" by simp
    with Cons.prems show "set ks = dom (t(k := None))" by auto
  qed (use Cons.prems in simp)
  moreover have "map (\<lambda>k'. RED_CovertMetric (red_rates (the ((t(k := None)) k')))) ks =
      map (\<lambda>k'. RED_CovertMetric (red_rates (the (t k')))) ks"
    using Cons.prems(1) by (intro map_cong) auto
  ultimately show ?case using v by simp
qed

lemma gather_refines:
  "ticks_range_from ts es \<Longrightarrow>
   Gather es (\<lambda>p. red_of p ts) = (red_spec ts es, \<lambda>p. red_of p (window_from ts es))"
proof (induction es arbitrary: ts)
  case Nil
  then show ?case by simp
next
  case (Cons e es)
  show ?case
  proof (cases e)
    case (Sample m)
    have "red_sample m (\<lambda>p. red_of p ts) = (\<lambda>p. red_of p (ts @ [m]))" by (simp add: fun_eq_iff red_of_snoc)
    with Sample Cons show ?thesis by simp
  next
    case (Tick ks)
    have "dom (\<lambda>p. red_of p ts) = set (map tr_PodName ts)" using red_of_None by (auto simp: dom_def)
    with Tick Cons.prems red_tick_all [of ks "\<lambda>p. red_of p ts"] have
      "red_tick ks (\<lambda>p. red_of p ts) = (map (\<lambda>k. RED_CovertMetric (red_rates (the (red_of k ts)))) ks, Map.empty)"
      by simp
    moreover have "Gather es Map.empty = (red_spec [] es, \<lambda>p. red_of p (window_from [] es))"
      using Cons.IH [of "[]"] Cons.prems Tick by simp
    ultimately show ?thesis using Tick by simp
  qed
qed

section \<open>Rates\<close>

text \<open>Counts below \<open>2 ^ 63\<close> are read back as they are.\<close>

lemma f32_of_word_nat: "n < 2 ^ 63 \<Longrightarrow> f32_of_word (of_nat n) = f32 (of_nat n)"
proof -
  assume "n < 2 ^ 63"
  then have "int n < 2 ^ 63" by (metis of_nat_less_iff of_nat_numeral of_nat_power)
  then have "sint (of_nat n :: 64 word) = int n"
    by (simp only: signed_of_nat) (simp add: signed_take_bit_int_eq_self)
  then show ?thesis by (simp add: f32_of_word_def f32_of_int_def)
qed

lemma red_of_counts:
  assumes "red_of p ts = Some v"
  shows "rd_RequestCount v = of_nat (length (pod_samples p ts))"
    and "rd_ErrCount v = of_nat (length (filter failed (pod_samples p ts)))" and "pod_samples p ts \<noteq> []"
  using assms by (auto simp: red_of_def split: list.splits)

text \<open>The error rate is a percentage, and the request rate is right up to two roundings.\<close>

lemma red_rates_bounded:
  assumes "red_of p ts = Some v" and "length ts < 2 ^ 63"
  defines "n \<equiv> length (pod_samples p ts)"
  shows "0 \<le> rd_ErrRate (red_rates v)" and "rd_ErrRate (red_rates v) \<le> 100"
    and "\<bar>rd_QPS (red_rates v) - of_nat n / 60\<bar> \<le> of_nat n / 60 * (1 / 2 ^ 23 + 1 / 2 ^ 48)"
proof -
  let ?e = "length (filter failed (pod_samples p ts))"
  have "?e \<le> n" by (simp add: n_def)
  moreover have "n \<le> length ts" by (simp add: n_def pod_samples_def)
  ultimately have "n < 2 ^ 63" "?e < 2 ^ 63" using assms(2) by linarith+
  then have w: "f32_of_word (rd_RequestCount v) = f32 (of_nat n)" "f32_of_word (rd_ErrCount v) = f32 (of_nat ?e)"
    using red_of_counts(1,2) [OF assms(1)] by (simp_all only: f32_of_word_nat n_def)
  have "0 < n" using red_of_counts(3) [OF assms(1)] by (simp add: n_def)
  then have pos: "0 < f32 (of_nat n)" by (intro f32_positive) simp
  let ?q = "f32 (of_nat ?e) / f32 (of_nat n)"
  have le: "f32 (of_nat ?e) \<le> f32 (of_nat n)" using \<open>?e \<le> n\<close> by (intro f32_mono) simp_all
  then have "0 \<le> ?q" "?q \<le> 1" using pos f32_nonneg [of "of_nat ?e"] by (simp_all add: divide_le_eq)
  then have r: "0 \<le> f32 ?q" "f32 ?q \<le> 1" using f32_nonneg f32_le_small [of ?q 1] by simp_all
  have rate: "rd_ErrRate (red_rates v) = f32 (f32 ?q * 100)"
    by (simp add: red_rates_def w f32_mul_def f32_div_def)
  show "0 \<le> rd_ErrRate (red_rates v)" unfolding rate using r(1) by (intro f32_nonneg) simp
  show "rd_ErrRate (red_rates v) \<le> 100" unfolding rate using r f32_le_small [of "f32 ?q * 100" 100] by simp
  show "\<bar>rd_QPS (red_rates v) - of_nat n / 60\<bar> \<le> of_nat n / 60 * (1 / 2 ^ 23 + 1 / 2 ^ 48)"
    using f32_div_error [of "of_nat n" 60] by (simp add: red_rates_def w)
qed

end
