(* ===== verification/Go_Regexp.thy ===== *)
theory Go_Regexp
  imports Go_Lib
begin

text \<open>
  The part of Go's \<^verbatim>\<open>regexp\<close> and \<^verbatim>\<open>bufio\<close> that the agent uses: an unanchored leftmost-first
  search for a sequence of literals, dots, greedy repetitions of a character class and captured
  fixed-length repetitions, and the line scanner.  The matcher is shown sound and complete for the
  declarative relation \<open>rmatch\<close>.
\<close>

section \<open>Patterns\<close>

datatype char_class = Digit | NotNewline | HexUnderscore

definition newline :: char where
  "newline = CHR 0x0A"

fun in_class :: "char_class \<Rightarrow> char \<Rightarrow> bool" where
  "in_class Digit c = is_digit c"
| "in_class NotNewline c = (c \<noteq> newline)"
| "in_class HexUnderscore c = (is_digit c \<or> (97 \<le> (of_char c :: int) \<and> (of_char c :: int) \<le> 102) \<or> c = CHR ''_'')"

datatype re_item = Lit string | Dot | Plus char_class | Cap char_class nat

fun strip_prefix :: "string \<Rightarrow> string \<Rightarrow> string option" where
  "strip_prefix [] s = Some s"
| "strip_prefix (c # l) [] = None"
| "strip_prefix (c # l) (x # s) = (if x = c then strip_prefix l s else None)"

lemma strip_prefix_Some: "strip_prefix l s = Some s' \<longleftrightarrow> s = l @ s'"
  by (induction l s rule: strip_prefix.induct) auto

lemma strip_prefix_append [simp]: "strip_prefix l (l @ s) = Some s"
  by (simp add: strip_prefix_Some)

text \<open>A match of the pattern at the start of a text: the captured texts.  A repetition is greedy and gives
  characters back when the rest of the pattern fails.\<close>

function match_here :: "re_item list \<Rightarrow> string \<Rightarrow> string list option" where
  "match_here [] s = Some []"
| "match_here (Lit l # r) s = (case strip_prefix l s of None \<Rightarrow> None | Some s' \<Rightarrow> match_here r s')"
| "match_here (Dot # r) [] = None"
| "match_here (Dot # r) (x # s) = (if x \<noteq> newline then match_here r s else None)"
| "match_here (Plus c # r) [] = None"
| "match_here (Plus c # r) (x # s) =
    (if in_class c x then (case match_here (Plus c # r) s of Some v \<Rightarrow> Some v | None \<Rightarrow> match_here r s) else None)"
| "match_here (Cap c n # r) s =
    (if n \<le> length s \<and> list_all (in_class c) (take n s)
     then map_option (\<lambda>v. take n s # v) (match_here r (drop n s)) else None)"
  by pat_completeness auto
termination
  by (relation "measure (\<lambda>(r, s). length r + length s)") (auto simp: strip_prefix_Some)

text \<open>\<^verbatim>\<open>FindStringSubmatch\<close> without its first element, the whole match.\<close>

fun find_submatch :: "re_item list \<Rightarrow> string \<Rightarrow> string list option" where
  "find_submatch r [] = match_here r []"
| "find_submatch r (x # s) = (case match_here r (x # s) of Some v \<Rightarrow> Some v | None \<Rightarrow> find_submatch r s)"

section \<open>Lines\<close>

text \<open>\<^verbatim>\<open>bufio.Scanner\<close> with its default split function and buffer: lines without their line end, until
  one does not fit the buffer.\<close>

definition drop_cr :: "string \<Rightarrow> string" where
  "drop_cr l = (if l \<noteq> [] \<and> last l = CHR 0x0D then butlast l else l)"

definition scan_lines :: "string \<Rightarrow> string list" where
  "scan_lines txt =
    (let parts = split_on newline txt;
         ls = (if last parts = [] then butlast parts else parts)
     in map drop_cr (takeWhile (\<lambda>l. length l < 65536) ls))"

section \<open>What a match is\<close>

inductive rmatch :: "re_item list \<Rightarrow> string \<Rightarrow> string list \<Rightarrow> bool" where
  rm_nil: "rmatch [] [] []"
| rm_lit: "rmatch r u cs \<Longrightarrow> rmatch (Lit l # r) (l @ u) cs"
| rm_dot: "x \<noteq> newline \<Longrightarrow> rmatch r u cs \<Longrightarrow> rmatch (Dot # r) (x # u) cs"
| rm_plus: "w \<noteq> [] \<Longrightarrow> list_all (in_class c) w \<Longrightarrow> rmatch r u cs \<Longrightarrow> rmatch (Plus c # r) (w @ u) cs"
| rm_cap: "length w = n \<Longrightarrow> list_all (in_class c) w \<Longrightarrow> rmatch r u cs \<Longrightarrow> rmatch (Cap c n # r) (w @ u) (w # cs)"

inductive_cases rm_nilE: "rmatch [] u cs"
inductive_cases rm_litE: "rmatch (Lit l # r) u cs"
inductive_cases rm_dotE: "rmatch (Dot # r) u cs"
inductive_cases rm_plusE: "rmatch (Plus c # r) u cs"
inductive_cases rm_capE: "rmatch (Cap c n # r) u cs"

lemma match_here_sound:
  "match_here r s = Some cs \<Longrightarrow> \<exists>u v. s = u @ v \<and> rmatch r u cs"
proof (induction r s arbitrary: cs rule: match_here.induct)
  case (1 s)
  then show ?case using rm_nil by auto
next
  case (2 l r s)
  then obtain s' where s': "s = l @ s'" "match_here r s' = Some cs"
    by (auto simp: strip_prefix_Some split: option.splits)
  with 2 obtain u v where "s' = u @ v" "rmatch r u cs" by (fastforce simp: strip_prefix_Some)
  with s' show ?case using rm_lit [of r u cs l] by (intro exI [of _ "l @ u"] exI [of _ v]) simp
next
  case (4 r x s)
  then obtain u v where "x \<noteq> newline" "s = u @ v" "rmatch r u cs" by (auto split: if_splits)
  then show ?case using rm_dot [of x r u cs] by (intro exI [of _ "x # u"] exI [of _ v]) simp
next
  case (6 c r x s)
  then have x: "in_class c x" by (auto split: if_splits)
  show ?case
  proof (cases "match_here (Plus c # r) s")
    case None
    with 6 x obtain u v where "s = u @ v" "rmatch r u cs" by auto
    with x show ?thesis using rm_plus [of "[x]" c r u cs] by (intro exI [of _ "x # u"] exI [of _ v]) simp
  next
    case (Some cs')
    with 6 x obtain u v where uv: "s = u @ v" "rmatch (Plus c # r) u cs" by auto
    then obtain w u' where "u = w @ u'" "list_all (in_class c) w" "rmatch r u' cs" by (auto elim: rm_plusE)
    with x uv(1) show ?thesis using rm_plus [of "x # w" c r u' cs] by (intro exI [of _ "x # u"] exI [of _ v]) simp
  qed
next
  case (7 c n r s)
  then obtain cs' where c: "n \<le> length s" "list_all (in_class c) (take n s)" "match_here r (drop n s) = Some cs'"
    "cs = take n s # cs'" by (auto split: if_splits)
  with 7 obtain u v where "drop n s = u @ v" "rmatch r u cs'" by blast
  with c show ?case using rm_cap [of "take n s" n c r u cs']
    by (intro exI [of _ "take n s @ u"] exI [of _ v]) (simp add: min_absorb2, metis append_take_drop_id)
qed simp_all

lemma match_here_complete:
  "rmatch r u cs \<Longrightarrow> match_here r (u @ v) \<noteq> None"
proof (induction arbitrary: rule: rmatch.induct)
  case (rm_plus w c r u cs)
  from rm_plus(1,2) show ?case
  proof (induction w)
    case (Cons x w)
    then show ?case using rm_plus(4) by (cases "w = []") (auto split: option.split)
  qed simp
qed (auto simp: min_def)

text \<open>A search fails exactly when no part of the text matches.\<close>

lemma find_submatch_sound: "find_submatch r s = Some cs \<Longrightarrow> \<exists>a u b. s = a @ u @ b \<and> rmatch r u cs"
proof (induction s)
  case Nil
  then show ?case using match_here_sound by fastforce
next
  case (Cons x s)
  show ?case
  proof (cases "match_here r (x # s)")
    case None
    with Cons show ?thesis by auto (metis append_Cons)
  next
    case (Some cs')
    with Cons(2) match_here_sound [OF Some] show ?thesis by auto (metis append_Nil)
  qed
qed

lemma find_submatch_complete: "rmatch r u cs \<Longrightarrow> find_submatch r (a @ u @ b) \<noteq> None"
proof (induction a)
  case Nil
  from match_here_complete [OF Nil, of b] show ?case by (cases "u @ b") (auto split: option.split)
next
  case (Cons x a)
  then show ?case by (auto split: option.split)
qed

lemma find_submatch_None: "find_submatch r s = None \<longleftrightarrow> (\<forall>a u b cs. s = a @ u @ b \<longrightarrow> \<not> rmatch r u cs)"
  by (metis find_submatch_complete find_submatch_sound not_None_eq)

end
