(* ===== verification/Pid2Pod.thy ===== *)
theory Pid2Pod
  imports Agent_Decode Go_Regexp
begin

text \<open>
  The pod table of \<^verbatim>\<open>src/internal/pid2pod/pid2pod.go\<close> and the controller that feeds it,
  \<^verbatim>\<open>src/internal/k8s/pod_controller.go\<close>.  A process is traced to a pod through its cgroup file, read
  through the parameter \<open>read_file\<close>; the informer hands the controller objects of any type, and a type
  assertion on the wrong one panics.
\<close>

section \<open>Data\<close>

text \<open>The fields of \<^verbatim>\<open>core.Pod\<close> the agent reads.\<close>

record container_status =
  cst_ContainerID :: string
  cst_Name :: string

record kpod =
  kp_Name :: string
  kp_Namespace :: string
  kp_UID :: string
  kp_Labels :: "(string \<times> string) list"
  kp_NodeName :: string
  kp_ContainerStatuses :: "container_status list"

record pid2pod =
  Pods :: "string \<Rightarrow> kpod option"

section \<open>From a process to its pod\<close>

definition kubeSystemdPattern :: "re_item list" where
  "kubeSystemdPattern =
    [Plus Digit, Lit '':'', Plus NotNewline, Lit '':/kubepods'', Dot, Lit ''slice/kubepods-burstable'', Dot,
     Lit ''slice/kubepods-burstable-pod'', Cap HexUnderscore 36, Dot, Lit ''slice/cri-containerd-'',
     Cap HexUnderscore 64, Dot, Lit ''scope'']"

fun first_match :: "string list \<Rightarrow> (string \<times> string) option" where
  "first_match [] = None"
| "first_match (line # ls) =
    (case find_submatch kubeSystemdPattern line of
       Some [podId, containerId] \<Rightarrow> Some (podId, containerId)
     | _ \<Rightarrow> first_match ls)"

text \<open>\<open>read_file\<close> stands for opening and reading a file: an error text, or the contents.\<close>

definition lookupIdByPid :: "(string \<Rightarrow> string + string) \<Rightarrow> u32 \<Rightarrow> (string \<times> string) go" where
  "lookupIdByPid read_file pid =
     (case read_file (''/proc/'' @ Itoa (uint pid) @ ''/cgroup'') of
        Inl err \<Rightarrow> Inl (GoErr err)
      | Inr f \<Rightarrow>
          (case first_match (scan_lines f) of
             Some ids \<Rightarrow> Inr ids
           | None \<Rightarrow> Inl (GoErr (''no pod found for pid '' @ Itoa (uint pid)))))"

text \<open>The last container status with the id wins.\<close>

definition container_name :: "string \<Rightarrow> kpod \<Rightarrow> string" where
  "container_name containerId pod =
     foldl (\<lambda>name c. if cst_ContainerID c = containerId then cst_Name c else name) '''' (kp_ContainerStatuses pod)"

definition GetPodInfoByPid :: "(string \<Rightarrow> string + string) \<Rightarrow> pid2pod \<Rightarrow> u32 \<Rightarrow> pod_info go" where
  "GetPodInfoByPid read_file p pid =
     go_bind (lookupIdByPid read_file pid) (\<lambda>(podId, containerId).
       case Pods p podId of
         Some pod \<Rightarrow>
           (let containerName = container_name containerId pod
            in if containerName = '''' then Inl (GoErr (''no container found for pid '' @ Itoa (uint pid)))
               else Inr \<lparr>pi_Namespace = kp_Namespace pod, pi_NodeName = kp_NodeName pod,
                      pi_PodName = kp_Name pod, pi_PodUID = kp_UID pod, pi_PodLabel = kp_Labels pod,
                      pi_ContainerID = containerId, pi_ContainerName = containerName\<rparr>)
       | None \<Rightarrow> Inl (GoErr (''no pod found for pid '' @ Itoa (uint pid))))"

section \<open>Callbacks\<close>

definition addPod :: "kpod \<Rightarrow> string \<Rightarrow> pid2pod \<Rightarrow> pid2pod" where
  "addPod newPod nodename p =
     (if kp_NodeName newPod \<noteq> nodename then p else p\<lparr>Pods := (Pods p)(kp_UID newPod \<mapsto> newPod)\<rparr>)"

definition deletePod :: "kpod \<Rightarrow> string \<Rightarrow> pid2pod \<Rightarrow> pid2pod" where
  "deletePod oldPod nodename p =
     (if kp_NodeName oldPod \<noteq> nodename then p else p\<lparr>Pods := (Pods p)(kp_UID oldPod := None)\<rparr>)"

definition updatePod :: "kpod \<Rightarrow> kpod \<Rightarrow> string \<Rightarrow> pid2pod \<Rightarrow> pid2pod" where
  "updatePod oldPod newPod nodename p =
     (if kp_NodeName newPod \<noteq> nodename then p else p\<lparr>Pods := (Pods p)(kp_UID newPod \<mapsto> newPod)\<rparr>)"

text \<open>The controller: its handler lists, over the state the handlers share.\<close>

record 's pod_controller =
  pc_Add :: "(kpod \<Rightarrow> string \<Rightarrow> 's \<Rightarrow> 's) list"
  pc_Delete :: "(kpod \<Rightarrow> string \<Rightarrow> 's \<Rightarrow> 's) list"
  pc_Update :: "(kpod \<Rightarrow> kpod \<Rightarrow> string \<Rightarrow> 's \<Rightarrow> 's) list"

definition pod_Registry :: "pid2pod pod_controller \<Rightarrow> pid2pod pod_controller" where
  "pod_Registry c = c\<lparr>pc_Add := pc_Add c @ [addPod], pc_Delete := pc_Delete c @ [deletePod],
     pc_Update := pc_Update c @ [updatePod]\<rparr>"

text \<open>What the informer delivers: a pod, the marker for a deletion the watch missed, or another
  object.\<close>

datatype informer_obj = ObjPod kpod | DeletedFinalStateUnknown string kpod | ObjOther

fun as_pod :: "informer_obj \<Rightarrow> kpod go" where
  "as_pod (ObjPod p) = Inr p"
| "as_pod x = Inl (GoPanic ''interface conversion'')"

definition AddFunc :: "'s pod_controller \<Rightarrow> string \<Rightarrow> informer_obj \<Rightarrow> 's \<Rightarrow> 's go" where
  "AddFunc c nodename obj s = go_bind (as_pod obj) (\<lambda>pod. Inr (fold (\<lambda>h. h pod nodename) (pc_Add c) s))"

definition DeleteFunc :: "'s pod_controller \<Rightarrow> string \<Rightarrow> informer_obj \<Rightarrow> 's \<Rightarrow> 's go" where
  "DeleteFunc c nodename obj s = go_bind (as_pod obj) (\<lambda>pod. Inr (fold (\<lambda>h. h pod nodename) (pc_Delete c) s))"

definition UpdateFunc :: "'s pod_controller \<Rightarrow> string \<Rightarrow> informer_obj \<Rightarrow> informer_obj \<Rightarrow> 's \<Rightarrow> 's go" where
  "UpdateFunc c nodename oldObj newObj s = go_bind (as_pod oldObj) (\<lambda>oldPod. go_bind (as_pod newObj) (\<lambda>newPod.
     Inr (fold (\<lambda>h. h oldPod newPod nodename) (pc_Update c) s)))"

text \<open>The controller the agent runs and its callbacks as one step.\<close>

definition agent_pods :: "pid2pod pod_controller" where
  "agent_pods = pod_Registry \<lparr>pc_Add = [], pc_Delete = [], pc_Update = []\<rparr>"

datatype pod_event = PodAdd informer_obj | PodDelete informer_obj | PodUpdate informer_obj informer_obj

fun pod_step :: "string \<Rightarrow> pod_event \<Rightarrow> pid2pod \<Rightarrow> pid2pod go" where
  "pod_step nodename (PodAdd x) p = AddFunc agent_pods nodename x p"
| "pod_step nodename (PodDelete x) p = DeleteFunc agent_pods nodename x p"
| "pod_step nodename (PodUpdate x y) p = UpdateFunc agent_pods nodename x y p"

fun pod_run :: "string \<Rightarrow> pod_event list \<Rightarrow> pid2pod \<Rightarrow> pid2pod go" where
  "pod_run nodename [] p = Inr p"
| "pod_run nodename (e # es) p = go_bind (pod_step nodename e p) (pod_run nodename es)"

section \<open>The cgroup line\<close>

text \<open>Ids found in a line have the pattern's lengths and letters.\<close>

lemma rmatch_kube:
  assumes "rmatch kubeSystemdPattern u caps"
  shows "\<exists>d w p c x1 x2 x3 x4. u = d @ '':'' @ w @ '':/kubepods'' @ x1 # ''slice/kubepods-burstable'' @
      x2 # ''slice/kubepods-burstable-pod'' @ p @ x3 # ''slice/cri-containerd-'' @ c @ x4 # ''scope'' \<and>
    d \<noteq> [] \<and> list_all is_digit d \<and> w \<noteq> [] \<and> caps = [p, c] \<and>
    length p = 36 \<and> list_all (in_class HexUnderscore) p \<and> length c = 64 \<and> list_all (in_class HexUnderscore) c"
proof -
  have cls: "list_all (in_class Digit) = list_all is_digit" by (intro ext) (simp add: list_all_iff)
  show ?thesis using assms unfolding kubeSystemdPattern_def
    by (elim rm_nilE rm_litE rm_dotE rm_plusE rm_capE) (auto simp: cls)
qed

lemma first_match_form:
  "first_match ls = Some (p, c) \<Longrightarrow> \<exists>line \<in> set ls. \<exists>a u b. line = a @ u @ b \<and> rmatch kubeSystemdPattern u [p, c]"
proof (induction ls)
  case (Cons line ls)
  show ?case
  proof (cases "find_submatch kubeSystemdPattern line")
    case None
    with Cons show ?thesis by auto
  next
    case (Some caps)
    obtain a u b where m: "line = a @ u @ b" "rmatch kubeSystemdPattern u caps" using find_submatch_sound [OF Some] by blast
    with rmatch_kube [OF m(2)] Some Cons.prems have "caps = [p, c]" by auto
    with m show ?thesis by auto
  qed
qed simp

lemma first_match_None: "\<forall>l \<in> set ls. find_submatch kubeSystemdPattern l = None \<Longrightarrow> first_match ls = None"
  by (induction ls) auto

text \<open>The unified hierarchy has one line, with no controller list between its two colons, and never
  matches.\<close>

definition v2_line :: "string \<Rightarrow> string" where
  "v2_line path = ''0::'' @ path"

lemma v2_line_no_match:
  assumes "CHR '':'' \<notin> set path" and "v2_line path = a @ u @ b"
  shows "\<not> rmatch kubeSystemdPattern u caps"
proof
  assume "rmatch kubeSystemdPattern u caps"
  from rmatch_kube [OF this] obtain d w rest where u: "u = d @ '':'' @ w @ '':/kubepods'' @ rest" "w \<noteq> []" by blast
  with assms(2) have "CHR ''0'' # CHR '':'' # CHR '':'' # path = (a @ d) @ CHR '':'' # w @ CHR '':'' # (''/kubepods'' @ rest @ b)"
    by (simp add: v2_line_def)
  with u(2) assms(1) show False
    by (auto simp: Cons_eq_append_conv append_eq_Cons_conv append_eq_append_conv2)
qed

text \<open>The line of a container of a burstable pod, as systemd and containerd write it.\<close>

definition burstable_line :: "string \<Rightarrow> string \<Rightarrow> string \<Rightarrow> string \<Rightarrow> string" where
  "burstable_line hierarchy controllers podId containerId =
     hierarchy @ '':'' @ controllers @ '':/kubepods.slice/kubepods-burstable.slice/kubepods-burstable-pod'' @ podId @
     ''.slice/cri-containerd-'' @ containerId @ ''.scope''"

lemma last_colon:
  assumes "xs @ CHR '':'' # ys @ CHR '':'' # zs = xs' @ CHR '':'' # ys' @ CHR '':'' # zs'"
    and "CHR '':'' \<notin> set xs" and "CHR '':'' \<notin> set ys" and "CHR '':'' \<notin> set zs"
  shows "zs = zs'"
proof -
  have "count_list (xs @ CHR '':'' # ys @ CHR '':'' # zs) CHR '':'' = 2" using assms(2-4) by simp
  then have "CHR '':'' \<notin> set zs'" unfolding assms(1) by (simp add: count_list_0_iff [symmetric])
  then have "rev zs' = takeWhile (\<lambda>c. c \<noteq> CHR '':'') (rev (xs' @ CHR '':'' # ys' @ CHR '':'' # zs'))"
    by (simp add: takeWhile_append)
  moreover have "rev zs = takeWhile (\<lambda>c. c \<noteq> CHR '':'') (rev (xs @ CHR '':'' # ys @ CHR '':'' # zs))"
    using assms(4) by (simp add: takeWhile_append)
  ultimately show ?thesis unfolding assms(1) by simp
qed

lemma hex_no_colon: "list_all (in_class HexUnderscore) p \<Longrightarrow> CHR '':'' \<notin> set p"
  by (auto simp: list_all_iff is_digit_def)

text \<open>The search finds the two ids in it.\<close>

lemma burstable_line_ids:
  assumes "hierarchy \<noteq> []" and "list_all is_digit hierarchy"
    and "controllers \<noteq> []" and "CHR '':'' \<notin> set controllers" and "newline \<notin> set controllers"
    and "length podId = 36" and "list_all (in_class HexUnderscore) podId"
    and "length containerId = 64" and "list_all (in_class HexUnderscore) containerId"
  shows "find_submatch kubeSystemdPattern (burstable_line hierarchy controllers podId containerId) = Some [podId, containerId]"
proof -
  let ?line = "burstable_line hierarchy controllers podId containerId"
  have cls: "list_all (in_class Digit) hierarchy" "list_all (in_class NotNewline) controllers"
    using assms(2,5) by (auto simp: list_all_iff)
  have "rmatch kubeSystemdPattern
      (hierarchy @ '':'' @ controllers @ '':/kubepods'' @ CHR ''.'' # ''slice/kubepods-burstable'' @
       CHR ''.'' # ''slice/kubepods-burstable-pod'' @ podId @ CHR ''.'' # ''slice/cri-containerd-'' @
       containerId @ CHR ''.'' # ''scope'' @ []) [podId, containerId]"
    unfolding kubeSystemdPattern_def
    by (intro rm_plus rm_lit rm_dot rm_cap rm_nil assms cls) (simp_all add: newline_def)
  from find_submatch_complete [OF this, of "[]" "[]"] obtain caps where c: "find_submatch kubeSystemdPattern ?line = Some caps"
    by (auto simp: burstable_line_def)
  from find_submatch_sound [OF this] obtain a u b where u: "?line = a @ u @ b" "rmatch kubeSystemdPattern u caps" by blast
  from rmatch_kube [OF u(2)] obtain d w p q x1 x2 x3 x4 where
    uu: "u = d @ '':'' @ w @ '':/kubepods'' @ x1 # ''slice/kubepods-burstable'' @
      x2 # ''slice/kubepods-burstable-pod'' @ p @ x3 # ''slice/cri-containerd-'' @ q @ x4 # ''scope''"
    and pq: "caps = [p, q]" "length p = 36" "length q = 64" by blast
  let ?t = "''/kubepods.slice/kubepods-burstable.slice/kubepods-burstable-pod'' @ podId @
     ''.slice/cri-containerd-'' @ containerId @ ''.scope''"
  let ?t' = "''/kubepods'' @ x1 # ''slice/kubepods-burstable'' @ x2 # ''slice/kubepods-burstable-pod'' @ p @
     x3 # ''slice/cri-containerd-'' @ q @ x4 # ''scope'' @ b"
  have "hierarchy @ CHR '':'' # controllers @ CHR '':'' # ?t = (a @ d) @ CHR '':'' # w @ CHR '':'' # ?t'"
    using u(1) unfolding uu burstable_line_def by simp
  moreover have "CHR '':'' \<notin> set hierarchy" using assms(2) by (auto simp: list_all_iff is_digit_def)
  ultimately have "?t = ?t'"
    by (rule last_colon) (use assms(4) hex_no_colon [OF assms(7)] hex_no_colon [OF assms(9)] in auto)
  then have "podId @ ''.slice/cri-containerd-'' @ containerId @ ''.scope'' =
     p @ x3 # ''slice/cri-containerd-'' @ q @ x4 # ''scope'' @ b" by auto
  then have "podId = p" "containerId @ ''.scope'' = q @ x4 # ''scope'' @ b"
    using assms(6) pq(2) by (auto simp: append_eq_append_conv)
  moreover from this(2) have "containerId = q" using assms(8) pq(3) by (simp add: append_eq_append_conv)
  ultimately show ?thesis using c pq(1) by simp
qed

section \<open>The table\<close>

text \<open>Entries are pods of this node under their own UID, and only pods that were announced.\<close>

definition pods_inv :: "string \<Rightarrow> kpod set \<Rightarrow> pid2pod \<Rightarrow> bool" where
  "pods_inv nodename S p \<longleftrightarrow>
     (\<forall>k pod. Pods p k = Some pod \<longrightarrow> k = kp_UID pod \<and> kp_NodeName pod = nodename \<and> pod \<in> S)"

fun announced :: "pod_event \<Rightarrow> kpod set" where
  "announced (PodAdd (ObjPod p)) = {p}"
| "announced (PodUpdate (ObjPod _) (ObjPod p)) = {p}"
| "announced e = {}"

lemma callbacks_inv:
  assumes "pods_inv nodename S p"
  shows "pods_inv nodename (S \<union> {pod}) (addPod pod nodename p)" and "pods_inv nodename S (deletePod old nodename p)"
    and "pods_inv nodename (S \<union> {pod}) (updatePod old pod nodename p)"
  using assms by (auto simp: pods_inv_def addPod_def deletePod_def updatePod_def)

lemma agent_pods_handlers [simp]:
  "pc_Add agent_pods = [addPod]" "pc_Delete agent_pods = [deletePod]" "pc_Update agent_pods = [updatePod]"
  by (simp_all add: agent_pods_def pod_Registry_def)

lemma pod_step_inv:
  assumes "pod_step nodename e p = Inr p'" and "pods_inv nodename S p"
  shows "pods_inv nodename (S \<union> announced e) p'"
proof (cases e)
  case (PodAdd x)
  with assms callbacks_inv(1) [OF assms(2)] show ?thesis by (cases x) (auto simp: AddFunc_def)
next
  case (PodDelete x)
  with assms callbacks_inv(2) [OF assms(2)] show ?thesis by (cases x) (auto simp: DeleteFunc_def)
next
  case (PodUpdate x y)
  with assms callbacks_inv(3) [OF assms(2)] show ?thesis by (cases x; cases y) (auto simp: UpdateFunc_def)
qed

lemma pod_run_inv:
  "pod_run nodename es p = Inr p' \<Longrightarrow> pods_inv nodename S p \<Longrightarrow>
   pods_inv nodename (S \<union> (\<Union>e \<in> set es. announced e)) p'"
proof (induction es arbitrary: p S)
  case (Cons e es)
  then obtain p1 where p1: "pod_step nodename e p = Inr p1" "pod_run nodename es p1 = Inr p'"
    by (cases "pod_step nodename e p") auto
  from Cons.IH [OF p1(2) pod_step_inv [OF p1(1) Cons.prems(2)]] show ?case by (simp add: Un_assoc)
qed simp

text \<open>A captured pod id has no hyphen.\<close>

lemma captured_no_hyphen: "list_all (in_class HexUnderscore) p \<Longrightarrow> CHR ''-'' \<notin> set p"
  by (auto simp: list_all_iff is_digit_def)

lemma lookup_no_hyphen:
  assumes "lookupIdByPid read_file pid = Inr (podId, containerId)"
  shows "CHR ''-'' \<notin> set podId" and "length podId = 36"
proof -
  obtain f where "first_match (scan_lines f) = Some (podId, containerId)"
    using assms by (cases "read_file (''/proc/'' @ Itoa (uint pid) @ ''/cgroup'')")
      (auto simp: lookupIdByPid_def split: option.splits)
  from first_match_form [OF this] obtain u where "rmatch kubeSystemdPattern u [podId, containerId]" by blast
  from rmatch_kube [OF this] show "CHR ''-'' \<notin> set podId" "length podId = 36"
    using captured_no_hyphen by auto
qed

text \<open>Looking a process up never panics.\<close>

lemma GetPodInfoByPid_calm: "GetPodInfoByPid read_file p pid \<noteq> Inl (GoPanic m)"
  by (cases "lookupIdByPid read_file pid")
    (auto simp: GetPodInfoByPid_def lookupIdByPid_def Let_def split: sum.splits option.splits if_splits)

text \<open>A table whose UIDs all have hyphens never yields a pod.\<close>

lemma hyphens_hide_pods:
  assumes "\<And>k pod. Pods p k = Some pod \<Longrightarrow> CHR ''-'' \<in> set k"
  shows "\<exists>err. GetPodInfoByPid read_file p pid = Inl (GoErr err)"
proof (cases "lookupIdByPid read_file pid")
  case (Inl e)
  then show ?thesis by (cases e) (auto simp: GetPodInfoByPid_def lookupIdByPid_def split: sum.splits option.splits)
next
  case (Inr ids)
  obtain podId c where ids: "ids = (podId, c)" by (cases ids)
  with Inr have "Pods p podId = None" using lookup_no_hyphen(1) assms by (cases "Pods p podId") blast+
  with Inr ids show ?thesis by (simp add: GetPodInfoByPid_def)
qed

end
