(* ===== verification/Ring_Reader.thy ===== *)
theory Ring_Reader
  imports Pid2Pod Endpoint2Pod Metrics
begin

text \<open>
  The read loop that the \<^verbatim>\<open>Start\<close> methods of the three plugins share: read a record, parse it, decode
  it, send the result.  Errors are logged and the loop goes on, a closed reader ends it, a panic ends the
  agent.  The input is the list of what the reader returns, each with the table the decoder finds at that
  moment, since the informers change the tables while the loop runs.  The locale \<open>ring_reader\<close> holds what
  the loop delivers when no record makes the decoder panic; each plugin interprets it.
\<close>

section \<open>The loop\<close>

text \<open>After a closed reader the loop sends on the unbuffered channel \<^verbatim>\<open>stopper\<close>, which succeeds when the
  goroutine that closes the reader is still waiting there (the flag of \<open>RdClosed\<close>) and blocks for ever
  otherwise.\<close>

datatype read_result = RdClosed bool | RdErr string | RdRecord "byte list"

datatype loop_end = Waiting | Exited string | Blocked | Panicked string

fun read_loop :: "(byte list \<Rightarrow> 'e go) \<Rightarrow> ('t \<Rightarrow> 'e \<Rightarrow> 'm go) \<Rightarrow> (read_result \<times> 't) list \<Rightarrow> 'm list \<times> loop_end" where
  "read_loop Read Decode [] = ([], Waiting)"
| "read_loop Read Decode ((RdClosed closer_waits, t) # rs) =
    ([], if closer_waits then Exited ''exiting'' else Blocked)"
| "read_loop Read Decode ((RdErr err, t) # rs) = read_loop Read Decode rs"
| "read_loop Read Decode ((RdRecord raw, t) # rs) =
    (case Read raw of
       Inl (GoPanic m) \<Rightarrow> ([], Panicked m)
     | Inl (GoErr err) \<Rightarrow> read_loop Read Decode rs
     | Inr event \<Rightarrow>
         (case Decode t event of
            Inl (GoPanic m) \<Rightarrow> ([], Panicked m)
          | Inl (GoErr err) \<Rightarrow> read_loop Read Decode rs
          | Inr x \<Rightarrow> (let (c, e) = read_loop Read Decode rs in (x # c, e))))"

definition http_Start :: "(read_result \<times> 'h endpoint2pod) list \<Rightarrow> traffic list \<times> loop_end" where
  "http_Start = read_loop read_httpPacket (\<lambda>i. http_DecodeMapItem (GetPodByEndpoint i))"

definition oomkill_Start ::
  "(string \<Rightarrow> string + string) \<Rightarrow> (read_result \<times> pid2pod) list \<Rightarrow> oom_metric list \<times> loop_end" where
  "oomkill_Start read_file =
     read_loop read_oomkillEvent (\<lambda>p. oomkill_DecodeMapItem (GetPodInfoByPid read_file p))"

text \<open>\<^verbatim>\<open>getCommByPid\<close>: the process may be gone.\<close>

definition getCommByPid :: "(string \<Rightarrow> string + string) \<Rightarrow> u32 \<Rightarrow> string" where
  "getCommByPid read_file pid =
     (case read_file (''/proc/'' @ Itoa (uint pid) @ ''/comm'') of Inl err \<Rightarrow> '''' | Inr comm \<Rightarrow> comm)"

definition tcpsynbl_Start ::
  "(string \<Rightarrow> string + string) \<Rightarrow> (read_result \<times> pid2pod) list \<Rightarrow> syn_metric list \<times> loop_end" where
  "tcpsynbl_Start read_file =
     read_loop read_tcpsynblEvent
       (\<lambda>p. tcpsynbl_DecodeMapItem (getCommByPid read_file) (GetPodInfoByPid read_file p))"

text \<open>The loops of the two simpler \<^verbatim>\<open>Gather\<close> methods: every event becomes a metric.\<close>

definition oomkill_Gather :: "oom_metric list \<Rightarrow> metric list" where
  "oomkill_Gather events = map oomkill_CovertMetric events"

definition tcpsynbl_Gather :: "syn_metric list \<Rightarrow> metric list" where
  "tcpsynbl_Gather events = map tcpsynbl_CovertMetric events"

section \<open>What a loop delivers\<close>

text \<open>The records up to the closing of the reader, with their tables, and how the loop ends when nothing
  panics.\<close>

fun records_of :: "(read_result \<times> 't) list \<Rightarrow> (byte list \<times> 't) list" where
  "records_of [] = []"
| "records_of ((RdClosed closer_waits, t) # rs) = []"
| "records_of ((RdErr err, t) # rs) = records_of rs"
| "records_of ((RdRecord raw, t) # rs) = (raw, t) # records_of rs"

fun end_of :: "(read_result \<times> 't) list \<Rightarrow> loop_end" where
  "end_of [] = Waiting"
| "end_of ((RdClosed closer_waits, t) # rs) = (if closer_waits then Exited ''exiting'' else Blocked)"
| "end_of ((RdErr err, t) # rs) = end_of rs"
| "end_of ((RdRecord raw, t) # rs) = end_of rs"

lemma end_of_not_panic [simp]: "end_of rs \<noteq> Panicked m"
  by (induction rs rule: end_of.induct) simp_all

definition right_of :: "'a go \<Rightarrow> 'a option" where
  "right_of x = (case x of Inl e \<Rightarrow> None | Inr y \<Rightarrow> Some y)"

lemma right_of_simps [simp]: "right_of (Inl e) = None" "right_of (Inr y) = Some y"
  by (simp_all add: right_of_def)

text \<open>What one record becomes.\<close>

definition decoded :: "(byte list \<Rightarrow> 'e go) \<Rightarrow> ('t \<Rightarrow> 'e \<Rightarrow> 'm go) \<Rightarrow> byte list \<times> 't \<Rightarrow> 'm option" where
  "decoded Read Decode rt = right_of (go_bind (Read (fst rt)) (Decode (snd rt)))"

locale ring_reader =
  fixes Read :: "byte list \<Rightarrow> 'e go" and Decode :: "'t \<Rightarrow> 'e \<Rightarrow> 'm go" and ok :: "byte list \<Rightarrow> bool"
  assumes calm: "ok raw \<Longrightarrow> go_bind (Read raw) (Decode t) \<noteq> Inl (GoPanic m)"
begin

lemma one_record:
  assumes "ok raw"
  shows "read_loop Read Decode ((RdRecord raw, t) # rs) =
    (case decoded Read Decode (raw, t) of
       None \<Rightarrow> read_loop Read Decode rs
     | Some x \<Rightarrow> (x # fst (read_loop Read Decode rs), snd (read_loop Read Decode rs)))"
proof -
  have "\<forall>m. go_bind (Read raw) (Decode t) \<noteq> Inl (GoPanic m)" using calm [OF assms] by blast
  then show ?thesis
    by (auto simp: decoded_def split: sum.splits go_fail.splits prod.splits)
qed

lemma delivers:
  "list_all (\<lambda>(raw, t). ok raw) (records_of rs) \<Longrightarrow>
   read_loop Read Decode rs =
     (List.map_filter (decoded Read Decode) (records_of rs), end_of rs)"
proof (induction rs rule: records_of.induct)
  case (4 raw t rs)
  then have "ok raw" and IH: "read_loop Read Decode rs =
     (List.map_filter (decoded Read Decode) (records_of rs), end_of rs)"
    by simp_all
  from one_record [OF this(1), of t rs] IH show ?case
    by (auto split: option.split)
qed simp_all

lemma never_panics: "list_all (\<lambda>(raw, t). ok raw) (records_of rs) \<Longrightarrow> snd (read_loop Read Decode rs) \<noteq> Panicked m"
  by (simp add: delivers)

end

section \<open>The three plugins\<close>

interpretation http_reader: ring_reader read_httpPacket "\<lambda>i. http_DecodeMapItem (GetPodByEndpoint i)" "\<lambda>raw. True"
proof
  fix raw :: "byte list" and i :: "'a endpoint2pod" and m
  show "go_bind (read_httpPacket raw) (http_DecodeMapItem (GetPodByEndpoint i)) \<noteq> Inl (GoPanic m)"
    by (cases "read_httpPacket raw")
      (auto simp: read_httpPacket_def read_full_def get_word_def get_array_def http_DecodeMapItem_def Let_def
        split: if_splits option.splits)
qed

interpretation syn_reader: ring_reader read_tcpsynblEvent
  "\<lambda>p. tcpsynbl_DecodeMapItem (getCommByPid read_file) (GetPodInfoByPid read_file p)" "\<lambda>raw. True"
  for read_file
proof
  fix raw :: "byte list" and p m
  show "go_bind (read_tcpsynblEvent raw)
      (tcpsynbl_DecodeMapItem (getCommByPid read_file) (GetPodInfoByPid read_file p)) \<noteq> Inl (GoPanic m)"
    using GetPodInfoByPid_calm
    by (cases "read_tcpsynblEvent raw")
      (auto simp: read_tcpsynblEvent_def read_full_def get_word_def tcpsynbl_DecodeMapItem_def Let_def
        split: if_splits sum.splits go_fail.splits)
qed

text \<open>An OOM record whose three texts hold a NUL byte, or which is too short to be parsed.\<close>

definition oom_terminated :: "byte list \<Rightarrow> bool" where
  "oom_terminated raw \<longleftrightarrow>
     (case read_oomkillEvent raw of
        Inl _ \<Rightarrow> True
      | Inr ev \<Rightarrow> 0 \<in> set (ok_Fcomm ev) \<and> 0 \<in> set (ok_Tcomm ev) \<and> 0 \<in> set (ok_Message ev))"

interpretation oom_reader: ring_reader read_oomkillEvent
  "\<lambda>p. oomkill_DecodeMapItem (GetPodInfoByPid read_file p)" oom_terminated
  for read_file
proof
  fix raw :: "byte list" and p m
  assume t: "oom_terminated raw"
  show "go_bind (read_oomkillEvent raw) (oomkill_DecodeMapItem (GetPodInfoByPid read_file p)) \<noteq> Inl (GoPanic m)"
  proof (cases "read_oomkillEvent raw")
    case (Inl e)
    then show ?thesis by (auto simp: read_oomkillEvent_def read_full_def Let_def split: if_splits prod.splits)
  next
    case (Inr ev)
    with t show ?thesis using GetPodInfoByPid_calm
      by (auto simp: oom_terminated_def oomkill_Decode_cases split: sum.splits go_fail.splits)
  qed
qed

end
