(* ===== verification/Plugin_Lifecycle.thy ===== *)
theory Plugin_Lifecycle
  imports Agent_Decode
begin

text \<open>
  Loading and unloading of the three plugins: \<^verbatim>\<open>Load\<close> and \<^verbatim>\<open>Unload\<close> of
  \<^verbatim>\<open>src/plugins/*/ebpf.go\<close> and \<^verbatim>\<open>OpenRawSock\<close> as sequences of calls to the operating
  system and the eBPF loader, which are parameters.  A call returns an error text or a value; the methods
  return an error of their own, or end the process where the source logs with \<^verbatim>\<open>Fatalf\<close>.  The
  locale \<open>os_resources\<close> says which calls open and close a handle; in it the methods are shown to release
  what they opened, or not.
\<close>

section \<open>Calls\<close>

datatype 'a outcome = Done 'a | Failed string | Exits string

text \<open>One call, with what its failure means, and what comes after a success.\<close>

definition try_call :: "('w \<Rightarrow> (string + 'a) \<times> 'w) \<Rightarrow> (string \<Rightarrow> 'b outcome) \<Rightarrow> ('a \<Rightarrow> 'w \<Rightarrow> 'b outcome \<times> 'w) \<Rightarrow> 'w \<Rightarrow> 'b outcome \<times> 'w" where
  "try_call f fail next_step w =
     (case f w of (Inl err, w') \<Rightarrow> (fail err, w') | (Inr x, w') \<Rightarrow> next_step x w')"

definition ret :: "'a \<Rightarrow> 'w \<Rightarrow> 'a outcome \<times> 'w" where
  "ret x w = (Done x, w)"

text \<open>The operating system and the loader: objects, sockets and attached probes are handles.\<close>

record 'w os =
  RemoveMemlock :: "'w \<Rightarrow> (string + unit) \<times> 'w"
  loadObjects :: "string \<Rightarrow> 'w \<Rightarrow> (string + nat) \<times> 'w"
  Socket :: "u16 \<Rightarrow> 'w \<Rightarrow> (string + nat) \<times> 'w"
  InterfaceByName :: "string \<Rightarrow> 'w \<Rightarrow> (string + int) \<times> 'w"
  BindSock :: "nat \<Rightarrow> u16 \<Rightarrow> int \<Rightarrow> 'w \<Rightarrow> (string + unit) \<times> 'w"
  SetsockoptInt :: "nat \<Rightarrow> int \<Rightarrow> nat \<Rightarrow> 'w \<Rightarrow> (string + unit) \<times> 'w"
  Kprobe :: "string \<Rightarrow> nat \<Rightarrow> 'w \<Rightarrow> (string + nat) \<times> 'w"
  Close :: "nat \<Rightarrow> 'w \<Rightarrow> (string + unit) \<times> 'w"

definition SO_ATTACH_BPF :: int where "SO_ATTACH_BPF = 0x32"

definition SO_DETACH_BPF :: int where "SO_DETACH_BPF = 27"

definition ETH_P_ALL :: u16 where "ETH_P_ALL = 3"

section \<open>The HTTP plugin\<close>

definition OpenRawSock :: "'w os \<Rightarrow> string \<Rightarrow> 'w \<Rightarrow> nat outcome \<times> 'w" where
  "OpenRawSock S netIfName =
     try_call (Socket S (Htons ETH_P_ALL)) Failed (\<lambda>sock.
     try_call (InterfaceByName S netIfName) Failed (\<lambda>ifindex.
     try_call (BindSock S sock (Htons ETH_P_ALL) ifindex) Failed (\<lambda>_.
     ret sock)))"

text \<open>\<^verbatim>\<open>OpenRawSock\<close> as a call of \<^verbatim>\<open>Load\<close>.\<close>

definition as_call :: "('w \<Rightarrow> 'a outcome \<times> 'w) \<Rightarrow> 'w \<Rightarrow> (string + 'a) \<times> 'w" where
  "as_call f w =
     (case f w of (Done x, w') \<Rightarrow> (Inr x, w') | (Failed err, w') \<Rightarrow> (Inl err, w') | (Exits err, w') \<Rightarrow> (Inl err, w'))"

text \<open>The results are the members \<^verbatim>\<open>objs\<close> and \<^verbatim>\<open>rawSock\<close>.\<close>

definition http_Load :: "'w os \<Rightarrow> string \<Rightarrow> 'w \<Rightarrow> (nat \<times> nat) outcome \<times> 'w" where
  "http_Load S netIfName =
     try_call (RemoveMemlock S) (\<lambda>_. Failed ''removing memlock'') (\<lambda>_.
     try_call (loadObjects S ''http'') (\<lambda>_. Failed ''loading objects failed'') (\<lambda>objs.
     try_call (as_call (OpenRawSock S netIfName)) (\<lambda>_. Failed ''open raw sock failed'') (\<lambda>rawSock.
     try_call (SetsockoptInt S rawSock SO_ATTACH_BPF objs) (\<lambda>_. Failed ''attach BPF program failed'') (\<lambda>_.
     ret (objs, rawSock)))))"

definition http_Unload :: "'w os \<Rightarrow> nat \<times> nat \<Rightarrow> 'w \<Rightarrow> unit outcome \<times> 'w" where
  "http_Unload S h =
     try_call (SetsockoptInt S (snd h) SO_DETACH_BPF (fst h)) (\<lambda>_. Failed ''detach BPF program failed'') (\<lambda>_.
     try_call (Close S (fst h)) (\<lambda>_. Failed ''closing objects failed'') ret)"

section \<open>The kprobe plugins\<close>

text \<open>The errors of \<^verbatim>\<open>Load\<close> are logged with \<^verbatim>\<open>Fatalf\<close>, which ends the agent.\<close>

definition oomkill_Load :: "'w os \<Rightarrow> 'w \<Rightarrow> (nat \<times> nat) outcome \<times> 'w" where
  "oomkill_Load S =
     try_call (RemoveMemlock S) Exits (\<lambda>_.
     try_call (loadObjects S ''oomkill'') Exits (\<lambda>objs.
     try_call (Kprobe S ''oom_kill_process'' objs) Exits (\<lambda>kp.
     ret (objs, kp))))"

definition oomkill_Unload :: "'w os \<Rightarrow> nat \<times> nat \<Rightarrow> 'w \<Rightarrow> unit outcome \<times> 'w" where
  "oomkill_Unload S h =
     try_call (Close S (snd h)) (\<lambda>_. Failed ''detach BPF program failed'') (\<lambda>_.
     try_call (Close S (fst h)) (\<lambda>_. Failed ''closing objects failed'') ret)"

definition tcpsynbl_Load :: "'w os \<Rightarrow> 'w \<Rightarrow> (nat \<times> nat \<times> nat) outcome \<times> 'w" where
  "tcpsynbl_Load S =
     try_call (RemoveMemlock S) Exits (\<lambda>_.
     try_call (loadObjects S ''tcpsynbl'') Exits (\<lambda>objs.
     try_call (Kprobe S ''tcp_v4_syn_recv_sock'' objs) Exits (\<lambda>kpv4.
     try_call (Kprobe S ''tcp_v6_syn_recv_sock'' objs) Exits (\<lambda>kpv6.
     ret (objs, kpv4, kpv6)))))"

definition tcpsynbl_Unload :: "'w os \<Rightarrow> nat \<times> nat \<times> nat \<Rightarrow> 'w \<Rightarrow> unit outcome \<times> 'w" where
  "tcpsynbl_Unload S t =
     try_call (Close S (fst (snd t))) (\<lambda>_. Failed ''detach BPF program failed'') (\<lambda>_.
     try_call (Close S (snd (snd t))) (\<lambda>_. Failed ''detach BPF program failed'') (\<lambda>_.
     try_call (Close S (fst t)) (\<lambda>_. Failed ''closing objects failed'') ret))"

lemma try_callE:
  assumes "try_call f fail k w = (r, w')"
  obtains (failed) err where "f w = (Inl err, w')" "r = fail err"
  | (went_on) x w1 where "f w = (Inr x, w1)" "k x w1 = (r, w')"
  using assms by (auto simp: try_call_def split: sum.splits prod.splits)

section \<open>Handles\<close>

text \<open>A successful opening call adds a handle that was not open, a successful \<open>Close\<close> removes it, a failed
  call and the others change nothing.\<close>

definition opens :: "('w \<Rightarrow> nat set) \<Rightarrow> ('w \<Rightarrow> (string + nat) \<times> 'w) \<Rightarrow> bool" where
  "opens opened f \<longleftrightarrow>
     (\<forall>w. case f w of (Inl err, w') \<Rightarrow> opened w' = opened w
        | (Inr h, w') \<Rightarrow> h \<notin> opened w \<and> opened w' = insert h (opened w))"

definition neutral :: "('w \<Rightarrow> nat set) \<Rightarrow> ('w \<Rightarrow> 'a \<times> 'w) \<Rightarrow> bool" where
  "neutral opened f \<longleftrightarrow> (\<forall>w. opened (snd (f w)) = opened w)"

locale os_resources =
  fixes S :: "'w os" and opened :: "'w \<Rightarrow> nat set"
  assumes opens_law: "opens opened (loadObjects S n)" "opens opened (Socket S p)" "opens opened (Kprobe S fn h)"
    and keeping: "neutral opened (RemoveMemlock S)" "neutral opened (InterfaceByName S ifn)"
      "neutral opened (BindSock S h p ix)" "neutral opened (SetsockoptInt S h optn v)"
    and closing: "Close S h w = (Inr u, w') \<Longrightarrow> opened w' = opened w - {h}"
      "Close S h w = (Inl err, w') \<Longrightarrow> opened w' = opened w"
begin

text \<open>One rule per kind of call, to step through the methods.\<close>

lemma opens_cases:
  assumes "opens opened f" and "f w = (r, w')"
  shows "opened w' = (case r of Inl _ \<Rightarrow> opened w | Inr h \<Rightarrow> insert h (opened w)) \<and>
    (case r of Inl _ \<Rightarrow> True | Inr h \<Rightarrow> h \<notin> opened w)"
proof -
  from assms(1) have "case f w of (Inl err, w') \<Rightarrow> opened w' = opened w
      | (Inr h, w') \<Rightarrow> h \<notin> opened w \<and> opened w' = insert h (opened w)" unfolding opens_def by (rule spec)
  with assms(2) show ?thesis by (cases r) simp_all
qed

lemma neutral_cases: "neutral opened f \<Longrightarrow> f w = (r, w') \<Longrightarrow> opened w' = opened w"
  by (metis neutral_def snd_conv)

lemmas opening_cases = opens_law [THEN opens_cases]
lemmas keeping_cases = keeping [THEN neutral_cases]

text \<open>A raw socket is open after success, and after a failed lookup or bind too.\<close>

lemma OpenRawSock_opens:
  assumes "OpenRawSock S ifn w = (r, w')"
  shows "case r of Done sock \<Rightarrow> sock \<notin> opened w \<and> opened w' = insert sock (opened w)
    | _ \<Rightarrow> opened w' = opened w \<or> (\<exists>sock. sock \<notin> opened w \<and> opened w' = insert sock (opened w))"
  using assms unfolding OpenRawSock_def
  by (auto simp: try_call_def ret_def split: sum.splits prod.splits outcome.splits
      dest!: opening_cases(2) keeping_cases(2,3))

lemma raw_sock_call:
  assumes "as_call (OpenRawSock S ifn) w = (r, w')"
  shows "case r of Inr sock \<Rightarrow> sock \<notin> opened w \<and> opened w' = insert sock (opened w) | Inl _ \<Rightarrow> opened w \<subseteq> opened w'"
proof -
  obtain r1 w1 where r1: "OpenRawSock S ifn w = (r1, w1)" by (cases "OpenRawSock S ifn w")
  from OpenRawSock_opens [OF r1] r1 assms show ?thesis by (cases r1) (auto simp: as_call_def)
qed

lemma http_Load_opens:
  assumes "http_Load S ifn w = (Done (objs, rawSock), w')"
  shows "objs \<notin> opened w \<and> rawSock \<notin> insert objs (opened w) \<and> opened w' = {objs, rawSock} \<union> opened w"
  using assms unfolding http_Load_def
  by (elim try_callE) (auto simp: ret_def dest!: opening_cases(1) keeping_cases(1,4) raw_sock_call)

text \<open>A failed \<^verbatim>\<open>Load\<close> leaves the objects open when they had been loaded, and the caller does not
  unload.\<close>

lemma http_Load_fails:
  assumes "http_Load S ifn w = (Failed err, w')"
  shows "if err = ''removing memlock'' \<or> err = ''loading objects failed'' then opened w' = opened w
    else \<exists>objs. objs \<notin> opened w \<and> insert objs (opened w) \<subseteq> opened w'"
  using assms unfolding http_Load_def
proof (elim try_callE)
  fix x w1 objs w2 e
  assume "RemoveMemlock S w = (Inr x, w1)" "loadObjects S ''http'' w1 = (Inr objs, w2)"
    "as_call (OpenRawSock S ifn) w2 = (Inl e, w')" "Failed err = Failed ''open raw sock failed''"
  then show ?thesis using keeping_cases(1) opening_cases(1) raw_sock_call by (fastforce split: sum.splits)
next
  fix x w1 objs w2 sock w3 e
  assume "RemoveMemlock S w = (Inr x, w1)" "loadObjects S ''http'' w1 = (Inr objs, w2)"
    "as_call (OpenRawSock S ifn) w2 = (Inr sock, w3)" "SetsockoptInt S sock SO_ATTACH_BPF objs w3 = (Inl e, w')"
    "Failed err = Failed ''attach BPF program failed''"
  then show ?thesis using keeping_cases(1,4) opening_cases(1) raw_sock_call by (fastforce split: sum.splits)
qed (auto simp: ret_def dest!: keeping_cases(1) opening_cases(1))

lemma http_Unload_closes:
  assumes "http_Unload S (objs, rawSock) w = (Done u, w')"
  shows "opened w' = opened w - {objs}"
  using assms unfolding http_Unload_def
  by (auto simp: try_call_def ret_def split: sum.splits prod.splits dest!: keeping_cases(4) closing(1))

lemma oomkill_roundtrip:
  assumes "oomkill_Load S w = (Done h, w1)" and "oomkill_Unload S h w1 = (Done u, w2)"
  shows "opened w2 = opened w"
proof -
  obtain objs kp where h: "h = (objs, kp)" by (cases h)
  from assms(1) have "objs \<notin> opened w \<and> kp \<notin> insert objs (opened w) \<and> opened w1 = {objs, kp} \<union> opened w"
    unfolding oomkill_Load_def h
    by (auto simp: try_call_def ret_def split: sum.splits prod.splits dest!: opening_cases(1,3) keeping_cases(1))
  moreover from assms(2) have "opened w2 = opened w1 - {kp} - {objs}"
    unfolding oomkill_Unload_def h
    by (auto simp: try_call_def ret_def split: sum.splits prod.splits dest!: closing(1))
  ultimately show ?thesis by auto
qed

lemma tcpsynbl_roundtrip:
  assumes "tcpsynbl_Load S w = (Done h, w1)" and "tcpsynbl_Unload S h w1 = (Done u, w2)"
  shows "opened w2 = opened w"
proof -
  obtain objs kpv4 kpv6 where h: "h = (objs, kpv4, kpv6)" by (cases h)
  from assms(1) have "objs \<notin> opened w \<and> kpv4 \<notin> insert objs (opened w) \<and> kpv6 \<notin> {kpv4, objs} \<union> opened w \<and>
      opened w1 = {objs, kpv4, kpv6} \<union> opened w"
    unfolding tcpsynbl_Load_def h
    by (auto simp: try_call_def ret_def split: sum.splits prod.splits dest!: opening_cases(1,3) keeping_cases(1))
  moreover from assms(2) have "opened w2 = opened w1 - {kpv4} - {kpv6} - {objs}"
    unfolding tcpsynbl_Unload_def h
    by (auto simp: try_call_def ret_def split: sum.splits prod.splits dest!: closing(1))
  ultimately show ?thesis by auto
qed

lemma http_keeps_socket:
  assumes "http_Load S ifn w = (Done h, w1)" and "http_Unload S h w1 = (Done u, w2)"
  shows "snd h \<notin> opened w \<and> opened w2 = insert (snd h) (opened w)"
proof -
  obtain objs rawSock where h: "h = (objs, rawSock)" by (cases h)
  from http_Load_opens [of ifn w objs rawSock w1] http_Unload_closes [of objs rawSock w1 u w2] assms h
  show ?thesis by auto
qed

end

section \<open>An operating system\<close>

text \<open>Handles are numbered, and the calls whose names are listed fail.\<close>

record ref_os_state =
  ro_next :: nat
  ro_open :: "nat list"
  ro_failing :: "string list"

definition ref_open :: "string \<Rightarrow> ref_os_state \<Rightarrow> (string + nat) \<times> ref_os_state" where
  "ref_open nm w =
     (if nm \<in> set (ro_failing w) \<or> ro_next w \<in> set (ro_open w) then (Inl nm, w)
      else (Inr (ro_next w), w\<lparr>ro_next := ro_next w + 1, ro_open := ro_next w # ro_open w\<rparr>))"

definition ref_call :: "string \<Rightarrow> 'a \<Rightarrow> ref_os_state \<Rightarrow> (string + 'a) \<times> ref_os_state" where
  "ref_call nm x w = (if nm \<in> set (ro_failing w) then Inl nm else Inr x, w)"

definition ref_close :: "nat \<Rightarrow> ref_os_state \<Rightarrow> (string + unit) \<times> ref_os_state" where
  "ref_close h w =
     (if ''close'' \<in> set (ro_failing w) then (Inl ''close'', w)
      else (Inr (), w\<lparr>ro_open := filter (\<lambda>x. x \<noteq> h) (ro_open w)\<rparr>))"

definition ref_os :: "ref_os_state os" where
  "ref_os = \<lparr>RemoveMemlock = ref_call ''rlimit'' (), loadObjects = (\<lambda>n. ref_open n), Socket = (\<lambda>p. ref_open ''socket''),
     InterfaceByName = (\<lambda>n. ref_call n 4), BindSock = (\<lambda>s p i. ref_call ''bind'' ()),
     SetsockoptInt = (\<lambda>s opt v. ref_call ''setsockopt'' ()), Kprobe = (\<lambda>fn h. ref_open fn), Close = ref_close\<rparr>"

interpretation ref_os: os_resources ref_os "\<lambda>w. set (ro_open w)"
  by unfold_locales (auto simp: ref_os_def opens_def neutral_def ref_open_def ref_call_def ref_close_def
      split: if_splits)

end
