(* ===== verification/Pipeline_Properties.thy ===== *)
theory Pipeline_Properties
  imports Red_Metric Ring_Reader Plugin_Lifecycle
begin

text \<open>
  Properties of the agent's pipeline: the read loops, the aggregation of the HTTP plugin, the pod table,
  the point buffer, and the handles the plugins open.
\<close>

section \<open>Aggregation\<close>

text \<open>C12: The loop of the HTTP plugin computes its specification: for any sequence of samples and ticks,
  where a tick ranges over the pods seen since the last one in any order, the channel carries every sample
  and at each tick one rate metric per pod, computed from exactly the samples of that pod since the last
  tick, and the table holds the counters of the samples after the last tick.\<close>

theorem red_refines:
  assumes "ticks_range_from [] es"
  shows "Gather es Map.empty = (red_spec [] es, \<lambda>p. red_of p (window_from [] es))"
  using gather_refines [OF assms] by simp

definition sample_traffic :: "string \<Rightarrow> string \<Rightarrow> rat \<Rightarrow> traffic" where
  "sample_traffic pod code dur =
     \<lparr>tr_Type = 1, tr_Flow = 1, tr_DstIP = ''10.244.0.7'', tr_DstPort = 80, tr_SrcIP = ''10.244.0.5'',
      tr_SrcPort = 40000, tr_Duration = dur, tr_Method = ''GET'', tr_URL = ''/'', tr_Code = code,
      tr_PodName = pod, tr_NodeName = ''node-1'', tr_NameSpace = ''shop'', tr_ServiceName = ''web''\<rparr>"

definition sample_minute :: "traffic list" where
  "sample_minute = [sample_traffic ''web-0'' ''200'' 4, sample_traffic ''web-1'' ''200'' 3,
     sample_traffic ''web-0'' ''503'' 8, sample_traffic ''web-0'' ''200'' 6]"

theorem red_refines_witness:
  "fst (Gather (map Sample sample_minute @ [Tick [''web-1'', ''web-0'']]) Map.empty) =
     map traffic_CovertMetric sample_minute @
     map (\<lambda>k. RED_CovertMetric (red_rates (the (red_of k sample_minute)))) [''web-1'', ''web-0''] \<and>
   map_option rd_ErrCount (red_of ''web-0'' sample_minute) = Some 1 \<and>
   map_option rd_RequestCount (red_of ''web-0'' sample_minute) = Some 3"
proof -
  have r: "ticks_range_from [] (map Sample sample_minute @ [Tick [''web-1'', ''web-0'']])"
    by (auto simp: sample_minute_def sample_traffic_def)
  have "red_spec [] (map Sample sample_minute @ [Tick [''web-1'', ''web-0'']]) =
     map traffic_CovertMetric sample_minute @
     map (\<lambda>k. RED_CovertMetric (red_rates (the (red_of k sample_minute)))) [''web-1'', ''web-0'']"
    by (simp add: sample_minute_def)
  moreover have "map_option rd_ErrCount (red_of ''web-0'' sample_minute) = Some 1"
    "map_option rd_RequestCount (red_of ''web-0'' sample_minute) = Some 3" by code_simp+
  ultimately show ?thesis using red_refines [OF r] by simp
qed

text \<open>C15: The rates a tick reports for a pod: the error rate lies between 0 and 100 in spite of three
  roundings, and the request rate differs from requests per second by the error of two roundings, as long
  as the counters have not wrapped around.\<close>

theorem red_rates_in_range:
  assumes "red_of p ts = Some v" and "length ts < 2 ^ 63"
  shows "0 \<le> rd_ErrRate (red_rates v) \<and> rd_ErrRate (red_rates v) \<le> 100 \<and>
    \<bar>rd_QPS (red_rates v) - of_nat (length (pod_samples p ts)) / 60\<bar>
      \<le> of_nat (length (pod_samples p ts)) / 60 * (1 / 2 ^ 23 + 1 / 2 ^ 48)"
  using red_rates_bounded [OF assms] by simp

theorem red_rates_in_range_witness:
  "rd_ErrRate (red_rates (the (red_of ''web-0'' sample_minute))) \<le> 100"
proof -
  have "red_of ''web-0'' sample_minute = Some (the (red_of ''web-0'' sample_minute))" by code_simp
  moreover have "length sample_minute < 2 ^ 63" by (simp add: sample_minute_def)
  ultimately show ?thesis using red_rates_in_range by blast
qed

section \<open>Pods\<close>

text \<open>After any callbacks of the pod informer, every entry of the pod table is a pod of this node that an
  event announced, under its own UID.\<close>

theorem pod_table_local:
  assumes "pod_run nodename es \<lparr>Pods = Map.empty\<rparr> = Inr p" and "Pods p k = Some pod"
  shows "k = kp_UID pod \<and> kp_NodeName pod = nodename \<and> (\<exists>e \<in> set es. pod \<in> announced e)"
  using pod_run_inv [OF assms(1), of "{}"] assms(2) by (auto simp: pods_inv_def)

definition sample_pod :: kpod where
  "sample_pod = \<lparr>kp_Name = ''web-0'', kp_Namespace = ''shop'', kp_UID = ''0f3c9b1e-5a77-4c0e-9d52-2b8f4e6a7c11'',
     kp_Labels = [], kp_NodeName = ''node-1'',
     kp_ContainerStatuses = [\<lparr>cst_ContainerID = ''containerd://'' @ replicate 64 CHR ''a'', cst_Name = ''app''\<rparr>]\<rparr>"

definition sample_pod_table :: pid2pod where
  "sample_pod_table = \<lparr>Pods = [kp_UID sample_pod \<mapsto> sample_pod]\<rparr>"

lemma sample_pod_run: "pod_run ''node-1'' [PodAdd (ObjPod sample_pod)] \<lparr>Pods = Map.empty\<rparr> = Inr sample_pod_table"
  by (simp add: AddFunc_def addPod_def sample_pod_table_def) (simp add: sample_pod_def)

theorem pod_table_local_witness:
  "kp_UID sample_pod = kp_UID sample_pod \<and> kp_NodeName sample_pod = ''node-1''"
  using pod_table_local [OF sample_pod_run, of "kp_UID sample_pod" sample_pod] by (simp add: sample_pod_table_def)

text \<open>C34: When the UIDs of the cluster's pods contain a hyphen, as those of Kubernetes do, no process is ever
  traced to a pod, whatever its cgroup file says: a pod id captured from the file consists of hexadecimal
  digits and underscores.  The OOM decoder then reports the event without its pod.\<close>

theorem no_pod_found_for_hyphenated_uids:
  assumes "pod_run nodename es \<lparr>Pods = Map.empty\<rparr> = Inr p"
    and "\<forall>e \<in> set es. \<forall>pod \<in> announced e. CHR ''-'' \<in> set (kp_UID pod)"
  shows "(\<exists>err. GetPodInfoByPid read_file p pid = Inl (GoErr err)) \<and>
    (\<forall>ev m. oomkill_DecodeMapItem (GetPodInfoByPid read_file p) ev = Inr m \<longrightarrow> m = oom_base ev)"
proof -
  have "CHR ''-'' \<in> set k" if "Pods p k = Some pod" for k pod
    using pod_run_inv [OF assms(1), of "{}"] assms(2) that by (fastforce simp: pods_inv_def)
  from hyphens_hide_pods [OF this] have e: "\<exists>err. GetPodInfoByPid read_file p pid = Inl (GoErr err)" for pid .
  then show ?thesis by (auto simp: oomkill_Decode_cases split: sum.splits go_fail.splits if_splits) (metis Inl_Inr_False)+
qed

theorem no_pod_found_for_hyphenated_uids_witness:
  "\<exists>err. GetPodInfoByPid (\<lambda>path. Inr (burstable_line ''4'' ''memory'' ''0f3c9b1e_5a77_4c0e_9d52_2b8f4e6a7c11''
      (replicate 64 CHR ''a'') @ [newline])) sample_pod_table 42 = Inl (GoErr err)"
proof -
  have "\<forall>e \<in> set [PodAdd (ObjPod sample_pod)]. \<forall>pod \<in> announced e. CHR ''-'' \<in> set (kp_UID pod)"
    by (simp add: sample_pod_def)
  then show ?thesis using no_pod_found_for_hyphenated_uids [OF sample_pod_run] by blast
qed

text \<open>From the cgroup file of a container of a burstable pod, after any lines that do not match, the lookup
  returns the pod id and the container id of the line.\<close>

theorem burstable_pod_recognised:
  assumes "hierarchy \<noteq> []" and "list_all is_digit hierarchy"
    and "controllers \<noteq> []" and "CHR '':'' \<notin> set controllers" and "newline \<notin> set controllers"
    and "length podId = 36" and "list_all (in_class HexUnderscore) podId"
    and "length containerId = 64" and "list_all (in_class HexUnderscore) containerId"
    and "\<forall>l \<in> set before. find_submatch kubeSystemdPattern l = None"
    and "scan_lines f = before @ burstable_line hierarchy controllers podId containerId # rest"
  shows "lookupIdByPid (\<lambda>path. Inr f) pid = Inr (podId, containerId)"
proof -
  have "first_match (before @ burstable_line hierarchy controllers podId containerId # rest) = Some (podId, containerId)"
    using assms(10) burstable_line_ids [OF assms(1-9)] by (induction before) auto
  with assms(11) show ?thesis by (simp add: lookupIdByPid_def)
qed

theorem burstable_pod_recognised_witness:
  "lookupIdByPid (\<lambda>path. Inr (burstable_line ''4'' ''memory'' ''0f3c9b1e_5a77_4c0e_9d52_2b8f4e6a7c11''
      (replicate 64 CHR ''a'') @ [newline])) 42 =
   Inr (''0f3c9b1e_5a77_4c0e_9d52_2b8f4e6a7c11'', replicate 64 CHR ''a'')"
proof -
  let ?l = "burstable_line ''4'' ''memory'' ''0f3c9b1e_5a77_4c0e_9d52_2b8f4e6a7c11'' (replicate 64 CHR ''a'')"
  have "newline \<notin> set ?l" by (simp add: burstable_line_def newline_def)
  then have "scan_lines (?l @ [newline]) = [] @ ?l # []"
    by (simp add: scan_lines_def split_on_append drop_cr_def) (simp add: burstable_line_def)
  moreover have "list_all (in_class HexUnderscore) (replicate 64 CHR ''a'')" by (simp add: list_all_iff)
  ultimately show ?thesis
    by (intro burstable_pod_recognised [where before = "[]" and rest = "[]"]) (simp_all add: newline_def is_digit_def)
qed

text \<open>C35: On the unified cgroup hierarchy, whose files hold one line of the form \<^verbatim>\<open>0::path\<close>, the
  lookup fails for every path without a colon, such as those the kubelet makes, however long it is: the pattern
  wants a controller list between two colons, and the only two are adjacent.  (In a path with a colon of its own
  the pattern can take that one for the second.)\<close>

theorem cgroup_v2_not_recognised:
  assumes "CHR '':'' \<notin> set path" and "newline \<notin> set path"
  shows "\<exists>err. lookupIdByPid (\<lambda>f. Inr (v2_line path @ [newline])) pid = Inl (GoErr err)"
proof -
  have nl: "newline \<notin> set (v2_line path)" using assms(2) by (simp add: v2_line_def newline_def)
  then have "scan_lines (v2_line path @ [newline]) = [] \<or>
      scan_lines (v2_line path @ [newline]) = [drop_cr (v2_line path)]"
    by (simp add: scan_lines_def split_on_append)
  moreover obtain path' where "drop_cr (v2_line path) = v2_line path'" "CHR '':'' \<notin> set path'"
  proof (cases "path = []")
    case True
    have "drop_cr (v2_line []) = v2_line []" by code_simp
    with True show ?thesis by (intro that [of "[]"]) simp_all
  next
    case False
    then show ?thesis using assms(1)
      by (intro that [of "if last path = CHR 0x0D then butlast path else path"])
        (auto simp: drop_cr_def v2_line_def butlast_append dest: in_set_butlastD)
  qed
  moreover have "find_submatch kubeSystemdPattern (v2_line path') = None" if "CHR '':'' \<notin> set path'" for path'
    unfolding find_submatch_None using v2_line_no_match [OF that] by blast
  ultimately show ?thesis by (auto simp: lookupIdByPid_def first_match_None)
qed

theorem cgroup_v2_not_recognised_witness:
  "\<exists>err. lookupIdByPid (\<lambda>f. Inr (v2_line ''/kubepods.slice/kubepods-burstable.slice'' @ [newline])) 42 = Inl (GoErr err)"
  by (rule cgroup_v2_not_recognised) (simp_all add: newline_def)

text \<open>The informer's delete callback panics exactly on objects that are not pods, such as the marker client-go
  delivers for a deletion the watch missed.\<close>

theorem delete_callback_panics:
  "(\<exists>m. DeleteFunc c nodename obj s = Inl (GoPanic m)) \<longleftrightarrow> (\<forall>pod. obj \<noteq> ObjPod pod)"
  by (cases obj) (simp_all add: DeleteFunc_def)

section \<open>Read loops\<close>

text \<open>C13: The HTTP plugin's read loop delivers, in order, the metric of every record up to the closing of the
  reader that parses and whose destination the endpoint table knows at that moment; bad records and read
  errors are skipped, and it never panics.\<close>

theorem http_Start_delivers:
  "http_Start rs =
    (List.map_filter (decoded read_httpPacket (\<lambda>i. http_DecodeMapItem (GetPodByEndpoint i))) (records_of rs),
     end_of rs)"
  unfolding http_Start_def by (rule http_reader.delivers) (simp add: list_all_iff)

text \<open>The OOM plugin's read loop delivers the metric of every record when the texts of all records are
  NUL-terminated, whatever pods are known.\<close>

theorem oomkill_Start_delivers:
  assumes "list_all (\<lambda>(raw, p). oom_terminated raw) (records_of rs)"
  shows "oomkill_Start read_file rs =
    (List.map_filter (decoded read_oomkillEvent (\<lambda>p. oomkill_DecodeMapItem (GetPodInfoByPid read_file p))) (records_of rs),
     end_of rs)"
  unfolding oomkill_Start_def by (rule oom_reader.delivers [OF assms])

theorem oomkill_Start_delivers_witness:
  "oomkill_Start (\<lambda>f. Inl ''gone'') [(RdErr ''timeout'', sample_pod_table), (RdRecord (replicate 176 0), sample_pod_table),
      (RdRecord [1, 2], sample_pod_table), (RdClosed True, sample_pod_table)] =
    ([oom_base (go_oom_event oom_event_zero)], Exited ''exiting'')"
proof -
  have z: "read_oomkillEvent (replicate 176 0) = Inr (go_oom_event oom_event_zero)" by code_simp
  then have t: "oom_terminated (replicate 176 0)" by (simp add: oom_terminated_def) code_simp
  have s: "read_oomkillEvent [1, 2] = Inl (GoErr ''unexpected EOF'')" by (simp add: read_oomkillEvent_def read_full_def)
  have d: "oomkill_DecodeMapItem (GetPodInfoByPid (\<lambda>f. Inl ''gone'') sample_pod_table) (go_oom_event oom_event_zero) =
      Inr (oom_base (go_oom_event oom_event_zero))"
    using t z by (simp add: oomkill_Decode_cases oom_terminated_def GetPodInfoByPid_def lookupIdByPid_def)
  show ?thesis
    using t by (subst oomkill_Start_delivers) (simp_all add: z s d oom_terminated_def decoded_def)
qed

section \<open>The point buffer\<close>

text \<open>C14: Whatever the orders of the range loops, and however writes and commits interleave and fail, every
  metric written is stored or still buffered, as a point with the metric's measurement, tags and fields; on a
  server that stores nothing of a refused write, points are stored once each and in order.\<close>

theorem points_not_lost:
  assumes "influx_points A nm tg fl" and "influx_server WP st"
    and "OpWrite tks fks m \<in> set ops" and "dom (tag_of m) \<subseteq> set tks" and "dom (field_of m) \<subseteq> set fks"
  shows "(\<exists>p \<in> set (st (fst (db_run A WP ops (w, i)))) \<union> set (Points (snd (db_run A WP ops (w, i)))).
      nm p = Measurement m \<and> tg p = tag_of m \<and> fl p = field_of m) \<and>
    (atomic_influx_server WP st \<longrightarrow>
      st (fst (db_run A WP ops (w, i))) @ Points (snd (db_run A WP ops (w, i))) = st w @ Points i @ points_of A ops)"
  using written_kept [OF assms] atomic_influx_server.stored_in_order [of WP st] by blast

definition sample_red :: metric where
  "sample_red = metric_zero\<lparr>Measurement := ''red''\<rparr>"

theorem points_not_lost_witness:
  "\<exists>p \<in> set (sv_points (fst (db_run ref_points ref_write
        [OpWrite [''podname''] [''qps''] (AddField ''qps'' (F32 1) (AddTags ''podname'' ''web-0'' sample_red)),
         OpCommit, OpCommit] (\<lparr>sv_outages = [True], sv_points = []\<rparr>, \<lparr>Points = []\<rparr>)))).
     rp_name p = ''red'' \<and> rp_tags p ''podname'' = Some ''web-0''"
proof -
  let ?m = "AddField ''qps'' (F32 1) (AddTags ''podname'' ''web-0'' sample_red)"
  let ?r = "db_run ref_points ref_write [OpWrite [''podname''] [''qps''] ?m, OpCommit, OpCommit]
     (\<lparr>sv_outages = [True], sv_points = []\<rparr>, \<lparr>Points = []\<rparr>)"
  have d: "dom (tag_of ?m) \<subseteq> set [''podname'']" "dom (field_of ?m) \<subseteq> set [''qps'']"
    by (auto simp: sample_red_def split: if_splits)
  have p: "Points (snd ?r) = []" by (simp add: Write_def Commit_def ref_write_def ClearPoints_def)
  have m: "Measurement ?m = ''red''" "tag_of ?m ''podname'' = Some ''web-0''" by (simp_all add: sample_red_def)
  have "influx_server ref_write (sv_points :: ref_point ref_server \<Rightarrow> ref_point list)" by (rule ref_server.influx_server_axioms)
  from points_not_lost [OF ref_points.influx_points_axioms this _ d,
      of "[OpWrite [''podname''] [''qps''] ?m, OpCommit, OpCommit]"]
  show ?thesis using p m by fastforce
qed

section \<open>Handles\<close>




end
