(* ===== verification/Agent_Main.thy ===== *)
theory Agent_Main
  imports Metrics
begin

text \<open>
  The agent around its plugins: the plugin registry of \<^verbatim>\<open>src/internal/plugin/plugin.go\<close> filled by
  the imports of \<^verbatim>\<open>src/plugins/all.go\<close>, the database settings of \<^verbatim>\<open>setupInfluxdb\<close> and
  the main loop of \<^verbatim>\<open>src/main.go\<close>, which writes every metric it receives into the point buffer
  until a signal stops it, while the ticker of the buffer commits.
\<close>

section \<open>Plugins\<close>

text \<open>A plugin is its name and its \<^verbatim>\<open>Gather\<close> method, here only told apart.\<close>

datatype gather_method = Http_Gather | Oomkill_Gather | Tcpsynbl_Gather

record plugin =
  pl_Name :: string
  pl_Gather :: gather_method

type_synonym plugins = "string \<Rightarrow> plugin option"

definition plugin_Registry :: "string \<Rightarrow> plugin \<Rightarrow> plugins \<Rightarrow> plugins" where
  "plugin_Registry name p Plugins = Plugins(name \<mapsto> p)"

definition http_plugin_init :: "plugins \<Rightarrow> plugins" where
  "http_plugin_init = plugin_Registry ''http'' \<lparr>pl_Name = ''http'', pl_Gather = Http_Gather\<rparr>"

definition oomkill_plugin_init :: "plugins \<Rightarrow> plugins" where
  "oomkill_plugin_init = plugin_Registry ''oomkill'' \<lparr>pl_Name = ''oomkill'', pl_Gather = Oomkill_Gather\<rparr>"

definition tcpsynbl_plugin_init :: "plugins \<Rightarrow> plugins" where
  "tcpsynbl_plugin_init = plugin_Registry ''tcpsynbl'' \<lparr>pl_Name = ''tcpsynbl'', pl_Gather = Tcpsynbl_Gather\<rparr>"

text \<open>The packages are initialised in the order of their imports.\<close>

definition all_plugins :: plugins where
  "all_plugins = tcpsynbl_plugin_init (oomkill_plugin_init (http_plugin_init Map.empty))"

lemma plugins_by_name:
  "dom all_plugins = {''http'', ''oomkill'', ''tcpsynbl''}" "all_plugins n = Some p \<Longrightarrow> pl_Name p = n"
  by (auto simp: all_plugins_def tcpsynbl_plugin_init_def oomkill_plugin_init_def http_plugin_init_def plugin_Registry_def split: if_splits)

section \<open>Database settings\<close>

definition setupInfluxdb :: "(string \<Rightarrow> string) \<Rightarrow> (string \<times> string \<times> string \<times> string) go" where
  "setupInfluxdb Getenv =
    (let influxAddr = Getenv ''INFLUX_ADDR''; influxOrg = Getenv ''INFLUX_ORG'';
         influxBucket = Getenv ''INFLUX_BUCKET''; influxToken = Getenv ''INFLUX_TOKEN''
     in if influxAddr = '''' \<or> influxOrg = '''' \<or> influxBucket = '''' \<or> influxToken = '''' then
          Inl (GoErr ''influxdb config error'')
        else Inr (influxAddr, influxOrg, influxBucket, influxToken))"

lemma setupInfluxdb_total:
  "(\<exists>c. setupInfluxdb Getenv = Inr c) \<longleftrightarrow>
   (\<forall>v \<in> set [''INFLUX_ADDR'', ''INFLUX_ORG'', ''INFLUX_BUCKET'', ''INFLUX_TOKEN'']. Getenv v \<noteq> '''')"
  by (simp add: setupInfluxdb_def Let_def)

section \<open>The main loop\<close>

text \<open>What the two goroutines around the buffer see: a metric from the channel, with the orders in which
  \<^verbatim>\<open>Write\<close> ranges over its maps, a tick of the committer, or the stop signal.  The result tells whether
  \<^verbatim>\<open>main\<close> has returned.\<close>

datatype main_event = MainRecv "string list" "string list" metric | MainTick | MainStop

fun main_loop :: "'p point_api \<Rightarrow> ('w \<Rightarrow> 'p list \<Rightarrow> string option \<times> 'w) \<Rightarrow> main_event list \<Rightarrow>
    'w \<times> 'p influxdb \<Rightarrow> bool \<times> 'w \<times> 'p influxdb" where
  "main_loop A WritePoint [] wi = (False, wi)"
| "main_loop A WritePoint (MainRecv tks fks m # es) (w, i) = main_loop A WritePoint es (w, Write A tks fks m i)"
| "main_loop A WritePoint (MainTick # es) wi = main_loop A WritePoint es (snd (Commit WritePoint wi))"
| "main_loop A WritePoint (MainStop # es) wi = (True, wi)"

text \<open>Up to the signal it is a run of the buffer.\<close>

fun ops_of :: "main_event list \<Rightarrow> db_op list" where
  "ops_of [] = []"
| "ops_of (MainRecv tks fks m # es) = OpWrite tks fks m # ops_of es"
| "ops_of (MainTick # es) = OpCommit # ops_of es"
| "ops_of (MainStop # es) = []"

lemma main_loop_run:
  "main_loop A WritePoint es wi = (MainStop \<in> set es, db_run A WritePoint (ops_of es) wi)"
  by (induction A WritePoint es wi rule: main_loop.induct) auto

text \<open>Whatever is in the buffer when the signal comes is never sent: \<^verbatim>\<open>main\<close> returns without a
  commit.\<close>

lemma stop_drops_buffer:
  assumes "list_all (\<lambda>e. \<exists>tks fks m. e = MainRecv tks fks m) es"
  shows "main_loop A WritePoint (es @ MainStop # rest) (w, i) =
    (True, w, i\<lparr>Points := Points i @ points_of A (ops_of es)\<rparr>)"
  using assms
proof (induction es arbitrary: i)
  case (Cons e es)
  then obtain tks fks m where "e = MainRecv tks fks m" by auto
  with Cons show ?case by (simp add: Write_def)
qed simp

end
