(* ===== verification/Agent_Flow.thy ===== *)
theory Agent_Flow
  imports Red_Metric Ring_Reader Agent_Main
begin

text \<open>
  The running agent: per plugin a goroutine with the read loop, a goroutine that waits to close the reader and
  the goroutine of \<^verbatim>\<open>Gather\<close>, joined by an unbuffered channel; the channel of 1000 metrics from all
  plugins to the main loop; the point buffer with its committer.  \<open>astep\<close> is the step relation, one rule per
  action of a goroutine, and a run is a list of labels.  The invariant \<open>accounts\<close> relates a state to the
  labels of its run; from it follow that no decoded record is lost on the way, that whatever is under way
  can always be drained into the buffer, and that the plugins are never unloaded.
\<close>

section \<open>State\<close>

datatype plug = PHttp | POom | PSyn

text \<open>What travels on the three unbuffered channels.\<close>

datatype item = IHttp traffic | IOom oom_metric | ISyn syn_metric

fun covert :: "item \<Rightarrow> metric" where
  "covert (IHttp t) = traffic_CovertMetric t"
| "covert (IOom e) = oomkill_CovertMetric e"
| "covert (ISyn e) = tcpsynbl_CovertMetric e"

text \<open>The tables and the proc file system as a decoder finds them.\<close>

record 'h tables =
  tb_endpoints :: "'h endpoint2pod"
  tb_pods :: pid2pod
  tb_proc :: "string \<Rightarrow> string + string"

fun decode :: "plug \<Rightarrow> 'h tables \<Rightarrow> byte list \<Rightarrow> item go" where
  "decode PHttp t raw =
     go_bind (go_bind (read_httpPacket raw) (http_DecodeMapItem (GetPodByEndpoint (tb_endpoints t)))) (\<lambda>x. Inr (IHttp x))"
| "decode POom t raw =
     go_bind (go_bind (read_oomkillEvent raw) (oomkill_DecodeMapItem (GetPodInfoByPid (tb_proc t) (tb_pods t))))
       (\<lambda>x. Inr (IOom x))"
| "decode PSyn t raw =
     go_bind (go_bind (read_tcpsynblEvent raw)
       (tcpsynbl_DecodeMapItem (getCommByPid (tb_proc t)) (GetPodInfoByPid (tb_proc t) (tb_pods t))))
       (\<lambda>x. Inr (ISyn x))"

text \<open>Where the goroutines are.  A reader is in its loop, sends an item, sends on \<^verbatim>\<open>stopper\<close>, or has
  returned; a closer waits for \<^verbatim>\<open>stopper\<close>, unloads, closes the reader, or has ended.\<close>

datatype reader_pc = RLoop | RSend item | RStopper | REnd string

datatype closer_pc = ClWait | ClUnload | ClClose | ClEnd

datatype main_pc = Running | Returned | Crashed string

text \<open>\<open>ag_gather\<close> is what a \<^verbatim>\<open>Gather\<close> goroutine has still to send before it receives again.\<close>

record ('p, 'w) agent =
  ag_reader :: "plug \<Rightarrow> reader_pc"
  ag_closer :: "plug \<Rightarrow> closer_pc"
  ag_closed :: "plug \<Rightarrow> bool"
  ag_gather :: "plug \<Rightarrow> metric list"
  ag_red :: red_table
  ag_chan :: "metric list"
  ag_db :: "'w \<times> 'p influxdb"
  ag_main :: main_pc

definition agent_init :: "'w \<Rightarrow> ('p, 'w) agent" where
  "agent_init w = \<lparr>ag_reader = (\<lambda>_. RLoop), ag_closer = (\<lambda>_. ClWait), ag_closed = (\<lambda>_. False),
     ag_gather = (\<lambda>_. []), ag_red = Map.empty, ag_chan = [], ag_db = (w, \<lparr>Points = []\<rparr>), ag_main = Running\<rparr>"

text \<open>What \<^verbatim>\<open>Gather\<close> does with an item.\<close>

fun relay :: "item \<Rightarrow> red_table \<Rightarrow> metric list \<times> red_table" where
  "relay (IHttp t) red = gather_step (Sample t) red"
| "relay (IOom e) red = (oomkill_Gather [e], red)"
| "relay (ISyn e) red = (tcpsynbl_Gather [e], red)"

definition chan_size :: nat where "chan_size = 1000"

section \<open>Steps\<close>

datatype 'h label =
    LRead plug read_result "'h tables" | LHand plug item | LTick "string list" | LSend plug metric
  | LRecv "string list" "string list" metric | LCommit | LSignal | LStop plug | LUnload plug | LClose plug

inductive astep :: "'p point_api \<Rightarrow> ('w \<Rightarrow> 'p list \<Rightarrow> string option \<times> 'w) \<Rightarrow>
    ('p, 'w) agent \<Rightarrow> 'h label \<Rightarrow> ('p, 'w) agent \<Rightarrow> bool"
  for A :: "'p point_api" and WP :: "'w \<Rightarrow> 'p list \<Rightarrow> string option \<times> 'w" where
  read_err: "ag_main s = Running \<Longrightarrow> ag_reader s p = RLoop \<Longrightarrow> astep A WP s (LRead p (RdErr e) t) s"
| read_closed: "ag_main s = Running \<Longrightarrow> ag_reader s p = RLoop \<Longrightarrow> ag_closed s p \<Longrightarrow>
    astep A WP s (LRead p (RdClosed (ag_closer s p = ClWait)) t) (s\<lparr>ag_reader := (ag_reader s)(p := RStopper)\<rparr>)"
| read_skip: "ag_main s = Running \<Longrightarrow> ag_reader s p = RLoop \<Longrightarrow> decode p t raw = Inl (GoErr e) \<Longrightarrow>
    astep A WP s (LRead p (RdRecord raw) t) s"
| read_panic: "ag_main s = Running \<Longrightarrow> ag_reader s p = RLoop \<Longrightarrow> decode p t raw = Inl (GoPanic e) \<Longrightarrow>
    astep A WP s (LRead p (RdRecord raw) t) (s\<lparr>ag_main := Crashed e\<rparr>)"
| read_item: "ag_main s = Running \<Longrightarrow> ag_reader s p = RLoop \<Longrightarrow> decode p t raw = Inr x \<Longrightarrow>
    astep A WP s (LRead p (RdRecord raw) t) (s\<lparr>ag_reader := (ag_reader s)(p := RSend x)\<rparr>)"
| hand: "ag_main s = Running \<Longrightarrow> ag_reader s p = RSend x \<Longrightarrow> ag_gather s p = [] \<Longrightarrow>
    relay x (ag_red s) = (ms, red') \<Longrightarrow>
    astep A WP s (LHand p x)
      (s\<lparr>ag_reader := (ag_reader s)(p := RLoop), ag_gather := (ag_gather s)(p := ms), ag_red := red'\<rparr>)"
| tick: "ag_main s = Running \<Longrightarrow> ag_gather s PHttp = [] \<Longrightarrow> distinct ks \<Longrightarrow> set ks = dom (ag_red s) \<Longrightarrow>
    gather_step (Tick ks) (ag_red s) = (ms, red') \<Longrightarrow>
    astep A WP s (LTick ks) (s\<lparr>ag_gather := (ag_gather s)(PHttp := ms), ag_red := red'\<rparr>)"
| send: "ag_main s = Running \<Longrightarrow> ag_gather s p = m # ms \<Longrightarrow> length (ag_chan s) < chan_size \<Longrightarrow>
    astep A WP s (LSend p m) (s\<lparr>ag_gather := (ag_gather s)(p := ms), ag_chan := ag_chan s @ [m]\<rparr>)"
| recv: "ag_main s = Running \<Longrightarrow> ag_chan s = m # ms \<Longrightarrow> distinct tks \<Longrightarrow> set tks = dom (tag_of m) \<Longrightarrow>
    distinct fks \<Longrightarrow> set fks = dom (field_of m) \<Longrightarrow>
    astep A WP s (LRecv tks fks m) (s\<lparr>ag_chan := ms, ag_db := db_step A WP (OpWrite tks fks m) (ag_db s)\<rparr>)"
| commit: "ag_main s = Running \<Longrightarrow> astep A WP s LCommit (s\<lparr>ag_db := db_step A WP OpCommit (ag_db s)\<rparr>)"
| signal: "ag_main s = Running \<Longrightarrow> astep A WP s LSignal (s\<lparr>ag_main := Returned\<rparr>)"
| stop: "ag_main s = Running \<Longrightarrow> ag_reader s p = RStopper \<Longrightarrow> ag_closer s p = ClWait \<Longrightarrow>
    astep A WP s (LStop p)
      (s\<lparr>ag_reader := (ag_reader s)(p := REnd ''exiting''), ag_closer := (ag_closer s)(p := ClUnload)\<rparr>)"
| unload: "ag_main s = Running \<Longrightarrow> ag_closer s p = ClUnload \<Longrightarrow>
    astep A WP s (LUnload p) (s\<lparr>ag_closer := (ag_closer s)(p := ClClose)\<rparr>)"
| close: "ag_main s = Running \<Longrightarrow> ag_closer s p = ClClose \<Longrightarrow>
    astep A WP s (LClose p) (s\<lparr>ag_closer := (ag_closer s)(p := ClEnd), ag_closed := (ag_closed s)(p := True)\<rparr>)"

inductive_cases astep_stopE: "astep A WP s (LStop p) s'"
inductive_cases astep_recvE: "astep A WP s (LRecv tks fks m) s'"

inductive arun :: "'p point_api \<Rightarrow> ('w \<Rightarrow> 'p list \<Rightarrow> string option \<times> 'w) \<Rightarrow>
    ('p, 'w) agent \<Rightarrow> 'h label list \<Rightarrow> ('p, 'w) agent \<Rightarrow> bool"
  for A WP s where
  arun_refl: "arun A WP s [] s"
| arun_snoc: "arun A WP s ls s' \<Longrightarrow> astep A WP s' l s'' \<Longrightarrow> arun A WP s (ls @ [l]) s''"

lemma arun_append: "arun A WP s' ks s'' \<Longrightarrow> arun A WP s ls s' \<Longrightarrow> arun A WP s (ls @ ks) s''"
proof (induction rule: arun.induct)
  case (arun_snoc ks s' l s'')
  then show ?case using arun.arun_snoc [of A WP s "ls @ ks" s' l s''] by simp
qed simp

lemma arun_one: "astep A WP s l s' \<Longrightarrow> arun A WP s [l] s'"
  using arun.arun_snoc [OF arun.arun_refl] by fastforce

section \<open>What a run did\<close>

fun item_of :: "plug \<Rightarrow> 'h label \<Rightarrow> item option" where
  "item_of p (LRead q (RdRecord raw) t) = (if q = p then right_of (decode p t raw) else None)"
| "item_of p _ = None"

fun handed_of :: "plug \<Rightarrow> 'h label \<Rightarrow> item option" where
  "handed_of p (LHand q x) = (if q = p then Some x else None)"
| "handed_of p _ = None"

fun gather_of :: "'h label \<Rightarrow> gather_event option" where
  "gather_of (LHand PHttp (IHttp t)) = Some (Sample t)"
| "gather_of (LTick ks) = Some (Tick ks)"
| "gather_of _ = None"

fun sent_of :: "'h label \<Rightarrow> (plug \<times> metric) option" where
  "sent_of (LSend p m) = Some (p, m)"
| "sent_of _ = None"

fun recv_of :: "'h label \<Rightarrow> metric option" where
  "recv_of (LRecv tks fks m) = Some m"
| "recv_of _ = None"

fun op_of :: "'h label \<Rightarrow> db_op option" where
  "op_of (LRecv tks fks m) = Some (OpWrite tks fks m)"
| "op_of LCommit = Some OpCommit"
| "op_of _ = None"

definition items :: "plug \<Rightarrow> 'h label list \<Rightarrow> item list" where "items p = List.map_filter (item_of p)"
definition handed :: "plug \<Rightarrow> 'h label list \<Rightarrow> item list" where "handed p = List.map_filter (handed_of p)"
definition gather_events :: "'h label list \<Rightarrow> gather_event list" where "gather_events = List.map_filter gather_of"
definition sent :: "'h label list \<Rightarrow> (plug \<times> metric) list" where "sent = List.map_filter sent_of"
definition sent_by :: "plug \<Rightarrow> 'h label list \<Rightarrow> metric list" where "sent_by p ls = map snd (filter (\<lambda>x. fst x = p) (sent ls))"
definition received :: "'h label list \<Rightarrow> metric list" where "received = List.map_filter recv_of"
definition db_ops :: "'h label list \<Rightarrow> db_op list" where "db_ops = List.map_filter op_of"

lemma map_filter_snoc: "List.map_filter f (xs @ [x]) = List.map_filter f xs @ (case f x of None \<Rightarrow> [] | Some y \<Rightarrow> [y])"
  by (simp add: List.map_filter_def split: option.split)

lemmas trace_defs = items_def handed_def gather_events_def sent_def received_def db_ops_def

lemma trace_snoc [simp]:
  "items p (ls @ [l]) = items p ls @ (case item_of p l of None \<Rightarrow> [] | Some y \<Rightarrow> [y])"
  "handed p (ls @ [l]) = handed p ls @ (case handed_of p l of None \<Rightarrow> [] | Some y \<Rightarrow> [y])"
  "gather_events (ls @ [l]) = gather_events ls @ (case gather_of l of None \<Rightarrow> [] | Some y \<Rightarrow> [y])"
  "sent (ls @ [l]) = sent ls @ (case sent_of l of None \<Rightarrow> [] | Some y \<Rightarrow> [y])"
  "received (ls @ [l]) = received ls @ (case recv_of l of None \<Rightarrow> [] | Some y \<Rightarrow> [y])"
  "db_ops (ls @ [l]) = db_ops ls @ (case op_of l of None \<Rightarrow> [] | Some y \<Rightarrow> [y])"
  by (simp_all add: trace_defs map_filter_snoc)

lemma trace_Nil [simp]:
  "items p [] = []" "handed p [] = []" "gather_events [] = []" "sent [] = []" "received [] = []" "db_ops [] = []"
  by (simp_all add: trace_defs)

lemma sent_by_snoc [simp]: "sent_by q (ls @ [l]) =
    sent_by q ls @ (case sent_of l of None \<Rightarrow> [] | Some (p, m) \<Rightarrow> if p = q then [m] else [])"
  by (simp add: sent_by_def split: option.split)

lemma sent_by_Nil [simp]: "sent_by q [] = []"
  by (simp add: sent_by_def)

section \<open>The accounts\<close>

fun kind :: "item \<Rightarrow> plug" where
  "kind (IHttp t) = PHttp"
| "kind (IOom e) = POom"
| "kind (ISyn e) = PSyn"

lemma decode_kind: "decode p t raw = Inr x \<Longrightarrow> kind x = p"
proof (cases p)
  have bind_Inr: "go_bind y f = Inr x \<longleftrightarrow> (\<exists>z. y = Inr z \<and> f z = Inr x)" for y :: "'b go" and f and x :: item
    by (cases y) auto
  {
    case PHttp
    moreover assume "decode p t raw = Inr x"
    ultimately show ?thesis by (auto simp: bind_Inr)
  next
    case POom
    moreover assume "decode p t raw = Inr x"
    ultimately show ?thesis by (auto simp: bind_Inr)
  next
    case PSyn
    moreover assume "decode p t raw = Inr x"
    ultimately show ?thesis by (auto simp: bind_Inr)
  }
qed

fun held :: "reader_pc \<Rightarrow> item list" where
  "held (RSend x) = [x]"
| "held _ = []"

lemma held_iff: "x \<in> set (held r) \<longleftrightarrow> r = RSend x"
  by (cases r) auto

lemma relay_other: "kind x \<noteq> PHttp \<Longrightarrow> relay x red = ([covert x], red)"
  by (cases x) (simp_all add: oomkill_Gather_def tcpsynbl_Gather_def)

text \<open>Every decoded item was handed over or is held by its reader, and belongs to its plugin.\<close>

lemma acc_items: "arun A WP (agent_init w) ls s \<Longrightarrow> items p ls = handed p ls @ held (ag_reader s p)"
proof (induction rule: arun.induct)
  case (arun_snoc ls s' l s'')
  from arun_snoc(2,3) show ?case by (cases rule: astep.cases) auto
qed (simp add: agent_init_def)

lemma items_kind: "x \<in> set (items p ls) \<Longrightarrow> kind x = p"
proof -
  have "item_of p l = Some x \<Longrightarrow> kind x = p" for l :: "'a label"
    by (cases "(p, l)" rule: item_of.cases)
      (auto simp: right_of_def split: if_splits sum.splits dest: decode_kind)
  then show "x \<in> set (items p ls) \<Longrightarrow> kind x = p" by (auto simp: items_def List.map_filter_def)
qed

lemma reader_kind: "arun A WP (agent_init w) ls s \<Longrightarrow> ag_reader s p = RSend x \<Longrightarrow> kind x = p"
  using acc_items [of A WP w ls s p] items_kind [of x p ls] by simp

text \<open>What was handed over was sent on or is still to be sent.\<close>

lemma acc_gather:
  "arun A WP (agent_init w) ls s \<Longrightarrow> p \<noteq> PHttp \<Longrightarrow> map covert (handed p ls) = sent_by p ls @ ag_gather s p"
proof (induction rule: arun.induct)
  case (arun_snoc ls s' l s'')
  note k = reader_kind [OF arun_snoc(1)]
  from arun_snoc(2-4) show ?case by (cases rule: astep.cases) (auto simp: relay_other dest: k)
qed (simp add: agent_init_def)

lemma Gather_snoc:
  "Gather (es @ [e]) red =
    (let (c, red') = Gather es red; (c', red'') = gather_step e red' in (c @ c', red''))"
  by (induction es arbitrary: red) (auto simp: Let_def split: prod.splits)

text \<open>For the HTTP plugin that is the aggregation loop on the samples and ticks of the run.\<close>

lemma acc_http:
  "arun A WP (agent_init w) ls s \<Longrightarrow>
   Gather (gather_events ls) Map.empty = (sent_by PHttp ls @ ag_gather s PHttp, ag_red s)"
proof (induction rule: arun.induct)
  case (arun_snoc ls s' l s'')
  note k = reader_kind [OF arun_snoc(1)]
  from arun_snoc(2,3) show ?case
  proof (cases rule: astep.cases)
    case (hand p x ms red')
    then have "kind x = p" using k by simp
    with hand arun_snoc(3) show ?thesis
      by (cases x) (auto simp: Gather_snoc oomkill_Gather_def tcpsynbl_Gather_def)
  qed (auto simp: Gather_snoc split: prod.splits)
qed (simp add: agent_init_def)

text \<open>The channel is first in, first out; the buffer has seen every metric received.\<close>

lemma acc_chan: "arun A WP (agent_init w) ls s \<Longrightarrow> map snd (sent ls) = received ls @ ag_chan s"
proof (induction rule: arun.induct)
  case (arun_snoc ls s' l s'')
  from arun_snoc(2,3) show ?case by (cases rule: astep.cases) auto
qed (simp add: agent_init_def)

lemma db_run_snoc: "db_run A WP (xs @ [x]) wi = db_step A WP x (db_run A WP xs wi)"
  by (induction xs arbitrary: wi) simp_all

lemma acc_db: "arun A WP (agent_init w) ls s \<Longrightarrow> ag_db s = db_run A WP (db_ops ls) (w, \<lparr>Points = []\<rparr>)"
proof (induction rule: arun.induct)
  case (arun_snoc ls s' l s'')
  from arun_snoc(2,3) show ?case by (cases rule: astep.cases) (auto simp: db_run_snoc simp del: db_step.simps)
qed (simp add: agent_init_def)

lemma acc_size: "arun A WP (agent_init w) ls s \<Longrightarrow> length (ag_chan s) \<le> chan_size"
proof (induction rule: arun.induct)
  case (arun_snoc ls s' l s'')
  from arun_snoc(2,3) show ?case by (cases rule: astep.cases) auto
qed (simp add: agent_init_def)

text \<open>Nobody sends on \<^verbatim>\<open>stopper\<close> before the reader is closed, and the reader is closed only by the one
  who receives from it.\<close>

lemma acc_closer:
  "arun A WP (agent_init w) ls s \<Longrightarrow>
   ag_closer s p = ClWait \<and> \<not> ag_closed s p \<and> ag_reader s p \<noteq> RStopper \<and> (\<forall>e. ag_reader s p \<noteq> REnd e)"
proof (induction arbitrary: p rule: arun.induct)
  case (arun_snoc ls s' l s'')
  from arun_snoc(2,3) show ?case by (cases rule: astep.cases) auto
qed (simp add: agent_init_def)

text \<open>The orders of the range loops are those of the maps.\<close>

lemma recv_orders:
  "arun A WP (agent_init w) ls s \<Longrightarrow> m \<in> set (received ls) \<Longrightarrow>
   \<exists>tks fks. OpWrite tks fks m \<in> set (db_ops ls) \<and> set tks = dom (tag_of m) \<and> set fks = dom (field_of m)"
proof (induction rule: arun.induct)
  case (arun_snoc ls s' l s'')
  consider "m \<in> set (received ls)" | "recv_of l = Some m" using arun_snoc(4) by (auto split: option.splits)
  then show ?case
  proof cases
    case 1
    with arun_snoc(3) obtain tks fks where "OpWrite tks fks m \<in> set (db_ops ls)" "set tks = dom (tag_of m)"
      "set fks = dom (field_of m)" by blast
    then show ?thesis by auto
  next
    case 2
    then obtain tks fks where l: "l = LRecv tks fks m" by (cases l) auto
    have "set tks = dom (tag_of m) \<and> set fks = dom (field_of m)" using arun_snoc(2) unfolding l by (rule astep_recvE) simp
    with l show ?thesis by auto
  qed
qed simp

section \<open>Nothing is lost\<close>

lemma sampled_sent: "Sample t \<in> set es \<Longrightarrow> traffic_CovertMetric t \<in> set (fst (Gather es red))"
proof (induction es arbitrary: red)
  case (Cons e es)
  obtain c red1 where g: "gather_step e red = (c, red1)" by (cases "gather_step e red")
  obtain c' red2 where g': "Gather es red1 = (c', red2)" by (cases "Gather es red1")
  show ?case
  proof (cases "e = Sample t")
    case True
    then show ?thesis using g g' by auto
  next
    case False
    then have "traffic_CovertMetric t \<in> set (fst (Gather es red1))" using Cons by simp
    then show ?thesis using g g' by simp
  qed
qed simp

lemma handed_sampled: "IHttp t \<in> set (handed PHttp ls) \<Longrightarrow> Sample t \<in> set (gather_events ls)"
proof -
  have "handed_of PHttp l = Some (IHttp t) \<Longrightarrow> gather_of l = Some (Sample t)" for l :: "'a label"
    by (cases "(PHttp, l)" rule: handed_of.cases) (auto split: if_splits)
  then show "IHttp t \<in> set (handed PHttp ls) \<Longrightarrow> Sample t \<in> set (gather_events ls)"
    by (force simp: handed_def gather_events_def List.map_filter_def)
qed

text \<open>Where an item can be: with its reader, among the metrics its \<^verbatim>\<open>Gather\<close> has to send, in the
  channel, or received by the main loop.\<close>

lemma item_somewhere:
  assumes r: "arun A WP (agent_init w) ls s" and x: "x \<in> set (items p ls)"
  shows "ag_reader s p = RSend x \<or> covert x \<in> set (ag_gather s p) \<union> set (ag_chan s) \<union> set (received ls)"
proof (cases "ag_reader s p = RSend x")
  case False
  then have h: "x \<in> set (handed p ls)" using x acc_items [OF r, of p] by (auto simp: held_iff)
  have "covert x \<in> set (sent_by p ls) \<union> set (ag_gather s p)"
  proof (cases "p = PHttp")
    case True
    then obtain t where t: "x = IHttp t" using items_kind [OF x] by (cases x) auto
    from sampled_sent [OF handed_sampled, of t ls Map.empty] h True t acc_http [OF r] show ?thesis by simp
  next
    case False
    from h have "covert x \<in> set (map covert (handed p ls))" by simp
    with acc_gather [OF r False] show ?thesis by simp
  qed
  moreover have "set (sent_by p ls) \<subseteq> set (map snd (sent ls))" by (auto simp: sent_by_def)
  ultimately show ?thesis using acc_chan [OF r] by auto
qed simp

lemma received_kept:
  assumes "influx_points A nm tg fl" and "influx_server WP st"
    and r: "arun A WP (agent_init w) ls s" and m: "m \<in> set (received ls)"
  shows "\<exists>q \<in> set (st (fst (ag_db s))) \<union> set (Points (snd (ag_db s))).
    nm q = Measurement m \<and> tg q = tag_of m \<and> fl q = field_of m"
proof -
  from recv_orders [OF r m] obtain tks fks where
    "OpWrite tks fks m \<in> set (db_ops ls)" "set tks = dom (tag_of m)" "set fks = dom (field_of m)" by blast
  then show ?thesis using written_kept [OF assms(1,2)] acc_db [OF r] by simp
qed

section \<open>Draining\<close>

text \<open>The work under way: an item counts three, a metric to send two, one in the channel one.\<close>

definition under_way :: "('p, 'w) agent \<Rightarrow> nat" where
  "under_way s = (\<Sum>p\<in>{PHttp, POom, PSyn}. 3 * length (held (ag_reader s p)) + 2 * length (ag_gather s p)) + length (ag_chan s)"

lemma relay_one: "length (fst (relay x red)) = 1"
  by (cases x) (simp_all add: oomkill_Gather_def tcpsynbl_Gather_def)

lemma plug_set: "p \<in> {PHttp, POom, PSyn}"
  by (cases p) simp_all

lemma order_of_map: "finite (dom f) \<Longrightarrow> \<exists>ks. distinct ks \<and> set ks = dom f"
  using finite_distinct_list [of "dom f"] by blast

fun internal :: "'h label \<Rightarrow> bool" where
  "internal (LHand p x) = True"
| "internal (LSend p m) = True"
| "internal (LRecv tks fks m) = True"
| "internal _ = False"

definition finite_metric :: "metric \<Rightarrow> bool" where
  "finite_metric m \<longleftrightarrow> finite (dom (tag_of m)) \<and> finite (dom (field_of m))"

lemma under_way_zero:
  "under_way s = 0 \<longleftrightarrow> (\<forall>p. held (ag_reader s p) = [] \<and> ag_gather s p = []) \<and> ag_chan s = []"
proof -
  have "(\<forall>p. P p) \<longleftrightarrow> P PHttp \<and> P POom \<and> P PSyn" for P by (metis plug.exhaust)
  then show ?thesis by (simp add: under_way_def)
qed

text \<open>While anything is under way some internal step can be taken, and it makes it less.\<close>

lemma internal_step:
  assumes run: "ag_main s = Running" and busy: "0 < under_way s" and fin: "list_all finite_metric (ag_chan s)"
  shows "\<exists>l s'. astep A WP s (l :: 'h label) s' \<and> internal l \<and> under_way s' < under_way s"
proof (cases "ag_chan s")
  case (Cons m ms)
  then obtain tks fks where "distinct tks" "set tks = dom (tag_of m)" "distinct fks" "set fks = dom (field_of m)"
    using fin order_of_map [of "tag_of m"] order_of_map [of "field_of m"] by (auto simp: finite_metric_def)
  from astep.recv [OF run Cons this]
  show ?thesis by (intro exI conjI) (auto simp: under_way_def Cons)
next
  case Nil
  show ?thesis
  proof (cases "\<exists>p. ag_gather s p \<noteq> []")
    case True
    then obtain p m ms where g: "ag_gather s p = m # ms" by (meson neq_Nil_conv)
    from astep.send [OF run g] Nil have "astep A WP s (LSend p m :: 'h label)
        (s\<lparr>ag_gather := (ag_gather s)(p := ms), ag_chan := ag_chan s @ [m]\<rparr>)" by (simp add: chan_size_def)
    moreover have "under_way (s\<lparr>ag_gather := (ag_gather s)(p := ms), ag_chan := ag_chan s @ [m]\<rparr>) < under_way s"
      using g by (cases p) (simp_all add: under_way_def)
    ultimately show ?thesis by (intro exI conjI) auto
  next
    case False
    with busy Nil under_way_zero [of s] obtain p x where h: "ag_reader s p = RSend x"
      by (metis held.elims neq0_conv)
    obtain ms red' where rl: "relay x (ag_red s) = (ms, red')" by (cases "relay x (ag_red s)")
    from astep.hand [OF run h _ rl] False have "astep A WP s (LHand p x :: 'h label)
        (s\<lparr>ag_reader := (ag_reader s)(p := RLoop), ag_gather := (ag_gather s)(p := ms), ag_red := red'\<rparr>)" by simp
    moreover have "under_way (s\<lparr>ag_reader := (ag_reader s)(p := RLoop), ag_gather := (ag_gather s)(p := ms), ag_red := red'\<rparr>)
        < under_way s"
      using h False relay_one [of x "ag_red s"] rl by (cases p) (simp_all add: under_way_def)
    ultimately show ?thesis by (intro exI conjI) auto
  qed
qed

text \<open>All metrics are built by finitely many additions.\<close>

lemma finite_metric_AddTags [simp]: "finite_metric (AddTags k v m) = finite_metric m"
proof -
  have "dom (tag_of (AddTags k v m)) = insert k (dom (tag_of m))" by (auto simp: dom_def split: if_splits)
  then show ?thesis by (simp add: finite_metric_def)
qed

lemma finite_metric_AddField [simp]: "finite_metric (AddField k v m) = finite_metric m"
proof -
  have "dom (field_of (AddField k v m)) = insert k (dom (field_of m))" by (auto simp: dom_def split: if_splits)
  then show ?thesis by (simp add: finite_metric_def)
qed

lemma finite_metric_zero [simp]: "finite_metric (metric_zero\<lparr>Measurement := n\<rparr>)"
  by (simp add: finite_metric_def dom_def)

lemma finite_covert: "finite_metric (covert x)"
  by (cases x)
    (simp_all add: traffic_CovertMetric_def oomkill_CovertMetric_def tcpsynbl_CovertMetric_def Let_def)

lemma finite_red: "finite_metric (RED_CovertMetric v)"
  by (simp add: RED_CovertMetric_def Let_def)

lemma finite_relay: "list_all finite_metric (fst (relay x red))"
  using finite_covert [of x] by (cases x) (simp_all add: oomkill_Gather_def tcpsynbl_Gather_def)

lemma finite_tick: "list_all finite_metric (fst (red_tick ks red))"
proof (induction ks arbitrary: red)
  case (Cons k ks)
  obtain c red' where g: "red_tick ks (red(k := None)) = (c, red')" by (cases "red_tick ks (red(k := None))")
  then have "list_all finite_metric c" using Cons [of "red(k := None)"] unfolding g by simp
  with g Cons [of red] show ?case by (auto simp: finite_red split: option.split)
qed simp

lemma acc_finite:
  "arun A WP (agent_init w) ls s \<Longrightarrow> list_all finite_metric (ag_chan s) \<and> (\<forall>p. list_all finite_metric (ag_gather s p))"
proof (induction rule: arun.induct)
  case (arun_snoc ls s' l s'')
  from arun_snoc(2,3) show ?case
  proof (cases rule: astep.cases)
    case (hand p x ms red')
    then have "list_all finite_metric ms" using finite_relay [of x "ag_red s'"] by simp
    with hand arun_snoc(3) show ?thesis by auto
  next
    case (tick ks ms red')
    then have "list_all finite_metric ms" using finite_tick [of ks "ag_red s'"] by simp
    with tick arun_snoc(3) show ?thesis by auto
  next
    case (send p m ms)
    with arun_snoc(3) have "list_all finite_metric (m # ms)" by metis
    with send arun_snoc(3) show ?thesis by auto
  qed auto
qed (simp add: agent_init_def)

lemma internal_running: "astep A WP s l s' \<Longrightarrow> internal l \<Longrightarrow> ag_main s' = Running"
  by (erule astep.cases) auto

lemma drain:
  assumes "arun A WP (agent_init w) (ls :: 'h label list) s" and "ag_main s = Running"
  shows "\<exists>ks s'. arun A WP s (ks :: 'h label list) s' \<and> list_all internal ks \<and> under_way s' = 0 \<and> ag_main s' = Running"
  using assms
proof (induction "under_way s" arbitrary: s ls rule: less_induct)
  case less
  show ?case
  proof (cases "under_way s = 0")
    case True
    then show ?thesis using less.prems(2) by (intro exI [of _ "[]"] exI [of _ s]) (simp add: arun_refl)
  next
    case False
    then obtain l s1 where l: "astep A WP s (l :: 'h label) s1" "internal l" "under_way s1 < under_way s"
      using internal_step [OF less.prems(2), of A WP] acc_finite [OF less.prems(1)] by blast
    from less.hyps [OF l(3) arun_snoc [OF less.prems(1) l(1)] internal_running [OF l(1,2)]]
    obtain ks :: "'h label list" and s' where "arun A WP s1 ks s'" "list_all internal ks" "under_way s' = 0" "ag_main s' = Running" by blast
    then show ?thesis using arun_append [OF _ arun_one [OF l(1)]] l(2)
      by (intro exI [of _ "l # ks"] exI [of _ s']) auto
  qed
qed

text \<open>Internal steps read nothing, so draining changes no item.\<close>

lemma internal_items: "list_all internal ks \<Longrightarrow> items p (ls @ ks) = items p ls"
proof (induction ks rule: rev_induct)
  case (snoc k ks)
  then have "item_of p k = None" by (cases k) auto
  with snoc show ?case using trace_snoc(1) [of p "ls @ ks" k] by simp
qed simp

section \<open>The read loops of the plugins\<close>

text \<open>The reads of a plugin in a run, with the tables they found.\<close>

fun read_of :: "plug \<Rightarrow> 'h label \<Rightarrow> (read_result \<times> 'h tables) option" where
  "read_of p (LRead q r t) = (if q = p then Some (r, t) else None)"
| "read_of p _ = None"

lemma never_closed: "arun A WP (agent_init w) ls s \<Longrightarrow> LRead p (RdClosed b) t \<notin> set ls"
proof (induction rule: arun.induct)
  case (arun_snoc ls s' l s'')
  from arun_snoc(2,3) show ?case using acc_closer [OF arun_snoc(1)] by (cases rule: astep.cases) auto
qed simp

lemma records_of_append:
  "(\<forall>x \<in> set rs. \<forall>b. fst x \<noteq> RdClosed b) \<Longrightarrow> records_of (rs @ [r]) = records_of rs @ records_of [r]"
  by (induction rs rule: records_of.induct) auto

definition http_reads :: "'h label list \<Rightarrow> (read_result \<times> 'h endpoint2pod) list" where
  "http_reads ls = map (\<lambda>(r, t). (r, tb_endpoints t)) (List.map_filter (read_of PHttp) ls)"

lemma http_reads_snoc: "http_reads (ls @ [l]) =
    http_reads ls @ (case read_of PHttp l of None \<Rightarrow> [] | Some (r, t) \<Rightarrow> [(r, tb_endpoints t)])"
  by (simp add: http_reads_def map_filter_snoc split: option.split prod.split)

lemma http_reads_open:
  assumes "arun A WP (agent_init w) ls s"
  shows "\<forall>x \<in> set (http_reads ls). \<forall>b. fst x \<noteq> RdClosed b"
proof -
  have "read_of PHttp l = Some (RdClosed b, t) \<Longrightarrow> l = LRead PHttp (RdClosed b) t" for l :: "'c label" and b t
    by (cases l) (auto split: if_splits)
  with never_closed [OF assms] show ?thesis by (fastforce simp: http_reads_def List.map_filter_def)
qed

text \<open>As no reader is ever closed, the items of the HTTP plugin are what its read loop delivers on its reads.\<close>

lemma items_are_delivered:
  assumes "arun A WP (agent_init w) ls s"
  shows "map IHttp (fst (http_Start (http_reads ls))) = items PHttp ls"
proof -
  let ?d = "decoded read_httpPacket (\<lambda>i. http_DecodeMapItem (GetPodByEndpoint i))"
  have one: "map IHttp (List.map_filter ?d (records_of (case read_of PHttp l of None \<Rightarrow> [] | Some (r, t) \<Rightarrow> [(r, tb_endpoints t)]))) =
      (case item_of PHttp l of None \<Rightarrow> [] | Some y \<Rightarrow> [y])" if "\<forall>b t. l \<noteq> LRead PHttp (RdClosed b) t" for l :: "'c label"
    using that
    by (cases "(PHttp, l)" rule: item_of.cases)
      (auto simp: decoded_def right_of_def List.map_filter_def split: sum.splits if_splits)
  from assms have "map IHttp (List.map_filter ?d (records_of (http_reads ls))) = items PHttp ls"
  proof (induction rule: arun.induct)
    case (arun_snoc ls s' l s'')
    have "\<forall>b t. l \<noteq> LRead PHttp (RdClosed b) t" using never_closed [OF arun.arun_snoc [OF arun_snoc(1,2)]] by auto
    from one [OF this] arun_snoc(3) records_of_append [OF http_reads_open [OF arun_snoc(1)]] show ?case
      by (simp add: http_reads_snoc List.map_filter_def split: option.splits prod.splits)
  qed (simp add: http_reads_def)
  moreover have "fst (http_Start rs) = List.map_filter ?d (records_of rs)" for rs :: "(read_result \<times> 'c endpoint2pod) list"
    unfolding http_Start_def by (subst http_reader.delivers) (simp_all add: list_all_iff)
  ultimately show ?thesis by simp
qed

lemma item_read: "LRead p (RdRecord raw) t \<in> set ls \<Longrightarrow> decode p t raw = Inr x \<Longrightarrow> x \<in> set (items p ls)"
  by (force simp: items_def List.map_filter_def)

lemma never_stopped:
  "arun A WP (agent_init w) ls s \<Longrightarrow> LStop p \<notin> set ls \<and> LUnload p \<notin> set ls \<and> LClose p \<notin> set ls"
proof (induction rule: arun.induct)
  case (arun_snoc ls s' l s'')
  from arun_snoc(2,3) show ?case using acc_closer [OF arun_snoc(1), of p] by (cases rule: astep.cases) auto
qed simp

end
