(* ===== verification/Flow_Properties.thy ===== *)
theory Flow_Properties
  imports Agent_Flow Pipeline_Properties
begin

text \<open>
  Properties of the running agent, over every interleaving of its goroutines: nothing that was decoded is lost,
  what is under way can always be brought into the point buffer, and the plugins are never unloaded.
\<close>

section \<open>A sample run\<close>

text \<open>The OOM plugin reads one record while the pods are unknown and the process is gone.\<close>

definition sample_tables :: "unit tables" where
  "sample_tables = \<lparr>tb_endpoints = \<lparr>Providers = Map.empty, AddEventHandlers = [], DeleteEventHandlers = [], hstate = ()\<rparr>,
     tb_pods = sample_pod_table, tb_proc = (\<lambda>f. Inl ''gone'')\<rparr>"

definition oom_item :: item where
  "oom_item = IOom (oom_base (go_oom_event oom_event_zero))"

definition sample_start :: "(ref_point, ref_point ref_server) agent" where
  "sample_start = agent_init \<lparr>sv_outages = [], sv_points = []\<rparr>"

definition sample_read :: "unit label list" where
  "sample_read = [LRead POom (RdRecord (replicate 176 0)) sample_tables]"

definition sample_holding :: "(ref_point, ref_point ref_server) agent" where
  "sample_holding = sample_start\<lparr>ag_reader := (ag_reader sample_start)(POom := RSend oom_item)\<rparr>"

lemma sample_decodes: "decode POom sample_tables (replicate 176 0) = Inr oom_item"
proof -
  have z: "read_oomkillEvent (replicate 176 0) = Inr (go_oom_event oom_event_zero)" by code_simp
  have "0 \<in> set (ok_Fcomm (go_oom_event oom_event_zero))" "0 \<in> set (ok_Tcomm (go_oom_event oom_event_zero))"
    "0 \<in> set (ok_Message (go_oom_event oom_event_zero))" by code_simp+
  then have "oomkill_DecodeMapItem (GetPodInfoByPid (\<lambda>f. Inl ''gone'') sample_pod_table) (go_oom_event oom_event_zero) =
      Inr (oom_base (go_oom_event oom_event_zero))"
    by (simp add: oomkill_Decode_cases GetPodInfoByPid_def lookupIdByPid_def)
  with z show ?thesis by (simp add: sample_tables_def oom_item_def)
qed

lemma sample_run: "arun ref_points ref_write (agent_init \<lparr>sv_outages = [], sv_points = []\<rparr>) sample_read sample_holding"
proof -
  have "astep ref_points ref_write sample_start (LRead POom (RdRecord (replicate 176 0)) sample_tables) sample_holding"
    unfolding sample_holding_def
    by (rule astep.read_item [OF _ _ sample_decodes]) (simp_all add: sample_start_def agent_init_def)
  from arun_one [OF this] show ?thesis by (simp add: sample_read_def sample_start_def)
qed

lemma sample_laws:
  "influx_points ref_points rp_name rp_tags rp_fields"
  "influx_server ref_write (sv_points :: ref_point ref_server \<Rightarrow> ref_point list)"
  by (rule ref_points.influx_points_axioms, rule ref_server.influx_server_axioms)

section \<open>Every interleaving\<close>

text \<open>C7: Whatever the goroutines have done, a record that a reader decoded is still with the reader, or its
  metric waits to be sent, is in the channel, or is a point that was stored or is still buffered, with the
  metric's measurement, tags and fields; the channel never holds more than 1000 metrics.\<close>

theorem agent_loses_nothing:
  assumes "influx_points A nm tg fl" and "influx_server WP st" and "arun A WP (agent_init w) ls s"
    and "LRead p (RdRecord raw) t \<in> set ls" and "decode p t raw = Inr x"
  shows "length (ag_chan s) \<le> chan_size \<and>
    (ag_reader s p = RSend x \<or> covert x \<in> set (ag_gather s p) \<or> covert x \<in> set (ag_chan s) \<or>
     (\<exists>q \<in> set (st (fst (ag_db s))) \<union> set (Points (snd (ag_db s))).
        nm q = Measurement (covert x) \<and> tg q = tag_of (covert x) \<and> fl q = field_of (covert x)))"
  using item_somewhere [OF assms(3) item_read [OF assms(4,5)]] received_kept [OF assms(1-3)] acc_size [OF assms(3)]
  by blast

theorem agent_loses_nothing_witness:
  "length (ag_chan sample_holding) \<le> 1000 \<and> ag_reader sample_holding POom = RSend oom_item"
proof -
  have "LRead POom (RdRecord (replicate 176 0)) sample_tables \<in> set sample_read" by (simp add: sample_read_def)
  from agent_loses_nothing [OF sample_laws sample_run this sample_decodes] show ?thesis
    by (simp add: chan_size_def sample_holding_def)
qed

text \<open>C8: From every state the running agent can reach, some run of hand-overs, sends and receptions alone
  brings every item decoded so far into the point buffer or the server, so the channels cannot deadlock.\<close>

theorem agent_drains:
  assumes "influx_points A nm tg fl" and "influx_server WP st"
    and "arun A WP (agent_init w) (ls :: 'h label list) s" and "ag_main s = Running"
  shows "\<exists>(ks :: 'h label list) s'. arun A WP s ks s' \<and> list_all internal ks \<and>
    (\<forall>p. \<forall>x \<in> set (items p ls). \<exists>q \<in> set (st (fst (ag_db s'))) \<union> set (Points (snd (ag_db s'))).
       nm q = Measurement (covert x) \<and> tg q = tag_of (covert x) \<and> fl q = field_of (covert x))"
proof -
  from drain [OF assms(3,4)] obtain ks :: "'h label list" and s' where ks: "arun A WP s ks s'" "list_all internal ks" "under_way s' = 0"
    by blast
  have r: "arun A WP (agent_init w) (ls @ ks) s'" by (rule arun_append [OF ks(1) assms(3)])
  have "\<exists>q \<in> set (st (fst (ag_db s'))) \<union> set (Points (snd (ag_db s'))).
       nm q = Measurement (covert x) \<and> tg q = tag_of (covert x) \<and> fl q = field_of (covert x)"
    if x: "x \<in> set (items p ls)" for p x
  proof -
    have "x \<in> set (items p (ls @ ks))" using x internal_items [OF ks(2)] by simp
    from item_somewhere [OF r this] ks(3) have "covert x \<in> set (received (ls @ ks))"
      by (auto simp: under_way_zero dest: spec [of _ p])
    from received_kept [OF assms(1,2) r this] show ?thesis .
  qed
  with ks show ?thesis by blast
qed

theorem agent_drains_witness:
  "\<exists>(ks :: unit label list) s'. arun ref_points ref_write sample_holding ks s' \<and>
     (\<exists>q \<in> set (sv_points (fst (ag_db s'))) \<union> set (Points (snd (ag_db s'))). rp_name q = ''oomkill'')"
proof -
  have "ag_main sample_holding = Running" by (simp add: sample_holding_def sample_start_def agent_init_def)
  from agent_drains [OF sample_laws sample_run this] obtain ks :: "unit label list" and s'
    where ks: "arun ref_points ref_write sample_holding ks s'"
    "\<forall>p. \<forall>x \<in> set (items p sample_read). \<exists>q \<in> set (sv_points (fst (ag_db s'))) \<union> set (Points (snd (ag_db s'))).
       rp_name q = Measurement (covert x) \<and> rp_tags q = tag_of (covert x) \<and> rp_fields q = field_of (covert x)" by blast
  have "oom_item \<in> set (items POom sample_read)" by (rule item_read [OF _ sample_decodes]) (simp add: sample_read_def)
  moreover have "Measurement (covert oom_item) = ''oomkill''"
    by (simp add: oom_item_def oomkill_CovertMetric_def Let_def)
  ultimately have "\<exists>q \<in> set (sv_points (fst (ag_db s'))) \<union> set (Points (snd (ag_db s'))). rp_name q = ''oomkill''"
    using ks(2) by metis
  with ks(1) show ?thesis by blast
qed

text \<open>C30: While the agent runs, no reader is closed and no plugin is unloaded: the goroutine that would do it
  waits for a message that only the reader sends, and the reader sends it only after it was closed.  A reader
  whose closer has received its message could not send a second one.\<close>

theorem agent_never_unloads:
  assumes "arun A WP (agent_init w) (ls :: 'h label list) s"
  shows "LStop p \<notin> set ls \<and> LUnload p \<notin> set ls \<and> LClose p \<notin> set ls \<and> \<not> ag_closed s p \<and> ag_closer s p = ClWait \<and>
    (ag_reader s p = RLoop \<or> (\<exists>x. ag_reader s p = RSend x)) \<and>
    (\<forall>u u'. ag_closer u p \<noteq> ClWait \<longrightarrow> \<not> astep A WP u (LStop p :: 'h label) u')"
  using never_stopped [OF assms] acc_closer [OF assms, of p] reader_pc.exhaust [of "ag_reader s p"]
  by (metis astep_stopE)

theorem agent_never_unloads_witness: "ag_closer sample_holding POom = ClWait \<and> \<not> ag_closed sample_holding POom"
  using agent_never_unloads [OF sample_run, of POom] by simp

end
