(* ===== verification/Service_Controller.thy ===== *)
theory Service_Controller
  imports Endpoint2Pod
begin

text \<open>
  The controller of \<^verbatim>\<open>src/internal/k8s/service_controller.go\<close>: it hands the Endpoints objects the
  informer delivers to the registered callbacks, together with the name of the node, which comes from the
  environment.
\<close>

text \<open>What the informer delivers.\<close>

datatype svc_obj = ObjEndpoints endpoints | SvcDeletedFinalStateUnknown string endpoints | SvcOther

fun as_endpoints :: "svc_obj \<Rightarrow> endpoints go" where
  "as_endpoints (ObjEndpoints en) = Inr en"
| "as_endpoints x = Inl (GoPanic ''interface conversion'')"

record 's service_controller =
  sc_Add :: "(endpoints \<Rightarrow> string \<Rightarrow> 's \<Rightarrow> 's go) list"
  sc_Delete :: "(endpoints \<Rightarrow> string \<Rightarrow> 's \<Rightarrow> 's go) list"
  sc_Update :: "(endpoints \<Rightarrow> endpoints \<Rightarrow> string \<Rightarrow> 's \<Rightarrow> 's go) list"

definition svc_AddFunc :: "'s service_controller \<Rightarrow> string \<Rightarrow> svc_obj \<Rightarrow> 's \<Rightarrow> 's go" where
  "svc_AddFunc c nodeName obj s =
     go_bind (as_endpoints obj) (\<lambda>en. go_for (\<lambda>handler. handler en nodeName) (sc_Add c) s)"

definition svc_DeleteFunc :: "'s service_controller \<Rightarrow> string \<Rightarrow> svc_obj \<Rightarrow> 's \<Rightarrow> 's go" where
  "svc_DeleteFunc c nodeName obj s =
     go_bind (as_endpoints obj) (\<lambda>en. go_for (\<lambda>handler. handler en nodeName) (sc_Delete c) s)"

definition svc_UpdateFunc :: "'s service_controller \<Rightarrow> string \<Rightarrow> svc_obj \<Rightarrow> svc_obj \<Rightarrow> 's \<Rightarrow> 's go" where
  "svc_UpdateFunc c nodeName oldObj newObj s =
     go_bind (as_endpoints oldObj) (\<lambda>old. go_bind (as_endpoints newObj) (\<lambda>new.
       go_for (\<lambda>handler. handler old new nodeName) (sc_Update c) s))"

text \<open>\<^verbatim>\<open>Endpoint2Pod.Registry\<close>\<close>

definition endpoint_Registry :: "'h endpoint2pod service_controller \<Rightarrow> 'h endpoint2pod service_controller" where
  "endpoint_Registry c = c\<lparr>sc_Add := sc_Add c @ [\<lambda>en nodeName. addEndpoints nodeName en],
     sc_Delete := sc_Delete c @ [\<lambda>en nodeName. deleteEndpoints nodeName en],
     sc_Update := sc_Update c @ [\<lambda>old new nodeName. updateEndpoints nodeName old new]\<rparr>"

definition agent_services :: "'h endpoint2pod service_controller" where
  "agent_services = endpoint_Registry \<lparr>sc_Add = [], sc_Delete = [], sc_Update = []\<rparr>"

text \<open>The agent's controller calls the callbacks of the endpoint table.\<close>

lemma agent_services_steps:
  "svc_AddFunc agent_services nodeName (ObjEndpoints en) i = addEndpoints nodeName en i"
  "svc_DeleteFunc agent_services nodeName (ObjEndpoints en) i = deleteEndpoints nodeName en i"
  "svc_UpdateFunc agent_services nodeName (ObjEndpoints en) (ObjEndpoints en') i = updateEndpoints nodeName en en' i"
  by (simp_all add: svc_AddFunc_def svc_DeleteFunc_def svc_UpdateFunc_def agent_services_def endpoint_Registry_def
      go_for_fun)

end
