(* ===== verification/Plugin_Start.thy ===== *)
theory Plugin_Start
  imports Plugin_Lifecycle Filter_Ip Service_Controller
begin

text \<open>
  How the plugins come up: what \<^verbatim>\<open>Gather\<close> does up to the read loop of \<^verbatim>\<open>Start\<close>, over the
  calls of the operating system.  The HTTP plugin first copies the known endpoints into \<^verbatim>\<open>filter_ip\<close>
  and only then registers its handlers, while the informer's callbacks run in another goroutine; the callbacks
  that run between the two steps are an argument.
\<close>

section \<open>The informer of endpoints\<close>

datatype svc_event = SvcAdd svc_obj | SvcDelete svc_obj | SvcUpdate svc_obj svc_obj

fun svc_step :: "'s service_controller \<Rightarrow> string \<Rightarrow> svc_event \<Rightarrow> 's \<Rightarrow> 's go" where
  "svc_step c nodeName (SvcAdd obj) s = svc_AddFunc c nodeName obj s"
| "svc_step c nodeName (SvcDelete obj) s = svc_DeleteFunc c nodeName obj s"
| "svc_step c nodeName (SvcUpdate obj obj') s = svc_UpdateFunc c nodeName obj obj' s"

definition svc_run :: "'s service_controller \<Rightarrow> string \<Rightarrow> svc_event list \<Rightarrow> 's \<Rightarrow> 's go" where
  "svc_run c nodeName evs s = go_for (svc_step c nodeName) evs s"

section \<open>Start up to the read loop\<close>

text \<open>\<open>es\<close> is the order of the range over the table (\<open>range_order\<close>), \<open>evs\<close> what the informer reports
  between the range loop and \<^verbatim>\<open>Registry\<close>.  A callback during the loop itself writes to a map that is
  being ranged over without a lock, which Go leaves undefined and detects by ending the process; it is not modelled.
  A panic ends the process.\<close>

definition range_order :: "endpoint list \<Rightarrow> 'f endpoint2pod \<Rightarrow> bool" where
  "range_order es i \<longleftrightarrow> distinct es \<and> set es = dom (Providers i)"

definition http_Start_begin ::
  "(string \<Rightarrow> byte list option) \<Rightarrow> ('f \<Rightarrow> u32 \<Rightarrow> u32 \<Rightarrow> int \<times> 'f) \<Rightarrow> ('f \<Rightarrow> u32 \<Rightarrow> int \<times> 'f) \<Rightarrow>
   ('w \<Rightarrow> (string + 'r) \<times> 'w) \<Rightarrow> string \<Rightarrow> endpoint list \<Rightarrow> svc_event list \<Rightarrow>
   'f endpoint2pod \<times> 'w \<Rightarrow> 'r outcome \<times> 'f endpoint2pod \<times> 'w" where
  "http_Start_begin v6 put del NewReader nodeName es evs iw =
    (case iw of (i, w) \<Rightarrow>
     (case WriteFilterIP v6 put es (hstate i) of
        (Inl (GoErr err), flt) \<Rightarrow> (Failed err, i\<lparr>hstate := flt\<rparr>, w)
      | (Inl (GoPanic err), flt) \<Rightarrow> (Exits err, i\<lparr>hstate := flt\<rparr>, w)
      | (Inr _, flt) \<Rightarrow>
          (case svc_run agent_services nodeName evs (i\<lparr>hstate := flt\<rparr>) of
             Inl _ \<Rightarrow> (Exits ''panic in a callback'', i\<lparr>hstate := flt\<rparr>, w)
           | Inr j \<Rightarrow>
               (let j = http_Registry v6 put del j
                in case NewReader w of
                     (Inl err, w') \<Rightarrow> (Failed ''opening ringbuf reader'', j, w')
                   | (Inr rd, w') \<Rightarrow> (Done rd, j, w')))))"

definition oomkill_Start_begin :: "('w \<Rightarrow> (string + 'r) \<times> 'w) \<Rightarrow> 'w \<Rightarrow> 'r outcome \<times> 'w" where
  "oomkill_Start_begin NewReader = try_call NewReader Exits ret"

definition tcpsynbl_Start_begin :: "('w \<Rightarrow> (string + 'r) \<times> 'w) \<Rightarrow> 'w \<Rightarrow> 'r outcome \<times> 'w" where
  "tcpsynbl_Start_begin NewReader = try_call NewReader Exits ret"

section \<open>Gather up to the read loop\<close>

text \<open>\<^verbatim>\<open>Load\<close>, whose error \<^verbatim>\<open>Gather\<close> returns, then \<^verbatim>\<open>Start\<close>, whose error is logged.
  The result has the loaded handles and how \<^verbatim>\<open>Start\<close> began.\<close>

definition http_Gather_begin ::
  "'w os \<Rightarrow> string \<Rightarrow> (string \<Rightarrow> byte list option) \<Rightarrow> ('f \<Rightarrow> u32 \<Rightarrow> u32 \<Rightarrow> int \<times> 'f) \<Rightarrow> ('f \<Rightarrow> u32 \<Rightarrow> int \<times> 'f) \<Rightarrow>
   (nat \<Rightarrow> 'w \<Rightarrow> (string + 'r) \<times> 'w) \<Rightarrow> string \<Rightarrow> endpoint list \<Rightarrow> svc_event list \<Rightarrow>
   'f endpoint2pod \<times> 'w \<Rightarrow> ((nat \<times> nat) \<times> 'r outcome) outcome \<times> 'f endpoint2pod \<times> 'w" where
  "http_Gather_begin S netIfName v6 put del NewReader nodeName es evs iw =
    (case iw of (i, w) \<Rightarrow>
     (case http_Load S netIfName w of
        (Done h, w1) \<Rightarrow>
          (case http_Start_begin v6 put del (NewReader (fst h)) nodeName es evs (i, w1) of
             (Exits err, iw') \<Rightarrow> (Exits err, iw')
           | (r, iw') \<Rightarrow> (Done (h, r), iw'))
      | (Failed err, w1) \<Rightarrow> (Failed err, i, w1)
      | (Exits err, w1) \<Rightarrow> (Exits err, i, w1)))"

definition oomkill_Gather_begin ::
  "'w os \<Rightarrow> (nat \<Rightarrow> 'w \<Rightarrow> (string + 'r) \<times> 'w) \<Rightarrow> 'w \<Rightarrow> ((nat \<times> nat) \<times> 'r outcome) outcome \<times> 'w" where
  "oomkill_Gather_begin S NewReader w =
    (case oomkill_Load S w of
       (Done h, w1) \<Rightarrow>
         (case oomkill_Start_begin (NewReader (fst h)) w1 of
            (Exits err, w2) \<Rightarrow> (Exits err, w2)
          | (r, w2) \<Rightarrow> (Done (h, r), w2))
     | (Failed err, w1) \<Rightarrow> (Failed err, w1)
     | (Exits err, w1) \<Rightarrow> (Exits err, w1))"

definition tcpsynbl_Gather_begin ::
  "'w os \<Rightarrow> (nat \<Rightarrow> 'w \<Rightarrow> (string + 'r) \<times> 'w) \<Rightarrow> 'w \<Rightarrow> ((nat \<times> nat \<times> nat) \<times> 'r outcome) outcome \<times> 'w" where
  "tcpsynbl_Gather_begin S NewReader w =
    (case tcpsynbl_Load S w of
       (Done h, w1) \<Rightarrow>
         (case tcpsynbl_Start_begin (NewReader (fst h)) w1 of
            (Exits err, w2) \<Rightarrow> (Exits err, w2)
          | (r, w2) \<Rightarrow> (Done (h, r), w2))
     | (Failed err, w1) \<Rightarrow> (Failed err, w1)
     | (Exits err, w1) \<Rightarrow> (Exits err, w1))"

section \<open>Failures\<close>

text \<open>\<open>Load\<close> of the HTTP plugin never ends the process, \<open>Load\<close> of the others never returns an error.\<close>

lemma http_Load_no_exit: "fst (http_Load S ifn w) \<noteq> Exits err"
  by (auto simp: http_Load_def try_call_def ret_def split: sum.splits prod.splits)

lemma kprobe_Load_no_error: "oomkill_Load S w \<noteq> (Failed err, w')" "tcpsynbl_Load S w \<noteq> (Failed err, w')"
  by (auto simp: oomkill_Load_def tcpsynbl_Load_def try_call_def ret_def split: sum.splits prod.splits)

lemma kprobe_begin_cases:
  "(\<exists>err. fst (oomkill_Gather_begin S NewReader w) = Exits err) \<or>
   (\<exists>h rd. fst (oomkill_Gather_begin S NewReader w) = Done (h, Done rd))"
  "(\<exists>err. fst (tcpsynbl_Gather_begin S NewReader w) = Exits err) \<or>
   (\<exists>h rd. fst (tcpsynbl_Gather_begin S NewReader w) = Done (h, Done rd))"
  by (auto simp: kprobe_Load_no_error oomkill_Gather_begin_def tcpsynbl_Gather_begin_def oomkill_Start_begin_def tcpsynbl_Start_begin_def
      try_call_def ret_def split: outcome.splits prod.splits sum.splits)

section \<open>Callbacks without handlers\<close>

text \<open>Before the plugin registers, callbacks change the table only.\<close>

definition quiet :: "'f \<Rightarrow> 'f endpoint2pod \<Rightarrow> bool" where
  "quiet flt i \<longleftrightarrow> AddEventHandlers i = [] \<and> DeleteEventHandlers i = [] \<and> hstate i = flt"

lemma go_for_keeps:
  assumes "\<And>x s s'. P s \<Longrightarrow> body x s = Inr s' \<Longrightarrow> P s'" and "P s" and "go_for body xs s = Inr s'"
  shows "P s'"
  using assms(2,3)
proof (induction xs arbitrary: s)
  case (Cons x xs)
  then obtain t where "body x s = Inr t" "go_for body xs t = Inr s'" by (cases "body x s") auto
  with Cons assms(1) show ?case by blast
qed simp

lemma one_quiet:
  "quiet flt i \<Longrightarrow> add_one service n a port i = Inr j \<Longrightarrow> quiet flt j"
  "quiet flt i \<Longrightarrow> delete_one service n a port i = Inr j \<Longrightarrow> quiet flt j"
  by (auto simp: add_one_def delete_one_def quiet_def Let_def deref_def split: if_splits option.splits)

lemma callbacks_quiet:
  "quiet flt i \<Longrightarrow> addEndpoints n en i = Inr j \<Longrightarrow> quiet flt j"
  "quiet flt i \<Longrightarrow> deleteEndpoints n en i = Inr j \<Longrightarrow> quiet flt j"
  unfolding addEndpoints_def deleteEndpoints_def nested_loops
  by (erule go_for_keeps [rotated], auto split: prod.splits dest: one_quiet)+

text \<open>A callback that returns was given an object of the expected type.\<close>

lemma agent_services_returns:
  "svc_AddFunc agent_services n obj i = Inr j \<Longrightarrow> \<exists>en. obj = ObjEndpoints en \<and> addEndpoints n en i = Inr j"
  "svc_DeleteFunc agent_services n obj i = Inr j \<Longrightarrow> \<exists>en. obj = ObjEndpoints en \<and> deleteEndpoints n en i = Inr j"
  by (cases obj; simp add: agent_services_steps; simp add: svc_AddFunc_def svc_DeleteFunc_def)+

lemma agent_services_updates:
  assumes "svc_UpdateFunc agent_services n obj obj' i = Inr j"
  shows "\<exists>en en' k. deleteEndpoints n en i = Inr k \<and> addEndpoints n en' k = Inr j"
proof -
  from assms obtain en en' where o: "obj = ObjEndpoints en" "obj' = ObjEndpoints en'"
    by (cases obj; cases obj') (auto simp: svc_UpdateFunc_def)
  with assms show ?thesis
    by (cases "deleteEndpoints n en i") (auto simp: agent_services_steps updateEndpoints_is)
qed

lemma svc_step_quiet:
  assumes "quiet flt i" and "svc_step agent_services n ev i = Inr j"
  shows "quiet flt j"
  using assms
  by (cases ev) (auto dest!: agent_services_returns agent_services_updates dest: callbacks_quiet)

lemma svc_run_quiet: "quiet flt i \<Longrightarrow> svc_run agent_services n evs i = Inr j \<Longrightarrow> quiet flt j"
  unfolding svc_run_def
  by (rule go_for_keeps [where P = "quiet flt" and body = "svc_step agent_services n"]) (rule svc_step_quiet)

end
