(* ===== verification/Logger.thy ===== *)
theory Logger
  imports Go_Lib
begin

text \<open>
  The logger of \<^verbatim>\<open>src/pkg/logger/logger.go\<close>.  A Go map is a reference, and \<^verbatim>\<open>clone\<close> copies
  the reference, so the maps of fields live in a store: \<open>lg_fields\<close> is nil or an address.  The lemmas say
  which loggers see which fields, what an entry contains, and which levels end the process.
\<close>

section \<open>Levels\<close>

text \<open>An \<^verbatim>\<open>int8\<close>; the constants count from zero.\<close>

type_synonym level = "8 word"

definition LevelDebug :: level where "LevelDebug = 0"
definition LevelInfo :: level where "LevelInfo = 1"
definition LevelWarn :: level where "LevelWarn = 2"
definition LevelError :: level where "LevelError = 3"
definition LevelFatal :: level where "LevelFatal = 4"
definition LevelPanic :: level where "LevelPanic = 5"

lemmas level_defs = LevelDebug_def LevelInfo_def LevelWarn_def LevelError_def LevelFatal_def LevelPanic_def

definition Level_String :: "level \<Rightarrow> string" where
  "Level_String l =
    (if l = LevelDebug then ''debug'' else if l = LevelInfo then ''info'' else if l = LevelWarn then ''warn''
     else if l = LevelError then ''error'' else if l = LevelFatal then ''fatal''
     else if l = LevelPanic then ''panic'' else '''')"

section \<open>Loggers and their fields\<close>

datatype log_value = LStr string | LInt int | LStrs "string list"

type_synonym Fields = "string \<Rightarrow> log_value option"

record Logger =
  lg_fields :: "nat option"
  lg_callers :: "string list"

text \<open>The maps that exist, by address; addresses from \<open>fs_next\<close> on are free.\<close>

record field_store =
  fs_maps :: "nat \<Rightarrow> Fields"
  fs_next :: nat

definition NewLogger :: Logger where
  "NewLogger = \<lparr>lg_fields = None, lg_callers = []\<rparr>"

definition clone :: "Logger \<Rightarrow> Logger" where
  "clone l = l"

text \<open>The range loop writes every entry of \<open>f\<close>; its order does not matter, as the keys differ.\<close>

definition WithFields :: "Fields \<Rightarrow> Logger \<Rightarrow> field_store \<Rightarrow> Logger \<times> field_store" where
  "WithFields f l st =
    (let ll = clone l;
         (ll, st) = (case lg_fields ll of
            None \<Rightarrow> (ll\<lparr>lg_fields := Some (fs_next st)\<rparr>,
              st\<lparr>fs_maps := (fs_maps st)(fs_next st := Map.empty), fs_next := fs_next st + 1\<rparr>)
          | Some a \<Rightarrow> (ll, st))
     in case lg_fields ll of
          None \<Rightarrow> (ll, st)
        | Some a \<Rightarrow> (ll, st\<lparr>fs_maps := (fs_maps st)(a := fs_maps st a ++ f)\<rparr>))"

text \<open>\<open>caller\<close> is what \<^verbatim>\<open>runtime.Caller\<close> finds: file, line and function.\<close>

definition frame_text :: "string \<times> int \<times> string \<Rightarrow> string" where
  "frame_text fr = (case fr of (file, line, fn) \<Rightarrow> file @ '': '' @ Itoa line @ '' '' @ fn)"

definition WithCaller :: "(string \<times> int \<times> string) option \<Rightarrow> Logger \<Rightarrow> Logger" where
  "WithCaller caller l =
    (let ll = clone l
     in case caller of None \<Rightarrow> ll | Some fr \<Rightarrow> ll\<lparr>lg_callers := [frame_text fr]\<rparr>)"

text \<open>\<^verbatim>\<open>frames.Next\<close> returns the next frame and whether more follow, the zero frame at the end; the loop goes
  on while more follow.\<close>

definition frames_next :: "(string \<times> int \<times> string) list \<Rightarrow> (string \<times> int \<times> string) \<times> bool \<times> (string \<times> int \<times> string) list" where
  "frames_next frames =
    (case frames of [] \<Rightarrow> (('''', 0, ''''), False, []) | fr # rest \<Rightarrow> (fr, rest \<noteq> [], rest))"

function callers_loop :: "(string \<times> int \<times> string) list \<Rightarrow> string list \<Rightarrow> string list" where
  "callers_loop frames callers =
    (case frames_next frames of
       (fr, follows, rest) \<Rightarrow> if follows then callers_loop rest (callers @ [frame_text fr]) else callers)"
  by auto

termination callers_loop
  by (relation "measure (\<lambda>(frames, callers). length frames)") (auto simp: frames_next_def split: list.splits)

declare callers_loop.simps [simp del]

text \<open>\<open>stack\<close> holds the program counters \<^verbatim>\<open>runtime.Callers\<close> finds, of which 25 fit in the buffer;
  \<open>CallersFrames\<close> gives their frames, several for one counter where calls were inlined.\<close>

definition WithCallersFrames ::
  "(nat list \<Rightarrow> (string \<times> int \<times> string) list) \<Rightarrow> nat list \<Rightarrow> Logger \<Rightarrow> Logger" where
  "WithCallersFrames CallersFrames stack l =
    (let maxCallerDepth = 25; frames = CallersFrames (take maxCallerDepth stack)
     in (clone l)\<lparr>lg_callers := callers_loop frames []\<rparr>)"

section \<open>Entries\<close>

text \<open>The reserved keys are set first, and a field is added only under a new key.\<close>

definition JSONFormat :: "int \<Rightarrow> field_store \<Rightarrow> Logger \<Rightarrow> level \<Rightarrow> string \<Rightarrow> Fields" where
  "JSONFormat now st l lev message =
    (let data = Map.empty(''level'' \<mapsto> LStr (Level_String lev), ''time'' \<mapsto> LInt now,
           ''message'' \<mapsto> LStr message, ''callers'' \<mapsto> LStrs (lg_callers l))
     in case lg_fields l of
          None \<Rightarrow> data
        | Some a \<Rightarrow> (\<lambda>k. case data k of Some v \<Rightarrow> Some v | None \<Rightarrow> fs_maps st a k))"

text \<open>What a call does: it prints the JSON text of the entry, and \<^verbatim>\<open>Fatal\<close> then ends the process,
  \<^verbatim>\<open>Panic\<close> then panics.\<close>

datatype log_effect = LogPrint Fields | LogFatal Fields | LogPanic Fields | LogNothing

definition Output :: "int \<Rightarrow> field_store \<Rightarrow> Logger \<Rightarrow> level \<Rightarrow> string \<Rightarrow> log_effect" where
  "Output now st l lev message =
    (let content = JSONFormat now st l lev message
     in if lev = LevelDebug then LogPrint content
        else if lev = LevelInfo then LogPrint content
        else if lev = LevelWarn then LogPrint content
        else if lev = LevelError then LogPrint content
        else if lev = LevelFatal then LogFatal content
        else if lev = LevelPanic then LogPanic content
        else LogNothing)"

text \<open>The methods, on the text \<^verbatim>\<open>fmt.Sprint\<close> or \<^verbatim>\<open>fmt.Sprintf\<close> made.\<close>

definition Logger_Debug :: "int \<Rightarrow> field_store \<Rightarrow> Logger \<Rightarrow> string \<Rightarrow> log_effect" where
  "Logger_Debug now st l message = Output now st l LevelDebug message"

definition Logger_Info :: "int \<Rightarrow> field_store \<Rightarrow> Logger \<Rightarrow> string \<Rightarrow> log_effect" where
  "Logger_Info now st l message = Output now st l LevelInfo message"

definition Logger_Warn :: "int \<Rightarrow> field_store \<Rightarrow> Logger \<Rightarrow> string \<Rightarrow> log_effect" where
  "Logger_Warn now st l message = Output now st l LevelWarn message"

definition Logger_Error :: "int \<Rightarrow> field_store \<Rightarrow> Logger \<Rightarrow> string \<Rightarrow> log_effect" where
  "Logger_Error now st l message = Output now st l LevelError message"

definition Logger_Fatal :: "int \<Rightarrow> field_store \<Rightarrow> Logger \<Rightarrow> string \<Rightarrow> log_effect" where
  "Logger_Fatal now st l message = Output now st l LevelFatal message"

definition Logger_Panic :: "int \<Rightarrow> field_store \<Rightarrow> Logger \<Rightarrow> string \<Rightarrow> log_effect" where
  "Logger_Panic now st l message = Output now st l LevelPanic message"

lemmas logger_methods =
  Logger_Debug_def Logger_Info_def Logger_Warn_def Logger_Error_def Logger_Fatal_def Logger_Panic_def

section \<open>Facts\<close>

definition fields_of :: "field_store \<Rightarrow> Logger \<Rightarrow> Fields" where
  "fields_of st l = (case lg_fields l of None \<Rightarrow> Map.empty | Some a \<Rightarrow> fs_maps st a)"

text \<open>A logger is well-formed when its address was handed out.\<close>

definition logger_ok :: "field_store \<Rightarrow> Logger \<Rightarrow> bool" where
  "logger_ok st l \<longleftrightarrow> (\<forall>a. lg_fields l = Some a \<longrightarrow> a < fs_next st)"

lemma WithFields_ok:
  assumes "logger_ok st l" and "WithFields f l st = (l', st')"
  shows "logger_ok st' l'" and "logger_ok st o' \<Longrightarrow> logger_ok st' o'"
  using assms by (auto simp: logger_ok_def WithFields_def clone_def Let_def split: option.splits)

text \<open>The new logger has the old fields and the new ones.  When the old one had fields, it gets the new ones
  too, as does every other logger with the same map; when it had none, no other logger changes.\<close>

lemma WithFields_fields:
  assumes "WithFields f l st = (l', st')"
  shows "fields_of st' l' = fields_of st l ++ f"
    and "lg_fields l \<noteq> None \<Longrightarrow> fields_of st' l = fields_of st l ++ f"
    and "lg_fields l \<noteq> None \<Longrightarrow> lg_fields o' \<noteq> lg_fields l \<Longrightarrow> fields_of st' o' = fields_of st o'"
    and "lg_fields l = None \<Longrightarrow> logger_ok st o' \<Longrightarrow> fields_of st' o' = fields_of st o'"
  using assms
  by (auto simp: WithFields_def clone_def Let_def fields_of_def logger_ok_def split: option.splits)

lemma callers_loop_butlast: "callers_loop frames callers = callers @ map frame_text (butlast frames)"
proof (induction frames arbitrary: callers)
  case (Cons fr rest)
  then show ?case by (simp add: callers_loop.simps [of "fr # rest"] frames_next_def)
qed (simp add: callers_loop.simps frames_next_def)

definition reserved :: "string set" where
  "reserved = {''level'', ''time'', ''message'', ''callers''}"

lemma JSONFormat_entry:
  "JSONFormat now st l lev message ''level'' = Some (LStr (Level_String lev))"
  "JSONFormat now st l lev message ''time'' = Some (LInt now)"
  "JSONFormat now st l lev message ''message'' = Some (LStr message)"
  "JSONFormat now st l lev message ''callers'' = Some (LStrs (lg_callers l))"
  "k \<notin> reserved \<Longrightarrow> JSONFormat now st l lev message k = fields_of st l k"
  by (auto simp: JSONFormat_def Let_def fields_of_def reserved_def split: option.split)

text \<open>Only the method \<^verbatim>\<open>Fatal\<close> ends the process, and only \<^verbatim>\<open>Panic\<close> panics.\<close>

lemma method_effects:
  "Logger_Debug now st l m = LogPrint (JSONFormat now st l LevelDebug m)"
  "Logger_Info now st l m = LogPrint (JSONFormat now st l LevelInfo m)"
  "Logger_Warn now st l m = LogPrint (JSONFormat now st l LevelWarn m)"
  "Logger_Error now st l m = LogPrint (JSONFormat now st l LevelError m)"
  "Logger_Fatal now st l m = LogFatal (JSONFormat now st l LevelFatal m)"
  "Logger_Panic now st l m = LogPanic (JSONFormat now st l LevelPanic m)"
  by (simp_all add: logger_methods Output_def Let_def level_defs)

end
