(* ===== verification/Agent_Setup.thy ===== *)
theory Agent_Setup
  imports Plugin_Lifecycle Logger Service_Controller Pid2Pod
begin

text \<open>
  What happens before the agent runs: the settings of \<^verbatim>\<open>src/pkg/setting\<close> and
  \<^verbatim>\<open>setupSetting\<close> of \<^verbatim>\<open>src/main.go\<close>, the cluster configuration of
  \<^verbatim>\<open>src/internal/k8s/informer_factory.go\<close>, the singletons, and the node name the controllers need.
  The configuration library and the builders of client configurations are parameters.  Settings live in
  variables the sections point to, so a reload changes what the agent sees.
\<close>

section \<open>Settings\<close>

text \<open>The three variables of the package \<^verbatim>\<open>global\<close> that sections are read into.\<close>

datatype var = ClusterSetting | AppSetting | DatabaseSetting

record 'v setting =
  st_sections :: "string \<Rightarrow> var option"
  st_vars :: "var \<Rightarrow> 'v"

text \<open>\<open>UnmarshalKey cfg k v\<close> is the error, if any, and the value the variable then has.\<close>

type_synonym ('c, 'v) unmarshal = "'c \<Rightarrow> string \<Rightarrow> 'v \<Rightarrow> string option \<times> 'v"

definition ReadSection :: "('c, 'v) unmarshal \<Rightarrow> 'c \<Rightarrow> string \<Rightarrow> var \<Rightarrow> 'v setting \<Rightarrow> string option \<times> 'v setting" where
  "ReadSection UnmarshalKey cfg k v s =
    (let (err, x) = UnmarshalKey cfg k (st_vars s v); s = s\<lparr>st_vars := (st_vars s)(v := x)\<rparr>
     in case err of
          Some e \<Rightarrow> (Some e, s)
        | None \<Rightarrow> (None, if st_sections s k = None then s\<lparr>st_sections := (st_sections s)(k \<mapsto> v)\<rparr> else s))"

text \<open>The range loop over the sections, in the order \<open>ks\<close>; the first error ends it.\<close>

fun ReloadAllSection :: "('c, 'v) unmarshal \<Rightarrow> 'c \<Rightarrow> string list \<Rightarrow> 'v setting \<Rightarrow> string option \<times> 'v setting" where
  "ReloadAllSection UnmarshalKey cfg [] s = (None, s)"
| "ReloadAllSection UnmarshalKey cfg (k # ks) s =
    (case st_sections s k of
       None \<Rightarrow> ReloadAllSection UnmarshalKey cfg ks s
     | Some v \<Rightarrow>
         (case ReadSection UnmarshalKey cfg k v s of
            (Some e, s') \<Rightarrow> (Some e, s')
          | (None, s') \<Rightarrow> ReloadAllSection UnmarshalKey cfg ks s'))"

text \<open>The callback of \<^verbatim>\<open>WatchSettingChange\<close> drops the error.\<close>

definition on_config_change :: "('c, 'v) unmarshal \<Rightarrow> 'c \<Rightarrow> string list \<Rightarrow> 'v setting \<Rightarrow> 'v setting" where
  "on_config_change UnmarshalKey cfg ks s = snd (ReloadAllSection UnmarshalKey cfg ks s)"

text \<open>\<^verbatim>\<open>strings.Split\<close> at a comma, and the paths \<^verbatim>\<open>NewSetting\<close> adds.\<close>

fun split_comma :: "string \<Rightarrow> string list" where
  "split_comma [] = [[]]"
| "split_comma (c # xs) =
    (if c = CHR '','' then [] # split_comma xs
     else case split_comma xs of [] \<Rightarrow> [[c]] | w # ws \<Rightarrow> (c # w) # ws)"

definition config_paths :: "string \<Rightarrow> string list" where
  "config_paths config = filter (\<lambda>p. p \<noteq> []) (split_comma config)"

definition NewSetting :: "(string list \<Rightarrow> string + 'c) \<Rightarrow> string \<Rightarrow> string + 'c" where
  "NewSetting ReadInConfig config = ReadInConfig (config_paths config)"

definition setupSetting ::
  "(string list \<Rightarrow> string + 'c) \<Rightarrow> ('c, 'v) unmarshal \<Rightarrow> string \<Rightarrow> 'v setting \<Rightarrow> string option \<times> 'v setting" where
  "setupSetting ReadInConfig UnmarshalKey config s =
    (case NewSetting ReadInConfig config of
       Inl err \<Rightarrow> (Some err, s)
     | Inr cfg \<Rightarrow>
         (case ReadSection UnmarshalKey cfg ''Cluster'' ClusterSetting s of
            (Some err, s) \<Rightarrow> (Some err, s)
          | (None, s) \<Rightarrow>
              (case ReadSection UnmarshalKey cfg ''App'' AppSetting s of
                 (Some err, s) \<Rightarrow> (Some err, s)
               | (None, s) \<Rightarrow> ReadSection UnmarshalKey cfg ''Database'' DatabaseSetting s)))"

section \<open>The functions around it\<close>

text \<open>The two flags and their defaults; \<open>given\<close> is what the command line sets.\<close>

definition setupFlag :: "(string \<Rightarrow> string option) \<Rightarrow> string \<times> string" where
  "setupFlag given =
    ((case given ''config'' of None \<Rightarrow> ''configs/'' | Some x \<Rightarrow> x),
     (case given ''storage'' of None \<Rightarrow> ''storage/'' | Some x \<Rightarrow> x))"

record app_setting =
  LogSavePath :: string
  LogFileName :: string
  LogFileExt :: string

text \<open>The name of the log file, and the agent's logger.\<close>

definition log_file_name :: "string \<Rightarrow> app_setting \<Rightarrow> string" where
  "log_file_name Storage app = Storage @ LogSavePath app @ ''/'' @ LogFileName app @ LogFileExt app"

definition setupLogger :: "(string \<times> int \<times> string) option \<Rightarrow> string \<Rightarrow> app_setting \<Rightarrow> string \<times> Logger" where
  "setupLogger caller Storage app = (log_file_name Storage app, WithCaller caller NewLogger)"

text \<open>\<^verbatim>\<open>init\<close> of \<^verbatim>\<open>src/main.go\<close>: the file is found through the flag, the log file through the
  settings just read; an error ends the process.  \<open>app_of\<close> is the value of \<^verbatim>\<open>global.AppSetting\<close>.\<close>

definition agent_start ::
  "(string \<Rightarrow> string option) \<Rightarrow> (string list \<Rightarrow> string + 'c) \<Rightarrow> ('c, 'v) unmarshal \<Rightarrow> ('v \<Rightarrow> app_setting) \<Rightarrow>
   (string \<times> int \<times> string) option \<Rightarrow> 'v setting \<Rightarrow> (string \<times> Logger) outcome \<times> 'v setting" where
  "agent_start given ReadInConfig UnmarshalKey app_of caller s =
    (let (config, Storage) = setupFlag given
     in case setupSetting ReadInConfig UnmarshalKey config s of
          (Some err, s') \<Rightarrow> (Exits err, s')
        | (None, s') \<Rightarrow> (Done (setupLogger caller Storage (app_of (st_vars s' AppSetting))), s'))"

text \<open>\<^verbatim>\<open>setupK8s\<close> registers the tables with the controllers before it starts them.\<close>

definition setupK8s :: "'h endpoint2pod service_controller \<times> pid2pod pod_controller \<Rightarrow>
    'h endpoint2pod service_controller \<times> pid2pod pod_controller" where
  "setupK8s c = (endpoint_Registry (fst c), pod_Registry (snd c))"

section \<open>The cluster\<close>

definition homeDir :: "(string \<Rightarrow> string) \<Rightarrow> string" where
  "homeDir Getenv = (let h = Getenv ''HOME'' in if h \<noteq> '''' then h else Getenv ''USERPROFILE'')"

text \<open>\<^verbatim>\<open>filepath.Join\<close> and the builder are parameters.\<close>

definition outClusterConfig ::
  "(string \<Rightarrow> string) \<Rightarrow> (string list \<Rightarrow> string) \<Rightarrow> (string \<Rightarrow> string + 'k) \<Rightarrow> string \<Rightarrow> string + 'k" where
  "outClusterConfig Getenv Join BuildConfigFromFlags configPath =
    (let home = homeDir Getenv;
         kubeconfig = (if configPath \<noteq> '''' then configPath
                       else if home \<noteq> '''' then Join [home, ''.kube'', ''config''] else '''')
     in BuildConfigFromFlags kubeconfig)"

definition cluster_config ::
  "(string \<Rightarrow> string) \<Rightarrow> (string list \<Rightarrow> string) \<Rightarrow> (string + 'k) \<Rightarrow> (string \<Rightarrow> string + 'k) \<Rightarrow> string \<Rightarrow> 'k outcome" where
  "cluster_config Getenv Join InClusterConfig BuildConfigFromFlags configPath =
    (case (if Getenv ''IN_CLUSTER'' = ''true'' then InClusterConfig
           else outClusterConfig Getenv Join BuildConfigFromFlags configPath) of
       Inl err \<Rightarrow> Exits ''Parse cluster config failed''
     | Inr config \<Rightarrow> Done config)"

text \<open>The whole of \<^verbatim>\<open>GetInformerFactory\<close>'s initialiser: configuration, client set, factory.\<close>

definition make_factory :: "'k outcome \<Rightarrow> ('k \<Rightarrow> string + 'c) \<Rightarrow> ('c \<Rightarrow> 'f) \<Rightarrow> ('k \<times> 'c \<times> 'f) outcome" where
  "make_factory cfg NewForConfig NewSharedInformerFactory =
    (case cfg of
       Done config \<Rightarrow>
         (case NewForConfig config of
            Inl err \<Rightarrow> Exits ''Create clientset failed''
          | Inr clientset \<Rightarrow> Done (config, clientset, NewSharedInformerFactory clientset))
     | Failed err \<Rightarrow> Failed err
     | Exits err \<Rightarrow> Exits err)"

text \<open>\<^verbatim>\<open>sync.Once\<close> around a package variable: the first call makes it, the others find it.\<close>

definition once_do :: "('w \<Rightarrow> 'a \<times> 'w) \<Rightarrow> 'a option \<times> 'w \<Rightarrow> 'a \<times> 'a option \<times> 'w" where
  "once_do init s =
    (case s of (Some x, w) \<Rightarrow> (x, Some x, w) | (None, w) \<Rightarrow> (case init w of (x, w') \<Rightarrow> (x, Some x, w')))"

text \<open>\<^verbatim>\<open>Run\<close> of both controllers starts with the name of the node.\<close>

definition node_name :: "(string \<Rightarrow> string) \<Rightarrow> string outcome" where
  "node_name Getenv = (if Getenv ''NODE_NAME'' = '''' then Exits ''NODE_NAME'' else Done (Getenv ''NODE_NAME''))"

section \<open>Facts\<close>

lemma once_same: "once_do init s = (x, s') \<Longrightarrow> once_do init' s' = (x, s')"
  by (auto simp: once_do_def split: prod.splits option.splits)

text \<open>On new controllers it makes those of the two tables.\<close>

lemma setupK8s_agent:
  "setupK8s (\<lparr>sc_Add = [], sc_Delete = [], sc_Update = []\<rparr>, \<lparr>pc_Add = [], pc_Delete = [], pc_Update = []\<rparr>) =
    (agent_services, agent_pods)"
  by (simp add: setupK8s_def agent_services_def agent_pods_def)

lemma config_paths_nonempty: "p \<in> set (config_paths config) \<Longrightarrow> p \<noteq> ''''"
  by (simp add: config_paths_def)

lemma cluster_config_path:
  "Getenv ''IN_CLUSTER'' \<noteq> ''true'' \<Longrightarrow> configPath \<noteq> '''' \<Longrightarrow>
   outClusterConfig Getenv Join Build configPath = Build configPath"
  by (simp add: outClusterConfig_def)

text \<open>After start-up each section knows its variable.\<close>

definition sections_ok :: "'v setting \<Rightarrow> bool" where
  "sections_ok s \<longleftrightarrow> st_sections s = [''Cluster'' \<mapsto> ClusterSetting, ''App'' \<mapsto> AppSetting, ''Database'' \<mapsto> DatabaseSetting]"

definition setting_init :: "'v \<Rightarrow> 'v setting" where
  "setting_init nil = \<lparr>st_sections = Map.empty, st_vars = (\<lambda>_. nil)\<rparr>"

fun var_of :: "string \<Rightarrow> var option" where
  "var_of k = (if k = ''Cluster'' then Some ClusterSetting else if k = ''App'' then Some AppSetting
     else if k = ''Database'' then Some DatabaseSetting else None)"

fun key_of :: "var \<Rightarrow> string" where
  "key_of ClusterSetting = ''Cluster''"
| "key_of AppSetting = ''App''"
| "key_of DatabaseSetting = ''Database''"

lemma setup_reads:
  assumes "setupSetting ReadIn U config (setting_init nil) = (None, s)" and "NewSetting ReadIn config = Inr cfg"
  shows "sections_ok s" and "\<And>v. U cfg (key_of v) nil = (None, st_vars s v)"
proof -
  show "sections_ok s"
    using assms by (auto simp: setupSetting_def ReadSection_def Let_def setting_init_def sections_ok_def
        split: prod.splits option.splits)
  show "U cfg (key_of v) nil = (None, st_vars s v)" for v
    using assms by (cases v)
      (auto simp: setupSetting_def ReadSection_def Let_def setting_init_def split: prod.splits option.splits)
qed

text \<open>The log file is named by the settings that were just read.\<close>

lemma agent_start_done:
  assumes "agent_start given ReadIn U app_of caller (setting_init nil) = (Done (file, l), s)"
  shows "\<exists>cfg x. ReadIn (config_paths (fst (setupFlag given))) = Inr cfg \<and> U cfg ''App'' nil = (None, x) \<and>
    file = log_file_name (snd (setupFlag given)) (app_of x) \<and> sections_ok s"
proof -
  have su: "setupSetting ReadIn U (fst (setupFlag given)) (setting_init nil) = (None, s)"
    and f: "file = log_file_name (snd (setupFlag given)) (app_of (st_vars s AppSetting))"
    using assms by (auto simp: agent_start_def setupLogger_def split_def Let_def prod_eq_iff split: option.splits prod.splits)
  then obtain cfg where c: "NewSetting ReadIn (fst (setupFlag given)) = Inr cfg"
    by (auto simp: setupSetting_def split: sum.splits)
  from setup_reads(1) [OF su c] setup_reads(2) [OF su c, of AppSetting] c f show ?thesis
    by (auto simp: NewSetting_def)
qed

lemma ReadSection_known:
  assumes "st_sections s k = Some v"
  shows "ReadSection U cfg k v s =
    (fst (U cfg k (st_vars s v)), s\<lparr>st_vars := (st_vars s)(v := snd (U cfg k (st_vars s v)))\<rparr>)"
  using assms by (cases "U cfg k (st_vars s v)") (auto simp: ReadSection_def Let_def split: option.split)

text \<open>A reload visits the sections in some order and stops at the first error: the sections up to and
  including the failing one are read afresh, those after it keep their values.\<close>

definition reads_ok :: "('c, 'v) unmarshal \<Rightarrow> 'c \<Rightarrow> 'v setting \<Rightarrow> string \<Rightarrow> bool" where
  "reads_ok U cfg s k \<longleftrightarrow> (\<forall>v. st_sections s k = Some v \<longrightarrow> fst (U cfg k (st_vars s v)) = None)"

definition reread :: "('c, 'v) unmarshal \<Rightarrow> 'c \<Rightarrow> string set \<Rightarrow> 'v setting \<Rightarrow> 'v setting" where
  "reread U cfg A s = s\<lparr>st_vars :=
     (\<lambda>v. if key_of v \<in> A then snd (U cfg (key_of v) (st_vars s v)) else st_vars s v)\<rparr>"

lemma key_of_inject [simp]: "key_of u = key_of v \<longleftrightarrow> u = v"
  by (cases u; cases v) simp_all

lemma sections_key: "sections_ok s \<Longrightarrow> st_sections s k = Some v \<longleftrightarrow> k = key_of v"
  by (cases v) (auto simp: sections_ok_def)

lemma reread_sections [simp]: "st_sections (reread U cfg A s) = st_sections s" "sections_ok (reread U cfg A s) = sections_ok s"
  by (simp_all add: reread_def sections_ok_def)

lemma reread_insert:
  "key_of v \<notin> A \<Longrightarrow> reread U cfg A (reread U cfg {key_of v} s) = reread U cfg (insert (key_of v) A) s"
  by (auto simp: reread_def fun_eq_iff)

lemma ReadSection_reread:
  "sections_ok s \<Longrightarrow> ReadSection U cfg (key_of v) v s =
    (fst (U cfg (key_of v) (st_vars s v)), reread U cfg {key_of v} s)"
  by (subst ReadSection_known) (auto simp: sections_key reread_def fun_eq_iff intro!: arg_cong2 [where f = st_vars_update])

lemma reads_ok_reread:
  "sections_ok s \<Longrightarrow> k \<noteq> key_of v \<Longrightarrow> reads_ok U cfg (reread U cfg {key_of v} s) k = reads_ok U cfg s k"
  by (auto simp: reads_ok_def sections_key reread_def)

lemma reload_stops:
  assumes "sections_ok s" and "distinct ks" and "set ks \<subseteq> dom (st_sections s)"
  shows "ReloadAllSection U cfg ks s =
    (case dropWhile (reads_ok U cfg s) ks of
       [] \<Rightarrow> (None, reread U cfg (set ks) s)
     | k # _ \<Rightarrow> (fst (U cfg k (st_vars s (the (st_sections s k)))),
                reread U cfg (insert k (set (takeWhile (reads_ok U cfg s) ks))) s))"
  using assms
proof (induction ks arbitrary: s)
  case Nil
  then show ?case by (simp add: reread_def)
next
  case (Cons k ks)
  then obtain v where v: "st_sections s k = Some v" by auto
  with Cons.prems(1) have k: "k = key_of v" by (simp add: sections_key)
  note rs = ReadSection_reread [OF Cons.prems(1), of U cfg v]
  show ?case
  proof (cases "reads_ok U cfg s k")
    case False
    then show ?thesis using v rs k by (auto simp: reads_ok_def)
  next
    case True
    let ?s = "reread U cfg {k} s"
    have e: "ReloadAllSection U cfg (k # ks) s = ReloadAllSection U cfg ks ?s"
      using True v rs k by (simp add: reads_ok_def)
    have same: "dropWhile (reads_ok U cfg ?s) ks = dropWhile (reads_ok U cfg s) ks"
      "takeWhile (reads_ok U cfg ?s) ks = takeWhile (reads_ok U cfg s) ks"
      using Cons.prems k by (auto intro!: dropWhile_cong takeWhile_cong reads_ok_reread)
    have fresh: "key_of v \<notin> set ks" using Cons.prems(2) k by simp
    have notin: "key_of v \<notin> set (takeWhile P ks)" for P using fresh set_takeWhileD by fastforce
    have dw: "x \<noteq> key_of v" if "dropWhile P ks = x # xs" for P x xs
      using that fresh by (metis list.set_intros(1) set_dropWhileD)
    have kept: "st_vars ?s (the (st_sections s x)) = st_vars s (the (st_sections s x))"
      if "dropWhile P ks = x # xs" for P x xs
    proof -
      have "x \<in> set ks" using that by (metis list.set_intros(1) set_dropWhileD)
      then obtain u where "st_sections s x = Some u" using Cons.prems(3) by auto
      moreover from this have "x = key_of u" using Cons.prems(1) by (simp add: sections_key)
      ultimately show ?thesis using dw [OF that] k by (simp add: reread_def)
    qed
    have ih: "ReloadAllSection U cfg ks ?s =
      (case dropWhile (reads_ok U cfg s) ks of
         [] \<Rightarrow> (None, reread U cfg (set ks) ?s)
       | x # _ \<Rightarrow> (fst (U cfg x (st_vars ?s (the (st_sections s x)))),
                reread U cfg (insert x (set (takeWhile (reads_ok U cfg s) ks))) ?s))"
      using Cons.IH [of ?s] Cons.prems same by (simp cong: list.case_cong)
    show ?thesis
    proof (cases "dropWhile (reads_ok U cfg s) ks")
      case Nil
      then show ?thesis unfolding e ih using True fresh k by (simp add: reread_insert del: dropWhile_eq_Nil_conv)
    next
      case (Cons x xs)
      have "key_of v \<notin> insert x (set (takeWhile (reads_ok U cfg s) ks))" using dw [OF Cons] notin by auto
      from reread_insert [OF this] show ?thesis
        unfolding e ih using True k Cons kept [OF Cons] by (simp add: insert_commute del: dropWhile_eq_Cons_conv)
    qed
  qed
qed

end
