(* ===== verification/Setup_Properties.thy ===== *)
theory Setup_Properties
  imports Plugin_Start Agent_Setup Agent_Properties Pipeline_Properties
begin

text \<open>
  Properties of the agent's start: what the plugins do when a step fails, which endpoints the HTTP plugin
  misses while it comes up, what a reload of the settings changes, and what a log entry contains.
\<close>

section \<open>Plugins coming up\<close>

text \<open>C31: The HTTP plugin copies the endpoints of the table into the filter map before it registers its
  handlers.  When the start ends, the map has changed at the keys of the endpoints that were in the table at its
  beginning and nowhere else, while the table has everything the informer reported before the registration: an
  endpoint reported in between is not in the map unless its key was there before or is the key of a copied endpoint
  (all IPv4 endpoints have the same key, so then the gap shows when no IPv4 endpoint was copied).  An address added
  after the registration is passed to the plugin.\<close>

theorem http_start_window:
  assumes "bpf_hash_map look put store del" and "range_order es i"
    and "AddEventHandlers i = []" and "DeleteEventHandlers i = []"
    and "WriteFilterIP v6 put es (hstate i) = (Inr (), flt)"
    and "svc_run agent_services n evs (i\<lparr>hstate := flt\<rparr>) = Inr j"
    and "http_Start_begin v6 put del NewReader n es evs (i, w) = (r, i', w')"
  shows "Providers i' = Providers j \<and>
    (\<forall>k. look (hstate i') k =
       (if \<exists>e \<in> dom (Providers i). ipv4ToUint32 (ParseIP v6 (ep_IP e)) = Inr k then Some 1 else look (hstate i) k)) \<and>
    AddEventHandlers i' = [AddFilterIP v6 put] \<and> DeleteEventHandlers i' = [DeleteFilterIP v6 del] \<and>
    (\<forall>err. r \<noteq> Exits err) \<and>
    (\<forall>sv a port t k. local_address n a \<longrightarrow> ad_TargetRef a = Some t \<longrightarrow> add_one sv n a port i' = Inr k \<longrightarrow>
       hstate k = snd (AddFilterIP v6 put \<lparr>ep_IP = ad_IP a, ep_Port = port\<rparr> (make_provider sv n t) (hstate i')))"
proof -
  have "quiet flt (i\<lparr>hstate := flt\<rparr>)" using assms(3,4) by (simp add: quiet_def)
  from svc_run_quiet [OF this assms(6)] have q: "quiet flt j" .
  then have i': "i' = http_Registry v6 put del j" and r: "\<forall>err. r \<noteq> Exits err"
    using assms(5-7) by (auto simp: http_Start_begin_def Let_def split: prod.splits sum.splits)
  have flt: "hstate i' = flt" using q i' by (simp add: http_Registry_def register_handlers_def quiet_def)
  have "hstate k = snd (AddFilterIP v6 put \<lparr>ep_IP = ad_IP a, ep_Port = port\<rparr> (make_provider sv n t) flt)"
    if "local_address n a" "ad_TargetRef a = Some t" "add_one sv n a port i' = Inr k" for sv a port t k
    using that q
    by (cases "AddFilterIP v6 put \<lparr>ep_IP = ad_IP a, ep_Port = port\<rparr> (make_provider sv n t) flt")
      (auto simp: i' http_Registry_def register_handlers_def quiet_def add_one_def deref_def call_handler_def Let_def
        split: sum.splits go_fail.splits)
  moreover have "look flt k =
      (if \<exists>e \<in> dom (Providers i). ipv4ToUint32 (ParseIP v6 (ep_IP e)) = Inr k then Some 1 else look (hstate i) k)" for k
    using WriteFilterIP_keys [OF assms(1,5), of k] assms(2) by (simp add: range_order_def)
  ultimately show ?thesis using q i' r flt by (auto simp: http_Registry_def register_handlers_def quiet_def)
qed

text \<open>A pod that becomes known while the plugin starts is in the table and not in the filter map.\<close>

definition start_table :: "(u32, u32) ref_map endpoint2pod" where
  "start_table = \<lparr>Providers = Map.empty, AddEventHandlers = [], DeleteEventHandlers = [], hstate = filter_ip http_init\<rparr>"

definition start_reader :: "unit \<Rightarrow> (string + nat) \<times> unit" where
  "start_reader w = (Inr 0, w)"

theorem http_start_window_witness:
  "\<exists>i'. http_Start_begin (\<lambda>_. None) ref_update ref_delete start_reader ''node-1'' []
       [SvcAdd (ObjEndpoints (sample_en ''web''))] (start_table, ()) = (Done 0, i', ()) \<and>
     Providers i' \<lparr>ep_IP = ''10.244.0.7'', ep_Port = 80\<rparr> \<noteq> None \<and> (\<forall>k. ref_lookup (hstate i') k = None)"
proof -
  let ?evs = "[SvcAdd (ObjEndpoints (sample_en ''web''))]" and ?e = "\<lparr>ep_IP = ''10.244.0.7'', ep_Port = 80\<rparr>"
  let ?j = "start_table\<lparr>Providers := [?e \<mapsto> sample_provider]\<rparr>"
  let ?i = "http_Registry (\<lambda>_. None) ref_update ref_delete ?j"
  have w: "WriteFilterIP (\<lambda>_. None) ref_update [] (hstate start_table) = (Inr (), hstate start_table)" by simp
  have run: "svc_run agent_services ''node-1'' ?evs (start_table\<lparr>hstate := hstate start_table\<rparr>) = Inr ?j"
    by (simp add: svc_run_def agent_services_steps addEndpoints_def sample_en_def add_one_def local_address_def
        deref_def start_table_def sample_provider_def make_provider_def Let_def)
  have b: "http_Start_begin (\<lambda>_. None) ref_update ref_delete start_reader ''node-1'' [] ?evs (start_table, ()) =
      (Done 0, ?i, ())"
    using run by (simp add: http_Start_begin_def start_reader_def)
  have "range_order [] start_table" by (simp add: range_order_def start_table_def)
  from http_start_window [OF ref_hash.bpf_hash_map_axioms this _ _ w run b]
  have "ref_lookup (hstate ?i) k = ref_lookup (hstate start_table) k" "Providers ?i = Providers ?j" for k
    by (simp_all add: start_table_def)
  then show ?thesis using b by (auto simp: start_table_def http_init_def ref_lookup_def)
qed




section \<open>Settings\<close>

text \<open>C33: After a successful start every settings variable has been read from its section.  When the
  configuration changes, the sections are read again in some order up to the first that fails; its variable and
  those before it have what was read, the others keep their values, and the error is dropped.\<close>

theorem settings_reload:
  assumes "setupSetting ReadIn U config (setting_init nil) = (None, s)" and "NewSetting ReadIn config = Inr cfg"
    and "distinct ks" and "set ks = dom (st_sections s)"
  shows "U cfg (key_of v) nil = (None, st_vars s v) \<and> set ks = range key_of \<and>
    st_vars (on_config_change U cfg' ks s) v =
      (if key_of v \<in> set (takeWhile (reads_ok U cfg' s) ks) \<union> set (take 1 (dropWhile (reads_ok U cfg' s) ks))
       then snd (U cfg' (key_of v) (st_vars s v)) else st_vars s v) \<and>
    (fst (ReloadAllSection U cfg' ks s) = None \<longleftrightarrow> (\<forall>k \<in> set ks. reads_ok U cfg' s k))"
proof -
  note s = setup_reads [OF assms(1,2)]
  have "st_sections s k \<noteq> None \<longleftrightarrow> k \<in> range key_of" for k using sections_key [OF s(1)] by auto
  then have dom: "set ks = range key_of" using assms(4) by (auto simp: dom_def)
  note r = reload_stops [OF s(1) assms(3), of U cfg']
  show ?thesis
  proof (cases "dropWhile (reads_ok U cfg' s) ks")
    case Nil
    then have all: "\<forall>k \<in> set ks. reads_ok U cfg' s k" by simp
    have "ReloadAllSection U cfg' ks s = (None, reread U cfg' (set ks) s)"
      unfolding r [OF eq_refl [OF assms(4)]] Nil by simp
    moreover have "key_of v \<in> set (takeWhile (reads_ok U cfg' s) ks)" using all dom by (simp add: takeWhile_eq_all_conv [THEN iffD2])
    ultimately show ?thesis using all s(2) [of v] dom by (simp add: on_config_change_def reread_def)
  next
    case (Cons k xs)
    then have k: "k \<in> set ks" "\<not> reads_ok U cfg' s k"
      by (metis list.set_intros(1) set_dropWhileD, metis hd_dropWhile list.sel(1) list.simps(3))
    then have "fst (U cfg' k (st_vars s (the (st_sections s k)))) \<noteq> None" by (auto simp: reads_ok_def)
    with Cons k s(2) [of v] dom r assms(4) show ?thesis
      by (auto simp: on_config_change_def reread_def simp del: dropWhile_eq_Cons_conv)
  qed
qed

text \<open>The section \<^verbatim>\<open>App\<close> of the changed file cannot be read: \<^verbatim>\<open>Cluster\<close>, read before it, is new,
  \<^verbatim>\<open>Database\<close> is not.\<close>

definition sample_unmarshal :: "(string \<Rightarrow> string + string, string) unmarshal" where
  "sample_unmarshal cfg k v = (case cfg k of Inl err \<Rightarrow> (Some err, v) | Inr x \<Rightarrow> (None, x))"

definition sample_settings :: "string setting" where
  "sample_settings = \<lparr>st_sections = [''Cluster'' \<mapsto> ClusterSetting, ''App'' \<mapsto> AppSetting, ''Database'' \<mapsto> DatabaseSetting],
     st_vars = (\<lambda>v. ''old'')\<rparr>"

definition sample_change :: "string \<Rightarrow> string + string" where
  "sample_change k = (if k = ''App'' then Inl ''bad section'' else Inr ''new'')"

theorem settings_reload_witness:
  "st_vars (on_config_change sample_unmarshal sample_change [''Cluster'', ''App'', ''Database''] sample_settings) ClusterSetting = ''new'' \<and>
   st_vars (on_config_change sample_unmarshal sample_change [''Cluster'', ''App'', ''Database''] sample_settings) DatabaseSetting = ''old''"
proof -
  let ?ks = "[''Cluster'', ''App'', ''Database'']" and ?read = "\<lambda>paths. Inr (\<lambda>k. Inr ''old'')"
  have all: "(\<lambda>_. '''')(ClusterSetting := ''old'', AppSetting := ''old'', DatabaseSetting := ''old'') = (\<lambda>v. ''old'')"
    using var.exhaust by (auto simp: fun_eq_iff)
  have su: "setupSetting ?read sample_unmarshal ''configs/'' (setting_init '''') = (None, sample_settings)"
    using all by (simp add: setupSetting_def NewSetting_def ReadSection_def sample_unmarshal_def setting_init_def
        sample_settings_def Let_def)
  have new: "NewSetting ?read ''configs/'' = Inr (\<lambda>k. Inr ''old'')" by (simp add: NewSetting_def)
  have ks: "distinct ?ks" "set ?ks = dom (st_sections sample_settings)" by (auto simp: sample_settings_def)
  have ok: "reads_ok sample_unmarshal sample_change sample_settings k \<longleftrightarrow> k \<noteq> ''App''" for k
    by (auto simp: reads_ok_def sample_unmarshal_def sample_change_def sample_settings_def)
  note r = settings_reload [OF su new ks, of _ sample_change]
  from r [of ClusterSetting] r [of DatabaseSetting] show ?thesis
    by (simp add: ok) (simp add: sample_unmarshal_def sample_change_def sample_settings_def)
qed

end
