(* ===== verification/Spec2Isabelle.thy ===== *)
theory Spec2Isabelle
  imports Http_Properties Http_Concurrent Probe_Properties Platform_Properties Agent_Properties
    Pipeline_Properties Flow_Properties Setup_Properties
begin

text \<open>
  A verification library for kubebpfbox, an agent that observes the pods of a Kubernetes node with three
  eBPF programs and stores what they see in InfluxDB.

  \<^bold>\<open>The program.\<close>  A socket filter (\<^verbatim>\<open>src/ebpf/http/http.c\<close>) sees the frames of the node's
  bridge, pairs HTTP requests with responses in a map keyed by connection, and writes one record per pair
  into a ring buffer.  Two kprobe programs write a record per OOM kill
  (\<^verbatim>\<open>src/ebpf/oomkill/oomkill.c\<close>) and per connection that meets a full accept queue
  (\<^verbatim>\<open>src/ebpf/tcpsynbl/tcpsynbl.c\<close>).  The Go agent has a plugin for each
  (\<^verbatim>\<open>src/plugins\<close>): a read loop parses and decodes the records, looks up the pod in a table that
  Kubernetes informers keep up to date (\<^verbatim>\<open>src/internal/endpoint2pod\<close>,
  \<^verbatim>\<open>src/internal/pid2pod\<close>, \<^verbatim>\<open>src/internal/k8s\<close>) and sends a metric; the HTTP plugin also
  aggregates rates per pod and minute.  The main loop (\<^verbatim>\<open>src/main.go\<close>) writes the metrics into a
  point buffer that a ticker commits (\<^verbatim>\<open>src/internal/influxdb\<close>).  The agent registers handlers with
  the endpoint table that write the filter's map \<^verbatim>\<open>filter_ip\<close>.

  \<^bold>\<open>Conventions.\<close>  Machine integers are words of their width, kernel memory is a partial map from
  64-bit addresses to bytes, structs are records together with their byte images, a Go error or panic is the
  left side of a sum (\<open>go_fail\<close>), a C macro family numbered by arity is one recursive function and what
  does not compile is \<open>None\<close>.  Code outside the repository (BPF helpers, the kernel's iterator,
  \<^verbatim>\<open>/proc\<close>, the InfluxDB client, compiler built-ins) is an argument of the definitions that use
  it; the laws the code relies on are the assumptions of locales, and each locale is interpreted on a
  concrete instance, which the witnesses evaluate.

  \<^bold>\<open>Foundations.\<close>
  \<^item> Kbb_Prelude: word types, little-endian encoding, slices and writes of byte buffers.
  \<^item> C_Layout: sizes, alignment, offsets and bit-fields of C types; members are aligned, inside and disjoint.
  \<^item> Vmlinux_Net, Vmlinux_Types, Vmlinux_Objects: declarations of \<^verbatim>\<open>src/ebpf/include/vmlinux.h\<close>
    as values of \<open>ctype\<close>, one \<open>vm_<name>\<close> per struct, union or typedef, with the offsets the programs use.
  \<^item> Bpf_Runtime: locales for the helpers, \<open>skb_reader\<close>, \<open>bpf_hash_map\<close>, \<open>bpf_ringbuf\<close>,
    \<open>kernel_reader\<close>, interpreted on a reference kernel.
  \<^item> Go_Lib, Go_Regexp: what the agent uses of Go's standard library; \<open>float32\<close> is exact rounding of
    rationals, the regular expression matcher is sound and complete for a declarative relation.

  \<^bold>\<open>Headers of the eBPF programs\<close> (\<^verbatim>\<open>src/ebpf/include\<close>).
  \<^item> Bpf_Endian (\<^verbatim>\<open>bpf_endian.h\<close>), Bpf_Helper_Defs (\<^verbatim>\<open>bpf_helper_defs.h\<close>, all 211 declarations).
  \<^item> Bpf_Tracing, Bpf_Arch, Bpf_Args (\<^verbatim>\<open>bpf_tracing.h\<close>): the frame, choice of the target and its
    register table, the wrappers that turn a context into arguments.
  \<^item> Bpf_Core_Read (\<^verbatim>\<open>bpf_core_read.h\<close>): bit-fields and chains of pointers.
  \<^item> Bpf_Helpers (\<^verbatim>\<open>bpf_helpers.h\<close>): versions, tail calls, printing, loops over iterators.
  \<^item> Platform_Properties: both branches of the byte-order macros agree, offsets and helper numbers are the
    kernel's, struct arguments and bit-fields round-trip, a relocatable read is a walk along the pointers,
    loops over the kernel's iterator end after exactly their range.

  \<^bold>\<open>eBPF programs.\<close>
  \<^item> Http_Filter: every function of \<^verbatim>\<open>http.c\<close>; \<open>http_state\<close> are its three maps.  Http_Spec gives
    the abstract tracker (\<open>track\<close>, an inductive relation on pending requests and emitted records) and
    shows every run of the filter to be one of its steps; Http_Traces proves the properties of whole traces,
    Http_Samples holds concrete frames, Http_Properties the statements.
  \<^item> Http_Concurrent: the filter on several CPUs as a step relation on one shared map, interleaved between
    helper calls; it refines the tracker when no two CPUs work on one connection, and not otherwise.
  \<^item> Kprobe_Env, Oomkill_Probe, Tcpsynbl_Probe, Probe_Properties: the kprobes and that they emit exactly
    the event that kernel memory describes.

  \<^bold>\<open>The agent.\<close>
  \<^item> Agent_Decode: \<^verbatim>\<open>binary.Read\<close> into the generated structs and the three
    \<^verbatim>\<open>DecodeMapItem\<close> (\<^verbatim>\<open>src/plugins/*/ebpf.go\<close>).
  \<^item> Endpoint2Pod, Service_Controller, Filter_Ip: the endpoint table, the controller that feeds it and the
    handlers on \<^verbatim>\<open>filter_ip\<close>.  Agent_Properties: records are read back as written, the table
    mirrors the cluster, what the metrics say, when decoding fails.
  \<^item> Pid2Pod: the pod table, its controller and the lookup through the cgroup file.
  \<^item> Ring_Reader: the read loops, as one function of what the reader returns; a locale with one
    interpretation per plugin gives what each delivers.
  \<^item> Plugin_Lifecycle: loading and unloading as sequences of fallible calls to the operating system, a
    parameter; a locale of its handles gives what each plugin releases.
  \<^item> Metrics, Red_Metric, Agent_Main: metrics and their conversion, the point buffer, the aggregation loop
    with its specification over the samples of a minute, the plugin registry and the main loop.
    Pipeline_Properties holds the statements.
  \<^item> Agent_Flow: the running agent as a step relation \<open>astep\<close> over the goroutines of the three plugins
    (read loop, closer, \<^verbatim>\<open>Gather\<close>), the channels between them, the main loop and the committer, in any
    interleaving; it starts where all three plugins have opened their readers.  Flow_Properties: nothing decoded is
    lost, what is under way can always be drained into the point buffer, no plugin is ever unloaded.
  \<^item> Plugin_Start: \<^verbatim>\<open>Gather\<close> of each plugin up to its read loop, with the informer's callbacks that run
    while the HTTP plugin comes up.  Logger (\<^verbatim>\<open>src/pkg/logger\<close>): loggers over a store of field maps, since
    clones share them.  Agent_Setup: flags, settings and their reload (\<^verbatim>\<open>src/pkg/setting\<close>), the
    cluster configuration and the singletons (\<^verbatim>\<open>src/internal/k8s\<close>).  Setup_Properties: what a failed
    start leaves behind, which endpoints the HTTP plugin misses, what a reload changes.
  \<^item> This theory: from frames to a metric, from delivered metrics back to frames, from the records of the OOM
    probe to metrics, and the types of records on both sides of the ring buffers.

  \<^bold>\<open>Bounds and fuel.\<close>  All definitions are total.  The URL loader recurses on a measure; the read loops,
  the aggregation and the main loop consume the list of their inputs, since they have no end of their own;
  only the iterator loops of Bpf_Helpers take fuel, and one more than the length of the range is shown to be
  enough.  Counting macros stop at twelve arguments and chains at ten accessors, as in the headers.

  \<^bold>\<open>Not modelled.\<close>  Code outside the repository: the informers and the client of Kubernetes, the
  cilium/ebpf package, viper, the InfluxDB client; they are arguments.  Log calls inside the operations and the
  \<^verbatim>\<open>String\<close> methods, which only make log text, and the JSON text of an entry, which is kept as a map.
  Macros that only annotate declarations (sections, attributes, map definitions, barriers), the big-endian
  branches, and the return-address macros of powerpc and sparc.  The types of \<^verbatim>\<open>vmlinux.h\<close> that nothing
  above reaches: further declarations of the same kind, with no operation on them.  Data races of the Go maps are
  recorded as findings; the Go memory model is not modelled, so \<open>astep\<close> takes each channel operation and each
  decoding as one step, and a reload of the settings that overlaps the start is left out.
\<close>

section \<open>From frames to metrics\<close>

lemma classify_ReqD:
  "classify load listed t f = Req k q \<Longrightarrow>
   \<exists>m. q = request_of t f (view_frame load f) m \<and> starts_with (method_name m) (fv_pre_char (view_frame load f))"
  by (auto simp: classify_def Let_def method_of_Some split: if_splits option.splits)

text \<open>C1: From frames to a metric: after a request that was stored in the map, any frames of other connections
  and the connection's response, whose record found room in the ring buffer, the last record of the ring buffer is
  decoded by the agent into a traffic metric with the request's method and URL, the three status bytes of the
  response, the connection's destination, and the pod, node, name space and service the endpoint table names for
  that destination; its duration is the time between the two frames modulo \<open>2 ^ 32\<close> nanoseconds, in
  milliseconds, up to the relative error \<open>2 ^ -23 + 2 ^ -48\<close> of two roundings.\<close>

theorem http_end_to_end:
  assumes "http_kernel E recs" and "pending_ok (pending (abs_state E recs s))"
    and "classify (skb_load_bytes E) (listed_in E (filter_ip s)) t1 f1 = Req k q"
    and "fst (req_update E (request_map s) k q) = 0"
    and "\<forall>e \<in> set (events (skb_load_bytes E) (listed_in E (filter_ip s)) fs). event_key e \<noteq> Some k"
    and "classify (skb_load_bytes E) (listed_in E (filter_ip s)) t2 f2 = Rsp k t2 n st"
    and "s' = run_filter E ((t1, f1) # fs) s"
    and "fst (ringbuf_output E (packets s') (packet_bytes (complete_req t2 n st q))) = 0" and "t1 \<le> t2"
    and "starts_with (method_name m) (fv_pre_char (view_frame (skb_load_bytes E) f1))"
    and "GetPodByEndpoint i (ip4_String (intToIP (k_dst_ip k))) (ucast (bpf_ntohs c (k_dst_port k))) = Some pr"
    and "ns = (unat t2 - unat t1) mod 2 ^ 32"
  shows "\<exists>raw pkt tr.
      recs (packets (run_filter E ((t1, f1) # fs @ [(t2, f2)]) s)) = recs (packets s') @ [raw]
    \<and> read_httpPacket raw = Inr pkt \<and> unat (hp_Duration pkt) = ns
    \<and> http_DecodeMapItem (GetPodByEndpoint i) pkt = Inr tr \<and> tr_Method tr = method_name m
    \<and> tr_Code tr = gostr (bslice 9 3 (fv_pre_char (view_frame (skb_load_bytes E) f2)))
    \<and> tr_URL tr = TrimRight (gostr (p_url q)) (char_of (0 :: int))
    \<and> tr_DstIP tr = ip4_String (intToIP (k_dst_ip k)) \<and> tr_DstPort tr = bpf_ntohs c (k_dst_port k)
    \<and> tr_PodName tr = pr_PodName pr \<and> tr_NodeName tr = pr_NodeName pr
    \<and> tr_NameSpace tr = pr_NameSpace pr \<and> tr_ServiceName tr = pr_ServiceName pr
    \<and> \<bar>tr_Duration tr - of_nat ns / 1000000\<bar> \<le> of_nat ns / 1000000 * (1 / 2 ^ 23 + 1 / 2 ^ 48)"
proof -
  let ?raw = "packet_bytes (complete_req t2 n st q)"
  have skb: "skb_reader (skb_load_bytes E)" using assms(1) by (simp add: http_kernel_def)
  have q: "q = request_of t1 f1 (view_frame (skb_load_bytes E) f1) m"
    using classify_ReqD [OF assms(3)] assms(10) starts_with_method_unique by blast
  note st = classify_RspD [OF assms(6)]
  have ok: "request_ok k q" using http_kernel.filter_request [OF assms(1,3)] by blast
  have meth: "p_method q = of_int (method_val m)" by (simp add: q request_of_def)
  have len: "length st = 3" using st skb_reader.length_pre_char [OF skb, of f2] by simp
  have out: "recs (packets (run_filter E ((t1, f1) # fs @ [(t2, f2)]) s)) = recs (packets s') @ [?raw]"
    using http_kernel.request_response_match [OF assms(1)] assms(2-8) by blast
  have rd: "read_httpPacket ?raw = Inr (go_packet (complete_req t2 n st q))"
    using read_packet_bytes [OF completed_sized [OF ok len], of t2 n "[]"] by simp
  have ns: "unat (ucast (t2 - ucast (p_duration q)) :: u32) = ns"
    using assms(9,12) by (simp add: q request_of_def unat_duration)
  then have d: "unat (hp_Duration (go_packet (complete_req t2 n st q))) = ns"
    by (simp add: go_packet_def complete_req_def)
  from decode_completed [OF ok meth len assms(11), of t2 n] rd
  obtain tr where tr: "http_DecodeMapItem (GetPodByEndpoint i) (go_packet (complete_req t2 n st q)) = Inr tr"
    "tr_Method tr = method_name m" "tr_Code tr = gostr st" "tr_URL tr = TrimRight (gostr (p_url q)) (char_of (0 :: int))"
    "tr_DstIP tr = ip4_String (intToIP (k_dst_ip k))" "tr_DstPort tr = bpf_ntohs c (k_dst_port k)"
    "tr_PodName tr = pr_PodName pr" "tr_NodeName tr = pr_NodeName pr" "tr_NameSpace tr = pr_NameSpace pr"
    "tr_ServiceName tr = pr_ServiceName pr" "tr_Duration tr = duration_ms (ucast (t2 - ucast (p_duration q)))"
    by auto
  then show ?thesis using out rd d st duration_ms_error [OF ns] by auto
qed

theorem http_end_to_end_witness:
  "\<exists>raw pkt tr. rb_records (packets (run_filter ref_http_env
       [(1000, sample_request), (2000, sample_other), (5000, sample_response)] http_init)) = [raw]
    \<and> read_httpPacket raw = Inr pkt \<and> unat (hp_Duration pkt) = 4000
    \<and> http_DecodeMapItem (GetPodByEndpoint sample_table) pkt = Inr tr \<and> tr_Method tr = ''GET''
    \<and> tr_PodName tr = ''web-0'' \<and> \<bar>tr_Duration tr - 4 / 1000\<bar> \<le> 4 / 1000 * (1 / 2 ^ 23 + 1 / 2 ^ 48)"
proof -
  let ?s' = "run_filter ref_http_env [(1000, sample_request), (2000, sample_other)] http_init"
  have p: "packets ?s' = packets http_init" by (rule sample_run_packets)
  have room: "fst (ringbuf_output ref_http_env (packets ?s')
      (packet_bytes (complete_req 5000 15 (ascii ''200'') sample_packet))) = 0"
    unfolding p by (rule sample_record_fits)
  have "starts_with (method_name M_GET) (fv_pre_char (view_frame ref_load sample_request))" by code_simp
  then obtain raw pkt tr where r: "rb_records (packets (run_filter ref_http_env
       [(1000, sample_request), (2000, sample_other), (5000, sample_response)] http_init)) = [raw]"
    "read_httpPacket raw = Inr pkt" "unat (hp_Duration pkt) = 4000"
    "http_DecodeMapItem (GetPodByEndpoint sample_table) pkt = Inr tr" "tr_Method tr = ''GET''"
    "tr_PodName tr = pr_PodName sample_provider"
    "\<bar>tr_Duration tr - of_nat 4000 / 1000000\<bar> \<le> of_nat 4000 / 1000000 * (1 / 2 ^ 23 + 1 / 2 ^ 48)"
    using http_end_to_end [OF ref_http.http_kernel_axioms _ _ _ _ _ refl _ _ _ sample_lookup, where s = http_init
        and ?t1.0 = 1000 and ?f1.0 = sample_request and q = sample_packet and fs = "[(2000, sample_other)]"
        and ?t2.0 = 5000 and ?f2.0 = sample_response and n = 15 and st = "ascii ''200''" and m = M_GET and ns = 4000]
      sample_events p room
    by (auto simp: abs_http_init pending_ok_empty ref_http_load events_def sample_room http_init_records
        simp del: ascii_simps)
  have "of_nat 4000 / 1000000 = (4 / 1000 :: rat)" by simp
  with r show ?thesis unfolding sample_provider_def by auto
qed

text \<open>C4: Every traffic metric the HTTP plugin delivers stands for a request of the trace and the first later
  response of its connection: the plugin reads records of the ring buffer after any frames, in any order and
  with any state of the endpoint table, and each metric has the method and URL of the request, the status of
  the response, the destination of the connection, the time between the two, and the pod, node, name space and
  service that the endpoint table named for that destination when the record was read.\<close>

theorem delivered_traffic_answers_requests:
  assumes "http_kernel E recs" and "abs_state E recs s = tracker_empty"
    and "fst ` set (records_of rs) \<subseteq> set (recs (packets (run_filter E fs s)))"
    and "tr \<in> set (fst (http_Start rs))"
  shows "\<exists>es1 k q es2 now n st es3 i pr.
      events (skb_load_bytes E) (listed_in E (filter_ip s)) fs = es1 @ Req k q # es2 @ Rsp k now n st # es3
    \<and> (\<forall>now' n' st'. Rsp k now' n' st' \<notin> set es2)
    \<and> tr_Method tr = MethodToString (p_method q) \<and> tr_Code tr = gostr st
    \<and> tr_URL tr = TrimRight (gostr (p_url q)) (char_of (0 :: int))
    \<and> tr_DstIP tr = ip4_String (intToIP (k_dst_ip k)) \<and> tr_DstPort tr = Ntohs (k_dst_port k)
    \<and> tr_Duration tr = duration_ms (ucast (now - ucast (p_duration q)))
    \<and> (packet_bytes (complete_req now n st q), i) \<in> set (records_of rs)
    \<and> GetPodByEndpoint i (ip4_String (intToIP (k_dst_ip k))) (ucast (Ntohs (k_dst_port k))) = Some pr
    \<and> tr_PodName tr = pr_PodName pr \<and> tr_NodeName tr = pr_NodeName pr
    \<and> tr_NameSpace tr = pr_NameSpace pr \<and> tr_ServiceName tr = pr_ServiceName pr"
proof -
  let ?es = "events (skb_load_bytes E) (listed_in E (filter_ip s)) fs"
  obtain raw i where raw: "(raw, i) \<in> set (records_of rs)"
    and dec: "go_bind (read_httpPacket raw) (http_DecodeMapItem (GetPodByEndpoint i)) = Inr tr"
    using assms(4) http_reader.delivers [of rs]
    by (auto simp: http_Start_def list_all_iff List.map_filter_def decoded_def right_of_def split: sum.splits)
  have "raw \<in> set (recs (packets (run_filter E fs s)))" using assms(3) raw by force
  from http_kernel.run_record_form [OF assms(1,2) this] obtain es1 k q es2 now n st es3 where
    es: "?es = es1 @ Req k q # es2 @ Rsp k now n st # es3" "\<forall>now' n' st'. Rsp k now' n' st' \<notin> set es2"
    and r: "raw = packet_bytes (complete_req now n st q)" and ok: "request_ok k q" and len: "length st = 3" by blast
  from read_packet_bytes [OF completed_sized [OF ok len], of now n "[]"] dec r
  have "http_DecodeMapItem (GetPodByEndpoint i) (go_packet (complete_req now n st q)) = Inr tr" by simp
  then obtain pr where
    "GetPodByEndpoint i (ip4_String (intToIP (k_dst_ip k))) (ucast (Ntohs (k_dst_port k))) = Some pr"
    "tr_PodName tr = pr_PodName pr \<and> tr_NodeName tr = pr_NodeName pr
      \<and> tr_NameSpace tr = pr_NameSpace pr \<and> tr_ServiceName tr = pr_ServiceName pr"
    "tr_Method tr = MethodToString (p_method q) \<and> tr_Code tr = gostr st
      \<and> tr_URL tr = TrimRight (gostr (p_url q)) (char_of (0 :: int))
      \<and> tr_DstIP tr = ip4_String (intToIP (k_dst_ip k)) \<and> tr_DstPort tr = Ntohs (k_dst_port k)
      \<and> tr_Duration tr = duration_ms (ucast (now - ucast (p_duration q)))"
    using ok by (auto simp: http_DecodeMapItem_def Let_def go_packet_def complete_req_def request_ok_def
        split: option.splits)
  with es raw r show ?thesis by blast
qed

theorem delivered_traffic_answers_requests_witness:
  "\<exists>tr. fst (http_Start [(RdRecord (packet_bytes (complete_req 5000 15 (ascii ''200'') sample_packet)), sample_table)]) = [tr] \<and>
     (\<exists>es1 k q es2 now n st es3 pr. events ref_load no_ips
        [(1000, sample_request), (2000, sample_other), (5000, sample_response)] = es1 @ Req k q # es2 @ Rsp k now n st # es3 \<and>
        tr_Method tr = MethodToString (p_method q) \<and> tr_Code tr = gostr st \<and>
        GetPodByEndpoint sample_table (ip4_String (intToIP (k_dst_ip k))) (ucast (Ntohs (k_dst_port k))) = Some pr \<and>
        tr_PodName tr = pr_PodName pr)"
proof -
  let ?raw = "packet_bytes (complete_req 5000 15 (ascii ''200'') sample_packet)"
  let ?rs = "[(RdRecord ?raw, sample_table)]"
  have "length (ascii ''200'') = 3" by simp
  from decode_completed [OF sample_packet_ok sample_packet_method this sample_lookup, of 5000 15]
  obtain tr where "go_bind (read_httpPacket ?raw) (http_DecodeMapItem (GetPodByEndpoint sample_table)) = Inr tr" by blast
  then have tr: "fst (http_Start ?rs) = [tr]"
    using http_reader.delivers [of ?rs] by (simp add: http_Start_def decoded_def)
  have sub: "fst ` set (records_of ?rs) \<subseteq> set (rb_records (packets (run_filter ref_http_env
      [(1000, sample_request), (2000, sample_other), (5000, sample_response)] http_init)))"
    unfolding sample_run_records by simp
  have mem: "tr \<in> set (fst (http_Start ?rs))" by (simp only: tr list.set insertI1)
  have rs: "(raw, i) \<in> set (records_of ?rs) \<Longrightarrow> i = sample_table" for raw i by simp
  from delivered_traffic_answers_requests [OF ref_http.http_kernel_axioms abs_http_init sub mem]
  obtain es1 k q es2 now n st es3 i pr where ev: "events ref_load no_ips
        [(1000, sample_request), (2000, sample_other), (5000, sample_response)] = es1 @ Req k q # es2 @ Rsp k now n st # es3"
    and t: "tr_Method tr = MethodToString (p_method q)" "tr_Code tr = gostr st" "tr_PodName tr = pr_PodName pr"
    and i: "(packet_bytes (complete_req now n st q), i) \<in> set (records_of ?rs)"
      "GetPodByEndpoint i (ip4_String (intToIP (k_dst_ip k))) (ucast (Ntohs (k_dst_port k))) = Some pr"
    unfolding ref_http_load by (elim exE conjE)
  have lk: "GetPodByEndpoint sample_table (ip4_String (intToIP (k_dst_ip k))) (ucast (Ntohs (k_dst_port k))) = Some pr"
    using i(2) rs [OF i(1)] by (simp only:)
  show ?thesis by (intro exI conjI) (rule tr ev t lk)+
qed

section \<open>From probes to the agent\<close>

text \<open>What the OOM probe observes has the sizes of the C arrays, and the two texts it makes itself end in a NUL
  byte.\<close>

lemma oom_observed_sized:
  assumes "probe_kernel K recs" and "oom_observe lay mem oc msg fpid (snd (pe_current_comm K 16)) = Some e"
  shows "oom_event_sized e" and "0 \<in> set (oe_fcomm e)" and "0 \<in> set (oe_message e)"
proof -
  have comm: "length (oe_fcomm e) = 16" "0 \<in> set (oe_fcomm e)"
    using assms(2) probe_kernel.current_comm_size [OF assms(1), of 16]
      probe_kernel.current_comm_nul [OF assms(1), of 16]
    by (auto simp: oom_observe_def split: bind_splits)
  obtain c tx where "oe_tcomm e = c" "length c = 16" "oe_message e = zpad 128 tx" "length tx \<le> 127"
    using assms(2) by (auto simp: oom_observe_def length_mem_bytes mem_str_props split: bind_splits)
  with comm show "oom_event_sized e" "0 \<in> set (oe_fcomm e)" "0 \<in> set (oe_message e)"
    by (simp_all add: oom_event_sized_def TASK_COMM_LEN_def zpad_def)
qed

text \<open>A record a probe adds is the image of what it observed.\<close>

lemma oom_added_record:
  assumes "probe_kernel K recs" and "recs (snd (kprobe_oom_kill_process K lay mem ctx r)) = recs r @ [raw]"
  obtains e where "oom_observe lay mem (PT_REGS_PARM1 ctx) (PT_REGS_PARM2 ctx)
      (ucast (drop_bit 32 (pe_pid_tgid K))) (snd (pe_current_comm K 16)) = Some e" "raw = oom_event_bytes e"
proof -
  have ring: "bpf_ringbuf (pe_ringbuf_output K) recs" using assms(1) by (simp add: probe_kernel_def)
  show thesis
    using assms(2) that
    by (auto simp: probe_kernel.oom_kill_process_spec [OF assms(1)] bpf_ringbuf.emit_cases [OF ring]
        split: option.splits if_splits)
qed

text \<open>C25: The agent never panics on a record the OOM probe wrote, whatever its pod table and the cgroup files
  hold, provided the victim's name in kernel memory is NUL-terminated: reading and decoding the record gives a
  metric with the victim's process id and the page count that kernel memory holds.\<close>

theorem oom_decode_no_panic:
  assumes "probe_kernel K recs"
    and "recs (snd (kprobe_oom_kill_process K lay mem ctx r)) = recs r @ [raw]"
    and "\<And>task comm. rd_word mem (PT_REGS_PARM1 ctx + oc_chosen lay) 8 = Some task \<Longrightarrow>
      mem_bytes mem (task + task_comm lay) 16 = Some comm \<Longrightarrow> 0 \<in> set comm"
  shows "\<exists>metric task.
    go_bind (read_oomkillEvent raw) (oomkill_DecodeMapItem (GetPodInfoByPid read_file pods)) = Inr metric \<and>
    rd_word mem (PT_REGS_PARM1 ctx + oc_chosen lay) 8 = Some task \<and>
    rd_word mem (task + task_tgid lay) 4 = Some (om_Pid metric) \<and>
    rd_word mem (PT_REGS_PARM1 ctx + oc_totalpages lay) 8 = Some (om_Pages metric)"
proof -
  from oom_added_record [OF assms(1,2)] obtain e where
    obs: "oom_observe lay mem (PT_REGS_PARM1 ctx) (PT_REGS_PARM2 ctx)
      (ucast (drop_bit 32 (pe_pid_tgid K))) (snd (pe_current_comm K 16)) = Some e" and raw: "raw = oom_event_bytes e"
    by blast
  note e = oom_observed_sized [OF assms(1) obs]
  obtain task where task: "rd_word mem (PT_REGS_PARM1 ctx + oc_chosen lay) 8 = Some task"
    "rd_word mem (task + task_tgid lay) 4 = Some (oe_tpid e)" "mem_bytes mem (task + task_comm lay) 16 = Some (oe_tcomm e)"
    "rd_word mem (PT_REGS_PARM1 ctx + oc_totalpages lay) 8 = Some (oe_pages e)"
    using obs by (auto simp: oom_observe_def split: bind_splits)
  have nul: "0 \<in> set (oe_tcomm e)" by (rule assms(3) [OF task(1,3)])
  have rd: "read_oomkillEvent raw = Inr (go_oom_event e)" using read_oom_event_bytes [OF e(1), of "[]"] raw by simp
  have "\<exists>metric. oomkill_DecodeMapItem (GetPodInfoByPid read_file pods) (go_oom_event e) = Inr metric \<and>
    om_Pid metric = oe_tpid e \<and> om_Pages metric = oe_pages e"
    using e(2,3) nul GetPodInfoByPid_calm [of read_file pods "oe_tpid e"]
    by (auto simp: oomkill_Decode_cases go_oom_event_def oom_base_def set_pod_def split: sum.splits go_fail.splits)
  with rd task show ?thesis by auto
qed

text \<open>The sample victim, with a cgroup file and a pod table.\<close>

lemma sample_oom_run:
  "rb_records (snd (kprobe_oom_kill_process ref_probe_env vmlinux_layout oom_mem oom_regs probe_ring)) =
   rb_records probe_ring @ [oom_event_bytes oom_sample_event]"
  by (simp add: ref_kprobe.oom_kill_process_spec oom_sample_observed ref_kprobe.emit_cases probe_ring_room del: ascii_simps)

theorem oom_decode_no_panic_witness:
  "\<exists>metric. go_bind (read_oomkillEvent (oom_event_bytes oom_sample_event)) (oomkill_DecodeMapItem
      (GetPodInfoByPid (\<lambda>f. Inr (v2_line ''/kubepods.slice'')) sample_pod_table)) = Inr metric \<and> om_Pid metric = 777"
proof -
  have run: "rb_records (snd (kprobe_oom_kill_process ref_probe_env vmlinux_layout oom_mem oom_regs probe_ring)) =
      rb_records probe_ring @ [oom_event_bytes oom_sample_event]"
    by (rule sample_oom_run)
  have task: "rd_word oom_mem (PT_REGS_PARM1 oom_regs + oc_chosen vmlinux_layout) 8 = Some task \<Longrightarrow>
      rd_word oom_mem (task + task_tgid vmlinux_layout) 4 = Some (777 :: u32) \<and>
      (mem_bytes oom_mem (task + task_comm vmlinux_layout) 16 = Some comm \<longrightarrow> 0 \<in> set comm)" for task comm
    using oom_sample_observed by (auto simp: oom_observe_def oom_sample_event_def zpad_def split: bind_splits)
  have "rd_word oom_mem (PT_REGS_PARM1 oom_regs + oc_chosen vmlinux_layout) 8 = Some t \<Longrightarrow>
      mem_bytes oom_mem (t + task_comm vmlinux_layout) 16 = Some comm \<Longrightarrow> 0 \<in> set comm" for t comm
    using task by blast
  from oom_decode_no_panic [OF ref_kprobe.probe_kernel_axioms run this] task show ?thesis by fastforce
qed

section \<open>Types across the ring buffer\<close>

lemma syn_added_record:
  assumes "probe_kernel K recs" and "unat (fown_pid lay) + 8 \<le> 32"
    and "recs (snd (do_entry K lay owner_at mem ctx r)) = recs r @ [raw]"
  shows "\<exists>e. raw = syn_event_bytes e"
proof -
  have ring: "bpf_ringbuf (pe_ringbuf_output K) recs" using assms(1) by (simp add: probe_kernel_def)
  show ?thesis
    using assms(3)
    by (auto simp: probe_kernel.do_entry_spec [OF assms(1,2)] bpf_ringbuf.emit_cases [OF ring]
        split: option.splits if_splits)
qed

lemma record_sizes: "size_of packet_t = 296" "size_of oom_event_t = 176" "size_of syn_event_t = 12"
  by code_simp+

text \<open>C37: Records are well-typed on both sides of the ring buffers: whatever frames the filter saw and whatever
  kernel memory the probes found, every record has the size of its C struct and is the image of a value of that
  struct whose arrays have their declared lengths and whose method is one of the six, and the agent reads exactly
  this value into its Go struct.\<close>

theorem records_well_typed:
  assumes "http_kernel E hrecs" and "abs_state E hrecs s = tracker_empty"
    and "probe_kernel K recs" and "unat (fown_pid lay) + 8 \<le> 32"
  shows "(\<forall>raw \<in> set (hrecs (packets (run_filter E fs s))). int (length raw) = size_of packet_t \<and>
      (\<exists>p. raw = packet_bytes p \<and> packet_sized p \<and> 1 \<le> uint (p_method p) \<and> uint (p_method p) \<le> 6 \<and>
         read_httpPacket raw = Inr (go_packet p))) \<and>
    (\<forall>raw. recs (snd (kprobe_oom_kill_process K lay mem ctx r)) = recs r @ [raw] \<longrightarrow>
      int (length raw) = size_of oom_event_t \<and>
      (\<exists>e. raw = oom_event_bytes e \<and> oom_event_sized e \<and> read_oomkillEvent raw = Inr (go_oom_event e))) \<and>
    (\<forall>raw. recs (snd (do_entry K lay owner_at mem ctx r)) = recs r @ [raw] \<or>
        recs (snd (do_entry_v6 K lay owner_at mem ctx r)) = recs r @ [raw] \<longrightarrow>
      int (length raw) = size_of syn_event_t \<and>
      (\<exists>e. raw = syn_event_bytes e \<and> read_tcpsynblEvent raw = Inr (go_syn_event e)))"
proof (intro conjI ballI allI impI)
  fix raw assume "raw \<in> set (hrecs (packets (run_filter E fs s)))"
  from http_kernel.run_record_form [OF assms(1,2) this] obtain k q now n st where
    r: "raw = packet_bytes (complete_req now n st q)" and ok: "request_ok k q" and len: "length st = 3" by blast
  note sized = completed_sized [OF ok len, of now n]
  show "int (length raw) = size_of packet_t" using packet_record_size [OF sized] r record_sizes by simp
  show "\<exists>p. raw = packet_bytes p \<and> packet_sized p \<and> 1 \<le> uint (p_method p) \<and> uint (p_method p) \<le> 6 \<and>
      read_httpPacket raw = Inr (go_packet p)"
    using read_packet_bytes [OF sized, of "[]"] sized r ok
    by (intro exI [of _ "complete_req now n st q"]) (simp add: complete_req_def request_ok_def)
next
  fix raw assume "recs (snd (kprobe_oom_kill_process K lay mem ctx r)) = recs r @ [raw]"
  from oom_added_record [OF assms(3) this] obtain e where r: "raw = oom_event_bytes e" and sized: "oom_event_sized e"
    using oom_observed_sized(1) [OF assms(3)] by metis
  show "int (length raw) = size_of oom_event_t" using length_oom_event_bytes [OF sized] r record_sizes by simp
  show "\<exists>e. raw = oom_event_bytes e \<and> oom_event_sized e \<and> read_oomkillEvent raw = Inr (go_oom_event e)"
    using read_oom_event_bytes [OF sized, of "[]"] sized r by auto
next
  fix raw assume "recs (snd (do_entry K lay owner_at mem ctx r)) = recs r @ [raw] \<or>
    recs (snd (do_entry_v6 K lay owner_at mem ctx r)) = recs r @ [raw]"
  then obtain e where r: "raw = syn_event_bytes e"
    using syn_added_record [OF assms(3,4)] syn_v6_same by metis
  show "int (length raw) = size_of syn_event_t" using length_syn_event_bytes r record_sizes by simp
  show "\<exists>e. raw = syn_event_bytes e \<and> read_tcpsynblEvent raw = Inr (go_syn_event e)"
    using read_syn_event_bytes [of e "[]"] r by auto
qed

theorem records_well_typed_witness:
  "length (packet_bytes (complete_req 5000 15 (ascii ''200'') sample_packet)) = 296 \<and>
   length (oom_event_bytes oom_sample_event) = 176"
proof -
  have l: "unat (fown_pid vmlinux_layout) + 8 \<le> 32" by (simp add: vmlinux_layout_eq)
  note w = records_well_typed [OF ref_http.http_kernel_axioms abs_http_init ref_kprobe.probe_kernel_axioms l]
  have "int (length (packet_bytes (complete_req 5000 15 (ascii ''200'') sample_packet))) = size_of packet_t"
    using w [THEN conjunct1, of "[(1000, sample_request), (2000, sample_other), (5000, sample_response)]"]
    unfolding sample_run_records by simp
  moreover have "int (length (oom_event_bytes oom_sample_event)) = size_of oom_event_t"
    using w [THEN conjunct2, THEN conjunct1] sample_oom_run by blast
  ultimately show ?thesis unfolding record_sizes by simp
qed

end
